(* ===== verification/Prelude.thy ===== *)
theory Prelude
  imports Main
begin

text \<open>
  The shared basis of the development: Go errors, the outcome of a Go function (a returned
  value or a run-time panic), a state-passing type for functions that act on the outside
  world, the loops of the source as combinators over lists, and a weakest-precondition
  calculus whose equations are collected in \<open>wpg\<close>.  Every component theory
  states its operations with these combinators and proves its contracts with that calculus.
\<close>

named_theorems wpg "equations of the weakest-precondition calculus"

section \<open>Errors\<close>

text \<open>
  A Go \<open>error\<close> value: what the callers can find out about it (the predicates
  \<open>IsNotFound\<close>, \<open>IsAlreadyExists\<close>, \<open>IsConflict\<close>, \<open>IsInvalid\<close> of
  the Kubernetes client and the exit status of a command), and its message.
  A result of Go type \<open>error\<close> is a \<open>go_error option\<close>, with \<open>None\<close> for nil;
  a result \<open>(T, error)\<close> whose value is not used with an error is a sum.
\<close>

datatype err_kind = ErrNotFound | ErrAlreadyExists | ErrConflict | ErrInvalid | ErrExit int | ErrOther

datatype go_error = GoError (err_kind: err_kind) (err_msg: string)

definition IsNotFound :: "go_error \<Rightarrow> bool" where
  "IsNotFound e \<longleftrightarrow> err_kind e = ErrNotFound"

definition IsAlreadyExists :: "go_error \<Rightarrow> bool" where
  "IsAlreadyExists e \<longleftrightarrow> err_kind e = ErrAlreadyExists"

definition IsConflict :: "go_error \<Rightarrow> bool" where
  "IsConflict e \<longleftrightarrow> err_kind e = ErrConflict"

definition IsInvalid :: "go_error \<Rightarrow> bool" where
  "IsInvalid e \<longleftrightarrow> err_kind e = ErrInvalid"

text \<open>\<open>errors.New\<close>, \<open>fmt.Errorf\<close> and \<open>errors.Wrap\<close>, which keeps the cause.\<close>

definition errorf :: "string \<Rightarrow> go_error" where
  "errorf m = GoError ErrOther m"

definition err_wrap :: "go_error \<Rightarrow> string \<Rightarrow> go_error" where
  "err_wrap e m = GoError (err_kind e) (m @ '': '' @ err_msg e)"

lemma err_wrap_sel [simp]:
  "err_kind (err_wrap e m) = err_kind e"
  "err_msg (err_wrap e m) = m @ '': '' @ err_msg e"
  "err_kind (errorf m) = ErrOther"
  "err_msg (errorf m) = m"
  by (simp_all add: err_wrap_def errorf_def)

section \<open>Functions with effects\<close>

datatype 'a outcome = Ret 'a | Panic string

type_synonym ('s, 'a) go = "'s \<Rightarrow> 'a outcome \<times> 's"

definition go_return :: "'a \<Rightarrow> ('s, 'a) go" where
  "go_return a = (\<lambda>s. (Ret a, s))"

definition go_panic :: "string \<Rightarrow> ('s, 'a) go" where
  "go_panic e = (\<lambda>s. (Panic e, s))"

text \<open>Sequencing: a panic of the first part ends the whole, with the effects made so far.\<close>

definition go_bind :: "('s, 'a) go \<Rightarrow> ('a \<Rightarrow> ('s, 'b) go) \<Rightarrow> ('s, 'b) go" where
  "go_bind m f = (\<lambda>s. case m s of (Ret a, t) \<Rightarrow> f a t | (Panic e, t) \<Rightarrow> (Panic e, t))"

text \<open>Run a value computed by a pure function that may panic.\<close>

definition go_lift :: "'a outcome \<Rightarrow> ('s, 'a) go" where
  "go_lift r = (\<lambda>s. (r, s))"

lemma go_bind_simps [simp]:
  "go_bind (go_return a) f = f a"
  "go_bind (go_panic e) f = go_panic e"
  "go_bind (go_lift (Ret a)) f = f a"
  by (simp_all add: go_bind_def go_return_def go_panic_def go_lift_def)

lemma go_bind_run: "m s = (Ret a, t) \<Longrightarrow> go_bind m f s = f a t"
  by (simp add: go_bind_def)

lemma go_return_inject [simp]: "go_return a = go_return b \<longleftrightarrow> a = b"
  by (auto simp: go_return_def fun_eq_iff)

lemma go_bind_return [simp]: "go_bind m go_return = m"
  by (rule ext) (simp add: go_bind_def go_return_def split: prod.splits outcome.splits)

lemma go_bind_assoc: "go_bind (go_bind m f) g = go_bind m (\<lambda>a. go_bind (f a) g)"
  by (rule ext) (simp add: go_bind_def split: prod.splits outcome.splits)

section \<open>Loops\<close>

text \<open>\<open>for _, x := range xs\<close> with the loop-carried variables in \<open>b\<close>.\<close>

primrec go_fold :: "('a \<Rightarrow> 'b \<Rightarrow> ('s, 'b) go) \<Rightarrow> 'a list \<Rightarrow> 'b \<Rightarrow> ('s, 'b) go" where
  "go_fold f [] b = go_return b"
| "go_fold f (x # xs) b = go_bind (f x b) (go_fold f xs)"

text \<open>The same with an early \<open>return r\<close> out of the loop, as \<open>Inl r\<close>.\<close>

primrec go_loop :: "('a \<Rightarrow> 'b \<Rightarrow> ('s, 'r + 'b) go) \<Rightarrow> 'a list \<Rightarrow> 'b \<Rightarrow> ('s, 'r + 'b) go" where
  "go_loop f [] b = go_return (Inr b)"
| "go_loop f (x # xs) b =
     go_bind (f x b) (\<lambda>r. case r of Inl e \<Rightarrow> go_return (Inl e) | Inr b' \<Rightarrow> go_loop f xs b')"

section \<open>Weakest preconditions\<close>

text \<open>
  \<open>wp m Q R s\<close>: run from \<open>s\<close>, a normal return satisfies \<open>Q\<close> and a panic
  satisfies \<open>R\<close>.  It is exact (not only sound), so rewriting with the collection
  \<open>wpg\<close> turns a statement about a program into one about its branches.
\<close>

definition wp :: "('s, 'a) go \<Rightarrow> ('a \<Rightarrow> 's \<Rightarrow> bool) \<Rightarrow> (string \<Rightarrow> 's \<Rightarrow> bool) \<Rightarrow> 's \<Rightarrow> bool" where
  "wp m Q R s = (case m s of (Ret a, t) \<Rightarrow> Q a t | (Panic e, t) \<Rightarrow> R e t)"

lemma wp_return [wpg]: "wp (go_return a) Q R = Q a"
  by (rule ext) (simp add: wp_def go_return_def)

lemma wp_panic [wpg]: "wp (go_panic e) Q R = R e"
  by (rule ext) (simp add: wp_def go_panic_def)

lemma wp_bind [wpg]: "wp (go_bind m f) Q R = wp m (\<lambda>a. wp (f a) Q R) R"
  by (rule ext) (simp add: wp_def go_bind_def split: prod.splits outcome.splits)

lemma wp_lift [wpg]:
  "wp (go_lift r) Q R = (case r of Ret a \<Rightarrow> Q a | Panic e \<Rightarrow> R e)"
  by (rule ext) (simp add: wp_def go_lift_def split: outcome.splits)

text \<open>The branches of a program are the branches of its precondition.\<close>

lemma wp_branches [wpg]:
  "wp (if c then m else n) Q R = (if c then wp m Q R else wp n Q R)"
  "wp (case x of None \<Rightarrow> m | Some a \<Rightarrow> f a) Q R = (case x of None \<Rightarrow> wp m Q R | Some a \<Rightarrow> wp (f a) Q R)"
  "wp (case y of Inl e \<Rightarrow> g e | Inr b \<Rightarrow> h b) Q R = (case y of Inl e \<Rightarrow> wp (g e) Q R | Inr b \<Rightarrow> wp (h b) Q R)"
  "wp (case z of (u, v) \<Rightarrow> k u v) Q R = (case z of (u, v) \<Rightarrow> wp (k u v) Q R)"
  by (simp_all split: option.splits sum.splits prod.splits)

lemma wp_any: "(\<And>a t. Q a t) \<Longrightarrow> (\<And>e t. R e t) \<Longrightarrow> wp m Q R s"
  by (simp add: wp_def split: prod.splits outcome.splits)

lemma wp_mono:
  assumes "wp m Q R s" and "\<And>a t. Q a t \<Longrightarrow> Q' a t" and "\<And>e t. R e t \<Longrightarrow> R' e t"
  shows "wp m Q' R' s"
  using assms by (auto simp: wp_def split: prod.splits outcome.splits)

lemma wp_conj: "wp m (\<lambda>a t. Q a t \<and> Q' a t) (\<lambda>e t. R e t \<and> R' e t) s \<longleftrightarrow> wp m Q R s \<and> wp m Q' R' s"
  by (auto simp: wp_def split: prod.splits outcome.splits)

lemma wp_True [simp]: "wp m (\<lambda>_ _. True) (\<lambda>_ _. True) s"
  by (simp add: wp_def split: prod.splits outcome.splits)

lemma wp_retD: "wp m Q R s \<Longrightarrow> m s = (Ret a, t) \<Longrightarrow> Q a t"
  by (simp add: wp_def)

lemma wp_ret_or_panic: "wp m Q (\<lambda>_ _. False) s \<Longrightarrow> m s = (r, t) \<Longrightarrow> \<exists>a. r = Ret a \<and> Q a t"
  by (cases r) (simp_all add: wp_def)

lemma wp_ok:
  "wp m (\<lambda>r t. case r of Inl e \<Rightarrow> False | Inr a \<Rightarrow> P a t) (\<lambda>_ _. False) s \<Longrightarrow> m s = (r, t) \<Longrightarrow>
   \<exists>a. r = Ret (Inr a) \<and> P a t"
  by (cases r) (auto simp: wp_def split: sum.splits)

lemma wp_panicD: "wp m Q R s \<Longrightarrow> m s = (Panic e, t) \<Longrightarrow> R e t"
  by (simp add: wp_def)

lemma wp_iff_run: "wp m Q R s \<longleftrightarrow> (\<forall>a t. m s = (Ret a, t) \<longrightarrow> Q a t) \<and> (\<forall>e t. m s = (Panic e, t) \<longrightarrow> R e t)"
  by (auto simp: wp_def split: prod.splits outcome.splits)

text \<open>A loop keeps what its body keeps.\<close>

lemma wp_go_fold:
  assumes "I b s"
    and "\<And>x b s. x \<in> set xs \<Longrightarrow> I b s \<Longrightarrow> wp (f x b) I R s"
  shows "wp (go_fold f xs b) I R s"
  using assms
proof (induction xs arbitrary: b s)
  case Nil
  then show ?case by (simp add: wpg)
next
  case (Cons x xs)
  have "wp (f x b) I R s" using Cons.prems by simp
  then have "wp (f x b) (\<lambda>a. wp (go_fold f xs a) I R) R s"
    by (rule wp_mono) (simp_all add: Cons.IH Cons.prems(2))
  then show ?case by (simp add: wpg)
qed

lemma wp_go_loop:
  assumes "I b s"
    and "\<And>x b s. x \<in> set xs \<Longrightarrow> I b s \<Longrightarrow> wp (f x b) (\<lambda>r t. case r of Inl e \<Rightarrow> E e t | Inr b' \<Rightarrow> I b' t) R s"
  shows "wp (go_loop f xs b) (\<lambda>r t. case r of Inl e \<Rightarrow> E e t | Inr b' \<Rightarrow> I b' t) R s"
  using assms
proof (induction xs arbitrary: b s)
  case Nil
  then show ?case by (simp add: wpg)
next
  case (Cons x xs)
  have rest: "wp (go_loop f xs b') (\<lambda>r t. case r of Inl e \<Rightarrow> E e t | Inr b' \<Rightarrow> I b' t) R t"
    if "I b' t" for b' t
    using that by (rule Cons.IH) (simp add: Cons.prems(2))
  have "wp (f x b) (\<lambda>r t. case r of Inl e \<Rightarrow> E e t | Inr b' \<Rightarrow> I b' t) R s"
    using Cons.prems by simp
  then have "wp (f x b)
      (\<lambda>r. wp (case r of Inl e \<Rightarrow> go_return (Inl e) | Inr b' \<Rightarrow> go_loop f xs b')
             (\<lambda>r t. case r of Inl e \<Rightarrow> E e t | Inr b' \<Rightarrow> I b' t) R) R s"
    by (rule wp_mono) (simp_all add: wpg rest split: sum.split_asm)
  then show ?case by (simp add: wpg)
qed

text \<open>The same with an invariant that also knows which elements were done already.\<close>

lemma wp_go_fold_prefix:
  assumes "I [] b s"
    and "\<And>ys x b s. x \<in> set xs \<Longrightarrow> I ys b s \<Longrightarrow> wp (f x b) (I (ys @ [x])) R s"
  shows "wp (go_fold f xs b) (I xs) R s"
proof -
  have "I ys b s \<Longrightarrow> set zs \<subseteq> set xs \<Longrightarrow> wp (go_fold f zs b) (I (ys @ zs)) R s" for ys zs b s
  proof (induction zs arbitrary: ys b s)
    case Nil
    then show ?case by (simp add: wp_return)
  next
    case (Cons z zs)
    have "wp (f z b) (I (ys @ [z])) R s" using Cons.prems assms(2) by simp
    then have "wp (f z b) (\<lambda>a. wp (go_fold f zs a) (I (ys @ z # zs)) R) R s"
      by (rule wp_mono) (use Cons.IH [of "ys @ [z]"] Cons.prems(2) in simp_all)
    then show ?case by (simp add: wp_bind)
  qed
  from this [of "[]" b s xs] assms(1) show ?thesis by simp
qed

lemma wp_go_loop_prefix:
  assumes "I [] b s"
    and "\<And>ys x b s. x \<in> set xs \<Longrightarrow> I ys b s \<Longrightarrow>
      wp (f x b) (\<lambda>r t. case r of Inl e \<Rightarrow> E e t | Inr b' \<Rightarrow> I (ys @ [x]) b' t) R s"
  shows "wp (go_loop f xs b) (\<lambda>r t. case r of Inl e \<Rightarrow> E e t | Inr b' \<Rightarrow> I xs b' t) R s"
proof -
  have "I ys b s \<Longrightarrow> set zs \<subseteq> set xs \<Longrightarrow>
      wp (go_loop f zs b) (\<lambda>r t. case r of Inl e \<Rightarrow> E e t | Inr b' \<Rightarrow> I (ys @ zs) b' t) R s" for ys zs b s
  proof (induction zs arbitrary: ys b s)
    case Nil
    then show ?case by (simp add: wp_return)
  next
    case (Cons z zs)
    let ?Q = "\<lambda>r t. case r of Inl e \<Rightarrow> E e t | Inr b' \<Rightarrow> I (ys @ z # zs) b' t"
    have rest: "wp (go_loop f zs b') ?Q R t" if "I (ys @ [z]) b' t" for b' t
      using Cons.IH [OF that] Cons.prems(2) by (simp cong: sum.case_cong)
    have "wp (f z b) (\<lambda>r t. case r of Inl e \<Rightarrow> E e t | Inr b' \<Rightarrow> I (ys @ [z]) b' t) R s"
      using Cons.prems assms(2) by simp
    then have "wp (f z b)
        (\<lambda>r. wp (case r of Inl e \<Rightarrow> go_return (Inl e) | Inr b' \<Rightarrow> go_loop f zs b') ?Q R) R s"
      by (rule wp_mono) (simp_all add: wp_return rest split: sum.split_asm)
    then show ?case by (simp add: wp_bind)
  qed
  from this [of "[]" b s xs] assms(1) show ?thesis by (simp cong: sum.case_cong)
qed

section \<open>Lists\<close>

text \<open>The first index of a list whose element satisfies a test, if there is one.\<close>

primrec find_index :: "('a \<Rightarrow> bool) \<Rightarrow> 'a list \<Rightarrow> nat option" where
  "find_index p [] = None"
| "find_index p (x # xs) = (if p x then Some 0 else map_option Suc (find_index p xs))"

lemma find_index_None: "find_index p xs = None \<longleftrightarrow> (\<forall>x \<in> set xs. \<not> p x)"
  by (induction xs) auto

lemma find_index_Some:
  "find_index p xs = Some i \<Longrightarrow> i < length xs \<and> p (xs ! i) \<and> (\<forall>j < i. \<not> p (xs ! j))"
proof (induction xs arbitrary: i)
  case (Cons x xs)
  show ?case
  proof (cases "p x")
    case True
    with Cons.prems show ?thesis by auto
  next
    case False
    with Cons.prems obtain k where k: "find_index p xs = Some k" and i: "i = Suc k" by auto
    from Cons.IH [OF k] have "k < length xs" "p (xs ! k)" and less: "\<forall>j < k. \<not> p (xs ! j)" by auto
    moreover have "\<not> p ((x # xs) ! j)" if "j < i" for j
      using that False less i by (cases j) auto
    ultimately show ?thesis using i by simp
  qed
qed simp

text \<open>
  Deleting from a slice while an index walks over it
  (\<open>xs = append(xs[:i], xs[i+1:]...)\<close>, then \<open>i--\<close>), as the source does in three
  places: the walk from index \<open>i\<close>, and its meaning as a filter.
\<close>

function delete_walk :: "('a \<Rightarrow> bool) \<Rightarrow> nat \<Rightarrow> 'a list \<Rightarrow> 'a list" where
  "delete_walk p i xs =
     (if i < length xs then
        (if p (xs ! i) then delete_walk p i (take i xs @ drop (Suc i) xs)
         else delete_walk p (Suc i) xs)
      else xs)"
  by pat_completeness auto
termination
  by (relation "measure (\<lambda>(p, i, xs). length xs - i)") auto

declare delete_walk.simps [simp del]

lemma delete_walk_filter: "delete_walk p i xs = take i xs @ filter (\<lambda>x. \<not> p x) (drop i xs)"
proof (induction p i xs rule: delete_walk.induct)
  case (1 p i xs)
  show ?case
  proof (cases "i < length xs")
    case False
    then show ?thesis by (simp add: delete_walk.simps [of p i xs])
  next
    case in_range: True
    then have split: "drop i xs = xs ! i # drop (Suc i) xs" by (simp add: Cons_nth_drop_Suc)
    show ?thesis
    proof (cases "p (xs ! i)")
      case True
      have "delete_walk p i xs = delete_walk p i (take i xs @ drop (Suc i) xs)"
        using in_range True by (simp add: delete_walk.simps [of p i xs])
      also have "\<dots> = take i xs @ filter (\<lambda>x. \<not> p x) (drop (Suc i) xs)"
        using "1.IH"(1) [OF in_range True] in_range by simp
      finally show ?thesis using True by (simp add: split)
    next
      case False
      have "delete_walk p i xs = delete_walk p (Suc i) xs"
        using in_range False by (simp add: delete_walk.simps [of p i xs])
      also have "\<dots> = take (Suc i) xs @ filter (\<lambda>x. \<not> p x) (drop (Suc i) xs)"
        using "1.IH"(2) [OF in_range False] by simp
      finally show ?thesis using False in_range by (simp add: split take_Suc_conv_app_nth)
    qed
  qed
qed

lemma delete_walk_from_start [simp]: "delete_walk p 0 xs = filter (\<lambda>x. \<not> p x) xs"
  by (simp add: delete_walk_filter)

end
