(* ===== verification/GoMap.thy ===== *)
theory GoMap
  imports Prelude "HOL-Library.AList"
begin

text \<open>
  Go's built-in \<open>map[string]T\<close>, as an association list without duplicate keys.
  The order of the list is never the order in which the program iterates: \<open>range\<close> over a
  map goes through the keys sorted by an arbitrary rank that the run time picks
  (theory \<open>Executor\<close>), so that every order is a possible one.
  The locale \<open>go_table\<close> is the interface the components rely on; the association list
  is shown to provide it.
\<close>

type_synonym 'v gomap = "(string \<times> 'v) list"

definition gm_get :: "'v gomap \<Rightarrow> string \<Rightarrow> 'v option" where
  "gm_get m k = map_of m k"

definition gm_put :: "string \<Rightarrow> 'v \<Rightarrow> 'v gomap \<Rightarrow> 'v gomap" where
  "gm_put k v m = AList.update k v m"

definition gm_del :: "string \<Rightarrow> 'v gomap \<Rightarrow> 'v gomap" where
  "gm_del k m = AList.delete k m"

definition gm_keys :: "'v gomap \<Rightarrow> string list" where
  "gm_keys m = map fst m"

definition gm_wf :: "'v gomap \<Rightarrow> bool" where
  "gm_wf m \<longleftrightarrow> distinct (map fst m)"

definition gm_has :: "'v gomap \<Rightarrow> string \<Rightarrow> bool" where
  "gm_has m k \<longleftrightarrow> gm_get m k \<noteq> None"

text \<open>\<open>m[k]\<close> with the zero value of a missing key.\<close>

definition gm_get_default :: "'v \<Rightarrow> 'v gomap \<Rightarrow> string \<Rightarrow> 'v" where
  "gm_get_default d m k = (case gm_get m k of None \<Rightarrow> d | Some v \<Rightarrow> v)"

text \<open>Building a map in a loop: \<open>for x in xs: m[key x] = val x\<close>.\<close>

definition gm_build :: "('a \<Rightarrow> string) \<Rightarrow> ('a \<Rightarrow> 'v) \<Rightarrow> 'a list \<Rightarrow> 'v gomap \<Rightarrow> 'v gomap" where
  "gm_build key val xs m = fold (\<lambda>x. gm_put (key x) (val x)) xs m"

locale go_table =
  fixes empty :: "'m"
    and get :: "'m \<Rightarrow> string \<Rightarrow> 'v option"
    and put :: "string \<Rightarrow> 'v \<Rightarrow> 'm \<Rightarrow> 'm"
    and del :: "string \<Rightarrow> 'm \<Rightarrow> 'm"
    and keys :: "'m \<Rightarrow> string list"
    and wf :: "'m \<Rightarrow> bool"
  assumes get_empty: "get empty k = None"
    and get_put: "get (put k v m) k' = (if k' = k then Some v else get m k')"
    and get_del: "get (del k m) k' = (if k' = k then None else get m k')"
    and set_keys: "set (keys m) = {k. get m k \<noteq> None}"
    and wf_empty: "wf empty"
    and wf_put: "wf m \<Longrightarrow> wf (put k v m)"
    and wf_del: "wf m \<Longrightarrow> wf (del k m)"
    and wf_distinct: "wf m \<Longrightarrow> distinct (keys m)"
begin

lemma keys_put: "set (keys (put k v m)) = insert k (set (keys m))"
  by (auto simp: set_keys get_put)

lemma keys_del: "set (keys (del k m)) = set (keys m) - {k}"
  by (auto simp: set_keys get_del)

lemma wf_build: "wf m \<Longrightarrow> wf (fold (\<lambda>x. put (key x) (val x)) xs m)"
  by (induction xs arbitrary: m) (simp_all add: wf_put)

lemma keys_build:
  "set (keys (fold (\<lambda>x. put (key x) (val x)) xs m)) = set (keys m) \<union> key ` set xs"
  by (induction xs arbitrary: m) (auto simp: keys_put)

lemma get_build_other:
  "k \<notin> key ` set xs \<Longrightarrow> get (fold (\<lambda>x. put (key x) (val x)) xs m) k = get m k"
  by (induction xs arbitrary: m) (auto simp: get_put)

text \<open>Where the keys of the inserted elements are distinct, each is found.\<close>

lemma get_build:
  "distinct (map key xs) \<Longrightarrow> x \<in> set xs \<Longrightarrow>
   get (fold (\<lambda>x. put (key x) (val x)) xs m) (key x) = Some (val x)"
proof (induction xs arbitrary: m)
  case (Cons y ys)
  show ?case
  proof (cases "x = y")
    case True
    with Cons.prems have "key x \<notin> key ` set ys" by auto
    with True show ?thesis by (simp add: get_build_other get_put)
  next
    case False
    with Cons show ?thesis by simp
  qed
qed simp

text \<open>Deleting the keys that fail a test, in any order, leaves the others.\<close>

lemma get_del_fold: "get (fold del ks m) k = (if k \<in> set ks then None else get m k)"
  by (induction ks arbitrary: m) (auto simp: get_del)

lemma wf_del_fold: "wf m \<Longrightarrow> wf (fold del ks m)"
  by (induction ks arbitrary: m) (simp_all add: wf_del)

end

interpretation gm: go_table "[]" gm_get gm_put gm_del gm_keys gm_wf
proof unfold_locales
  fix m :: "'v gomap" and k k' :: string and v :: 'v
  show "gm_get [] k = None" by (simp add: gm_get_def)
  show "gm_get (gm_put k v m) k' = (if k' = k then Some v else gm_get m k')"
    by (simp add: gm_get_def gm_put_def update_conv')
  show "gm_get (gm_del k m) k' = (if k' = k then None else gm_get m k')"
    by (simp add: gm_get_def gm_del_def delete_conv')
  show "set (gm_keys m) = {k. gm_get m k \<noteq> None}"
    by (auto simp: gm_get_def gm_keys_def map_of_eq_None_iff)
  show "gm_wf []" by (simp add: gm_wf_def)
  show "gm_wf m \<Longrightarrow> gm_wf (gm_put k v m)" by (simp add: gm_wf_def gm_put_def distinct_update)
  show "gm_wf m \<Longrightarrow> gm_wf (gm_del k m)" by (simp add: gm_wf_def gm_del_def distinct_delete)
  show "gm_wf m \<Longrightarrow> distinct (gm_keys m)" by (simp add: gm_wf_def gm_keys_def)
qed

lemmas gm_simps = gm.get_empty gm.get_put gm.get_del gm.keys_put gm.keys_del gm.wf_empty

lemma gm_has_iff: "gm_has m k \<longleftrightarrow> k \<in> set (gm_keys m)"
  by (simp add: gm_has_def gm.set_keys)

lemma gm_has_put [simp]: "gm_has (gm_put k v m) k' \<longleftrightarrow> k' = k \<or> gm_has m k'"
  by (simp add: gm_has_def gm.get_put)

lemma gm_has_del [simp]: "gm_has (gm_del k m) k' \<longleftrightarrow> k' \<noteq> k \<and> gm_has m k'"
  by (simp add: gm_has_def gm.get_del)

lemma gm_has_empty [simp]: "\<not> gm_has [] k"
  by (simp add: gm_has_def gm_get_def)

lemma gm_has_build [simp]: "gm_has (gm_build key val xs m) k \<longleftrightarrow> gm_has m k \<or> k \<in> key ` set xs"
  by (simp add: gm_has_iff gm_build_def gm.keys_build)

lemma gm_wf_build: "gm_wf m \<Longrightarrow> gm_wf (gm_build key val xs m)"
  by (simp add: gm_build_def gm.wf_build)

text \<open>The values of a map in some order of its keys.\<close>

definition gm_values :: "'v gomap \<Rightarrow> string list \<Rightarrow> 'v list" where
  "gm_values m ks = List.map_filter (gm_get m) ks"

lemma set_gm_values: "set ks = set (gm_keys m) \<Longrightarrow> v \<in> set (gm_values m ks) \<longleftrightarrow> (\<exists>k. gm_get m k = Some v)"
  by (auto simp: gm_values_def map_filter_def gm.set_keys image_iff)

end
