(* ===== verification/ApiTypes.thy ===== *)
theory ApiTypes
  imports GoMap "HOL-Library.Word"
begin

text \<open>
  The API objects of \<open>api/v2/topolvmcluster_types.go\<close>, the lvmd configuration and the
  metrics of \<open>pkg/cluster/type.go\<close>, and the constants of
  \<open>pkg/cluster/common.go\<close> and of the types, field by field.  Typed strings
  (\<open>ConditionType\<close>, \<open>ClassStateType\<close>, \<open>DeviceStateType\<close>) stay
  strings, because their zero value \<open>""\<close> occurs.
  Slices whose nil and empty values the code tells apart are options
  (\<open>Storage.DeviceClasses\<close>, \<open>Storage.Devices\<close>).
\<close>

section \<open>api/v2\<close>

record Disk =
  Disk_Name :: string
  Disk_Type :: string
  Disk_Auto :: bool
  Disk_Path :: string
  Disk_Size :: "64 word"

record DeviceClass =
  DC_ClassName :: string
  DC_VgName :: string
  DC_Device :: "Disk list"
  DC_Default :: bool
  DC_SpareGb :: "64 word"
  DC_Stripe :: "64 word"
  DC_StripeSize :: string

record NodeDevices =
  ND_NodeName :: string
  ND_DeviceClasses :: "DeviceClass list"

record Storage =
  St_DeviceClasses :: "NodeDevices list option"
  St_UseAllNodes :: bool
  St_UseAllDevices :: bool
  St_Devices :: "Disk list option"
  St_VolumeGroupName :: string
  St_ClassName :: string
  St_UseLoop :: bool

record LoopState =
  Loop_Name :: string
  Loop_File :: string
  Loop_DeviceName :: string
  Loop_Status :: string
  Loop_Message :: string

record DeviceState =
  DS_Name :: string
  DS_State :: string
  DS_Message :: string

record ClassState =
  CS_Name :: string
  CS_VgName :: string
  CS_State :: string
  CS_Message :: string
  CS_DeviceStates :: "DeviceState list"

record NodeStorageState =
  NS_Node :: string
  NS_Phase :: string
  NS_FailClasses :: "ClassState list"
  NS_SuccessClasses :: "ClassState list"
  NS_Loops :: "LoopState list"

record TopolvmClusterSpec =
  Spec_TopolvmVersion :: string
  Spec_CertsSecret :: string
  Spec_Storage :: Storage

record TopolvmClusterStatus =
  Status_Phase :: string
  Status_NodeStorageStatus :: "NodeStorageState list"

text \<open>
  The parts of \<open>metav1.ObjectMeta\<close> the code reads: the name, the creation time, whether
  a deletion time is set, and the finalizers.
\<close>

record TopolvmCluster =
  TC_Name :: string
  TC_CreationTimestamp :: nat
  TC_Deleted :: bool
  TC_Finalizers :: "string list"
  TC_Spec :: TopolvmClusterSpec
  TC_Status :: TopolvmClusterStatus

text \<open>The zero values from which the code builds its composite literals.\<close>

definition zero_DeviceState :: DeviceState where
  "zero_DeviceState = \<lparr>DS_Name = [], DS_State = [], DS_Message = []\<rparr>"

definition zero_ClassState :: ClassState where
  "zero_ClassState =
     \<lparr>CS_Name = [], CS_VgName = [], CS_State = [], CS_Message = [], CS_DeviceStates = []\<rparr>"

definition zero_LoopState :: LoopState where
  "zero_LoopState =
     \<lparr>Loop_Name = [], Loop_File = [], Loop_DeviceName = [], Loop_Status = [], Loop_Message = []\<rparr>"

definition zero_NodeStorageState :: NodeStorageState where
  "zero_NodeStorageState =
     \<lparr>NS_Node = [], NS_Phase = [], NS_FailClasses = [], NS_SuccessClasses = [], NS_Loops = []\<rparr>"

definition zero_DeviceClass :: DeviceClass where
  "zero_DeviceClass = \<lparr>DC_ClassName = [], DC_VgName = [], DC_Device = [], DC_Default = False,
     DC_SpareGb = 0, DC_Stripe = 0, DC_StripeSize = []\<rparr>"

definition zero_Disk :: Disk where
  "zero_Disk = \<lparr>Disk_Name = [], Disk_Type = [], Disk_Auto = False, Disk_Path = [], Disk_Size = 0\<rparr>"

lemmas zero_defs = zero_DeviceState_def zero_ClassState_def zero_LoopState_def
  zero_NodeStorageState_def zero_DeviceClass_def zero_Disk_def

section \<open>pkg/cluster\<close>

record LvmdDeviceClass =
  LC_Name :: string
  LC_VolumeGroup :: string
  LC_SpareGb :: "64 word"
  LC_Default :: bool
  LC_Stripe :: "64 word"
  LC_StripeSize :: string

record LmvdConf =
  LConf_SocketName :: string
  LConf_DeviceClasses :: "LvmdDeviceClass list"

record NodeStatusMetrics =
  NM_Node :: string
  NM_Status :: "8 word"

record Metrics =
  M_Cluster :: string
  M_ClusterStatus :: "8 word"
  M_NodeStatus :: "NodeStatusMetrics list"

section \<open>Constants\<close>

definition ConditionReady :: string where "ConditionReady = ''Ready''"
definition ConditionFailure :: string where "ConditionFailure = ''Failure''"
definition ConditionUnknown :: string where "ConditionUnknown = ''Unknown''"
definition ConditionPending :: string where "ConditionPending = ''Pending''"
definition ClassReady :: string where "ClassReady = ''Ready''"
definition ClassUnReady :: string where "ClassUnReady = ''UnReady''"
definition DeviceOnline :: string where "DeviceOnline = ''Online''"
definition DeviceOffline :: string where "DeviceOffline = ''Offline''"

lemmas condition_defs = ConditionReady_def ConditionFailure_def ConditionUnknown_def ConditionPending_def
lemmas class_state_defs = ClassReady_def ClassUnReady_def DeviceOnline_def DeviceOffline_def

lemma conditions_distinct [simp]:
  "ConditionReady \<noteq> ConditionFailure" "ConditionFailure \<noteq> ConditionReady"
  "ConditionReady \<noteq> ConditionUnknown" "ConditionUnknown \<noteq> ConditionReady"
  "ConditionReady \<noteq> ConditionPending" "ConditionPending \<noteq> ConditionReady"
  "ConditionFailure \<noteq> ConditionUnknown" "ConditionUnknown \<noteq> ConditionFailure"
  "ConditionFailure \<noteq> ConditionPending" "ConditionPending \<noteq> ConditionFailure"
  "ConditionUnknown \<noteq> ConditionPending" "ConditionPending \<noteq> ConditionUnknown"
  by (simp_all add: condition_defs)

lemma class_states_distinct [simp]:
  "ClassReady \<noteq> ClassUnReady" "ClassUnReady \<noteq> ClassReady"
  "DeviceOnline \<noteq> DeviceOffline" "DeviceOffline \<noteq> DeviceOnline"
  by (simp_all add: class_state_defs)

definition NodeNameEnv :: string where "NodeNameEnv = ''NODE_NAME''"
definition TopolvmNodeDeploymentNamePrefix :: string where "TopolvmNodeDeploymentNamePrefix = ''topolvm-node-''"
definition LvmdConfigMapNamePrefix :: string where "LvmdConfigMapNamePrefix = ''lvmdconfig''"
definition LvmdConfigMapFmt :: string where "LvmdConfigMapFmt = ''lvmdconfig-''"
definition TopolvmNodeDeploymentFmt :: string where "TopolvmNodeDeploymentFmt = ''topolvm-node-''"
definition LvmdConfigMapLabelKey :: string where "LvmdConfigMapLabelKey = ''topolvm/lvmdconfig''"
definition LvmdConfigMapLabelValue :: string where "LvmdConfigMapLabelValue = ''lvmdconfig''"
definition LvmdConfigMapKey :: string where "LvmdConfigMapKey = ''lvmd.yaml''"
definition LocalDiskCMData :: string where "LocalDiskCMData = ''devices''"
definition VgStatusConfigMapKey :: string where "VgStatusConfigMapKey = ''status.json''"
definition LvmdAnnotationsNodeKey :: string where "LvmdAnnotationsNodeKey = ''node-name''"
definition LvmdSocketPath :: string where "LvmdSocketPath = ''/run/topolvm/lvmd.sock''"
definition LoopCreateSuccessful :: string where "LoopCreateSuccessful = ''successful''"
definition CapacityKeyPrefix :: string where "CapacityKeyPrefix = ''capacity.topolvm.cybozu.com/''"

lemmas cm_key_defs = LvmdConfigMapKey_def LocalDiskCMData_def VgStatusConfigMapKey_def

section \<open>Well-formed status\<close>

text \<open>A status is well formed when no group occurs twice in it, in either list.\<close>

definition status_classes :: "NodeStorageState \<Rightarrow> ClassState list" where
  "status_classes st = NS_SuccessClasses st @ NS_FailClasses st"

definition status_ok :: "NodeStorageState \<Rightarrow> bool" where
  "status_ok st \<longleftrightarrow> distinct (map CS_VgName (status_classes st))"

end
