(* ===== verification/KubeTypes.thy ===== *)
theory KubeTypes
  imports ApiTypes
begin

text \<open>
  The Kubernetes objects the operator reads and writes, reduced to the fields its code
  touches, and the trace of externally visible actions.  A nil map that the code may write to
  (a config map's \<open>Data\<close>, a daemon set's \<open>Annotations\<close>) is \<open>None\<close>: writing to it
  is a panic in Go.
\<close>

record OwnerReference =
  OR_APIVersion :: string
  OR_Kind :: string
  OR_Name :: string
  OR_UID :: string
  OR_Controller :: "bool option"
  OR_BlockOwnerDeletion :: "bool option"

record ConfigMap =
  CM_Name :: string
  CM_Namespace :: string
  CM_Labels :: "string gomap"
  CM_Annotations :: "string gomap"
  CM_OwnerReferences :: "OwnerReference list"
  CM_Data :: "string gomap option"

text \<open>
  Pods, with every field the code sets; resource quantities are the strings they are parsed from.
  An environment variable has a value or names a field of the pod.
\<close>

datatype env_value = EnvValue string | EnvField string

datatype host_path_type = UnsetType | HostPathDirectory | HostPathDirectoryOrCreate

datatype volume_source =
    HostPath string host_path_type
  | ConfigMapVolume string
  | SecretVolume string
  | EmptyDir string

record VolumeMount =
  VM_Name :: string
  VM_MountPath :: string
  VM_ReadOnly :: bool
  VM_Propagation :: "string option"

datatype int_or_string = PortNumber int | PortName string

datatype handler = ExecAction "string list" | HTTPGetAction string int_or_string string

record Probe =
  Pr_Handler :: handler
  Pr_FailureThreshold :: int
  Pr_InitialDelaySeconds :: int
  Pr_TimeoutSeconds :: int
  Pr_PeriodSeconds :: int

record ContainerPort =
  CP_Name :: string
  CP_ContainerPort :: int
  CP_Protocol :: string

record SecurityContext =
  SC_Privileged :: bool
  SC_RunAsUser :: int

record Container =
  Co_Name :: string
  Co_Image :: string
  Co_Command :: "string list"
  Co_Ports :: "ContainerPort list"
  Co_Env :: "(string \<times> env_value) list"
  Co_Limits :: "string gomap"
  Co_Requests :: "string gomap"
  Co_Mounts :: "VolumeMount list"
  Co_LivenessProbe :: "Probe option"
  Co_ReadinessProbe :: "Probe option"
  Co_PreStop :: "handler option"
  Co_SecurityContext :: "SecurityContext option"

text \<open>
  A pod template: its metadata and specification.  A toleration is its operator (no other field is
  ever set), an anti-affinity term the expressions it selects by and its topology key.
\<close>

record PodAffinityTerm =
  AT_Expressions :: "(string \<times> string \<times> string list) list"
  AT_TopologyKey :: string

record PodSpec =
  PS_Name :: string
  PS_Namespace :: string
  PS_Labels :: "string gomap"
  PS_ServiceAccount :: string
  PS_NodeSelector :: "string gomap"
  PS_Tolerations :: "string list"
  PS_AntiAffinity :: "PodAffinityTerm list"
  PS_HostPID :: bool
  PS_HostIPC :: bool
  PS_RestartPolicy :: string
  PS_InitContainers :: "Container list"
  PS_Containers :: "Container list"
  PS_Volumes :: "(string \<times> volume_source) list"

text \<open>The type of a strategy, and surge and unavailability where given; a daemon set has no replicas.\<close>

record Strategy =
  Str_Type :: string
  Str_RollingUpdate :: "(int \<times> int) option"

record Workload =
  W_Name :: string
  W_Namespace :: string
  W_Labels :: "string gomap"
  W_Annotations :: "string gomap option"
  W_OwnerReferences :: "OwnerReference list"
  W_Replicas :: "int option"
  W_Selector :: "string gomap"
  W_Strategy :: Strategy
  W_Pod :: PodSpec

text \<open>The CSI driver object and pod security policies; host paths with whether they are read only.\<close>

record CSIDriver =
  CD_Name :: string
  CD_AttachRequired :: bool
  CD_PodInfoOnMount :: bool
  CD_StorageCapacity :: bool
  CD_VolumeLifecycleModes :: "string list"

record PodSecurityPolicy =
  PSP_Name :: string
  PSP_Privileged :: bool
  PSP_AllowPrivilegeEscalation :: bool
  PSP_Volumes :: "string list"
  PSP_AllowedHostPaths :: "(string \<times> bool) list"
  PSP_HostNetwork :: bool
  PSP_HostPID :: bool
  PSP_HostIPC :: bool
  PSP_RunAsUser :: string
  PSP_SELinux :: string
  PSP_SupplementalGroups :: string
  PSP_FSGroup :: string
  PSP_ReadOnlyRootFilesystem :: bool

record Node =
  N_Name :: string
  N_Annotations :: "string gomap"
  N_Conditions :: "(string \<times> string) list"

record Pod =
  P_Name :: string
  P_NodeName :: string
  P_Phase :: string
  P_ContainersReady :: "bool list"
  P_OwnerReferences :: "OwnerReference list"
  P_Containers :: "Container list"

text \<open>A job, with its status, and completions and parallelism when it is indexed.\<close>

record Job =
  J_Name :: string
  J_Namespace :: string
  J_Labels :: "string gomap"
  J_OwnerReferences :: "OwnerReference list"
  J_Pod :: PodSpec
  J_Indexed :: "(int \<times> int) option"
  J_Active :: int
  J_Succeeded :: int
  J_Failed :: int

section \<open>The trace\<close>

text \<open>
  Every command that is run and every request to the API server is recorded, in order.
  The trace is a ghost: no operation reads it.
\<close>

datatype verb = VGet | VList | VCreate | VUpdate | VUpdateStatus | VPatch | VDelete

datatype kobject =
    ConfigMapObj ConfigMap
  | DeploymentObj Workload
  | DaemonSetObj Workload
  | NodeObj Node
  | JobObj Job
  | ClusterObj TopolvmCluster
  | CSIDriverObj CSIDriver
  | PspObj PodSecurityPolicy
  | Named string string

datatype event =
    Exec string "string list"
  | Api verb kobject

record 'w host =
  world :: 'w
  trace :: "event list"

definition record_event :: "event \<Rightarrow> 'w \<Rightarrow> 'w host \<Rightarrow> 'w host" where
  "record_event ev w s = s\<lparr>world := w, trace := trace s @ [ev]\<rparr>"

lemma record_event_sel [simp]:
  "trace (record_event ev w s) = trace s @ [ev]"
  "world (record_event ev w s) = w"
  by (simp_all add: record_event_def)

text \<open>Data of a config map: reading from a nil map is reading from an empty one.\<close>

definition cm_data :: "ConfigMap \<Rightarrow> string gomap" where
  "cm_data cm = (case CM_Data cm of None \<Rightarrow> [] | Some d \<Rightarrow> d)"

definition cm_put :: "string \<Rightarrow> string \<Rightarrow> ConfigMap \<Rightarrow> ConfigMap outcome" where
  "cm_put k v cm = (case CM_Data cm of
      None \<Rightarrow> Panic ''assignment to entry in nil map''
    | Some d \<Rightarrow> Ret (cm\<lparr>CM_Data := Some (gm_put k v d)\<rparr>))"

lemma cm_put_Ret:
  "cm_put k v cm = Ret cm' \<longleftrightarrow> CM_Data cm \<noteq> None \<and> cm' = cm\<lparr>CM_Data := Some (gm_put k v (cm_data cm))\<rparr>"
  by (auto simp: cm_put_def cm_data_def split: option.splits)

lemma cm_data_put: "cm_put k v cm = Ret cm' \<Longrightarrow> gm_get (cm_data cm') k' = (if k' = k then Some v else gm_get (cm_data cm) k')"
  by (auto simp: cm_put_Ret) (auto simp: cm_data_def gm.get_put)

section \<open>What a program may do\<close>

text \<open>
  \<open>only_issues P m\<close>: from every state, \<open>m\<close> extends the trace, and only by events
  that satisfy \<open>P\<close>, whether it returns or panics.
\<close>

named_theorems issues "rules for only_issues"

definition grown :: "(event \<Rightarrow> bool) \<Rightarrow> 'w host \<Rightarrow> 'w host \<Rightarrow> bool" where
  "grown P s t \<longleftrightarrow> (\<exists>es. trace t = trace s @ es \<and> list_all P es)"

lemma grown_refl [simp]: "grown P s s"
  by (simp add: grown_def)

lemma grown_trans: "grown P s t \<Longrightarrow> grown P t u \<Longrightarrow> grown P s u"
  by (auto simp: grown_def)

lemma grown_event [simp]: "grown P s (record_event ev w t) \<longleftrightarrow> grown P s t \<and> P ev"
  if "grown P s t"
  using that by (auto simp: grown_def)

lemma grown_mono: "grown P s t \<Longrightarrow> (\<And>ev. P ev \<Longrightarrow> Q ev) \<Longrightarrow> grown Q s t"
  unfolding grown_def by (metis list.pred_mono_strong)

definition only_issues :: "(event \<Rightarrow> bool) \<Rightarrow> ('w host, 'a) go \<Rightarrow> bool" where
  "only_issues P m \<longleftrightarrow> (\<forall>s. grown P s (snd (m s)))"

lemma only_issuesD: "only_issues P m \<Longrightarrow> m s = (r, t) \<Longrightarrow> grown P s t"
  by (metis only_issues_def snd_conv)

lemma only_issues_wp: "only_issues P m \<Longrightarrow> wp m (\<lambda>_ t. grown P s t) (\<lambda>_ t. grown P s t) s"
  by (auto simp: wp_iff_run dest: only_issuesD)

lemma only_issues_mono: "only_issues P m \<Longrightarrow> (\<And>ev. P ev \<Longrightarrow> Q ev) \<Longrightarrow> only_issues Q m"
  unfolding only_issues_def by (blast intro: grown_mono)

lemma only_issues_pure [issues, intro, simp]:
  "only_issues P (go_return a)" "only_issues P (go_panic e)" "only_issues P (go_lift r)"
  by (simp_all add: only_issues_def go_return_def go_panic_def go_lift_def)

lemma only_issues_bind [issues]:
  assumes "only_issues P m" and "\<And>a. only_issues P (f a)"
  shows "only_issues P (go_bind m f)"
  unfolding only_issues_def
proof
  fix s
  obtain r t where m: "m s = (r, t)" by (cases "m s")
  then have "grown P s t" using assms(1) by (blast dest: only_issuesD)
  then show "grown P s (snd (go_bind m f s))"
    using assms(2) m by (cases r) (auto simp: go_bind_def only_issues_def intro: grown_trans)
qed

lemma only_issues_fold [issues]:
  "(\<And>x b. x \<in> set xs \<Longrightarrow> only_issues P (f x b)) \<Longrightarrow> only_issues P (go_fold f xs b)"
  by (induction xs arbitrary: b) (auto intro: only_issues_bind)

lemma only_issues_loop [issues]:
  "(\<And>x b. x \<in> set xs \<Longrightarrow> only_issues P (f x b)) \<Longrightarrow> only_issues P (go_loop f xs b)"
  by (induction xs arbitrary: b) (auto intro!: only_issues_bind split: sum.splits)

lemma only_issues_if [issues]:
  "(c \<Longrightarrow> only_issues P m) \<Longrightarrow> (\<not> c \<Longrightarrow> only_issues P n) \<Longrightarrow> only_issues P (if c then m else n)"
  by simp

lemma only_issues_option [issues]:
  "(x = None \<Longrightarrow> only_issues P m) \<Longrightarrow> (\<And>a. x = Some a \<Longrightarrow> only_issues P (f a)) \<Longrightarrow>
   only_issues P (case x of None \<Rightarrow> m | Some a \<Rightarrow> f a)"
  by (cases x) simp_all

lemma only_issues_sum [issues]:
  "(\<And>e. x = Inl e \<Longrightarrow> only_issues P (g e)) \<Longrightarrow> (\<And>a. x = Inr a \<Longrightarrow> only_issues P (f a)) \<Longrightarrow>
   only_issues P (case x of Inl e \<Rightarrow> g e | Inr a \<Rightarrow> f a)"
  by (cases x) simp_all

lemma only_issues_prod [issues]:
  "(\<And>a b. x = (a, b) \<Longrightarrow> only_issues P (f a b)) \<Longrightarrow> only_issues P (case x of (a, b) \<Rightarrow> f a b)"
  by (cases x) simp_all

lemma only_issues_list [issues]:
  "(xs = [] \<Longrightarrow> only_issues P m) \<Longrightarrow> (\<And>y ys. xs = y # ys \<Longrightarrow> only_issues P (f y ys)) \<Longrightarrow>
   only_issues P (case xs of [] \<Rightarrow> m | y # ys \<Rightarrow> f y ys)"
  by (cases xs) simp_all

lemma only_issues_let [issues]: "only_issues P (f x) \<Longrightarrow> only_issues P (let y = x in f y)"
  by simp

text \<open>
  Following what a program may issue through a sequence whose later parts depend on the value
  of an earlier one.
\<close>

lemma wp_grown_bind:
  assumes "grown P s0 s" and "only_issues P m" and "wp m (\<lambda>a _. Q a) (\<lambda>_ _. True) s"
    and "\<And>a t. Q a \<Longrightarrow> grown P s0 t \<Longrightarrow> wp (f a) (\<lambda>_. grown P s0) (\<lambda>_. grown P s0) t"
  shows "wp (go_bind m f) (\<lambda>_. grown P s0) (\<lambda>_. grown P s0) s"
proof -
  have "wp m (\<lambda>a t. Q a \<and> grown P s t) (\<lambda>_ t. True \<and> grown P s t) s"
    using assms(3) only_issues_wp [OF assms(2), of s] by (auto simp: wp_iff_run)
  then show ?thesis
    unfolding wp_bind by (rule wp_mono) (use assms(1,4) in \<open>blast intro: grown_trans\<close>)+
qed

lemma wp_grown_only: "grown P s0 s \<Longrightarrow> only_issues P m \<Longrightarrow> wp m (\<lambda>_. grown P s0) (\<lambda>_. grown P s0) s"
  by (rule wp_mono [OF only_issues_wp]) (auto intro: grown_trans)

definition is_exec :: "event \<Rightarrow> bool" where
  "is_exec ev \<longleftrightarrow> (\<exists>c a. ev = Exec c a)"

lemma is_exec_Exec [simp, intro]: "is_exec (Exec c a)"
  by (simp add: is_exec_def)

end
