(* ===== verification/GoStrings.thy ===== *)
theory GoStrings
  imports Prelude "HOL-Library.Word"
begin

text \<open>
  The functions of Go's \<open>strings\<close>, \<open>strconv\<close> and \<open>path\<close> packages that the
  source uses, on byte strings.  \<open>TrimSpace\<close> and \<open>ToLower\<close> are given for ASCII;
  bytes from 128 on are left alone.  Separators are single bytes, as everywhere in the source.
\<close>

section \<open>strings\<close>

fun split_on :: "char \<Rightarrow> string \<Rightarrow> string list" where
  "split_on c [] = [[]]"
| "split_on c (x # xs) =
     (if x = c then [] # split_on c xs
      else (case split_on c xs of [] \<Rightarrow> [[x]] | w # ws \<Rightarrow> (x # w) # ws))"

fun join_with :: "string \<Rightarrow> string list \<Rightarrow> string" where
  "join_with sep [] = []"
| "join_with sep [w] = w"
| "join_with sep (w # v # ws) = w @ sep @ join_with sep (v # ws)"

definition has_prefix :: "string \<Rightarrow> string \<Rightarrow> bool" where
  "has_prefix s p \<longleftrightarrow> take (length p) s = p"

definition has_suffix :: "string \<Rightarrow> string \<Rightarrow> bool" where
  "has_suffix s p \<longleftrightarrow> length p \<le> length s \<and> drop (length s - length p) s = p"

fun str_contains :: "string \<Rightarrow> string \<Rightarrow> bool" where
  "str_contains [] p = (p = [])"
| "str_contains (x # xs) p = (has_prefix (x # xs) p \<or> str_contains xs p)"

definition trim_where :: "(char \<Rightarrow> bool) \<Rightarrow> string \<Rightarrow> string" where
  "trim_where p s = rev (dropWhile p (rev (dropWhile p s)))"

definition is_space :: "char \<Rightarrow> bool" where
  "is_space c \<longleftrightarrow> c \<in> {CHR '' '', CHR 0x09, CHR 0x0A, CHR 0x0B, CHR 0x0C, CHR 0x0D}"

definition trim_space :: "string \<Rightarrow> string" where
  "trim_space = trim_where is_space"

definition trim_char :: "char \<Rightarrow> string \<Rightarrow> string" where
  "trim_char c = trim_where (\<lambda>x. x = c)"

definition char_lower :: "char \<Rightarrow> char" where
  "char_lower c = (let n = of_char c :: nat in if 65 \<le> n \<and> n \<le> 90 then char_of (n + 32) else c)"

definition to_lower :: "string \<Rightarrow> string" where
  "to_lower = map char_lower"

text \<open>\<open>strings.Replace(s, c, "", -1)\<close>: every occurrence of a byte is removed.\<close>

definition remove_char :: "char \<Rightarrow> string \<Rightarrow> string" where
  "remove_char c = filter (\<lambda>x. x \<noteq> c)"

section \<open>strconv\<close>

definition digit_of :: "char \<Rightarrow> nat option" where
  "digit_of c = (let n = of_char c :: nat in if 48 \<le> n \<and> n \<le> 57 then Some (n - 48) else None)"

fun parse_digits :: "nat \<Rightarrow> string \<Rightarrow> nat option" where
  "parse_digits acc [] = Some acc"
| "parse_digits acc (c # cs) =
     (case digit_of c of None \<Rightarrow> None | Some d \<Rightarrow> parse_digits (10 * acc + d) cs)"

text \<open>\<open>strconv.ParseUint(s, 10, 64)\<close>: a syntax error or a range error, else a 64-bit value.\<close>

definition ParseUint :: "string \<Rightarrow> go_error + 64 word" where
  "ParseUint s =
     (if s = [] then Inl (errorf (''strconv.ParseUint: parsing \"'' @ s @ ''\": invalid syntax''))
      else case parse_digits 0 s of
        None \<Rightarrow> Inl (errorf (''strconv.ParseUint: parsing \"'' @ s @ ''\": invalid syntax''))
      | Some n \<Rightarrow>
          if n < 2 ^ 64 then Inr (word_of_nat n)
          else Inl (errorf (''strconv.ParseUint: parsing \"'' @ s @ ''\": value out of range'')))"

definition digit_char :: "nat \<Rightarrow> char" where
  "digit_char d = char_of (d + 48)"

fun nat_to_string :: "nat \<Rightarrow> string" where
  "nat_to_string n =
     (if n < 10 then [digit_char n] else nat_to_string (n div 10) @ [digit_char (n mod 10)])"

declare nat_to_string.simps [simp del]

text \<open>\<open>strconv.Itoa(int(x))\<close> on a 64-bit platform: the value is read as signed.\<close>

definition itoa_signed :: "64 word \<Rightarrow> string" where
  "itoa_signed x = (let i = sint x in
     if i < 0 then ''-'' @ nat_to_string (nat (- i)) else nat_to_string (nat i))"

definition ParseBool :: "string \<Rightarrow> go_error + bool" where
  "ParseBool s =
     (if s \<in> {''1'', ''t'', ''T'', ''TRUE'', ''true'', ''True''} then Inr True
      else if s \<in> {''0'', ''f'', ''F'', ''FALSE'', ''false'', ''False''} then Inr False
      else Inl (errorf (''strconv.ParseBool: parsing \"'' @ s @ ''\": invalid syntax'')))"

text \<open>Hexadecimal digits: lower case when written, either case when read.\<close>

definition hex_digit :: "nat \<Rightarrow> char" where
  "hex_digit d = (if d < 10 then char_of (d + 48) else char_of (d + 87))"

definition hex_val :: "char \<Rightarrow> nat option" where
  "hex_val c = (let n = of_char c :: nat in
     if 48 \<le> n \<and> n \<le> 57 then Some (n - 48)
     else if 97 \<le> n \<and> n \<le> 102 then Some (n - 87)
     else if 65 \<le> n \<and> n \<le> 70 then Some (n - 55) else None)"

section \<open>path\<close>

definition path_base :: "string \<Rightarrow> string" where
  "path_base p =
     (if p = [] then ''.''
      else let q = rev (dropWhile (\<lambda>c. c = CHR ''/'') (rev p)) in
        if q = [] then ''/''
        else rev (takeWhile (\<lambda>c. c \<noteq> CHR ''/'') (rev q)))"

text \<open>\<open>path.Clean\<close> of a rooted path, on its components.\<close>

fun clean_parts :: "string list \<Rightarrow> string list \<Rightarrow> string list" where
  "clean_parts done [] = rev done"
| "clean_parts done (w # ws) =
     (if w = [] \<or> w = ''.'' then clean_parts done ws
      else if w = ''..'' then clean_parts (case done of [] \<Rightarrow> [] | _ # d \<Rightarrow> d) ws
      else clean_parts (w # done) ws)"

definition path_join_dev :: "string \<Rightarrow> string" where
  "path_join_dev device =
     (let joined = (if device = [] then ''/dev'' else ''/dev/'' @ device)
      in ''/'' @ join_with ''/'' (clean_parts [] (split_on (CHR ''/'') joined)))"

section \<open>Facts\<close>

lemma split_on_nonempty [simp]: "split_on c s \<noteq> []"
  by (induction s) (auto split: list.splits)

lemma join_split: "join_with [c] (split_on c s) = s"
proof (induction s)
  case (Cons x xs)
  then show ?case
    by (cases "split_on c xs"; cases "tl (split_on c xs)") auto
qed simp

lemma split_on_no_sep: "w \<in> set (split_on c s) \<Longrightarrow> c \<notin> set w"
proof (induction s arbitrary: w)
  case (Cons x xs)
  then show ?case by (cases "split_on c xs") (auto split: if_splits)
qed simp

lemma split_on_absent [simp]: "c \<notin> set s \<Longrightarrow> split_on c s = [s]"
  by (induction s) auto

lemma split_on_append_sep: "c \<notin> set w \<Longrightarrow> split_on c (w @ c # s) = w # split_on c s"
  by (induction w) auto

lemma split_on_two: "c \<notin> set k \<Longrightarrow> c \<notin> set v \<Longrightarrow> split_on c (k @ c # v) = [k, v]"
  by (simp add: split_on_append_sep)

text \<open>Splitting what was joined gives the fields back: the basis of every round trip below.\<close>

lemma split_join:
  "ws \<noteq> [] \<Longrightarrow> \<forall>w \<in> set ws. c \<notin> set w \<Longrightarrow> split_on c (join_with [c] ws) = ws"
  by (induction "[c]" ws rule: join_with.induct) (simp_all add: split_on_append_sep)

lemma length_split_on: "length (split_on c s) = Suc (length (filter (\<lambda>x. x = c) s))"
proof (induction s)
  case (Cons x xs)
  then show ?case by (cases "split_on c xs") auto
qed simp

lemma has_prefix_append [simp]: "has_prefix (p @ s) p"
  by (simp add: has_prefix_def)

lemma has_prefix_iff: "has_prefix s p \<longleftrightarrow> (\<exists>t. s = p @ t)"
  unfolding has_prefix_def by (metis append_eq_conv_conj append_take_drop_id)

lemma trim_where_id [simp]:
  "s = [] \<or> (\<not> p (hd s) \<and> \<not> p (last s)) \<Longrightarrow> trim_where p s = s"
proof (cases "s = []")
  case False
  assume "s = [] \<or> (\<not> p (hd s) \<and> \<not> p (last s))"
  with False have "dropWhile p s = s" "dropWhile p (rev s) = rev s"
    by (cases s, simp_all, cases s rule: rev_cases, simp_all)
  then show ?thesis by (simp add: trim_where_def)
qed (simp add: trim_where_def)

lemma trim_where_ends:
  "trim_where p s = [] \<or> (\<not> p (hd (trim_where p s)) \<and> \<not> p (last (trim_where p s)))"
proof (cases "trim_where p s = []")
  case False
  define t where "t = dropWhile p s"
  have r: "trim_where p s = rev (dropWhile p (rev t))" by (simp add: trim_where_def t_def)
  have "dropWhile p (rev t) \<noteq> []" using False r by simp
  then have last: "\<not> p (last (trim_where p s))"
    unfolding r by (simp add: last_rev hd_dropWhile)
  have "t \<noteq> []" using False r by auto
  then have "\<not> p (hd t)" unfolding t_def by (simp add: hd_dropWhile)
  moreover have "hd (trim_where p s) = hd t"
    using False unfolding r
    by (metis append_is_Nil_conv hd_append2 rev_append rev_is_Nil_conv rev_rev_ident
        takeWhile_dropWhile_id)
  ultimately show ?thesis using last by simp
qed simp

lemma trim_where_idem [simp]: "trim_where p (trim_where p s) = trim_where p s"
  by (rule trim_where_id) (rule trim_where_ends)

text \<open>Trimming a quoted word removes exactly the quotes.\<close>

lemma trim_char_quoted: "c \<notin> set s \<Longrightarrow> trim_char c (c # s @ [c]) = s"
proof (cases "s = []")
  case False
  assume c: "c \<notin> set s"
  have "hd s \<in> set s" "last s \<in> set s" using False by simp_all
  then have ends: "hd s \<noteq> c" "last s \<noteq> c" using c by auto
  then have "dropWhile (\<lambda>x. x = c) (s @ [c]) = s @ [c]" using False by (cases s) auto
  moreover have "dropWhile (\<lambda>x. x = c) (rev s) = rev s"
    using ends False by (cases s rule: rev_cases) auto
  ultimately show ?thesis by (simp add: trim_char_def trim_where_def)
qed (simp add: trim_char_def trim_where_def)

lemma digit_of_digit_char [simp]: "d < 10 \<Longrightarrow> digit_of (digit_char d) = Some d"
  by (simp add: digit_of_def digit_char_def of_char_of Let_def)

lemma hex_val_digit [simp]: "d < 16 \<Longrightarrow> hex_val (hex_digit d) = Some d"
  by (simp add: hex_val_def hex_digit_def of_char_of Let_def)

lemma parse_digits_append:
  "parse_digits a (s @ t) = (case parse_digits a s of None \<Rightarrow> None | Some b \<Rightarrow> parse_digits b t)"
  by (induction a s rule: parse_digits.induct) (auto split: option.splits)

lemma parse_nat_to_string: "parse_digits 0 (nat_to_string n) = Some n"
proof (induction n rule: nat_to_string.induct)
  case (1 n)
  then show ?case
    by (cases "n < 10") (simp_all add: nat_to_string.simps [of n] parse_digits_append)
qed

lemma nat_to_string_nonempty [simp]: "nat_to_string n \<noteq> []"
  by (subst nat_to_string.simps) simp

text \<open>Every 64-bit value survives printing and parsing; anything larger is a range error.\<close>

lemma ParseUint_print: "ParseUint (nat_to_string (unat (w :: 64 word))) = Inr w"
proof -
  have "unat w < 2 ^ 64" using unsigned_less [of w] by simp
  then show ?thesis by (simp add: ParseUint_def parse_nat_to_string)
qed

lemma ParseUint_range: "2 ^ 64 \<le> n \<Longrightarrow> \<exists>e. ParseUint (nat_to_string n) = Inl e"
  by (simp add: ParseUint_def parse_nat_to_string)

lemma ParseUint_digits:
  "ParseUint s = Inr w \<Longrightarrow> s \<noteq> [] \<and> parse_digits 0 s = Some (unat w)"
  by (auto simp: ParseUint_def unsigned_of_nat take_bit_nat_eq_self split: if_splits option.splits)

lemma path_base_no_slash: "path_base p \<noteq> ''/'' \<Longrightarrow> CHR ''/'' \<notin> set (path_base p)"
  by (auto simp: path_base_def Let_def dest: set_takeWhileD split: if_splits)

lemma path_base_simple:
  assumes "w \<noteq> []" "CHR ''/'' \<notin> set w" shows "path_base (d @ ''/'' @ w) = w"
proof -
  have "last w \<noteq> CHR ''/''" using assms by (metis last_in_set)
  then have "dropWhile (\<lambda>c. c = CHR ''/'') (rev w @ t) = rev w @ t" for t
    using assms by (cases w rule: rev_cases) auto
  moreover have "takeWhile (\<lambda>c. c \<noteq> CHR ''/'') (rev w @ CHR ''/'' # t) = rev w" for t
    using assms by (subst takeWhile_append2) auto
  ultimately show ?thesis using assms by (simp add: path_base_def Let_def)
qed

end
