(* ===== verification/Executor.thy ===== *)
theory Executor
  imports KubeTypes GoStrings
begin

text \<open>
  The node's outside world as the code reaches it: the interface \<open>exec.Executor\<close> of
  \<open>pkg/util/exec/exec.go\<close> (the storage code calls two of its methods), \<open>exec.LookPath\<close>, the \<open>google/uuid\<close> package and the order in which Go iterates over a map.  All are
  parameters of the model, functions of a world \<open>'w\<close> that they may change; every
  theorem holds for every choice of them.
\<close>

record 'w executor =
  ExecuteCommand :: "string \<Rightarrow> string list \<Rightarrow> 'w \<Rightarrow> go_error option \<times> 'w"
  ExecuteCommandWithOutput :: "string \<Rightarrow> string list \<Rightarrow> 'w \<Rightarrow> (string \<times> go_error option) \<times> 'w"
  ExecuteCommandWithEnv :: "string list \<Rightarrow> string \<Rightarrow> string list \<Rightarrow> 'w \<Rightarrow> go_error option \<times> 'w"
  ExecuteCommandWithCombinedOutput :: "string \<Rightarrow> string list \<Rightarrow> 'w \<Rightarrow> (string \<times> go_error option) \<times> 'w"
  ExecuteCommandWithOutputFile :: "string \<Rightarrow> string \<Rightarrow> string list \<Rightarrow> 'w \<Rightarrow> (string \<times> go_error option) \<times> 'w"
  ExecuteCommandWithOutputFileTimeout ::
    "nat \<Rightarrow> string \<Rightarrow> string \<Rightarrow> string list \<Rightarrow> 'w \<Rightarrow> (string \<times> go_error option) \<times> 'w"
  ExecuteCommandWithTimeout :: "nat \<Rightarrow> string \<Rightarrow> string list \<Rightarrow> 'w \<Rightarrow> (string \<times> go_error option) \<times> 'w"
  LookPath :: "string \<Rightarrow> 'w \<Rightarrow> bool"
  UuidParse :: "string \<Rightarrow> string option"
  UuidNew :: "'w \<Rightarrow> string \<times> 'w"
  MapRank :: "'w \<Rightarrow> (string \<Rightarrow> nat) \<times> 'w"

definition run_cmd :: "'w executor \<Rightarrow> string \<Rightarrow> string list \<Rightarrow> ('w host, go_error option) go" where
  "run_cmd E cmd args = (\<lambda>s. case ExecuteCommand E cmd args (world s) of
     (e, w) \<Rightarrow> (Ret e, record_event (Exec cmd args) w s))"

definition run_out :: "'w executor \<Rightarrow> string \<Rightarrow> string list \<Rightarrow> ('w host, string \<times> go_error option) go" where
  "run_out E cmd args = (\<lambda>s. case ExecuteCommandWithOutput E cmd args (world s) of
     (r, w) \<Rightarrow> (Ret r, record_event (Exec cmd args) w s))"

definition look_path :: "'w executor \<Rightarrow> string \<Rightarrow> ('w host, bool) go" where
  "look_path E p = (\<lambda>s. (Ret (LookPath E p (world s)), s))"

definition uuid_new :: "'w executor \<Rightarrow> ('w host, string) go" where
  "uuid_new E = (\<lambda>s. case UuidNew E (world s) of (u, w) \<Rightarrow> (Ret u, s\<lparr>world := w\<rparr>))"

text \<open>The keys of a map in the order in which \<open>range\<close> happens to visit them.\<close>

definition go_range :: "'w executor \<Rightarrow> 'v gomap \<Rightarrow> ('w host, string list) go" where
  "go_range E m = (\<lambda>s. case MapRank E (world s) of
     (rank, w) \<Rightarrow> (Ret (sort_key rank (gm_keys m)), s\<lparr>world := w\<rparr>))"

lemma wp_run_cmd [wpg]:
  "wp (run_cmd E c a) Q R s \<longleftrightarrow>
   (\<forall>e w. ExecuteCommand E c a (world s) = (e, w) \<longrightarrow> Q e (record_event (Exec c a) w s))"
  by (auto simp: wp_def run_cmd_def split: prod.splits)

lemma wp_run_out [wpg]:
  "wp (run_out E c a) Q R s \<longleftrightarrow>
   (\<forall>r w. ExecuteCommandWithOutput E c a (world s) = (r, w) \<longrightarrow> Q r (record_event (Exec c a) w s))"
  by (auto simp: wp_def run_out_def split: prod.splits)

lemma wp_look_path [wpg]: "wp (look_path E p) Q R s = Q (LookPath E p (world s)) s"
  by (simp add: wp_def look_path_def)

lemma wp_uuid_new [wpg]:
  "wp (uuid_new E) Q R s \<longleftrightarrow> (\<forall>u w. UuidNew E (world s) = (u, w) \<longrightarrow> Q u (s\<lparr>world := w\<rparr>))"
  by (auto simp: wp_def uuid_new_def split: prod.splits)

lemma wp_go_range [wpg]:
  "wp (go_range E m) Q R s \<longleftrightarrow>
   (\<forall>rank w. MapRank E (world s) = (rank, w) \<longrightarrow> Q (sort_key rank (gm_keys m)) (s\<lparr>world := w\<rparr>))"
  by (auto simp: wp_def go_range_def split: prod.splits)

text \<open>A range visits every key once, whatever the rank.\<close>

lemma wp_go_range_keys:
  assumes "\<And>ks w. set ks = set (gm_keys m) \<Longrightarrow> length ks = length m \<Longrightarrow>
      (gm_wf m \<Longrightarrow> distinct ks) \<Longrightarrow> Q ks (s\<lparr>world := w\<rparr>)"
  shows "wp (go_range E m) Q R s"
  using assms by (auto simp: wp_go_range gm_wf_def gm_keys_def)

lemma only_issues_run_cmd [issues]: "P (Exec c a) \<Longrightarrow> only_issues P (run_cmd E c a)"
  by (simp add: only_issues_def run_cmd_def split: prod.splits)

lemma only_issues_run_out [issues]: "P (Exec c a) \<Longrightarrow> only_issues P (run_out E c a)"
  by (simp add: only_issues_def run_out_def split: prod.splits)

lemma only_issues_silent [issues, simp]:
  "only_issues P (look_path E p)" "only_issues P (uuid_new E)" "only_issues P (go_range E m)"
  by (simp_all add: only_issues_def look_path_def uuid_new_def go_range_def grown_def
      split: prod.splits)

section \<open>TranslateCommandExecutor\<close>

text \<open>
  \<open>pkg/util/exec/translate_exec.go\<close>: an executor that rewrites every command before
  handing it to another one.
\<close>

definition TranslateCommandExecutor ::
    "(string \<Rightarrow> string list \<Rightarrow> string \<times> string list) \<Rightarrow> 'w executor \<Rightarrow> 'w executor" where
  "TranslateCommandExecutor translator E = E\<lparr>
     ExecuteCommand := (\<lambda>cmd args. case translator cmd args of (c, a) \<Rightarrow> ExecuteCommand E c a),
     ExecuteCommandWithOutput :=
       (\<lambda>cmd args. case translator cmd args of (c, a) \<Rightarrow> ExecuteCommandWithOutput E c a),
     ExecuteCommandWithEnv :=
       (\<lambda>env cmd args. case translator cmd args of (c, a) \<Rightarrow> ExecuteCommandWithEnv E env c a),
     ExecuteCommandWithCombinedOutput :=
       (\<lambda>cmd args. case translator cmd args of (c, a) \<Rightarrow> ExecuteCommandWithCombinedOutput E c a),
     ExecuteCommandWithOutputFile :=
       (\<lambda>cmd outfileArg args. case translator cmd args of (c, a) \<Rightarrow> ExecuteCommandWithOutputFile E c outfileArg a),
     ExecuteCommandWithOutputFileTimeout := (\<lambda>timeout cmd outfileArg args.
       case translator cmd args of (c, a) \<Rightarrow> ExecuteCommandWithOutputFileTimeout E timeout c outfileArg a),
     ExecuteCommandWithTimeout :=
       (\<lambda>timeout cmd args. case translator cmd args of (c, a) \<Rightarrow> ExecuteCommandWithTimeout E timeout c a)\<rparr>"

end
