(* ===== verification/Lvm.thy ===== *)
theory Lvm
  imports Executor
begin

text \<open>
  \<open>pkg/util/sys/lvm.go\<close> and the commands of \<open>pkg/util/sys/loop.go\<close>: the wrapper
  around the LVM tools, the parser of their \<open>--nameprefixes\<close> output, and the operations
  on physical volumes, volume groups and loop devices.
  Proved: the parser reads back what the tools print for any field names and values without
  separators, and panics on exactly the malformed tokens; the destructive operations
  (\<open>RemoveVolumeGroup\<close>, \<open>ShrinkVolumeGroup\<close>) run no modifying command unless every
  check for logical volumes came back empty, and the exact command sequence where they succeed.
\<close>

section \<open>Running LVM\<close>

definition nsenter_args :: "string \<Rightarrow> string list \<Rightarrow> string list" where
  "nsenter_args cmd args = [''-u'', ''-i'', ''-n'', ''-m'', ''-p'', ''-t'', ''1'', cmd] @ args"

definition wrapExecCommandWithOutput ::
    "'w executor \<Rightarrow> string \<Rightarrow> string list \<Rightarrow> ('w host, string \<times> go_error option) go" where
  "wrapExecCommandWithOutput E cmd args = run_out E ''nsenter'' (nsenter_args cmd args)"

definition wrapExecCommand ::
    "'w executor \<Rightarrow> string \<Rightarrow> string list \<Rightarrow> ('w host, go_error option) go" where
  "wrapExecCommand E cmd args = run_cmd E ''nsenter'' (nsenter_args cmd args)"

text \<open>The event of an LVM command in the trace.\<close>

definition lvm_ev :: "string list \<Rightarrow> event" where
  "lvm_ev args = Exec ''nsenter'' (nsenter_args ''lvm'' args)"

lemma lvm_ev_inject [simp]: "lvm_ev a = lvm_ev b \<longleftrightarrow> a = b"
  by (simp add: lvm_ev_def nsenter_args_def)

lemma wp_lvm_cmd [wpg]:
  "wp (wrapExecCommand E ''lvm'' args) Q R s \<longleftrightarrow>
   (\<forall>e w. ExecuteCommand E ''nsenter'' (nsenter_args ''lvm'' args) (world s) = (e, w) \<longrightarrow>
     Q e (record_event (lvm_ev args) w s))"
  by (simp add: wrapExecCommand_def wpg lvm_ev_def)

lemma only_issues_lvm_cmd [issues]: "P (lvm_ev args) \<Longrightarrow> only_issues P (wrapExecCommand E ''lvm'' args)"
  by (auto simp: wrapExecCommand_def lvm_ev_def intro: issues)

section \<open>Parsing the output\<close>

type_synonym LVInfo = "string gomap"

text \<open>
  One token \<open>k=v\<close>: \<open>kv[1]\<close> is out of range without an equals sign, and
  \<open>k[5:]\<close> is out of range for a key shorter than the prefix \<open>LVM2_\<close>.
\<close>

definition parse_token :: "string \<Rightarrow> (string \<times> string) outcome" where
  "parse_token token = (case split_on (CHR ''='') token of
      k # v # _ \<Rightarrow>
        if length k < 5 then Panic ''slice bounds out of range''
        else Ret (to_lower (drop 5 k), trim_char (CHR 0x27) v)
    | _ \<Rightarrow> Panic ''index out of range'')"

fun parse_tokens :: "string list \<Rightarrow> LVInfo \<Rightarrow> LVInfo outcome" where
  "parse_tokens [] ret = Ret ret"
| "parse_tokens (token # ts) ret =
     (if token = [] then parse_tokens ts ret
      else case parse_token token of
        Panic e \<Rightarrow> Panic e
      | Ret (k, v) \<Rightarrow> parse_tokens ts (gm_put k v ret))"

definition parseOneLine :: "string \<Rightarrow> LVInfo outcome" where
  "parseOneLine line = parse_tokens (split_on (CHR '' '') (trim_space line)) []"

fun parse_each_line :: "string list \<Rightarrow> LVInfo list outcome" where
  "parse_each_line [] = Ret []"
| "parse_each_line (line # lines) =
     (if line = [] then parse_each_line lines
      else case parseOneLine line of
        Panic e \<Rightarrow> Panic e
      | Ret info \<Rightarrow> (case parse_each_line lines of Panic e \<Rightarrow> Panic e | Ret infos \<Rightarrow> Ret (info # infos)))"

definition parseLines :: "string \<Rightarrow> LVInfo list outcome" where
  "parseLines output = parse_each_line (split_on (CHR 0x0A) output)"

definition parseOutput_args :: "string \<Rightarrow> string \<Rightarrow> string list \<Rightarrow> string list" where
  "parseOutput_args cmd flds args =
     [cmd, ''-o'', flds, ''--noheadings'', ''--separator= '', ''--units=b'', ''--nosuffix'',
      ''--unbuffered'', ''--nameprefixes''] @ args"

definition parseOutput ::
    "'w executor \<Rightarrow> string \<Rightarrow> string \<Rightarrow> string list \<Rightarrow> ('w host, go_error + LVInfo list) go" where
  "parseOutput E cmd flds args =
     go_bind (wrapExecCommandWithOutput E ''lvm'' (parseOutput_args cmd flds args)) (\<lambda>(out, err).
       case err of
         Some e \<Rightarrow> go_return (Inl e)
       | None \<Rightarrow> go_bind (go_lift (parseLines out)) (\<lambda>infos. go_return (Inr infos)))"

section \<open>Queries\<close>

text \<open>\<open>info[field]\<close> of every line, as a set represented by a map from each name to itself.\<close>

definition collect_field :: "string \<Rightarrow> LVInfo list \<Rightarrow> LVInfo" where
  "collect_field field infos =
     gm_build (\<lambda>info. gm_get_default [] info field) (\<lambda>info. gm_get_default [] info field) infos []"

definition GetVolumeGroups :: "'w executor \<Rightarrow> ('w host, go_error + LVInfo) go" where
  "GetVolumeGroups E =
     go_bind (parseOutput E ''vgs'' ''vg_name'' []) (\<lambda>r. case r of
       Inl err \<Rightarrow> go_return (Inl (err_wrap err ''parse out failed cmd:vgs vg_name''))
     | Inr infoList \<Rightarrow> go_return (Inr (collect_field ''vg_name'' infoList)))"

definition GetPhysicalVolume :: "'w executor \<Rightarrow> string \<Rightarrow> ('w host, go_error + LVInfo) go" where
  "GetPhysicalVolume E vgname =
     go_bind (parseOutput E ''vgs'' ''pv_name'' [vgname]) (\<lambda>r. case r of
       Inl err \<Rightarrow> go_return (Inl (err_wrap err (''parse out failed cmd:vgs pv_name '' @ vgname)))
     | Inr infoList \<Rightarrow> go_return (Inr (collect_field ''pv_name'' infoList)))"

definition CheckPVHasLogicalVolume :: "'w executor \<Rightarrow> string \<Rightarrow> ('w host, go_error + bool) go" where
  "CheckPVHasLogicalVolume E pvname =
     go_bind (parseOutput E ''pvs'' ''+lv_name'' [pvname, ''--segments'']) (\<lambda>r. case r of
       Inl err \<Rightarrow> go_return (Inl (err_wrap err (''parse out failed cmd:pvs +lv_name '' @ pvname)))
     | Inr infoList \<Rightarrow> go_return (Inr (\<exists>info \<in> set infoList. gm_get_default [] info ''lv_name'' \<noteq> [])))"

definition CheckVgHasLogicalVolume :: "'w executor \<Rightarrow> string \<Rightarrow> ('w host, go_error + bool) go" where
  "CheckVgHasLogicalVolume E vgname =
     go_bind (parseOutput E ''vgs'' ''lv_name'' [vgname]) (\<lambda>r. case r of
       Inl err \<Rightarrow> go_return (Inl (err_wrap err (''parse out failed cmd:vgs lv_name '' @ vgname)))
     | Inr infoList \<Rightarrow> go_return (Inr (\<exists>info \<in> set infoList. gm_get_default [] info ''lv_name'' \<noteq> [])))"

definition GetVolumeGroupSize :: "'w executor \<Rightarrow> string \<Rightarrow> ('w host, go_error + 64 word) go" where
  "GetVolumeGroupSize E vgname =
     go_bind (parseOutput E ''vgs'' ''vg_size'' [vgname]) (\<lambda>r. case r of
       Inl err \<Rightarrow> go_return (Inl err)
     | Inr infoList \<Rightarrow>
         (case infoList of
           [info] \<Rightarrow> go_return (ParseUint (gm_get_default [] info ''vg_size''))
         | _ \<Rightarrow> go_return (Inl (errorf (''volume group not found: '' @ vgname)))))"

section \<open>Changes\<close>

text \<open>A loop that runs a command per element and stops at the first error.\<close>

primrec each_until_error :: "('a \<Rightarrow> ('s, go_error option) go) \<Rightarrow> 'a list \<Rightarrow> ('s, go_error option) go" where
  "each_until_error f [] = go_return None"
| "each_until_error f (x # xs) =
     go_bind (f x) (\<lambda>err. case err of Some e \<Rightarrow> go_return (Some e) | None \<Rightarrow> each_until_error f xs)"

definition RemoveVolumeGroup :: "'w executor \<Rightarrow> string \<Rightarrow> ('w host, go_error option) go" where
  "RemoveVolumeGroup E vgName =
     go_bind (CheckVgHasLogicalVolume E vgName) (\<lambda>r. case r of
       Inl err \<Rightarrow> go_return (Some err)
     | Inr ok \<Rightarrow>
         if ok then go_return (Some (errorf (''vg '' @ vgName @ '' has some lv can not remove'')))
         else go_bind (GetPhysicalVolume E vgName) (\<lambda>r. case r of
           Inl err \<Rightarrow> go_return (Some err)
         | Inr infoList \<Rightarrow>
             go_bind (wrapExecCommand E ''lvm'' [''vgremove'', vgName]) (\<lambda>err. case err of
               Some e \<Rightarrow> go_return (Some e)
             | None \<Rightarrow>
                 go_bind (go_range E infoList) (\<lambda>ks.
                   each_until_error (\<lambda>key. wrapExecCommand E ''lvm'' [''pvremove'', key]) ks))))"

text \<open>The checks of \<open>ShrinkVolumeGroup\<close>: every device is free of logical volumes.\<close>

definition check_pvs_free :: "'w executor \<Rightarrow> string list \<Rightarrow> ('w host, go_error option) go" where
  "check_pvs_free E pvs = each_until_error (\<lambda>dev.
     go_bind (CheckPVHasLogicalVolume E dev) (\<lambda>r. case r of
       Inl err \<Rightarrow> go_return (Some err)
     | Inr ok \<Rightarrow> go_return (if ok then Some (errorf (''pv '' @ dev @ '' has some lv can not remove'')) else None)))
     pvs"

definition ShrinkVolumeGroup :: "'w executor \<Rightarrow> string \<Rightarrow> string list \<Rightarrow> ('w host, go_error option) go" where
  "ShrinkVolumeGroup E vgName pvs =
     go_bind (check_pvs_free E pvs) (\<lambda>err. case err of
       Some e \<Rightarrow> go_return (Some e)
     | None \<Rightarrow>
         go_bind (wrapExecCommand E ''lvm'' ([''vgreduce'', vgName] @ pvs)) (\<lambda>err. case err of
           Some e \<Rightarrow> go_return (Some e)
         | None \<Rightarrow> wrapExecCommand E ''lvm'' ([''pvremove''] @ pvs)))"

definition ExpandVolumeGroup :: "'w executor \<Rightarrow> string \<Rightarrow> string list \<Rightarrow> ('w host, go_error option) go" where
  "ExpandVolumeGroup E vgName pvs = wrapExecCommand E ''lvm'' ([''vgextend'', vgName] @ pvs)"

definition CreatePhysicalVolume :: "'w executor \<Rightarrow> string \<Rightarrow> ('w host, go_error option) go" where
  "CreatePhysicalVolume E diskName = wrapExecCommand E ''lvm'' [''pvcreate'', diskName]"

definition CreateVolumeGroup ::
    "'w executor \<Rightarrow> Disk list \<Rightarrow> string \<Rightarrow> ('w host, go_error option) go" where
  "CreateVolumeGroup E disks volumeGroupName =
     go_bind (each_until_error (\<lambda>dev. wrapExecCommand E ''lvm'' [''pvcreate'', Disk_Name dev]) disks) (\<lambda>err.
       case err of
         Some e \<Rightarrow> go_return (Some e)
       | None \<Rightarrow> wrapExecCommand E ''lvm'' ([''vgcreate'', volumeGroupName] @ map Disk_Name disks))"

section \<open>Loop devices\<close>

definition CreateLoop :: "'w executor \<Rightarrow> string \<Rightarrow> 64 word \<Rightarrow> ('w host, string \<times> go_error option) go" where
  "CreateLoop E filename sz =
     go_bind (wrapExecCommand E ''truncate'' [''--size='' @ itoa_signed sz @ ''G'', filename]) (\<lambda>err. case err of
       Some e \<Rightarrow> go_return ([], Some e)
     | None \<Rightarrow>
         go_bind (wrapExecCommand E ''losetup'' [''-f'', filename]) (\<lambda>err. case err of
           Some e \<Rightarrow>
             go_bind (wrapExecCommand E ''rm'' [''-f'', filename]) (\<lambda>_. go_return ([], Some e))
         | None \<Rightarrow>
             go_bind (wrapExecCommandWithOutput E ''losetup'' [''-j'', filename, ''-O'', ''name'']) (\<lambda>(out, err).
               case err of
                 Some e \<Rightarrow> go_return ([], Some e)
               | None \<Rightarrow>
                   (case split_on (CHR 0x0A) out of
                     [_, l] \<Rightarrow> go_return (trim_space l, None)
                   | _ \<Rightarrow> go_return ([], Some (errorf (''get loop name failed for file'' @ filename)))))))"

definition GetLoopBackFile :: "'w executor \<Rightarrow> string \<Rightarrow> ('w host, string \<times> go_error option) go" where
  "GetLoopBackFile E loop =
     go_bind (wrapExecCommandWithOutput E ''losetup'' [loop, ''-O'', ''back-file'']) (\<lambda>(out, err). case err of
       Some e \<Rightarrow> go_return ([], Some e)
     | None \<Rightarrow>
         (case split_on (CHR 0x0A) out of
           [_, l] \<Rightarrow> go_return (trim_space l, None)
         | _ \<Rightarrow> go_return ([], Some (errorf (''get loop %s back file name failed '' @ loop)))))"

section \<open>What the parser reads back\<close>

text \<open>The line LVM prints with \<open>--nameprefixes\<close> for some fields, after any indentation.\<close>

definition render_field :: "string \<times> string \<Rightarrow> string" where
  "render_field kv = ''LVM2_'' @ fst kv @ ''='' @ [CHR 0x27] @ snd kv @ [CHR 0x27]"

definition render_line :: "(string \<times> string) list \<Rightarrow> string" where
  "render_line kvs = join_with '' '' (map render_field kvs)"

definition plain_field :: "string \<times> string \<Rightarrow> bool" where
  "plain_field kv \<longleftrightarrow> set (fst kv) \<inter> {CHR '' '', CHR ''='', CHR 0x0A} = {} \<and>
     set (snd kv) \<inter> {CHR '' '', CHR ''='', CHR 0x27, CHR 0x0A} = {}"

lemma parse_token_render:
  assumes "plain_field kv"
  shows "parse_token (render_field kv) = Ret (to_lower (fst kv), snd kv)"
proof -
  let ?key = "''LVM2_'' @ fst kv" and ?val = "CHR 0x27 # snd kv @ [CHR 0x27]"
  have no_eq: "CHR ''='' \<notin> set ?key" "CHR ''='' \<notin> set ?val" and q: "CHR 0x27 \<notin> set (snd kv)"
    using assms by (auto simp: plain_field_def)
  have "split_on (CHR ''='') (?key @ CHR ''='' # ?val) = [?key, ?val]"
    using no_eq by (rule split_on_two)
  moreover have "render_field kv = ?key @ CHR ''='' # ?val" by (simp add: render_field_def)
  ultimately have "parse_token (render_field kv) = Ret (to_lower (drop 5 ?key), trim_char (CHR 0x27) ?val)"
    by (simp add: parse_token_def del: split_on.simps)
  then show ?thesis using q by (simp add: trim_char_quoted)
qed

lemma parse_tokens_render:
  "\<forall>kv \<in> set kvs. plain_field kv \<Longrightarrow>
   parse_tokens (map render_field kvs) m = Ret (gm_build (to_lower \<circ> fst) snd kvs m)"
proof (induction kvs arbitrary: m)
  case (Cons kv kvs)
  have "render_field kv \<noteq> []" by (simp add: render_field_def)
  with Cons show ?case by (simp add: parse_token_render gm_build_def)
qed (simp add: gm_build_def)

lemma trim_space_pad:
  assumes "\<forall>c \<in> set pad. is_space c" "s \<noteq> []" "\<not> is_space (hd s)" "\<not> is_space (last s)"
  shows "trim_space (pad @ s) = s"
proof -
  have "dropWhile is_space (pad @ s) = dropWhile is_space s"
    using assms(1) by (simp add: dropWhile_append2)
  then have "trim_space (pad @ s) = trim_where is_space s" by (simp add: trim_space_def trim_where_def)
  then show ?thesis using assms by simp
qed

lemma render_line_ends:
  assumes "kvs \<noteq> []"
  shows "render_line kvs \<noteq> []" "hd (render_line kvs) = CHR ''L''" "last (render_line kvs) = CHR 0x27"
proof -
  have *: "ws \<noteq> [] \<Longrightarrow> \<forall>w \<in> set ws. w \<noteq> [] \<and> hd w = CHR ''L'' \<and> last w = CHR 0x27 \<Longrightarrow>
      join_with '' '' ws \<noteq> [] \<and> hd (join_with '' '' ws) = CHR ''L'' \<and> last (join_with '' '' ws) = CHR 0x27" for ws
    by (induction "'' ''" ws rule: join_with.induct) auto
  have "\<forall>w \<in> set (map render_field kvs). w \<noteq> [] \<and> hd w = CHR ''L'' \<and> last w = CHR 0x27"
    by (auto simp: render_field_def)
  with * [of "map render_field kvs"] assms
  show "render_line kvs \<noteq> []" "hd (render_line kvs) = CHR ''L''" "last (render_line kvs) = CHR 0x27"
    by (simp_all add: render_line_def)
qed

lemma parseOneLine_render:
  assumes "kvs \<noteq> []" "\<forall>kv \<in> set kvs. plain_field kv" "\<forall>c \<in> set pad. is_space c"
  shows "parseOneLine (pad @ render_line kvs) = Ret (gm_build (to_lower \<circ> fst) snd kvs [])"
proof -
  have "trim_space (pad @ render_line kvs) = render_line kvs"
    using assms render_line_ends [OF assms(1)] by (intro trim_space_pad) (simp_all add: is_space_def)
  moreover have "\<forall>w \<in> set (map render_field kvs). CHR '' '' \<notin> set w"
    using assms(2) by (auto simp: render_field_def plain_field_def)
  then have "split_on (CHR '' '') (render_line kvs) = map render_field kvs"
    using assms(1) by (simp add: render_line_def split_join)
  ultimately show ?thesis using assms(2) by (simp add: parseOneLine_def parse_tokens_render)
qed

lemma parse_each_line_render:
  assumes "\<forall>kvs \<in> set rows. kvs \<noteq> [] \<and> (\<forall>kv \<in> set kvs. plain_field kv)"
  shows "parse_each_line (map render_line rows) = Ret (map (\<lambda>kvs. gm_build (to_lower \<circ> fst) snd kvs []) rows)"
  using assms
proof (induction rows)
  case (Cons kvs rows)
  then show ?case
    using parseOneLine_render [of kvs "[]"] render_line_ends(1) [of kvs] by (simp add: comp_def)
qed simp

lemma parseLines_render:
  assumes "rows \<noteq> []" "\<forall>kvs \<in> set rows. kvs \<noteq> [] \<and> (\<forall>kv \<in> set kvs. plain_field kv)"
  shows "parseLines (join_with [CHR 0x0A] (map render_line rows)) =
    Ret (map (\<lambda>kvs. gm_build (to_lower \<circ> fst) snd kvs []) rows)"
proof -
  have nl: "CHR 0x0A \<notin> set (join_with '' '' ws)" if "\<forall>w \<in> set ws. CHR 0x0A \<notin> set w" for ws
    using that by (induction "'' ''" ws rule: join_with.induct) auto
  have "CHR 0x0A \<notin> set (render_line kvs)" if "kvs \<in> set rows" for kvs
    unfolding render_line_def using assms(2) that
    by (intro nl) (fastforce simp: render_field_def plain_field_def)
  then have "split_on (CHR 0x0A) (join_with [CHR 0x0A] (map render_line rows)) = map render_line rows"
    using assms(1) by (intro split_join) auto
  then show ?thesis using assms(2) by (simp add: parseLines_def parse_each_line_render)
qed

text \<open>The malformed tokens: a word without an equals sign, or with a key of less than five bytes.\<close>

lemma parse_token_panics:
  "(\<exists>e. parse_token t = Panic e) \<longleftrightarrow> CHR ''='' \<notin> set t \<or> length (hd (split_on (CHR ''='') t)) < 5"
proof (cases "CHR ''='' \<in> set t")
  case True
  then obtain k v where t: "t = k @ CHR ''='' # v" "CHR ''='' \<notin> set k" by (metis split_list_first)
  then have "split_on (CHR ''='') t = k # split_on (CHR ''='') v" by (simp add: split_on_append_sep)
  then show ?thesis using True
    by (cases "split_on (CHR ''='') v") (auto simp: parse_token_def)
qed (simp add: parse_token_def)

lemma parse_tokens_panics:
  "(\<exists>e. parse_tokens ts m = Panic e) \<longleftrightarrow> (\<exists>t \<in> set ts. t \<noteq> [] \<and> (\<exists>e. parse_token t = Panic e))"
  by (induction ts arbitrary: m) (auto split: outcome.splits)

lemma parseOneLine_panics:
  "(\<exists>e. parseOneLine line = Panic e) \<longleftrightarrow>
   (\<exists>t \<in> set (split_on (CHR '' '') (trim_space line)).
      t \<noteq> [] \<and> (CHR ''='' \<notin> set t \<or> length (hd (split_on (CHR ''='') t)) < 5))"
  by (simp add: parseOneLine_def parse_tokens_panics parse_token_panics)

lemma parse_each_line_panics:
  "(\<exists>e. parse_each_line lines = Panic e) \<longleftrightarrow>
   (\<exists>line \<in> set lines. \<exists>t \<in> set (split_on (CHR '' '') (trim_space line)).
      t \<noteq> [] \<and> (CHR ''='' \<notin> set t \<or> length (hd (split_on (CHR ''='') t)) < 5))"
proof (induction lines)
  case (Cons l ls)
  have "parse_each_line (l # ls) = Panic e \<longleftrightarrow>
      (if l = [] then parse_each_line ls = Panic e
       else parseOneLine l = Panic e \<or> (\<exists>i. parseOneLine l = Ret i) \<and> parse_each_line ls = Panic e)" for e
    by (auto split: outcome.splits)
  moreover have "parseOneLine [] = Ret []" by (simp add: parseOneLine_def trim_space_def trim_where_def)
  moreover have "(\<exists>e. parseOneLine l = Panic e) \<or> (\<exists>i. parseOneLine l = Ret i)" by (cases "parseOneLine l") auto
  ultimately show ?case using Cons.IH parseOneLine_panics [of l] by (cases "l = []") auto
qed simp

section \<open>Which commands are run\<close>

text \<open>The reporting commands, which change nothing.\<close>

definition lvm_query :: "event \<Rightarrow> bool" where
  "lvm_query ev \<longleftrightarrow> (\<exists>flds args. ev = lvm_ev (parseOutput_args ''vgs'' flds args)
     \<or> ev = lvm_ev (parseOutput_args ''pvs'' flds args))"

lemma lvm_query_intros [simp, intro]:
  "lvm_query (lvm_ev (parseOutput_args ''vgs'' flds args))"
  "lvm_query (lvm_ev (parseOutput_args ''pvs'' flds args))"
  unfolding lvm_query_def by blast+

lemma only_issues_parseOutput [issues]:
  "(\<And>a. P (lvm_ev (parseOutput_args c f a))) \<Longrightarrow> only_issues P (parseOutput E c f a)"
  unfolding parseOutput_def wrapExecCommandWithOutput_def
  by (auto intro!: issues simp: lvm_ev_def)

lemma only_issues_queries [issues]:
  "only_issues lvm_query (GetVolumeGroups E)"
  "only_issues lvm_query (GetPhysicalVolume E vg)"
  "only_issues lvm_query (CheckPVHasLogicalVolume E pv)"
  "only_issues lvm_query (CheckVgHasLogicalVolume E vg)"
  "only_issues lvm_query (GetVolumeGroupSize E vg)"
  unfolding GetVolumeGroups_def GetPhysicalVolume_def CheckPVHasLogicalVolume_def
    CheckVgHasLogicalVolume_def GetVolumeGroupSize_def
  by (auto intro!: issues)

lemma only_issues_each [issues]:
  "(\<And>x. x \<in> set xs \<Longrightarrow> only_issues P (f x)) \<Longrightarrow> only_issues P (each_until_error f xs)"
  by (induction xs) (auto intro!: issues)

lemma only_issues_check_pvs_free [issues]: "only_issues lvm_query (check_pvs_free E pvs)"
  unfolding check_pvs_free_def by (auto intro!: issues)

text \<open>
  A fold over commands that all succeed runs them all in order; it returns nil exactly then.
\<close>

lemma each_until_error_cmds:
  "wp (each_until_error (\<lambda>x. wrapExecCommand E ''lvm'' (args x)) xs)
     (\<lambda>r t. \<exists>n \<le> length xs. trace t = trace s @ map (\<lambda>x. lvm_ev (args x)) (take n xs) \<and> (r = None \<longrightarrow> n = length xs))
     (\<lambda>_ _. False) s"
proof (induction xs arbitrary: s)
  case Nil
  then show ?case by (simp add: wpg)
next
  case (Cons x xs)
  let ?Q = "\<lambda>s xs r t. \<exists>n \<le> length xs. trace t = trace s @ map (\<lambda>x. lvm_ev (args x)) (take n xs) \<and> (r = None \<longrightarrow> n = length xs)"
  have ok: "wp (each_until_error (\<lambda>x. wrapExecCommand E ''lvm'' (args x)) xs) (?Q s (x # xs)) (\<lambda>_ _. False)
      (record_event (lvm_ev (args x)) w s)" for w
    by (rule wp_mono [OF Cons.IH]) (auto intro: exI [of _ "Suc _"])
  have err: "?Q s (x # xs) (Some e) (record_event (lvm_ev (args x)) w s)" for e w
    by (auto intro!: exI [of _ "Suc 0"])
  have "wp (case e of Some er \<Rightarrow> go_return (Some er)
        | None \<Rightarrow> each_until_error (\<lambda>x. wrapExecCommand E ''lvm'' (args x)) xs)
      (?Q s (x # xs)) (\<lambda>_ _. False) (record_event (lvm_ev (args x)) w s)" for e w
    using ok err by (cases e) (simp_all only: option.case wp_return)
  then show ?case by (simp add: wp_bind wp_lvm_cmd)
qed

section \<open>Destructive operations are guarded\<close>

text \<open>
  \<open>grown lvm_query s t\<close> says that nothing but reports ran between \<open>s\<close> and \<open>t\<close>.
  If the check on the group does not answer that it is free of logical volumes, nothing else runs.
\<close>

lemma RemoveVolumeGroup_guarded:
  assumes "fst (CheckVgHasLogicalVolume E vg s) \<noteq> Ret (Inr False)"
  shows "grown lvm_query s (snd (RemoveVolumeGroup E vg s)) \<and> fst (RemoveVolumeGroup E vg s) \<noteq> Ret None"
proof -
  obtain r t where r: "CheckVgHasLogicalVolume E vg s = (r, t)" by (cases "CheckVgHasLogicalVolume E vg s")
  then have g: "grown lvm_query s t" by (blast intro: only_issuesD issues)
  show ?thesis
  proof (cases r)
    case (Panic e)
    then show ?thesis using r g by (simp add: RemoveVolumeGroup_def go_bind_def)
  next
    case (Ret x)
    then show ?thesis using r g assms
      by (cases x) (auto simp: RemoveVolumeGroup_def go_bind_def go_return_def)
  qed
qed

text \<open>
  Where it reports success, the trace is: the check, the list of physical volumes, the removal
  of the group, then the removal of the label of every physical volume listed, once each.
\<close>

lemma RemoveVolumeGroup_success:
  assumes "RemoveVolumeGroup E vg s = (Ret None, t)"
  shows "\<exists>s1 s2 pvs ks. CheckVgHasLogicalVolume E vg s = (Ret (Inr False), s1) \<and>
      GetPhysicalVolume E vg s1 = (Ret (Inr pvs), s2) \<and> set ks = set (gm_keys pvs) \<and> length ks = length pvs \<and>
      trace t = trace s2 @ [lvm_ev [''vgremove'', vg]] @ map (\<lambda>k. lvm_ev [''pvremove'', k]) ks"
proof -
  obtain s1 where check: "CheckVgHasLogicalVolume E vg s = (Ret (Inr False), s1)"
    using RemoveVolumeGroup_guarded [of E vg s] assms by (cases "CheckVgHasLogicalVolume E vg s") auto
  obtain r s2 where pv: "GetPhysicalVolume E vg s1 = (r, s2)" by (cases "GetPhysicalVolume E vg s1")
  obtain pvs where r: "r = Ret (Inr pvs)"
    using assms check pv
    by (auto simp: RemoveVolumeGroup_def go_bind_def go_return_def split: outcome.splits sum.splits)
  obtain e w where ex: "ExecuteCommand E ''nsenter'' (nsenter_args ''lvm'' [''vgremove'', vg]) (world s2) = (e, w)"
    by (cases "ExecuteCommand E ''nsenter'' (nsenter_args ''lvm'' [''vgremove'', vg]) (world s2)")
  let ?s3 = "record_event (lvm_ev [''vgremove'', vg]) w s2"
  obtain rank w' where rank: "MapRank E w = (rank, w')" by (cases "MapRank E w")
  let ?ks = "sort_key rank (gm_keys pvs)"
  have cmd: "wrapExecCommand E ''lvm'' [''vgremove'', vg] s2 = (Ret e, ?s3)"
    using ex by (simp add: wrapExecCommand_def run_cmd_def lvm_ev_def)
  have e: "e = None" using assms check pv r cmd
    by (cases e) (auto simp: RemoveVolumeGroup_def go_bind_def go_return_def)
  have run: "each_until_error (\<lambda>key. wrapExecCommand E ''lvm'' [''pvremove'', key]) ?ks
      (?s3\<lparr>world := w'\<rparr>) = (Ret None, t)"
    using assms check pv r cmd e rank by (simp add: RemoveVolumeGroup_def go_bind_def go_range_def)
  have "trace t = trace s2 @ [lvm_ev [''vgremove'', vg]] @ map (\<lambda>k. lvm_ev [''pvremove'', k]) ?ks"
    using wp_retD [OF each_until_error_cmds run] by auto
  moreover have "set ?ks = set (gm_keys pvs)" "length ?ks = length pvs" by (simp_all add: gm_keys_def)
  ultimately show ?thesis using check pv r by blast
qed

text \<open>
  \<open>ShrinkVolumeGroup\<close>: the group is reduced only after each of the volumes to be removed
  was checked and found free, and then the labels are removed from the same volumes.
\<close>

lemma check_pvs_free_None:
  "check_pvs_free E pvs s = (Ret None, t) \<Longrightarrow>
   \<forall>pv \<in> set pvs. \<exists>s1 s2. CheckPVHasLogicalVolume E pv s1 = (Ret (Inr False), s2)"
proof (induction pvs arbitrary: s)
  case (Cons pv pvs)
  obtain r s1 where r: "CheckPVHasLogicalVolume E pv s = (r, s1)" by (cases "CheckPVHasLogicalVolume E pv s")
  have free: "r = Ret (Inr False)"
    using Cons.prems r
    by (auto simp: check_pvs_free_def go_bind_def go_return_def split: outcome.splits sum.splits if_splits)
  then have "check_pvs_free E pvs s1 = (Ret None, t)"
    using Cons.prems r by (simp add: check_pvs_free_def go_bind_def go_return_def)
  then show ?case using Cons.IH r free by auto
qed simp

lemma ShrinkVolumeGroup_guarded:
  assumes "fst (check_pvs_free E pvs s) \<noteq> Ret None"
  shows "grown lvm_query s (snd (ShrinkVolumeGroup E vg pvs s)) \<and> fst (ShrinkVolumeGroup E vg pvs s) \<noteq> Ret None"
proof -
  obtain r t where r: "check_pvs_free E pvs s = (r, t)" by (cases "check_pvs_free E pvs s")
  then have g: "grown lvm_query s t" by (blast intro: only_issuesD issues)
  show ?thesis
    using r g assms
    by (cases r) (auto simp: ShrinkVolumeGroup_def go_bind_def go_return_def split: option.splits)
qed

lemma ShrinkVolumeGroup_success:
  assumes "fst (ShrinkVolumeGroup E vg pvs s) = Ret None"
  shows "\<exists>s1. check_pvs_free E pvs s = (Ret None, s1) \<and> grown lvm_query s s1 \<and>
    trace (snd (ShrinkVolumeGroup E vg pvs s)) =
      trace s1 @ [lvm_ev ([''vgreduce'', vg] @ pvs), lvm_ev ([''pvremove''] @ pvs)]"
proof -
  obtain s1 where check: "check_pvs_free E pvs s = (Ret None, s1)"
    using ShrinkVolumeGroup_guarded [of E pvs s vg] assms by (cases "check_pvs_free E pvs s") auto
  then have "grown lvm_query s s1" by (blast intro: only_issuesD issues)
  moreover have "trace (snd (ShrinkVolumeGroup E vg pvs s)) =
      trace s1 @ [lvm_ev ([''vgreduce'', vg] @ pvs), lvm_ev ([''pvremove''] @ pvs)]"
    using assms check
    by (auto simp: ShrinkVolumeGroup_def go_bind_def go_return_def wrapExecCommand_def run_cmd_def lvm_ev_def
        split: prod.splits option.splits)
  ultimately show ?thesis using check by blast
qed

text \<open>\<open>CreateVolumeGroup\<close> labels the disks in order and creates the group last, only if all labels were written.\<close>

lemma CreateVolumeGroup_commands:
  defines "label \<equiv> \<lambda>d. lvm_ev [''pvcreate'', Disk_Name d]"
  shows "wp (CreateVolumeGroup E disks vg)
     (\<lambda>r t.
        (trace t = trace s @ map label disks @ [lvm_ev ([''vgcreate'', vg] @ map Disk_Name disks)]) \<or>
        (r \<noteq> None \<and> (\<exists>n \<le> length disks. trace t = trace s @ map label (take n disks))))
     (\<lambda>_ _. False) s"
proof -
  have *: "wp (each_until_error (\<lambda>dev. wrapExecCommand E ''lvm'' [''pvcreate'', Disk_Name dev]) disks)
     (\<lambda>r t. \<exists>n \<le> length disks. trace t = trace s @ map label (take n disks) \<and> (r = None \<longrightarrow> n = length disks))
     (\<lambda>_ _. False) s"
    unfolding label_def by (rule each_until_error_cmds)
  show ?thesis
    unfolding CreateVolumeGroup_def wp_bind
    by (rule wp_mono [OF *]) (auto simp: wpg split: option.splits)
qed

end
