(* ===== verification/Devices.thy ===== *)
theory Devices
  imports Lvm
begin

text \<open>
  \<open>pkg/util/sys/device.go\<close>: what \<open>lsblk\<close>, \<open>udevadm\<close>, \<open>sgdisk\<close> and
  \<open>dmsetup\<close> report about a block device, and the parsers of their output.
  Proved: the key/value parser reads back what \<open>lsblk --pairs\<close> prints, the partition scan
  returns the unused space modulo \<open>2^64\<close>, and all of it only runs reporting commands.
\<close>

definition DiskType :: string where "DiskType = ''disk''"
definition SSDType :: string where "SSDType = ''ssd''"
definition PartType :: string where "PartType = ''part''"
definition CryptType :: string where "CryptType = ''crypt''"
definition LVMType :: string where "LVMType = ''lvm''"
definition MultiPath :: string where "MultiPath = ''mpath''"
definition LinearType :: string where "LinearType = ''linear''"
definition LoopType :: string where "LoopType = ''loop''"

lemmas device_type_defs = DiskType_def SSDType_def PartType_def CryptType_def LVMType_def
  MultiPath_def LinearType_def LoopType_def

record Partition =
  Part_Name :: string
  Part_Size :: "64 word"
  Part_Label :: string
  Part_Filesystem :: string

record LocalDisk =
  LD_Name :: string
  LD_Parent :: string
  LD_HasChildren :: bool
  LD_DevLinks :: string
  LD_Size :: "64 word"
  LD_UUID :: string
  LD_Serial :: string
  LD_Type :: string
  LD_Rotational :: bool
  LD_Readonly :: bool
  LD_Partitions :: "Partition list"
  LD_Filesystem :: string
  LD_Vendor :: string
  LD_Model :: string
  LD_WWN :: string
  LD_WWNVendorExtension :: string
  LD_Empty :: bool
  LD_RealPath :: string
  LD_MountPoint :: string
  LD_KernelName :: string
  LD_Encrypted :: bool

definition zero_LocalDisk :: LocalDisk where
  "zero_LocalDisk = \<lparr>LD_Name = [], LD_Parent = [], LD_HasChildren = False, LD_DevLinks = [],
     LD_Size = 0, LD_UUID = [], LD_Serial = [], LD_Type = [], LD_Rotational = False,
     LD_Readonly = False, LD_Partitions = [], LD_Filesystem = [], LD_Vendor = [], LD_Model = [],
     LD_WWN = [], LD_WWNVendorExtension = [], LD_Empty = False, LD_RealPath = [],
     LD_MountPoint = [], LD_KernelName = [], LD_Encrypted = False\<rparr>"

record LocalDiskAppendInfo =
  LDI_LocalDisk :: LocalDisk
  LDI_Available :: bool
  LDI_Message :: string

section \<open>Parsers\<close>

text \<open>\<open>foo="0" bar="1"\<close>: pairs that do not split into exactly two parts are skipped.\<close>

definition parse_pair :: "string \<Rightarrow> string gomap \<Rightarrow> string gomap" where
  "parse_pair kvpRaw propMap = (case split_on (CHR ''='') kvpRaw of
      [k, v] \<Rightarrow> gm_put k (remove_char (CHR 0x22) v) propMap
    | _ \<Rightarrow> propMap)"

definition parseKeyValuePairString :: "string \<Rightarrow> string gomap" where
  "parseKeyValuePairString propsRaw = fold parse_pair (split_on (CHR '' '') propsRaw) []"

definition parse_udev_line :: "string \<Rightarrow> string gomap \<Rightarrow> string gomap" where
  "parse_udev_line v result = (case split_on (CHR ''='') v of
      p0 # p1 # _ \<Rightarrow> gm_put p0 p1 result
    | _ \<Rightarrow> result)"

definition parseUdevInfo :: "string \<Rightarrow> string gomap" where
  "parseUdevInfo output = fold parse_udev_line (split_on (CHR 0x0A) output) []"

definition parseFS :: "string \<Rightarrow> string" where
  "parseFS output = gm_get_default [] (parseUdevInfo output) ''ID_FS_TYPE''"

definition parseUUID :: "'w executor \<Rightarrow> string \<Rightarrow> string \<Rightarrow> go_error + string" where
  "parseUUID E device output =
     (let guid_lines = filter (\<lambda>l. str_contains l ''Disk identifier (GUID)'') (split_on (CHR 0x0A) output);
          uuids = List.map_filter (UuidParse E) (concat (map (split_on (CHR '' '')) guid_lines))
      in case uuids of
           result # _ \<Rightarrow> Inr result
         | [] \<Rightarrow> Inl (errorf (''uuid not found for device '' @ device @ ''. output='' @ output)))"

section \<open>Commands\<close>

definition ExitStatus :: "go_error \<Rightarrow> int option" where
  "ExitStatus e = (case err_kind e of ErrExit n \<Rightarrow> Some n | _ \<Rightarrow> None)"

definition ListDevices :: "'w executor \<Rightarrow> ('w host, go_error + string list) go" where
  "ListDevices E =
     go_bind (run_out E ''lsblk'' [''--all'', ''--noheadings'', ''--list'', ''--output'', ''KNAME'']) (\<lambda>(devices, err).
       case err of
         Some e \<Rightarrow> go_return (Inl (errorf (''failed to list all devices: '' @ err_msg e)))
       | None \<Rightarrow> go_return (Inr (split_on (CHR 0x0A) devices)))"

text \<open>A name without a slash is taken as a device below \<open>/dev\<close>.\<close>

definition device_path :: "string \<Rightarrow> string" where
  "device_path device =
     (if length (split_on (CHR ''/'') device) = 1 then ''/dev/'' @ device else device)"

definition GetUdevInfo :: "'w executor \<Rightarrow> string \<Rightarrow> ('w host, go_error + string gomap) go" where
  "GetUdevInfo E device =
     go_bind (run_out E ''udevadm'' [''info'', ''--query=property'', ''/dev/'' @ device]) (\<lambda>(output, err).
       case err of
         Some e \<Rightarrow> go_return (Inl e)
       | None \<Rightarrow> go_return (Inr (parseUdevInfo output)))"

definition GetDeviceFilesystems :: "'w executor \<Rightarrow> string \<Rightarrow> ('w host, go_error + string) go" where
  "GetDeviceFilesystems E device =
     go_bind (run_out E ''udevadm'' [''info'', ''--query=property'', device_path device]) (\<lambda>(output, err).
       case err of
         Some e \<Rightarrow> go_return (Inl e)
       | None \<Rightarrow> go_return (Inr (parseFS output)))"

text \<open>
  The loop of \<open>GetDevicePartitions\<close> over the lines of \<open>lsblk\<close>; the loop variables are
  the device size, the total of the partitions and the partitions found.
\<close>

definition partition_step ::
    "'w executor \<Rightarrow> string \<Rightarrow> string \<Rightarrow> 64 word \<times> 64 word \<times> Partition list \<Rightarrow>
     ('w host, go_error + 64 word \<times> 64 word \<times> Partition list) go" where
  "partition_step E device info = (\<lambda>(deviceSize, totalPartitionSize, partitions).
     let props = parseKeyValuePairString info;
         name = gm_get_default [] props ''NAME''
     in if name = device then
          (case ParseUint (gm_get_default [] props ''SIZE'') of
            Inl e \<Rightarrow> go_return (Inl (errorf (''failed to get device '' @ device @ '' size. '' @ err_msg e)))
          | Inr sz \<Rightarrow> go_return (Inr (sz, totalPartitionSize, partitions)))
        else if gm_get_default [] props ''PKNAME'' = device \<and> gm_get_default [] props ''TYPE'' = PartType then
          (case ParseUint (gm_get_default [] props ''SIZE'') of
            Inl e \<Rightarrow> go_return (Inl (errorf (''failed to get partition '' @ name @ '' size. '' @ err_msg e)))
          | Inr sz \<Rightarrow>
              go_bind (GetUdevInfo E name) (\<lambda>r. case r of
                Inl e \<Rightarrow> go_return (Inl e)
              | Inr udev \<Rightarrow>
                  let label = (case gm_get udev ''ID_PART_ENTRY_NAME'' of
                                 Some v \<Rightarrow> v
                               | None \<Rightarrow> gm_get_default [] udev ''PARTNAME'')
                  in go_return (Inr (deviceSize, totalPartitionSize + sz, partitions @
                       [\<lparr>Part_Name = name, Part_Size = sz, Part_Label = label,
                         Part_Filesystem = gm_get_default [] udev ''ID_FS_TYPE''\<rparr>]))))
        else go_return (Inr (deviceSize, totalPartitionSize, partitions)))"

definition GetDevicePartitions ::
    "'w executor \<Rightarrow> string \<Rightarrow> ('w host, go_error + Partition list \<times> 64 word) go" where
  "GetDevicePartitions E device =
     go_bind (run_out E ''lsblk'' [device_path device, ''--bytes'', ''--pairs'', ''--output'', ''NAME,SIZE,TYPE,PKNAME''])
       (\<lambda>(output, err). case err of
         Some e \<Rightarrow> go_return (Inl (errorf (''failed to get device '' @ device @ '' partitions. '' @ err_msg e)))
       | None \<Rightarrow>
           go_bind (go_loop (partition_step E device) (split_on (CHR 0x0A) output) (0, 0, [])) (\<lambda>r. case r of
             Inl e \<Rightarrow> go_return (Inl e)
           | Inr (deviceSize, totalPartitionSize, partitions) \<Rightarrow>
               go_return (Inr (partitions, if deviceSize > 0 then deviceSize - totalPartitionSize else 0))))"

definition GetDevicePropertiesFromPath ::
    "'w executor \<Rightarrow> string \<Rightarrow> ('w host, go_error + string gomap) go" where
  "GetDevicePropertiesFromPath E devicePath =
     go_bind (run_out E ''lsblk'' [devicePath, ''--bytes'', ''--nodeps'', ''--pairs'', ''--paths'', ''--output'',
         ''SIZE,ROTA,RO,TYPE,PKNAME,NAME,KNAME,MOUNTPOINT'']) (\<lambda>(output, err).
       case err of
         Some e \<Rightarrow>
           if str_contains output ''not a block device'' then go_return (Inl e)
           else if ExitStatus e = Some 32 then go_return (Inr [])
           else go_return (Inl e)
       | None \<Rightarrow> go_return (Inr (parseKeyValuePairString output)))"

definition GetDeviceProperties :: "'w executor \<Rightarrow> string \<Rightarrow> ('w host, go_error + string gomap) go" where
  "GetDeviceProperties E device = GetDevicePropertiesFromPath E (device_path device)"

definition IsLV :: "'w executor \<Rightarrow> string \<Rightarrow> ('w host, go_error + bool) go" where
  "IsLV E devicePath =
     go_bind (GetDevicePropertiesFromPath E devicePath) (\<lambda>r. case r of
       Inl e \<Rightarrow> go_return (Inl (errorf (''failed to get device properties for '' @ devicePath @ '': '' @ err_msg e)))
     | Inr devProps \<Rightarrow>
         (case gm_get devProps ''TYPE'' of
           None \<Rightarrow> go_return (Inl (errorf (''TYPE property is not found for '' @ devicePath)))
         | Some diskType \<Rightarrow> go_return (Inr (diskType = LVMType))))"

definition GetDiskUUID :: "'w executor \<Rightarrow> string \<Rightarrow> ('w host, go_error + string) go" where
  "GetDiskUUID E device0 =
     go_bind (look_path E ''sgdisk'') (\<lambda>found.
       if \<not> found then go_return (Inr ''sgdiskNotFound'')
       else let device = device_path device0 in
         go_bind (run_out E ''sgdisk'' [''--print'', device]) (\<lambda>(output, err). case err of
           Some e \<Rightarrow> go_return (Inl e)
         | None \<Rightarrow> go_return (parseUUID E device output)))"

definition GetLVName :: "'w executor \<Rightarrow> string \<Rightarrow> ('w host, go_error + string) go" where
  "GetLVName E devicePath =
     go_bind (run_out E ''dmsetup'' [''info'', ''-c'', ''--noheadings'', ''-o'', ''name'', devicePath]) (\<lambda>(devInfo, err).
       case err of
         Some e \<Rightarrow> go_return (Inl (errorf (''failed to execute dmsetup info for '' @ devicePath @ ''. '' @ err_msg e)))
       | None \<Rightarrow>
           go_bind (run_out E ''dmsetup'' [''splitname'', ''--noheadings'', devInfo]) (\<lambda>(out, err). case err of
             Some e \<Rightarrow> go_return (Inl (errorf (''failed to execute dmsetup splitname for '' @ devInfo @ ''. '' @ err_msg e)))
           | None \<Rightarrow>
               (case split_on (CHR '':'') out of
                 vg # lv # _ \<Rightarrow> go_return (Inr (vg @ ''/'' @ lv))
               | _ \<Rightarrow> go_return (Inl (errorf (''dmsetup splitname returned unexpected result for '' @ devInfo
                          @ ''. output: '' @ out))))))"

text \<open>\<open>ListDevicesChild\<close>: with an error the list is empty, and the callers go on with it.\<close>

definition ListDevicesChild :: "'w executor \<Rightarrow> string \<Rightarrow> ('w host, string list \<times> go_error option) go" where
  "ListDevicesChild E device =
     go_bind (run_out E ''lsblk'' [''--noheadings'', ''--pairs'', path_join_dev device]) (\<lambda>(childListRaw, err).
       case err of
         Some e \<Rightarrow> go_return ([], Some (errorf (''failed to list child devices of '' @ device @ ''. '' @ err_msg e)))
       | None \<Rightarrow> go_return (split_on (CHR 0x0A) childListRaw, None))"

section \<open>Only reports\<close>

definition report_cmd :: "event \<Rightarrow> bool" where
  "report_cmd ev \<longleftrightarrow> (\<exists>args. ev = Exec ''lsblk'' args) \<or> (\<exists>d. ev = Exec ''udevadm'' [''info'', ''--query=property'', d])
     \<or> (\<exists>d. ev = Exec ''sgdisk'' [''--print'', d]) \<or> (\<exists>args. ev = Exec ''dmsetup'' (''info'' # args))
     \<or> (\<exists>args. ev = Exec ''dmsetup'' (''splitname'' # args))"

lemma report_cmd_intros [simp, intro]:
  "report_cmd (Exec ''lsblk'' args)"
  "report_cmd (Exec ''udevadm'' [''info'', ''--query=property'', d])"
  "report_cmd (Exec ''sgdisk'' [''--print'', d])"
  "report_cmd (Exec ''dmsetup'' (''info'' # args))"
  "report_cmd (Exec ''dmsetup'' (''splitname'' # args))"
  by (auto simp: report_cmd_def)

lemma device_reports [issues]:
  "only_issues report_cmd (ListDevices E)"
  "only_issues report_cmd (GetUdevInfo E d)"
  "only_issues report_cmd (GetDeviceFilesystems E d)"
  "only_issues report_cmd (GetDevicePropertiesFromPath E d)"
  "only_issues report_cmd (GetDeviceProperties E d)"
  "only_issues report_cmd (GetDiskUUID E d)"
  "only_issues report_cmd (GetLVName E d)"
  "only_issues report_cmd (ListDevicesChild E d)"
  unfolding ListDevices_def GetUdevInfo_def GetDeviceFilesystems_def GetDevicePropertiesFromPath_def
    GetDeviceProperties_def GetDiskUUID_def GetLVName_def ListDevicesChild_def
  by (auto intro!: issues)

section \<open>Parsing back\<close>

definition render_pair :: "string \<times> string \<Rightarrow> string" where
  "render_pair kv = fst kv @ ''='' @ [CHR 0x22] @ snd kv @ [CHR 0x22]"

definition plain_pair :: "string \<times> string \<Rightarrow> bool" where
  "plain_pair kv \<longleftrightarrow> set (fst kv) \<inter> {CHR '' '', CHR ''=''} = {} \<and>
     set (snd kv) \<inter> {CHR '' '', CHR ''='', CHR 0x22} = {}"

lemma parse_pair_render:
  assumes "plain_pair kv" shows "parse_pair (render_pair kv) m = gm_put (fst kv) (snd kv) m"
proof -
  let ?val = "CHR 0x22 # snd kv @ [CHR 0x22]"
  have "CHR ''='' \<notin> set (fst kv)" "CHR ''='' \<notin> set ?val" and q: "CHR 0x22 \<notin> set (snd kv)"
    using assms by (auto simp: plain_pair_def)
  then have "split_on (CHR ''='') (fst kv @ CHR ''='' # ?val) = [fst kv, ?val]"
    by (intro split_on_two)
  moreover have "remove_char (CHR 0x22) ?val = snd kv" using q by (auto simp: remove_char_def filter_id_conv)
  ultimately show ?thesis by (simp add: parse_pair_def render_pair_def del: split_on.simps)
qed

lemma parse_pairs_render:
  "\<forall>kv \<in> set kvs. plain_pair kv \<Longrightarrow> fold parse_pair (map render_pair kvs) m = gm_build fst snd kvs m"
  by (induction kvs arbitrary: m) (simp_all add: parse_pair_render gm_build_def)

lemma parseKeyValuePairString_render:
  assumes "kvs \<noteq> []" "\<forall>kv \<in> set kvs. plain_pair kv"
  shows "parseKeyValuePairString (join_with '' '' (map render_pair kvs)) = gm_build fst snd kvs []"
proof -
  have "\<forall>w \<in> set (map render_pair kvs). CHR '' '' \<notin> set w"
    using assms(2) by (auto simp: render_pair_def plain_pair_def)
  then have "split_on (CHR '' '') (join_with '' '' (map render_pair kvs)) = map render_pair kvs"
    using assms(1) by (intro split_join) auto
  then show ?thesis using assms(2) by (simp add: parseKeyValuePairString_def parse_pairs_render)
qed

section \<open>Partitions\<close>

text \<open>
  The reference reading of the \<open>lsblk\<close> lines: the size of the device is that of the last
  line named like it, and a partition is a line whose parent is the device.
\<close>

definition line_prop :: "string \<Rightarrow> string \<Rightarrow> string" where
  "line_prop key line = gm_get_default [] (parseKeyValuePairString line) key"

definition line_size :: "string \<Rightarrow> 64 word" where
  "line_size line = (case ParseUint (line_prop ''SIZE'' line) of Inl e \<Rightarrow> 0 | Inr w \<Rightarrow> w)"

definition is_partition_line :: "string \<Rightarrow> string \<Rightarrow> bool" where
  "is_partition_line device line \<longleftrightarrow> line_prop ''NAME'' line \<noteq> device \<and>
     line_prop ''PKNAME'' line = device \<and> line_prop ''TYPE'' line = PartType"

definition device_size :: "string \<Rightarrow> string list \<Rightarrow> 64 word" where
  "device_size device ls = fold (\<lambda>l d. if line_prop ''NAME'' l = device then line_size l else d) ls 0"

definition partitions_inv ::
    "string \<Rightarrow> string list \<Rightarrow> 64 word \<times> 64 word \<times> Partition list \<Rightarrow> bool" where
  "partitions_inv device ls = (\<lambda>(d, totalPartitionSize, ps).
     d = device_size device ls \<and> totalPartitionSize = sum_list (map Part_Size ps) \<and>
     map Part_Name ps = map (line_prop ''NAME'') (filter (is_partition_line device) ls) \<and>
     map Part_Size ps = map line_size (filter (is_partition_line device) ls))"

lemma partition_step_inv:
  assumes "partitions_inv device ls b"
  shows "wp (partition_step E device l b)
     (\<lambda>r t. case r of Inl e \<Rightarrow> True | Inr b' \<Rightarrow> partitions_inv device (ls @ [l]) b') (\<lambda>_ _. True) s"
  using assms
  by (cases b)
     (auto simp: partition_step_def Let_def wpg GetUdevInfo_def partitions_inv_def device_size_def
        line_size_def is_partition_line_def simp flip: line_prop_def
        split: sum.splits prod.splits option.splits)

lemma partition_loop_inv:
  "wp (go_loop (partition_step E device) ls (0, 0, []))
     (\<lambda>r t. case r of Inl e \<Rightarrow> True | Inr b \<Rightarrow> partitions_inv device ls b) (\<lambda>_ _. True) s"
proof (rule wp_go_loop_prefix [where I = "\<lambda>ls b t. partitions_inv device ls b"])
  show "partitions_inv device [] (0, 0, [])" by (simp add: partitions_inv_def device_size_def)
qed (rule partition_step_inv)

text \<open>
  \<open>GetDevicePartitions\<close> returns the partitions of the lines in order with their sizes, and
  as unused space the device size less their sum, modulo \<open>2^64\<close>.
\<close>

definition unused_space :: "string \<Rightarrow> string list \<Rightarrow> 64 word" where
  "unused_space device ls = (if device_size device ls > 0
     then device_size device ls - sum_list (map line_size (filter (is_partition_line device) ls)) else 0)"

lemma GetDevicePartitions_result:
  assumes "ExecuteCommandWithOutput E ''lsblk''
      [device_path device, ''--bytes'', ''--pairs'', ''--output'', ''NAME,SIZE,TYPE,PKNAME''] (world s) = ((out, None), w)"
  defines "ls \<equiv> split_on (CHR 0x0A) out"
  shows "wp (GetDevicePartitions E device)
     (\<lambda>r t. case r of Inl e \<Rightarrow> True
       | Inr (ps, unused) \<Rightarrow>
           map Part_Name ps = map (line_prop ''NAME'') (filter (is_partition_line device) ls) \<and>
           map Part_Size ps = map line_size (filter (is_partition_line device) ls) \<and>
           unused = unused_space device ls)
     (\<lambda>_ _. True) s"
  unfolding GetDevicePartitions_def wp_bind wp_run_out assms(1) prod.inject
  apply (clarsimp simp: wp_bind simp flip: ls_def)
  apply (rule wp_mono [OF partition_loop_inv])
   apply (auto simp: wpg partitions_inv_def unused_space_def split: sum.splits)
  done

end
