(* ===== verification/Disks.thy ===== *)
theory Disks
  imports Devices
begin

text \<open>
  \<open>pkg/util/sys/disks.go\<close> and \<open>ReSetupLoop\<close> of \<open>loop.go\<close>: discovery of the block
  devices of a node and the choice of those that may carry a volume group.
  Proved: \<open>GetAvailableDevices\<close> only offers devices of a supported type, of at least
  2 GiB, without a file system and without a mount point, each under its \<open>/dev\<close> path;
  \<open>GetAllDevices\<close> reports every discovered device once and marks exactly the same
  ones available, except parents of partitions; discovery runs reporting commands only.
\<close>

definition diskPrefix :: string where "diskPrefix = ''/dev/''"

definition supportedDeviceType :: "string \<Rightarrow> bool" where
  "supportedDeviceType device \<longleftrightarrow>
     device = DiskType \<or> device = SSDType \<or> device = CryptType \<or> device = MultiPath \<or>
     device = PartType \<or> device = LinearType \<or> device = LoopType"

text \<open>The fields that \<open>populateDeviceInfo\<close> fills from the properties \<open>lsblk\<close> reports.\<close>

definition disk_of_props :: "string \<Rightarrow> string \<Rightarrow> string gomap \<Rightarrow> LocalDisk" where
  "disk_of_props d diskUUID props = zero_LocalDisk\<lparr>
     LD_Name := d, LD_UUID := diskUUID,
     LD_Type := gm_get_default [] props ''TYPE'',
     LD_Size := (case gm_get props ''SIZE'' of None \<Rightarrow> 0
        | Some v \<Rightarrow> (case ParseUint v of Inl _ \<Rightarrow> 0 | Inr sz \<Rightarrow> sz)),
     LD_Rotational := (case gm_get props ''ROTA'' of None \<Rightarrow> False
        | Some v \<Rightarrow> (case ParseBool v of Inl _ \<Rightarrow> False | Inr b \<Rightarrow> b)),
     LD_Readonly := (case gm_get props ''RO'' of None \<Rightarrow> False
        | Some v \<Rightarrow> (case ParseBool v of Inl _ \<Rightarrow> False | Inr b \<Rightarrow> b)),
     LD_Parent := (case gm_get props ''PKNAME'' of None \<Rightarrow> []
        | Some v \<Rightarrow> if v \<noteq> [] then path_base v else []),
     LD_RealPath := gm_get_default [] props ''NAME'',
     LD_KernelName := (case gm_get props ''KNAME'' of None \<Rightarrow> [] | Some v \<Rightarrow> path_base v),
     LD_MountPoint := (case gm_get props ''MOUNTPOINT'' of None \<Rightarrow> []
        | Some v \<Rightarrow> if v \<noteq> [] then path_base v else [])\<rparr>"

definition populateDeviceInfo :: "'w executor \<Rightarrow> string \<Rightarrow> ('w host, go_error + LocalDisk) go" where
  "populateDeviceInfo E d =
     go_bind (GetDeviceProperties E d) (\<lambda>r. case r of
       Inl e \<Rightarrow> go_return (Inl e)
     | Inr diskProps \<Rightarrow>
         (case gm_get diskProps ''TYPE'' of
           None \<Rightarrow> go_return (Inl (errorf ''diskType is empty''))
         | Some diskType \<Rightarrow>
             if \<not> supportedDeviceType diskType
             then go_return (Inl (errorf (''unsupported diskType '' @ diskType)))
             else if diskType \<noteq> PartType then
               go_bind (GetDiskUUID E d) (\<lambda>r. case r of
                 Inl e \<Rightarrow> go_return (Inl e)
               | Inr diskUUID \<Rightarrow> go_return (Inr (disk_of_props d diskUUID diskProps)))
             else go_return (Inr (disk_of_props d [] diskProps))))"

text \<open>A value present in the udev output replaces the field.\<close>

definition udev_field :: "string gomap \<Rightarrow> string \<Rightarrow> string \<Rightarrow> string" where
  "udev_field udevInfo key old = (case gm_get udevInfo key of None \<Rightarrow> old | Some v \<Rightarrow> v)"

definition disk_with_udev :: "string gomap \<Rightarrow> LocalDisk \<Rightarrow> LocalDisk" where
  "disk_with_udev u disk = disk\<lparr>
     LD_DevLinks := udev_field u ''DEVLINKS'' (LD_DevLinks disk),
     LD_Filesystem := udev_field u ''ID_FS_TYPE'' (LD_Filesystem disk),
     LD_Serial := udev_field u ''ID_SERIAL'' (LD_Serial disk),
     LD_Vendor := udev_field u ''ID_VENDOR'' (LD_Vendor disk),
     LD_Model := udev_field u ''ID_MODEL'' (LD_Model disk),
     LD_WWNVendorExtension := udev_field u ''ID_WWN_WITH_EXTENSION'' (LD_WWNVendorExtension disk),
     LD_WWN := udev_field u ''ID_WWN'' (LD_WWN disk)\<rparr>"

definition populateDeviceUdevInfo ::
    "'w executor \<Rightarrow> string \<Rightarrow> LocalDisk \<Rightarrow> ('w host, LocalDisk \<times> go_error option) go" where
  "populateDeviceUdevInfo E d disk =
     go_bind (GetUdevInfo E d) (\<lambda>r. case r of
       Inl e \<Rightarrow> go_return (disk, Some e)
     | Inr udevInfo \<Rightarrow> go_return (disk_with_udev udevInfo disk, None))"

definition discover_step ::
    "'w executor \<Rightarrow> bool \<Rightarrow> string \<Rightarrow> LocalDisk list \<Rightarrow> ('w host, LocalDisk list) go" where
  "discover_step E listParent d disks =
     go_bind (populateDeviceInfo E d) (\<lambda>r. case r of
       Inl _ \<Rightarrow> go_return disks
     | Inr disk0 \<Rightarrow>
         go_bind (populateDeviceUdevInfo E d disk0) (\<lambda>(disk, _).
           if LD_Type disk = DiskType then
             go_bind (ListDevicesChild E d) (\<lambda>(deviceChild, _).
               if \<not> listParent \<and> length deviceChild > 1 then go_return disks
               else go_return (disks @ [disk]))
           else go_return (disks @ [disk])))"

definition DiscoverDevices :: "'w executor \<Rightarrow> bool \<Rightarrow> ('w host, go_error + LocalDisk list) go" where
  "DiscoverDevices E listParent =
     go_bind (ListDevices E) (\<lambda>r. case r of
       Inl e \<Rightarrow> go_return (Inl e)
     | Inr devices \<Rightarrow>
         go_bind (go_fold (discover_step E listParent) devices []) (\<lambda>disks. go_return (Inr disks)))"

definition min_device_size :: "64 word" where
  "min_device_size = 2 * 2 ^ 30"

definition unavailable :: "LocalDisk \<Rightarrow> string \<Rightarrow> LocalDiskAppendInfo" where
  "unavailable device m = \<lparr>LDI_LocalDisk = device, LDI_Available = False, LDI_Message = m\<rparr>"

definition available :: "LocalDisk \<Rightarrow> LocalDiskAppendInfo" where
  "available device = \<lparr>LDI_LocalDisk = device, LDI_Available = True, LDI_Message = []\<rparr>"

definition all_devices_step ::
    "'w executor \<Rightarrow> LocalDisk \<Rightarrow> LocalDiskAppendInfo list \<Rightarrow> ('w host, LocalDiskAppendInfo list) go" where
  "all_devices_step E device res =
     (if LD_Size device < min_device_size then
        go_return (res @ [unavailable device ''size less than 2G''])
      else if LD_Filesystem device \<noteq> [] then
        go_return (res @ [unavailable device (''containe a filesystem '' @ LD_Filesystem device)])
      else if LD_MountPoint device \<noteq> [] then
        go_return (res @ [unavailable device (''has a mount point '' @ LD_MountPoint device)])
      else if LD_Type device = DiskType then
        go_bind (ListDevicesChild E (LD_KernelName device)) (\<lambda>(deviceChild, _).
          if length deviceChild > 1 then go_return (res @ [unavailable device ''has child''])
          else go_return (res @ [available device]))
      else go_return (res @ [available device]))"

definition GetAllDevices :: "'w executor \<Rightarrow> ('w host, go_error + LocalDiskAppendInfo list) go" where
  "GetAllDevices E =
     go_bind (DiscoverDevices E True) (\<lambda>r. case r of
       Inl e \<Rightarrow> go_return (Inl e)
     | Inr disks \<Rightarrow> go_bind (go_fold (all_devices_step E) disks []) (\<lambda>res. go_return (Inr res)))"

text \<open>The filter of \<open>GetAvailableDevices\<close>, and the map it builds.\<close>

definition usable_device :: "LocalDisk \<Rightarrow> bool" where
  "usable_device device \<longleftrightarrow>
     \<not> LD_Size device < min_device_size \<and> LD_Filesystem device = [] \<and> LD_MountPoint device = []"

definition GetAvailableDevices :: "'w executor \<Rightarrow> ('w host, go_error + LocalDisk gomap) go" where
  "GetAvailableDevices E =
     go_bind (DiscoverDevices E False) (\<lambda>r. case r of
       Inl e \<Rightarrow> go_return (Inl e)
     | Inr disks \<Rightarrow>
         go_return (Inr (gm_build (\<lambda>device. diskPrefix @ LD_Name device) (\<lambda>device. device)
           (filter usable_device disks) [])))"

definition ReSetupLoop :: "'w executor \<Rightarrow> string \<Rightarrow> string \<Rightarrow> ('w host, go_error option) go" where
  "ReSetupLoop E filename loop =
     go_bind (DiscoverDevices E False) (\<lambda>r. case r of
       Inl e \<Rightarrow> go_return (Some e)
     | Inr devices \<Rightarrow>
         if \<exists>ele \<in> set devices. ''/dev/'' @ LD_Name ele = loop then go_return None
         else wrapExecCommand E ''losetup'' [loop, filename])"

section \<open>Discovery only reads\<close>

lemma discovery_reports [issues]:
  "only_issues report_cmd (populateDeviceInfo E d)"
  "only_issues report_cmd (populateDeviceUdevInfo E d disk)"
  "only_issues report_cmd (discover_step E lp d disks)"
  "only_issues report_cmd (DiscoverDevices E lp)"
  "only_issues report_cmd (all_devices_step E device res)"
  "only_issues report_cmd (GetAllDevices E)"
  "only_issues report_cmd (GetAvailableDevices E)"
  unfolding populateDeviceInfo_def populateDeviceUdevInfo_def discover_step_def DiscoverDevices_def
    all_devices_step_def GetAllDevices_def GetAvailableDevices_def
  by (auto intro!: issues)

section \<open>What is discovered\<close>

text \<open>Every discovered disk has a supported type, and is listed under a name that was asked for.\<close>

definition discovered_ok :: "string list \<Rightarrow> LocalDisk \<Rightarrow> bool" where
  "discovered_ok names disk \<longleftrightarrow> supportedDeviceType (LD_Type disk) \<and> LD_Name disk \<in> set names"

lemma disk_with_udev_keeps [simp]:
  "LD_Type (disk_with_udev u disk) = LD_Type disk"
  "LD_Name (disk_with_udev u disk) = LD_Name disk"
  "LD_Size (disk_with_udev u disk) = LD_Size disk"
  "LD_MountPoint (disk_with_udev u disk) = LD_MountPoint disk"
  by (simp_all add: disk_with_udev_def)

lemma disk_of_props_sel [simp]:
  "LD_Name (disk_of_props d u p) = d"
  "LD_Type (disk_of_props d u p) = gm_get_default [] p ''TYPE''"
  by (simp_all add: disk_of_props_def)

lemma populateDeviceInfo_ok:
  "wp (populateDeviceInfo E d)
     (\<lambda>r t. case r of Inl e \<Rightarrow> True | Inr disk \<Rightarrow> LD_Name disk = d \<and> supportedDeviceType (LD_Type disk))
     (\<lambda>_ _. True) s"
  unfolding populateDeviceInfo_def wp_bind
  by (rule wp_any) (auto simp: wpg gm_get_default_def split: sum.splits option.splits intro!: wp_any)

lemma populateDeviceUdevInfo_ok:
  "wp (populateDeviceUdevInfo E d disk)
     (\<lambda>r t. LD_Name (fst r) = LD_Name disk \<and> LD_Type (fst r) = LD_Type disk) (\<lambda>_ _. True) s"
  unfolding populateDeviceUdevInfo_def wp_bind
  by (rule wp_any) (auto simp: wpg split: sum.splits)

lemma discover_step_ok:
  assumes "d \<in> set names" "\<forall>x \<in> set disks. discovered_ok names x"
  shows "wp (discover_step E lp d disks) (\<lambda>disks' t. \<forall>x \<in> set disks'. discovered_ok names x) (\<lambda>_ _. True) s"
proof -
  have body: "wp (case x of (disk, _) \<Rightarrow>
           if LD_Type disk = DiskType then
             go_bind (ListDevicesChild E d) (\<lambda>(deviceChild, _).
               if \<not> lp \<and> length deviceChild > 1 then go_return disks
               else go_return (disks @ [disk]))
           else go_return (disks @ [disk])) (\<lambda>disks' t. \<forall>x \<in> set disks'. discovered_ok names x) (\<lambda>_ _. True) t"
    if "LD_Name (fst x) = LD_Name disk0 \<and> LD_Type (fst x) = LD_Type disk0"
      "LD_Name disk0 = d" "supportedDeviceType (LD_Type disk0)" for x disk0 t
    using that assms
    by (cases x) (auto simp: wpg discovered_ok_def split: prod.splits intro!: wp_any)
  show ?thesis
    unfolding discover_step_def wp_bind
  proof (rule wp_mono [OF populateDeviceInfo_ok])
    fix r :: "go_error + LocalDisk" and t
    assume r: "case r of Inl e \<Rightarrow> True | Inr disk \<Rightarrow> LD_Name disk = d \<and> supportedDeviceType (LD_Type disk)"
    show "wp (case r of
          Inl _ \<Rightarrow> go_return disks
        | Inr disk0 \<Rightarrow>
            go_bind (populateDeviceUdevInfo E d disk0) (\<lambda>(disk, _).
              if LD_Type disk = DiskType then
                go_bind (ListDevicesChild E d) (\<lambda>(deviceChild, _).
                  if \<not> lp \<and> length deviceChild > 1 then go_return disks
                  else go_return (disks @ [disk]))
              else go_return (disks @ [disk])))
        (\<lambda>disks' t. \<forall>x \<in> set disks'. discovered_ok names x) (\<lambda>_ _. True) t"
    proof (cases r)
      case (Inr disk0)
      with r have "LD_Name disk0 = d" "supportedDeviceType (LD_Type disk0)" by simp_all
      with Inr show ?thesis
        by (simp only: sum.case wp_bind) (rule wp_mono [OF populateDeviceUdevInfo_ok], (rule body; simp), simp)
    qed (simp add: wp_return assms)
  qed simp
qed

lemma DiscoverDevices_ok:
  "wp (DiscoverDevices E lp)
     (\<lambda>r t. case r of Inl e \<Rightarrow> True | Inr disks \<Rightarrow> \<forall>x \<in> set disks. supportedDeviceType (LD_Type x)) (\<lambda>_ _. True) s"
proof -
  have "wp (go_fold (discover_step E lp) names []) (\<lambda>disks t. \<forall>x \<in> set disks. discovered_ok names x) (\<lambda>_ _. True) s"
    for names s
    by (rule wp_go_fold) (auto intro: discover_step_ok)
  note step = this
  show ?thesis
    unfolding DiscoverDevices_def wp_bind
    apply (rule wp_any)
     apply (auto simp: wp_return wp_bind split: sum.splits)
    apply (rule wp_mono [OF step])
     apply (auto simp: wpg discovered_ok_def)
    done
qed

text \<open>The contract of \<open>GetAvailableDevices\<close>.\<close>

definition offered :: "string \<Rightarrow> LocalDisk \<Rightarrow> bool" where
  "offered key disk \<longleftrightarrow> key = ''/dev/'' @ LD_Name disk \<and> supportedDeviceType (LD_Type disk) \<and>
     2147483648 \<le> unat (LD_Size disk) \<and> LD_Filesystem disk = [] \<and> LD_MountPoint disk = []"

lemma min_device_size_nat: "\<not> w < min_device_size \<longleftrightarrow> 2147483648 \<le> unat w"
  by (simp add: min_device_size_def word_less_nat_alt not_less)

lemma gm_get_build_Some:
  "gm_get (gm_build key val xs []) k = Some v \<Longrightarrow> \<exists>x \<in> set xs. k = key x \<and> v = val x"
proof (induction xs rule: rev_induct)
  case (snoc x xs)
  then show ?case by (auto simp: gm_build_def gm.get_put split: if_splits)
qed (simp add: gm_build_def gm_get_def)

lemma GetAvailableDevices_ok:
  "wp (GetAvailableDevices E)
     (\<lambda>r t. case r of Inl e \<Rightarrow> True | Inr m \<Rightarrow> \<forall>k disk. gm_get m k = Some disk \<longrightarrow> offered k disk) (\<lambda>_ _. True) s"
  unfolding GetAvailableDevices_def wp_bind
  by (rule wp_mono [OF DiscoverDevices_ok])
     (auto simp: wpg offered_def usable_device_def min_device_size_nat diskPrefix_def
       dest!: gm_get_build_Some split: sum.splits)

text \<open>\<open>GetAllDevices\<close> reports each discovered device once, in order, and offers only usable ones.\<close>

lemma all_devices_step_ok:
  "wp (all_devices_step E device res)
     (\<lambda>res' t. \<exists>i. res' = res @ [i] \<and> LDI_LocalDisk i = device \<and>
        (LDI_Available i \<longrightarrow> usable_device device) \<and>
        (usable_device device \<longrightarrow> LD_Type device \<noteq> DiskType \<longrightarrow> LDI_Available i) \<and>
        (LDI_Available i \<longleftrightarrow> LDI_Message i = []))
     (\<lambda>_ _. False) s"
  unfolding all_devices_step_def
  by (auto simp: wpg unavailable_def available_def usable_device_def ListDevicesChild_def
      split: prod.splits option.splits)

lemma GetAllDevices_ok:
  assumes "DiscoverDevices E True s = (Ret (Inr disks), s1)"
  shows "wp (GetAllDevices E)
     (\<lambda>r t. case r of Inl e \<Rightarrow> False | Inr infos \<Rightarrow> map LDI_LocalDisk infos = disks \<and>
        (\<forall>i \<in> set infos. (LDI_Available i \<longrightarrow> usable_device (LDI_LocalDisk i)) \<and>
           (usable_device (LDI_LocalDisk i) \<longrightarrow> LD_Type (LDI_LocalDisk i) \<noteq> DiskType \<longrightarrow> LDI_Available i) \<and>
           (LDI_Available i \<longleftrightarrow> LDI_Message i = [])))
     (\<lambda>_ _. False) s"
proof -
  let ?I = "\<lambda>done (infos :: LocalDiskAppendInfo list) (t :: 'a host). map LDI_LocalDisk infos = done \<and>
        (\<forall>i \<in> set infos. (LDI_Available i \<longrightarrow> usable_device (LDI_LocalDisk i)) \<and>
           (usable_device (LDI_LocalDisk i) \<longrightarrow> LD_Type (LDI_LocalDisk i) \<noteq> DiskType \<longrightarrow> LDI_Available i) \<and>
           (LDI_Available i \<longleftrightarrow> LDI_Message i = []))"
  have "wp (go_fold (all_devices_step E) disks []) (?I disks) (\<lambda>_ _. False) s1"
  proof (rule wp_go_fold_prefix [where I = ?I])
    fix ys x b s assume "?I ys b s"
    then show "wp (all_devices_step E x b) (?I (ys @ [x])) (\<lambda>_ _. False) s"
      by (intro wp_mono [OF all_devices_step_ok]) auto
  qed simp
  then show ?thesis
    by (simp add: GetAllDevices_def wp_bind wp_return) (simp add: wp_def [of "DiscoverDevices E True"] assms wp_bind wp_return)
qed

end
