(* ===== verification/PrepareVg.thy ===== *)
theory PrepareVg
  imports Disks
begin

text \<open>
  The operations of \<open>controllers/preparevg_controller.go\<close> on one device class: create
  its volume group, retry it, expand it, shrink it, and delete the groups of classes that are
  no longer configured.  They work on two tables, the classes that succeeded and the classes that
  failed, keyed by volume group (\<open>sucClass\<close> and \<open>failClass\<close>; the Go maps hold
  pointers to entries nothing else refers to, so the tables here hold the entries).
\<close>

definition ClassExpandWaring :: string where "ClassExpandWaring = ''expand warning''"
definition ClassExpandError :: string where "ClassExpandError = ''expand error''"
definition ClassShrinkError :: string where "ClassShrinkError = ''shrink error''"
definition ClassDeleteError :: string where "ClassDeleteError = ''delete error''"
definition ClassCreateSuccessful :: string where "ClassCreateSuccessful = ''create successful''"
definition ClassCreateFail :: string where "ClassCreateFail = ''create failed''"
definition DeviceStateError :: string where "DeviceStateError = ''error''"
definition LoopCreateFailed :: string where "LoopCreateFailed = ''failed''"
definition Loop :: string where "Loop = ''loop''"

type_synonym class_table = "ClassState gomap"

definition disk_unavailable_message :: string where
  "disk_unavailable_message = ''disk may has filesystem or is not raw disk please check''"

section \<open>Device names\<close>

definition getDeviceName :: "LoopState gomap \<Rightarrow> string \<Rightarrow> string" where
  "getDeviceName loopMap name = (case gm_get loopMap name of Some l \<Rightarrow> Loop_DeviceName l | None \<Rightarrow> [])"

definition auto_loop :: "Disk \<Rightarrow> bool" where
  "auto_loop d \<longleftrightarrow> Disk_Type d = Loop \<and> Disk_Auto d"

text \<open>
  The start of the loop bodies: an automatic loop device is renamed to the device that backs it,
  or skipped (\<open>continue\<close>) when there is none yet; any other disk stays as it is.
\<close>

definition resolve_disk :: "LoopState gomap \<Rightarrow> Disk \<Rightarrow> Disk option" where
  "resolve_disk loopMap d =
     (if auto_loop d then
        let name = getDeviceName loopMap (Disk_Name d)
        in if name = [] then None else Some (d\<lparr>Disk_Name := name\<rparr>)
      else Some d)"

text \<open>\<open>class.Device\<close> after the loop: renamed where resolved, the original where skipped.\<close>

definition resolved :: "LoopState gomap \<Rightarrow> Disk \<Rightarrow> Disk" where
  "resolved loopMap d = (case resolve_disk loopMap d of None \<Rightarrow> d | Some d' \<Rightarrow> d')"

section \<open>createVg\<close>

text \<open>
  The loop over \<open>class.Device\<close>: the devices as renamed, the states recorded for the
  unavailable ones, and whether all checked devices are available.
\<close>

fun create_check :: "LoopState gomap \<Rightarrow> LocalDisk gomap \<Rightarrow> Disk list \<Rightarrow> Disk list \<times> DeviceState list \<times> bool" where
  "create_check loopMap availaDisks [] = ([], [], True)"
| "create_check loopMap availaDisks (d # ds) =
     (case create_check loopMap availaDisks ds of (ds', sts, ok) \<Rightarrow>
       (case resolve_disk loopMap d of
         None \<Rightarrow> (d # ds', sts, ok)
       | Some d' \<Rightarrow>
           if gm_has availaDisks (Disk_Name d') then (d' # ds', sts, ok)
           else (d' # ds',
             \<lparr>DS_Name = Disk_Name d', DS_State = DeviceOffline, DS_Message = disk_unavailable_message\<rparr> # sts,
             False)))"

definition createVg ::
    "'w executor \<Rightarrow> LoopState gomap \<Rightarrow> LocalDisk gomap \<Rightarrow> DeviceClass \<Rightarrow> class_table \<Rightarrow> class_table \<Rightarrow>
     ('w host, bool \<times> DeviceClass \<times> class_table \<times> class_table) go" where
  "createVg E loopMap availaDisks cls sucClass failClass =
     (let classState = zero_ClassState\<lparr>CS_Name := DC_ClassName cls, CS_VgName := DC_VgName cls\<rparr>
      in case create_check loopMap availaDisks (DC_Device cls) of (devs, sts, avail) \<Rightarrow>
      let cls' = cls\<lparr>DC_Device := devs\<rparr>;
          classState1 = classState\<lparr>CS_DeviceStates := sts\<rparr>
      in if avail then
           go_bind (CreateVolumeGroup E devs (DC_VgName cls)) (\<lambda>err. case err of
             Some _ \<Rightarrow>
               go_return (False, cls', sucClass,
                 gm_put (DC_VgName cls) (classState1\<lparr>CS_Message := ClassCreateFail, CS_State := ClassUnReady\<rparr>) failClass)
           | None \<Rightarrow>
               go_return (True, cls',
                 gm_put (DC_VgName cls)
                   (classState1\<lparr>CS_State := ClassReady, CS_Message := ClassCreateSuccessful,
                      CS_DeviceStates := sts @
                        map (\<lambda>d. \<lparr>DS_Name = Disk_Name d, DS_State = DeviceOnline, DS_Message = []\<rparr>) devs\<rparr>)
                   sucClass,
                 failClass))
         else go_return (False, cls', sucClass, gm_put (DC_VgName cls) classState1 failClass))"

section \<open>createVgRetry\<close>

definition checkDeviceStatusIsExisting :: "DeviceState list \<Rightarrow> string \<Rightarrow> nat option" where
  "checkDeviceStatusIsExisting devs disk = find_index (\<lambda>st. DS_Name st = disk) devs"

definition record_device_state :: "DeviceState \<Rightarrow> DeviceState list \<Rightarrow> DeviceState list" where
  "record_device_state st devs = (case checkDeviceStatusIsExisting devs (DS_Name st) of
      Some index \<Rightarrow> devs[index := st]
    | None \<Rightarrow> devs @ [st])"

text \<open>
  The loop; the states of the failed class are updated in place, in order.  A missing entry in
  \<open>failClass\<close> is a nil pointer.
\<close>

fun retry_check ::
    "LoopState gomap \<Rightarrow> LocalDisk gomap \<Rightarrow> Disk list \<Rightarrow> DeviceState list \<Rightarrow> Disk list \<times> DeviceState list \<times> bool" where
  "retry_check loopMap availaDisks [] sts = ([], sts, True)"
| "retry_check loopMap availaDisks (d # ds) sts =
     (case resolve_disk loopMap d of
       None \<Rightarrow> (case retry_check loopMap availaDisks ds sts of (ds', sts', ok) \<Rightarrow> (d # ds', sts', ok))
     | Some d' \<Rightarrow>
         if gm_has availaDisks (Disk_Name d')
         then (case retry_check loopMap availaDisks ds sts of (ds', sts', ok) \<Rightarrow> (d' # ds', sts', ok))
         else (case retry_check loopMap availaDisks ds
                 (record_device_state
                   \<lparr>DS_Name = Disk_Name d', DS_State = [], DS_Message = disk_unavailable_message\<rparr> sts)
               of (ds', sts', _) \<Rightarrow> (d' # ds', sts', False)))"

definition createVgRetry ::
    "'w executor \<Rightarrow> LoopState gomap \<Rightarrow> LocalDisk gomap \<Rightarrow> DeviceClass \<Rightarrow> class_table \<Rightarrow> class_table \<Rightarrow>
     ('w host, bool \<times> DeviceClass \<times> class_table \<times> class_table) go" where
  "createVgRetry E loopMap availaDisks cls sucClass failClass =
     (let old = gm_get failClass (DC_VgName cls)
      in case retry_check loopMap availaDisks (DC_Device cls) (case old of None \<Rightarrow> [] | Some c \<Rightarrow> CS_DeviceStates c)
         of (devs, sts, avail) \<Rightarrow>
      let cls' = cls\<lparr>DC_Device := devs\<rparr>
      in if avail then
           go_bind (CreateVolumeGroup E devs (DC_VgName cls)) (\<lambda>err. case err of
             Some _ \<Rightarrow> go_return (False, cls', sucClass, failClass)
           | None \<Rightarrow>
               go_return (True, cls',
                 gm_put (DC_VgName cls)
                   (zero_ClassState\<lparr>CS_Name := DC_ClassName cls, CS_VgName := DC_VgName cls,
                      CS_State := ClassReady, CS_Message := ClassCreateSuccessful\<rparr>) sucClass,
                 gm_del (DC_VgName cls) failClass))
         else (case old of
             None \<Rightarrow> go_panic ''invalid memory address or nil pointer dereference''
           | Some c \<Rightarrow> go_return (False, cls', sucClass,
               gm_put (DC_VgName cls) (c\<lparr>CS_DeviceStates := sts\<rparr>) failClass)))"

section \<open>checkVgIfExpand\<close>

text \<open>\<open>sucClass[vg].f = ...\<close> through the pointer in the map; a missing entry is a nil pointer.\<close>

definition update_class :: "string \<Rightarrow> (ClassState \<Rightarrow> ClassState) \<Rightarrow> class_table \<Rightarrow> class_table outcome" where
  "update_class vg f m = (case gm_get m vg of
      None \<Rightarrow> Panic ''invalid memory address or nil pointer dereference''
    | Some c \<Rightarrow> Ret (gm_put vg (f c) m))"

definition add_device_state :: "DeviceState \<Rightarrow> ClassState \<Rightarrow> ClassState" where
  "add_device_state st c = c\<lparr>CS_DeviceStates := CS_DeviceStates c @ [st]\<rparr>"

text \<open>One device of the expansion loop; \<open>err\<close> is the error variable the loop assigns.\<close>

definition expand_step ::
    "'w executor \<Rightarrow> LoopState gomap \<Rightarrow> LVInfo \<Rightarrow> string \<Rightarrow> Disk \<Rightarrow> go_error option \<times> string list \<times> class_table \<Rightarrow>
     ('w host, go_error option \<times> string list \<times> class_table) go" where
  "expand_step E loopMap pv vg d = (\<lambda>(err, newPvs, sucClass).
     (case resolve_disk loopMap d of
       None \<Rightarrow> go_return (err, newPvs, sucClass)
     | Some d' \<Rightarrow>
         if gm_has pv (Disk_Name d') then go_return (err, newPvs, sucClass)
         else go_bind (CreatePhysicalVolume E (Disk_Name d')) (\<lambda>err'. case err' of
           Some e \<Rightarrow>
             go_bind (go_lift (update_class vg
                 (\<lambda>c. add_device_state \<lparr>DS_Name = Disk_Name d', DS_State = DeviceStateError, DS_Message = err_msg e\<rparr>
                        (c\<lparr>CS_Message := ClassExpandWaring\<rparr>)) sucClass))
               (\<lambda>suc'. go_return (Some e, newPvs, suc'))
         | None \<Rightarrow> go_return (None, newPvs @ [Disk_Name d'], sucClass))))"

text \<open>After a successful extension every new volume is recorded as online.\<close>

fun add_online :: "string \<Rightarrow> string list \<Rightarrow> class_table \<Rightarrow> class_table outcome" where
  "add_online vg [] m = Ret m"
| "add_online vg (d # ds) m =
     (case update_class vg (add_device_state \<lparr>DS_Name = d, DS_State = DeviceOnline, DS_Message = []\<rparr>) m of
       Panic e \<Rightarrow> Panic e
     | Ret m' \<Rightarrow> add_online vg ds m')"

definition checkVgIfExpand ::
    "'w executor \<Rightarrow> LoopState gomap \<Rightarrow> DeviceClass \<Rightarrow> class_table \<Rightarrow>
     ('w host, go_error option \<times> class_table) go" where
  "checkVgIfExpand E loopMap cls sucClass =
     go_bind (GetPhysicalVolume E (DC_VgName cls)) (\<lambda>r. case r of
       Inl e \<Rightarrow> go_return (Some e, sucClass)
     | Inr pv \<Rightarrow>
         go_bind (go_fold (expand_step E loopMap pv (DC_VgName cls)) (DC_Device cls) (None, [], sucClass))
           (\<lambda>(err, newPvs, suc1).
             if length newPvs > 0 then
               go_bind (ExpandVolumeGroup E (DC_VgName cls) newPvs) (\<lambda>err2. case err2 of
                 Some e \<Rightarrow>
                   go_bind (go_lift (update_class (DC_VgName cls) (\<lambda>c. c\<lparr>CS_Message := ClassExpandError\<rparr>) suc1))
                     (\<lambda>suc2. go_return (Some e, suc2))
               | None \<Rightarrow>
                   go_bind (go_lift (add_online (DC_VgName cls) newPvs suc1)) (\<lambda>suc2. go_return (err, suc2)))
             else go_return (err, suc1)))"

section \<open>checkVgIfShrink\<close>

text \<open>The physical volumes, in the order visited, that no configured device is named like.\<close>

definition delete_pvs :: "DeviceClass \<Rightarrow> string list \<Rightarrow> string list" where
  "delete_pvs cls pvs = filter (\<lambda>pv. \<not> (\<exists>d \<in> set (DC_Device cls). pv = Disk_Name d)) pvs"

text \<open>
  The states of the removed volumes are deleted from the class while an index walks over them.
\<close>

definition drop_device_states :: "string list \<Rightarrow> ClassState \<Rightarrow> ClassState" where
  "drop_device_states deletePvs c =
     c\<lparr>CS_DeviceStates := fold (\<lambda>d sts. delete_walk (\<lambda>st. DS_Name st = d) 0 sts) deletePvs (CS_DeviceStates c)\<rparr>"

definition checkVgIfShrink ::
    "'w executor \<Rightarrow> DeviceClass \<Rightarrow> class_table \<Rightarrow> ('w host, go_error option \<times> class_table) go" where
  "checkVgIfShrink E cls sucClass =
     go_bind (GetPhysicalVolume E (DC_VgName cls)) (\<lambda>r. case r of
       Inl e \<Rightarrow> go_return (Some e, sucClass)
     | Inr pvs \<Rightarrow>
         go_bind (go_range E pvs) (\<lambda>ks.
           let deletePvs = delete_pvs cls ks
           in if length deletePvs = length pvs \<and> length pvs > 0 then
                go_bind (RemoveVolumeGroup E (DC_VgName cls)) (\<lambda>err. case err of
                  Some e \<Rightarrow>
                    go_bind (go_lift (update_class (DC_VgName cls) (\<lambda>c. c\<lparr>CS_Message := ClassDeleteError\<rparr>) sucClass))
                      (\<lambda>suc1. go_return (Some e, suc1))
                | None \<Rightarrow> go_return (None, gm_del (DC_VgName cls) sucClass))
              else if length deletePvs > 0 then
                go_bind (ShrinkVolumeGroup E (DC_VgName cls) deletePvs) (\<lambda>err. case err of
                  Some e \<Rightarrow>
                    go_bind (go_lift (update_class (DC_VgName cls) (\<lambda>c. c\<lparr>CS_Message := ClassShrinkError\<rparr>) sucClass))
                      (\<lambda>suc1. go_return (Some e, suc1))
                | None \<Rightarrow>
                    go_bind (go_lift (update_class (DC_VgName cls) (drop_device_states deletePvs) sucClass))
                      (\<lambda>suc1. go_return (None, suc1)))
              else go_return (None, sucClass)))"

section \<open>checkVgIfDelete\<close>

definition vg_configured :: "DeviceClass list \<Rightarrow> string \<Rightarrow> bool" where
  "vg_configured classes key \<longleftrightarrow> (\<exists>d \<in> set classes. DC_VgName d = key)"

text \<open>
  A successful class that is no longer configured loses its volume group and its entry; the
  message set when the removal fails goes with the entry.
\<close>

definition delete_suc_step ::
    "'w executor \<Rightarrow> DeviceClass list \<Rightarrow> string \<Rightarrow> class_table \<Rightarrow> ('w host, class_table) go" where
  "delete_suc_step E classes key sucClass =
     (if vg_configured classes key then go_return sucClass
      else go_bind (RemoveVolumeGroup E key) (\<lambda>err. case err of
        Some _ \<Rightarrow>
          go_bind (go_lift (update_class key (\<lambda>c. c\<lparr>CS_Message := ClassDeleteError\<rparr>) sucClass))
            (\<lambda>suc1. go_return (gm_del key suc1))
      | None \<Rightarrow> go_return (gm_del key sucClass)))"

definition delete_fail_keys :: "DeviceClass list \<Rightarrow> string list \<Rightarrow> class_table \<Rightarrow> class_table" where
  "delete_fail_keys classes ks failClass =
     fold (\<lambda>key m. if vg_configured classes key then m else gm_del key m) ks failClass"

definition checkVgIfDelete ::
    "'w executor \<Rightarrow> DeviceClass list \<Rightarrow> class_table \<Rightarrow> class_table \<Rightarrow> ('w host, class_table \<times> class_table) go" where
  "checkVgIfDelete E classes sucClass failClass =
     go_bind (go_range E sucClass) (\<lambda>ks.
     go_bind (go_fold (delete_suc_step E classes) ks sucClass) (\<lambda>suc1.
     go_bind (go_range E failClass) (\<lambda>fks.
     go_return (suc1, delete_fail_keys classes fks failClass))))"

end
