(* ===== verification/ClassTables.thy ===== *)
theory ClassTables
  imports PrepareVg
begin

text \<open>
  What the operations on a device class do to the tables of classes.  The invariant
  \<open>tables_ok\<close>: each table is keyed by the volume group of its entries, and no group is in
  both tables.  Every operation touches only the entry of its own class and keeps the invariant;
  the locale \<open>class_op\<close> states that contract, \<open>class_loop\<close> draws the consequences for a
  loop over all classes, and both are interpreted on the operations of the code.
\<close>

section \<open>The invariant\<close>

definition table_ok :: "class_table \<Rightarrow> bool" where
  "table_ok m \<longleftrightarrow> gm_wf m \<and> (\<forall>k c. gm_get m k = Some c \<longrightarrow> CS_VgName c = k)"

definition tables_ok :: "class_table \<times> class_table \<Rightarrow> bool" where
  "tables_ok tabs \<longleftrightarrow> table_ok (fst tabs) \<and> table_ok (snd tabs) \<and>
     (\<forall>k. \<not> (gm_has (fst tabs) k \<and> gm_has (snd tabs) k))"

text \<open>The change of one table by an operation on one group that inserts nothing.\<close>

definition touch_ok :: "string \<Rightarrow> class_table \<Rightarrow> class_table \<Rightarrow> bool" where
  "touch_ok vg m m' \<longleftrightarrow> (\<forall>k. k \<noteq> vg \<longrightarrow> gm_get m' k = gm_get m k) \<and>
     (table_ok m \<longrightarrow> table_ok m') \<and> (gm_has m' vg \<longrightarrow> gm_has m vg)"

lemma touch_ok_refl [simp, intro]: "touch_ok vg m m"
  by (simp add: touch_ok_def)

lemma touch_ok_trans [trans]: "touch_ok vg m m' \<Longrightarrow> touch_ok vg m' m'' \<Longrightarrow> touch_ok vg m m''"
  by (auto simp: touch_ok_def)

lemma touch_ok_del [simp, intro]: "touch_ok vg m (gm_del vg m)"
  by (auto simp: touch_ok_def table_ok_def gm.get_del gm.wf_del)

lemma touch_ok_del_then: "touch_ok vg m m' \<Longrightarrow> touch_ok vg m (gm_del vg m')"
  by (rule touch_ok_trans) auto

lemma touch_ok_update:
  assumes "update_class vg f m = Ret m'" "\<And>c. CS_VgName (f c) = CS_VgName c"
  shows "touch_ok vg m m'"
  using assms
  by (auto simp: update_class_def touch_ok_def table_ok_def gm.get_put gm.wf_put gm_has_def
      split: option.splits if_splits)

lemma update_class_panics: "update_class vg f m = Panic e \<Longrightarrow> \<not> gm_has m vg"
  by (auto simp: update_class_def gm_has_def split: option.splits)

lemma update_class_has: "update_class vg f m = Ret m' \<Longrightarrow> gm_has m' k = gm_has m k"
  by (auto simp: update_class_def gm_has_def gm.get_put split: option.splits if_splits)

lemma touch_ok_add_online:
  "add_online vg ds m = Ret m' \<Longrightarrow> touch_ok vg m m'"
proof (induction ds arbitrary: m)
  case (Cons d ds)
  then obtain m1 where m1: "update_class vg (add_device_state \<lparr>DS_Name = d, DS_State = DeviceOnline, DS_Message = []\<rparr>) m = Ret m1"
    and rest: "add_online vg ds m1 = Ret m'" by (auto split: outcome.splits)
  have "touch_ok vg m m1" by (rule touch_ok_update [OF m1]) (simp add: add_device_state_def)
  with Cons.IH [OF rest] show ?case by (blast intro: touch_ok_trans)
qed simp

section \<open>The contract of an operation on a class\<close>

definition frame_ok :: "string \<Rightarrow> class_table \<times> class_table \<Rightarrow> class_table \<times> class_table \<Rightarrow> bool" where
  "frame_ok vg tabs tabs' \<longleftrightarrow>
     (\<forall>k. k \<noteq> vg \<longrightarrow> gm_get (fst tabs') k = gm_get (fst tabs) k \<and> gm_get (snd tabs') k = gm_get (snd tabs) k)"

locale class_op =
  fixes op :: "DeviceClass \<Rightarrow> class_table \<times> class_table \<Rightarrow> ('w host, 'r \<times> class_table \<times> class_table) go"
    and pre :: "DeviceClass \<Rightarrow> class_table \<times> class_table \<Rightarrow> bool"
  assumes frame: "pre cls tabs \<Longrightarrow>
      wp (op cls tabs) (\<lambda>r t. frame_ok (DC_VgName cls) tabs (snd r)) (\<lambda>_ _. True) s"
    and keeps: "pre cls tabs \<Longrightarrow> tables_ok tabs \<Longrightarrow>
      wp (op cls tabs) (\<lambda>r t. tables_ok (snd r)) (\<lambda>_ _. True) s"
begin

lemma contract:
  "pre cls tabs \<Longrightarrow> tables_ok tabs \<Longrightarrow>
   wp (op cls tabs) (\<lambda>r t. tables_ok (snd r) \<and> frame_ok (DC_VgName cls) tabs (snd r)) (\<lambda>_ _. True) s"
  using frame [of cls tabs s] keeps [of cls tabs s] by (simp add: wp_iff_run)

end

text \<open>
  An operation that may be applied to any class can be iterated over the configured classes,
  collecting a result: the tables stay well formed and the entries of other groups are kept.
\<close>

locale class_loop = class_op op "\<lambda>_ _. True"
  for op :: "DeviceClass \<Rightarrow> class_table \<times> class_table \<Rightarrow> ('w host, 'r \<times> class_table \<times> class_table) go" +
  fixes merge :: "'r \<Rightarrow> 'acc \<Rightarrow> 'acc"
begin

lemma loop_keeps:
  assumes "tables_ok tabs"
  shows "wp (go_fold (\<lambda>cls (acc, tabs). go_bind (op cls tabs) (\<lambda>(r, tabs'). go_return (merge r acc, tabs'))) classes (acc, tabs))
     (\<lambda>(acc', tabs') t. tables_ok tabs' \<and>
        (\<forall>k. \<not> vg_configured classes k \<longrightarrow>
           gm_get (fst tabs') k = gm_get (fst tabs) k \<and> gm_get (snd tabs') k = gm_get (snd tabs) k))
     (\<lambda>_ _. True) s"
proof -
  let ?f = "\<lambda>cls (acc, tabs). go_bind (op cls tabs) (\<lambda>(r, tabs'). go_return (merge r acc, tabs'))"
  let ?I = "\<lambda>done b (t :: 'w host). tables_ok (snd b) \<and>
        (\<forall>k. \<not> vg_configured done k \<longrightarrow>
           gm_get (fst (snd b)) k = gm_get (fst tabs) k \<and> gm_get (snd (snd b)) k = gm_get (snd tabs) k)"
  have "wp (go_fold ?f classes (acc, tabs)) (?I classes) (\<lambda>_ _. True) s"
  proof (rule wp_go_fold_prefix [where I = ?I])
    show "?I [] (acc, tabs) s" using assms by simp
  next
    fix ys x and b :: "'acc \<times> class_table \<times> class_table" and s :: "'w host"
    assume I: "?I ys b s"
    obtain a tb where b: "b = (a, tb)" by (cases b)
    have "wp (op x tb) (\<lambda>r t. tables_ok (snd r) \<and> frame_ok (DC_VgName x) tb (snd r)) (\<lambda>_ _. True) s"
      using I b by (intro contract) auto
    then have "wp (op x tb) (\<lambda>r. ?I (ys @ [x]) (merge (fst r) a, snd r)) (\<lambda>_ _. True) s"
      by (rule wp_mono) (use I b in \<open>auto simp: frame_ok_def vg_configured_def\<close>)
    then show "wp (?f x b) (?I (ys @ [x])) (\<lambda>_ _. True) s"
      by (simp add: b wpg case_prod_beta)
  qed
  then show ?thesis by (rule wp_mono) (auto simp: case_prod_beta)
qed

end

section \<open>The operations meet the contract\<close>

text \<open>The operations in the common shape, the value returned besides the tables first.\<close>

definition create_op where
  "create_op E loopMap avail cls tabs = go_bind (createVg E loopMap avail cls (fst tabs) (snd tabs))
     (\<lambda>(ok, cls', suc, fail). go_return ((ok, cls'), suc, fail))"

definition retry_op where
  "retry_op E loopMap avail cls tabs = go_bind (createVgRetry E loopMap avail cls (fst tabs) (snd tabs))
     (\<lambda>(ok, cls', suc, fail). go_return ((ok, cls'), suc, fail))"

definition expand_op where
  "expand_op E loopMap cls tabs = go_bind (checkVgIfExpand E loopMap cls (fst tabs))
     (\<lambda>(err, suc). go_return (err, suc, snd tabs))"

definition shrink_op where
  "shrink_op E cls tabs = go_bind (checkVgIfShrink E cls (fst tabs))
     (\<lambda>(err, suc). go_return (err, suc, snd tabs))"

lemma zero_ClassState_sel [simp]:
  "CS_VgName zero_ClassState = []" "CS_DeviceStates zero_ClassState = []"
  by (simp_all add: zero_ClassState_def)

lemma tables_ok_put_fail:
  "tables_ok tabs \<Longrightarrow> \<not> gm_has (fst tabs) vg \<Longrightarrow> CS_VgName c = vg \<Longrightarrow> tables_ok (fst tabs, gm_put vg c (snd tabs))"
  by (auto simp: tables_ok_def table_ok_def gm.get_put gm.wf_put)

lemma tables_ok_put_suc:
  "tables_ok tabs \<Longrightarrow> \<not> gm_has (snd tabs) vg \<Longrightarrow> CS_VgName c = vg \<Longrightarrow> tables_ok (gm_put vg c (fst tabs), snd tabs)"
  by (auto simp: tables_ok_def table_ok_def gm.get_put gm.wf_put)

lemma tables_ok_move:
  "tables_ok tabs \<Longrightarrow> CS_VgName c = vg \<Longrightarrow> tables_ok (gm_put vg c (fst tabs), gm_del vg (snd tabs))"
  by (auto simp: tables_ok_def table_ok_def gm.get_put gm.get_del gm.wf_put gm.wf_del split: if_splits)

lemma tables_ok_touch:
  assumes "tables_ok tabs" and "touch_ok vg (fst tabs) suc'"
  shows "tables_ok (suc', snd tabs)"
proof -
  have "gm_has suc' k \<Longrightarrow> gm_has (fst tabs) k" for k
    using assms(2) by (cases "k = vg") (auto simp: touch_ok_def gm_has_def)
  then show ?thesis using assms by (auto simp: tables_ok_def touch_ok_def)
qed

interpretation create: class_op "create_op E loopMap avail"
    "\<lambda>cls tabs. \<not> gm_has (fst tabs) (DC_VgName cls) \<and> \<not> gm_has (snd tabs) (DC_VgName cls)"
  for E :: "'w executor" and loopMap avail
proof unfold_locales
  fix cls and tabs :: "class_table \<times> class_table" and s :: "'w host"
  show "wp (create_op E loopMap avail cls tabs) (\<lambda>r t. frame_ok (DC_VgName cls) tabs (snd r)) (\<lambda>_ _. True) s"
    by (auto simp: create_op_def createVg_def Let_def wpg frame_ok_def gm.get_put
        split: prod.splits option.splits intro!: wp_any)
  assume "\<not> gm_has (fst tabs) (DC_VgName cls) \<and> \<not> gm_has (snd tabs) (DC_VgName cls)" "tables_ok tabs"
  then show "wp (create_op E loopMap avail cls tabs) (\<lambda>r t. tables_ok (snd r)) (\<lambda>_ _. True) s"
    by (auto simp: create_op_def createVg_def Let_def wpg split: prod.splits option.splits
        intro!: wp_any tables_ok_put_fail tables_ok_put_suc)
qed

interpretation retry: class_op "retry_op E loopMap avail"
    "\<lambda>cls tabs. \<not> gm_has (fst tabs) (DC_VgName cls) \<and> gm_has (snd tabs) (DC_VgName cls)"
  for E :: "'w executor" and loopMap avail
proof unfold_locales
  fix cls and tabs :: "class_table \<times> class_table" and s :: "'w host"
  show "wp (retry_op E loopMap avail cls tabs) (\<lambda>r t. frame_ok (DC_VgName cls) tabs (snd r)) (\<lambda>_ _. True) s"
    by (auto simp: retry_op_def createVgRetry_def Let_def wpg frame_ok_def gm.get_put gm.get_del
        split: prod.splits option.splits intro!: wp_any)
  assume pre: "\<not> gm_has (fst tabs) (DC_VgName cls) \<and> gm_has (snd tabs) (DC_VgName cls)" "tables_ok tabs"
  then obtain c where c: "gm_get (snd tabs) (DC_VgName cls) = Some c" by (auto simp: gm_has_def)
  then have "CS_VgName c = DC_VgName cls" using pre by (auto simp: tables_ok_def table_ok_def)
  then show "wp (retry_op E loopMap avail cls tabs) (\<lambda>r t. tables_ok (snd r)) (\<lambda>_ _. True) s"
    using pre c
    by (auto simp: retry_op_def createVgRetry_def Let_def wpg split: prod.splits option.splits
        intro!: wp_any tables_ok_put_fail tables_ok_move)
qed

lemma expand_step_touch:
  assumes "touch_ok vg suc0 (snd (snd b))"
  shows "wp (expand_step E loopMap pv vg d b) (\<lambda>b' t. touch_ok vg suc0 (snd (snd b'))) (\<lambda>_ _. True) s"
proof (cases b)
  case (fields err newPvs suc)
  have "touch_ok vg suc0 m'"
    if "update_class vg (\<lambda>c. add_device_state st (c\<lparr>CS_Message := w\<rparr>)) suc = Ret m'" for st w m'
    using assms fields touch_ok_update [OF that] by (auto simp: add_device_state_def intro: touch_ok_trans)
  then show ?thesis using assms fields
    by (auto simp: expand_step_def CreatePhysicalVolume_def wpg split: option.splits outcome.splits)
qed

lemma checkVgIfExpand_touch:
  "wp (checkVgIfExpand E loopMap cls suc) (\<lambda>r t. touch_ok (DC_VgName cls) suc (snd r)) (\<lambda>_ _. True) s"
proof -
  let ?vg = "DC_VgName cls"
  have loop: "wp (go_fold (expand_step E loopMap pv ?vg) ds (None, [], suc))
      (\<lambda>b t. touch_ok ?vg suc (snd (snd b))) (\<lambda>_ _. True) s" for pv ds s
    by (rule wp_go_fold) (auto intro: expand_step_touch)
  have upd: "touch_ok ?vg suc m" if "touch_ok ?vg suc x" "update_class ?vg (\<lambda>c. c\<lparr>CS_Message := w\<rparr>) x = Ret m" for w x m
    using that(1) touch_ok_update [OF that(2)] by (auto intro: touch_ok_trans)
  have onl: "touch_ok ?vg suc m" if "touch_ok ?vg suc x" "add_online ?vg ds x = Ret m" for ds x m
    using that(1) touch_ok_add_online [OF that(2)] by (rule touch_ok_trans)
  show ?thesis
    unfolding checkVgIfExpand_def wp_bind
    by (rule wp_any)
       (auto simp: wpg ExpandVolumeGroup_def split: sum.splits option.splits outcome.splits
         intro!: wp_mono [OF loop] intro: upd onl)
qed

interpretation expand: class_op "expand_op E loopMap" "\<lambda>_ _. True"
  for E :: "'w executor" and loopMap
proof unfold_locales
  fix cls and tabs :: "class_table \<times> class_table" and s :: "'w host"
  show "wp (expand_op E loopMap cls tabs) (\<lambda>r t. frame_ok (DC_VgName cls) tabs (snd r)) (\<lambda>_ _. True) s"
    unfolding expand_op_def wp_bind
    by (rule wp_mono [OF checkVgIfExpand_touch]) (auto simp: wpg touch_ok_def frame_ok_def)
  assume "tables_ok tabs"
  then show "wp (expand_op E loopMap cls tabs) (\<lambda>r t. tables_ok (snd r)) (\<lambda>_ _. True) s"
    unfolding expand_op_def wp_bind
    by (intro wp_mono [OF checkVgIfExpand_touch]) (auto simp: wpg intro: tables_ok_touch)
qed

lemma checkVgIfShrink_touch:
  "wp (checkVgIfShrink E cls suc) (\<lambda>r t. touch_ok (DC_VgName cls) suc (snd r)) (\<lambda>_ _. True) s"
proof -
  have upd: "touch_ok (DC_VgName cls) suc m" if "update_class (DC_VgName cls) (\<lambda>c. c\<lparr>CS_Message := w\<rparr>) suc = Ret m" for w m
    by (rule touch_ok_update [OF that]) simp
  have drp: "touch_ok (DC_VgName cls) suc m" if "update_class (DC_VgName cls) (drop_device_states ds) suc = Ret m" for ds m
    by (rule touch_ok_update [OF that]) (simp add: drop_device_states_def)
  show ?thesis
    unfolding checkVgIfShrink_def wp_bind
    by (rule wp_any)
       (auto simp: wpg Let_def split: sum.splits option.splits outcome.splits intro!: wp_any intro: upd drp)
qed

interpretation shrink: class_op "shrink_op E" "\<lambda>_ _. True"
  for E :: "'w executor"
proof unfold_locales
  fix cls and tabs :: "class_table \<times> class_table" and s :: "'w host"
  show "wp (shrink_op E cls tabs) (\<lambda>r t. frame_ok (DC_VgName cls) tabs (snd r)) (\<lambda>_ _. True) s"
    unfolding shrink_op_def wp_bind
    by (rule wp_mono [OF checkVgIfShrink_touch]) (auto simp: wpg touch_ok_def frame_ok_def)
  assume "tables_ok tabs"
  then show "wp (shrink_op E cls tabs) (\<lambda>r t. tables_ok (snd r)) (\<lambda>_ _. True) s"
    unfolding shrink_op_def wp_bind
    by (intro wp_mono [OF checkVgIfShrink_touch]) (auto simp: wpg intro: tables_ok_touch)
qed

section \<open>Creating a class\<close>

text \<open>The devices that keep a class from being created: those resolved to a name that is not available.\<close>

definition blocking :: "LoopState gomap \<Rightarrow> LocalDisk gomap \<Rightarrow> Disk \<Rightarrow> bool" where
  "blocking loopMap avail d \<longleftrightarrow> resolve_disk loopMap d \<noteq> None \<and> \<not> gm_has avail (Disk_Name (resolved loopMap d))"

lemma create_check_result:
  "create_check loopMap avail ds =
     (map (resolved loopMap) ds,
      map (\<lambda>d. \<lparr>DS_Name = Disk_Name (resolved loopMap d), DS_State = DeviceOffline, DS_Message = disk_unavailable_message\<rparr>)
        (filter (blocking loopMap avail) ds),
      \<not> (\<exists>d \<in> set ds. blocking loopMap avail d))"
  by (induction ds) (auto simp: blocking_def resolved_def split: option.splits)

lemma retry_check_result:
  "fst (retry_check loopMap avail ds sts) = map (resolved loopMap) ds"
  "snd (snd (retry_check loopMap avail ds sts)) \<longleftrightarrow> \<not> (\<exists>d \<in> set ds. blocking loopMap avail d)"
  by (induction ds arbitrary: sts) (auto simp: blocking_def resolved_def case_prod_beta split: option.splits)

text \<open>The commands that create a group over some disks.\<close>

definition create_trace :: "string \<Rightarrow> Disk list \<Rightarrow> event list" where
  "create_trace vg disks = map (\<lambda>d. lvm_ev [''pvcreate'', Disk_Name d]) disks @
     [lvm_ev ([''vgcreate'', vg] @ map Disk_Name disks)]"

lemma CreateVolumeGroup_None:
  "wp (CreateVolumeGroup E disks vg) (\<lambda>r t. r = None \<longrightarrow> trace t = trace s @ create_trace vg disks) (\<lambda>_ _. False) s"
  by (rule wp_mono [OF CreateVolumeGroup_commands]) (auto simp: create_trace_def)

definition created_entry :: "DeviceClass \<Rightarrow> Disk list \<Rightarrow> ClassState" where
  "created_entry cls disks = \<lparr>CS_Name = DC_ClassName cls, CS_VgName = DC_VgName cls, CS_State = ClassReady,
     CS_Message = ClassCreateSuccessful,
     CS_DeviceStates = map (\<lambda>d. \<lparr>DS_Name = Disk_Name d, DS_State = DeviceOnline, DS_Message = []\<rparr>) disks\<rparr>"

lemma createVg_result:
  fixes cls :: DeviceClass and loopMap :: "LoopState gomap"
  defines "disks \<equiv> map (resolved loopMap) (DC_Device cls)" and "vg \<equiv> DC_VgName cls"
  shows "wp (createVg E loopMap avail cls suc fail)
    (\<lambda>(ok, cls', suc', fail') t. cls' = cls\<lparr>DC_Device := disks\<rparr> \<and>
       (ok \<longrightarrow> suc' = gm_put vg (created_entry cls disks) suc \<and> fail' = fail \<and>
          trace t = trace s @ create_trace vg disks) \<and>
       (\<not> ok \<longrightarrow> suc' = suc \<and> (\<exists>c. fail' = gm_put vg c fail \<and> CS_VgName c = vg \<and> CS_State c \<noteq> ClassReady)) \<and>
       ((\<exists>d \<in> set (DC_Device cls). blocking loopMap avail d) \<longrightarrow> \<not> ok \<and> t = s))
    (\<lambda>_ _. False) s"
proof -
  have states: "ClassUnReady \<noteq> ClassReady" "[] \<noteq> ClassReady"
    by (simp_all add: ClassReady_def ClassUnReady_def zero_ClassState_def)
  have entry: "\<exists>c'. gm_put k c m = gm_put k c' m \<and> CS_VgName c' = k \<and> CS_State c' \<noteq> ClassReady"
    if "CS_VgName c = k" "CS_State c \<noteq> ClassReady" for c k and m :: class_table
    using that by blast
  show ?thesis
    unfolding createVg_def create_check_result Let_def
    by (auto simp: wpg states zero_ClassState_def disks_def vg_def created_entry_def filter_empty_conv
        intro!: wp_mono [OF CreateVolumeGroup_None] entry split: option.splits)
qed

text \<open>A class that failed before: success moves it to the other table, without device states.\<close>

lemma createVgRetry_result:
  fixes cls :: DeviceClass and loopMap :: "LoopState gomap"
  defines "disks \<equiv> map (resolved loopMap) (DC_Device cls)" and "vg \<equiv> DC_VgName cls"
  assumes "gm_get fail vg = Some old"
  shows "wp (createVgRetry E loopMap avail cls suc fail)
    (\<lambda>(ok, cls', suc', fail') t. cls' = cls\<lparr>DC_Device := disks\<rparr> \<and>
       (ok \<longrightarrow> suc' = gm_put vg ((created_entry cls disks)\<lparr>CS_DeviceStates := []\<rparr>) suc \<and> fail' = gm_del vg fail \<and>
          trace t = trace s @ create_trace vg disks) \<and>
       (\<not> ok \<longrightarrow> suc' = suc \<and> (\<exists>sts. fail' = gm_put vg (old\<lparr>CS_DeviceStates := sts\<rparr>) fail \<or> fail' = fail)) \<and>
       ((\<exists>d \<in> set (DC_Device cls). blocking loopMap avail d) \<longrightarrow> \<not> ok \<and> t = s))
    (\<lambda>_ _. False) s"
proof -
  let ?sts = "CS_DeviceStates old"
  obtain sts where chk: "retry_check loopMap avail (DC_Device cls) ?sts =
      (disks, sts, \<not> (\<exists>d \<in> set (DC_Device cls). blocking loopMap avail d))"
    using retry_check_result [of loopMap avail "DC_Device cls" ?sts] unfolding disks_def
    by (cases "retry_check loopMap avail (DC_Device cls) ?sts") simp
  show ?thesis
  proof (cases "\<exists>d \<in> set (DC_Device cls). blocking loopMap avail d")
    case True
    then show ?thesis
      unfolding createVgRetry_def Let_def assms(3) [unfolded vg_def] option.case chk prod.case
      by (simp add: wpg vg_def) blast
  next
    case False
    show ?thesis
      unfolding createVgRetry_def Let_def assms(3) [unfolded vg_def] option.case chk prod.case if_not_P [OF False] if_P [OF TrueI] simp_thms(8)
      unfolding if_P [OF False] wp_bind
      by (rule wp_mono [OF CreateVolumeGroup_None])
         (use False in \<open>auto simp: wpg vg_def created_entry_def zero_ClassState_def split: option.splits\<close>)
  qed
qed

section \<open>Shrinking a class\<close>

text \<open>
  The states of removed volumes go, the others stay in order.  When no configured disk is named
  like one of the volumes, the whole group is removed.
\<close>

lemma drop_device_states_filter:
  "CS_DeviceStates (drop_device_states ds c) = filter (\<lambda>st. DS_Name st \<notin> set ds) (CS_DeviceStates c)"
proof -
  have "fold (\<lambda>d sts. delete_walk (\<lambda>st. DS_Name st = d) 0 sts) ds sts = filter (\<lambda>st. DS_Name st \<notin> set ds) sts" for sts
    by (induction ds arbitrary: sts) (auto intro: filter_cong)
  then show ?thesis by (simp add: drop_device_states_def)
qed

lemma checkVgIfShrink_unnamed:
  assumes "GetPhysicalVolume E (DC_VgName cls) s = (Ret (Inr pvs), s1)" "pvs \<noteq> []"
    and "\<forall>d \<in> set (DC_Device cls). Disk_Name d \<notin> set (gm_keys pvs)"
  shows "\<exists>w. checkVgIfShrink E cls suc s =
    go_bind (RemoveVolumeGroup E (DC_VgName cls)) (\<lambda>err. case err of
        Some e \<Rightarrow> go_bind (go_lift (update_class (DC_VgName cls) (\<lambda>c. c\<lparr>CS_Message := ClassDeleteError\<rparr>) suc))
          (\<lambda>suc1. go_return (Some e, suc1))
      | None \<Rightarrow> go_return (None, gm_del (DC_VgName cls) suc)) (s1\<lparr>world := w\<rparr>)"
proof -
  obtain rank w where rank: "MapRank E (world s1) = (rank, w)" by (cases "MapRank E (world s1)")
  have "delete_pvs cls (sort_key rank (gm_keys pvs)) = sort_key rank (gm_keys pvs)"
    using assms(3) unfolding delete_pvs_def by (intro filter_True) auto
  then show ?thesis
    unfolding checkVgIfShrink_def
    apply (subst go_bind_run [where m = "GetPhysicalVolume E (DC_VgName cls)" and s = s, OF assms(1)])
    apply (simp only: sum.case)
    apply (subst go_bind_run [where a = "sort_key rank (gm_keys pvs)" and t = "s1\<lparr>world := w\<rparr>" and
          m = "go_range E pvs" and s = s1])
     apply (simp add: go_range_def rank)
    apply (rule exI [of _ w])
    apply (simp add: Let_def gm_keys_def assms(2))
    done
qed

end
