(* ===== verification/LoopDevices.thy ===== *)
theory LoopDevices
  imports PrepareVg
begin

text \<open>
  \<open>checkLoopDevice\<close> and \<open>getAbsoluteFileName\<close> of
  \<open>controllers/preparevg_controller.go\<close>: the loop devices of the configured disks are
  created, or looked up, and recorded in the list of loop states (which is stored with the node
  status) and in the map from configured names to states.
  Proved: the recorded names stay distinct and are all marked successful, every automatic loop
  disk gets an entry in the map, and a second pass over the same disks runs no command.
\<close>

definition getAbsoluteFileName :: "string \<Rightarrow> string \<Rightarrow> string" where
  "getAbsoluteFileName path file = (if has_suffix path ''/'' then path @ file else path @ ''/'' @ file)"

text \<open>The state of a new automatic loop device; the status of a failure is overwritten.\<close>

definition auto_loop_state :: "Disk \<Rightarrow> string \<Rightarrow> string \<Rightarrow> go_error option \<Rightarrow> LoopState" where
  "auto_loop_state ele file loopName err =
     (let s = zero_LoopState\<lparr>Loop_Name := Disk_Name ele, Loop_File := getAbsoluteFileName (Disk_Path ele) file\<rparr>;
          s = (case err of None \<Rightarrow> s | Some e \<Rightarrow> s\<lparr>Loop_Status := LoopCreateFailed, Loop_Message := err_msg e\<rparr>)
      in s\<lparr>Loop_Status := LoopCreateSuccessful, Loop_DeviceName := loopName\<rparr>)"

definition manual_loop_state :: "Disk \<Rightarrow> string \<Rightarrow> go_error option \<Rightarrow> LoopState" where
  "manual_loop_state ele file err =
     (let s = zero_LoopState\<lparr>Loop_Name := Disk_Name ele, Loop_Status := LoopCreateSuccessful,
                Loop_DeviceName := Disk_Name ele\<rparr>;
          s = (case err of None \<Rightarrow> s | Some e \<Rightarrow> s\<lparr>Loop_Message := err_msg e\<rparr>)
      in s\<lparr>Loop_File := file\<rparr>)"

definition check_loop_step ::
    "'w executor \<Rightarrow> Disk \<Rightarrow> LoopState list \<times> LoopState gomap \<Rightarrow> ('w host, LoopState list \<times> LoopState gomap) go" where
  "check_loop_step E ele = (\<lambda>(loops, loopMap).
     if Disk_Type ele \<noteq> Loop then go_return (loops, loopMap)
     else
       let found = find_index (\<lambda>l. Loop_Name l = Disk_Name ele) loops;
           created = (case found of None \<Rightarrow> False | Some i \<Rightarrow> Loop_Status (loops ! i) = LoopCreateSuccessful);
           loopMap1 = (case found of None \<Rightarrow> loopMap
              | Some i \<Rightarrow> if created then gm_put (Loop_Name (loops ! i)) (loops ! i) loopMap else loopMap)
       in if Disk_Auto ele then
            if \<not> created then
              go_bind (uuid_new E) (\<lambda>file.
              go_bind (CreateLoop E (getAbsoluteFileName (Disk_Path ele) file) (Disk_Size ele)) (\<lambda>(loopName, err).
                let s = auto_loop_state ele file loopName err
                in go_return (case found of Some i \<Rightarrow> loops[i := s] | None \<Rightarrow> loops @ [s],
                     gm_put (Disk_Name ele) s loopMap1)))
            else go_return (loops, loopMap1)
          else
            if \<not> created then
              go_bind (GetLoopBackFile E (Disk_Name ele)) (\<lambda>(file, err).
                go_return (loops @ [manual_loop_state ele file err], loopMap1))
            else go_return (loops, loopMap1))"

definition checkLoopDevice ::
    "'w executor \<Rightarrow> Disk list \<Rightarrow> LoopState list \<times> LoopState gomap \<Rightarrow> ('w host, LoopState list \<times> LoopState gomap) go" where
  "checkLoopDevice E disks = go_fold (check_loop_step E) disks"

section \<open>The recorded loops\<close>

definition loops_ok :: "LoopState list \<Rightarrow> bool" where
  "loops_ok loops \<longleftrightarrow> distinct (map Loop_Name loops) \<and> (\<forall>l \<in> set loops. Loop_Status l = LoopCreateSuccessful)"

lemma new_loop_state_sel [simp]:
  "Loop_Name (auto_loop_state ele file n err) = Disk_Name ele"
  "Loop_Status (auto_loop_state ele file n err) = LoopCreateSuccessful"
  "Loop_DeviceName (auto_loop_state ele file n err) = n"
  "Loop_Name (manual_loop_state ele file err) = Disk_Name ele"
  "Loop_Status (manual_loop_state ele file err) = LoopCreateSuccessful"
  "Loop_DeviceName (manual_loop_state ele file err) = Disk_Name ele"
  by (auto simp: auto_loop_state_def manual_loop_state_def Let_def split: option.splits)

text \<open>A disk is recorded when a loop of its name is; what is recorded stays recorded.\<close>

definition recorded :: "LoopState list \<Rightarrow> string \<Rightarrow> bool" where
  "recorded loops n \<longleftrightarrow> n \<in> Loop_Name ` set loops"

definition loops_inv :: "LoopState list \<Rightarrow> Disk list \<Rightarrow> LoopState list \<times> LoopState gomap \<Rightarrow> bool" where
  "loops_inv loops0 ds st \<longleftrightarrow> loops_ok (fst st) \<and> (\<exists>new. fst st = loops0 @ new) \<and>
     (\<forall>d \<in> set ds. Disk_Type d = Loop \<longrightarrow> recorded (fst st) (Disk_Name d)) \<and>
     (\<forall>d \<in> set ds. auto_loop d \<longrightarrow> gm_has (snd st) (Disk_Name d))"

lemma find_loop_recorded:
  "find_index (\<lambda>l. Loop_Name l = n) loops = None \<longleftrightarrow> \<not> recorded loops n"
  by (auto simp: find_index_None recorded_def)

lemma find_loop_Some:
  "loops_ok loops \<Longrightarrow> find_index (\<lambda>l. Loop_Name l = n) loops = Some i \<Longrightarrow>
   Loop_Name (loops ! i) = n \<and> Loop_Status (loops ! i) = LoopCreateSuccessful \<and> recorded loops n"
  by (auto simp: loops_ok_def recorded_def dest!: find_index_Some)

lemma loops_ok_append:
  "loops_ok loops \<Longrightarrow> \<not> recorded loops (Loop_Name l) \<Longrightarrow> Loop_Status l = LoopCreateSuccessful \<Longrightarrow>
   loops_ok (loops @ [l])"
  by (auto simp: loops_ok_def recorded_def)

lemma recorded_append [simp]: "recorded (xs @ ys) n \<longleftrightarrow> recorded xs n \<or> recorded ys n"
  by (auto simp: recorded_def)

lemma recorded_Cons [simp]: "recorded (l # ls) n \<longleftrightarrow> Loop_Name l = n \<or> recorded ls n" "\<not> recorded [] n"
  by (auto simp: recorded_def)

text \<open>Under the invariant a recorded disk runs no command; any other one is appended.\<close>

lemma check_loop_step_recorded:
  assumes "loops_ok loops" "Disk_Type ele = Loop \<longrightarrow> recorded loops (Disk_Name ele)"
  shows "\<exists>m'. check_loop_step E ele (loops, m) = go_return (loops, m') \<and>
     (auto_loop ele \<longrightarrow> gm_has m' (Disk_Name ele)) \<and> (\<forall>k. gm_has m k \<longrightarrow> gm_has m' k)"
proof (cases "find_index (\<lambda>l. Loop_Name l = Disk_Name ele) loops")
  case None
  with assms show ?thesis by (auto simp: check_loop_step_def find_loop_recorded auto_loop_def)
next
  case (Some i)
  with find_loop_Some [OF assms(1) Some] show ?thesis by (auto simp: check_loop_step_def auto_loop_def Let_def)
qed

lemma check_loop_step_inv:
  assumes "loops_inv loops0 ds st"
  shows "wp (check_loop_step E ele st) (\<lambda>st' t. loops_inv loops0 (ds @ [ele]) st') (\<lambda>_ _. False) s"
proof (cases st)
  case (Pair loops m)
  have ok: "loops_ok loops" using assms Pair by (simp add: loops_inv_def)
  show ?thesis
  proof (cases "Disk_Type ele = Loop \<and> \<not> recorded loops (Disk_Name ele)")
    case False
    then have "Disk_Type ele = Loop \<longrightarrow> recorded loops (Disk_Name ele)" by simp
    from check_loop_step_recorded [OF ok this, of E m] obtain m' where
      "check_loop_step E ele (loops, m) = go_return (loops, m')"
      "auto_loop ele \<longrightarrow> gm_has m' (Disk_Name ele)" "\<forall>k. gm_has m k \<longrightarrow> gm_has m' k" by blast
    then show ?thesis using assms Pair False by (auto simp: wpg loops_inv_def)
  next
    case True
    then have none: "find_index (\<lambda>l. Loop_Name l = Disk_Name ele) loops = None" by (simp add: find_loop_recorded)
    have ins: "loops_inv loops0 (ds @ [ele]) (loops @ [l], m')"
      if "Loop_Name l = Disk_Name ele" "Loop_Status l = LoopCreateSuccessful"
        "auto_loop ele \<longrightarrow> gm_has m' (Disk_Name ele)" "\<And>k. gm_has m k \<Longrightarrow> gm_has m' k" for l m'
      using assms Pair True that loops_ok_append [OF ok, of l] by (auto simp: loops_inv_def)
    show ?thesis
      unfolding Pair check_loop_step_def
      using True none
      by (auto simp: Let_def wpg CreateLoop_def GetLoopBackFile_def wrapExecCommand_def wrapExecCommandWithOutput_def
          auto_loop_def split: option.splits list.splits intro!: ins)
  qed
qed

lemma checkLoopDevice_inv:
  assumes "loops_ok loops"
  shows "wp (checkLoopDevice E disks (loops, m)) (\<lambda>st' t. loops_inv loops disks st') (\<lambda>_ _. False) s"
  unfolding checkLoopDevice_def
  by (rule wp_go_fold_prefix [where I = "\<lambda>ds st t. loops_inv loops ds st"])
     (auto simp: loops_inv_def [of _ "[]"] assms intro: check_loop_step_inv)

lemma checkLoopDevice_again:
  assumes "loops_ok loops" "\<forall>d \<in> set disks. Disk_Type d = Loop \<longrightarrow> recorded loops (Disk_Name d)"
  shows "\<exists>m'. checkLoopDevice E disks (loops, m) = go_return (loops, m')"
  using assms(2) unfolding checkLoopDevice_def
proof (induction disks arbitrary: m)
  case (Cons d ds)
  from check_loop_step_recorded [OF assms(1), of d E m] Cons.prems obtain m1 where
    "check_loop_step E d (loops, m) = go_return (loops, m1)" by auto
  then show ?case using Cons by simp
qed simp

text \<open>A loop device that could not be created is recorded as successful, without a device.\<close>

lemma check_loop_step_failure:
  assumes "auto_loop ele" "\<not> recorded loops (Disk_Name ele)"
    and "\<And>f s. wp (CreateLoop E f (Disk_Size ele)) (\<lambda>(n, err) t. n = [] \<and> err \<noteq> None) (\<lambda>_ _. False) s"
  shows "wp (check_loop_step E ele (loops, m))
     (\<lambda>(loops', m') t. \<exists>l. loops' = loops @ [l] \<and> Loop_Status l = LoopCreateSuccessful \<and>
        getDeviceName m' (Disk_Name ele) = [] \<and> Loop_DeviceName l = []) (\<lambda>_ _. False) s"
  unfolding check_loop_step_def
  using assms(1,2)
  by (auto simp: Let_def wpg auto_loop_def find_loop_recorded [symmetric] getDeviceName_def gm.get_put
      intro!: wp_mono [OF assms(3)])

end
