(* ===== verification/KubeApi.thy ===== *)
theory KubeApi
  imports Executor
begin

text \<open>
  The Kubernetes API as the code reaches it through \<open>clientset\<close> and \<open>client\<close>: for
  each kind of object the requests of its typed client, as functions of the world.  They are
  parameters of the model; nothing is assumed about how the server answers.  Every request is
  recorded in the trace.
\<close>

record ('w, 'o) resource_api =
  ra_get :: "string \<Rightarrow> string \<Rightarrow> 'w \<Rightarrow> (go_error + 'o) \<times> 'w"
  ra_list :: "string \<Rightarrow> string \<Rightarrow> 'w \<Rightarrow> (go_error + 'o list) \<times> 'w"
  ra_create :: "string \<Rightarrow> 'o \<Rightarrow> 'w \<Rightarrow> go_error option \<times> 'w"
  ra_update :: "string \<Rightarrow> 'o \<Rightarrow> 'w \<Rightarrow> go_error option \<times> 'w"
  ra_update_status :: "string \<Rightarrow> 'o \<Rightarrow> 'w \<Rightarrow> go_error option \<times> 'w"
  ra_patch :: "string \<Rightarrow> string \<Rightarrow> string \<Rightarrow> 'w \<Rightarrow> go_error option \<times> 'w"
  ra_delete :: "string \<Rightarrow> string \<Rightarrow> 'w \<Rightarrow> go_error option \<times> 'w"

text \<open>
  The clients by kind, the two-way merge patch of the \<open>strategicpatch\<close> package on the
  serialised objects, the comparison of workloads of the \<open>objectmatcher\<close> package, the process
  environment, and SHA-256.
\<close>

record 'w clientset =
  ConfigMaps :: "('w, ConfigMap) resource_api"
  Deployments :: "('w, Workload) resource_api"
  DaemonSets :: "('w, Workload) resource_api"
  Nodes :: "('w, Node) resource_api"
  Pods :: "('w, Pod) resource_api"
  Jobs :: "('w, Job) resource_api"
  Clusters :: "('w, TopolvmCluster) resource_api"
  CSIDrivers :: "('w, CSIDriver) resource_api"
  PodSecurityPolicies :: "('w, PodSecurityPolicy) resource_api"
  Secrets :: "('w, string) resource_api"
  cm_merge_patch :: "ConfigMap \<Rightarrow> ConfigMap \<Rightarrow> go_error + string"
  node_merge_patch :: "Node \<Rightarrow> Node \<Rightarrow> go_error + string"
  workload_patch_empty :: "Workload \<Rightarrow> Workload \<Rightarrow> go_error + bool"
  ServerVersion :: "'w \<Rightarrow> (go_error + string \<times> string) \<times> 'w"
  LookupEnv :: "string \<Rightarrow> string option"
  Sha256 :: "string \<Rightarrow> string"

definition api_get :: "string \<Rightarrow> ('w, 'o) resource_api \<Rightarrow> string \<Rightarrow> string \<Rightarrow> ('w host, go_error + 'o) go" where
  "api_get kind A ns name = (\<lambda>s. case ra_get A ns name (world s) of
     (r, w) \<Rightarrow> (Ret r, record_event (Api VGet (Named kind name)) w s))"

definition api_list :: "string \<Rightarrow> ('w, 'o) resource_api \<Rightarrow> string \<Rightarrow> string \<Rightarrow> ('w host, go_error + 'o list) go" where
  "api_list kind A ns sel = (\<lambda>s. case ra_list A ns sel (world s) of
     (r, w) \<Rightarrow> (Ret r, record_event (Api VList (Named kind sel)) w s))"

definition api_create :: "('o \<Rightarrow> kobject) \<Rightarrow> ('w, 'o) resource_api \<Rightarrow> string \<Rightarrow> 'o \<Rightarrow> ('w host, go_error option) go" where
  "api_create obj A ns x = (\<lambda>s. case ra_create A ns x (world s) of
     (r, w) \<Rightarrow> (Ret r, record_event (Api VCreate (obj x)) w s))"

definition api_update :: "('o \<Rightarrow> kobject) \<Rightarrow> ('w, 'o) resource_api \<Rightarrow> string \<Rightarrow> 'o \<Rightarrow> ('w host, go_error option) go" where
  "api_update obj A ns x = (\<lambda>s. case ra_update A ns x (world s) of
     (r, w) \<Rightarrow> (Ret r, record_event (Api VUpdate (obj x)) w s))"

definition api_update_status :: "('o \<Rightarrow> kobject) \<Rightarrow> ('w, 'o) resource_api \<Rightarrow> string \<Rightarrow> 'o \<Rightarrow> ('w host, go_error option) go" where
  "api_update_status obj A ns x = (\<lambda>s. case ra_update_status A ns x (world s) of
     (r, w) \<Rightarrow> (Ret r, record_event (Api VUpdateStatus (obj x)) w s))"

text \<open>The event of a patch carries the object the patch was computed for.\<close>

definition api_patch :: "kobject \<Rightarrow> ('w, 'o) resource_api \<Rightarrow> string \<Rightarrow> string \<Rightarrow> string \<Rightarrow> ('w host, go_error option) go" where
  "api_patch obj A ns name p = (\<lambda>s. case ra_patch A ns name p (world s) of
     (r, w) \<Rightarrow> (Ret r, record_event (Api VPatch obj) w s))"

definition api_delete :: "string \<Rightarrow> ('w, 'o) resource_api \<Rightarrow> string \<Rightarrow> string \<Rightarrow> ('w host, go_error option) go" where
  "api_delete kind A ns name = (\<lambda>s. case ra_delete A ns name (world s) of
     (r, w) \<Rightarrow> (Ret r, record_event (Api VDelete (Named kind name)) w s))"

lemma wp_api [wpg]:
  "wp (api_get kind A ns n) Q R s \<longleftrightarrow> (\<forall>r w. ra_get A ns n (world s) = (r, w) \<longrightarrow>
     Q r (record_event (Api VGet (Named kind n)) w s))"
  "wp (api_list kind A ns n) Q' R s \<longleftrightarrow> (\<forall>r w. ra_list A ns n (world s) = (r, w) \<longrightarrow>
     Q' r (record_event (Api VList (Named kind n)) w s))"
  "wp (api_create obj A ns x) P R s \<longleftrightarrow> (\<forall>r w. ra_create A ns x (world s) = (r, w) \<longrightarrow>
     P r (record_event (Api VCreate (obj x)) w s))"
  "wp (api_update obj A ns x) P R s \<longleftrightarrow> (\<forall>r w. ra_update A ns x (world s) = (r, w) \<longrightarrow>
     P r (record_event (Api VUpdate (obj x)) w s))"
  "wp (api_update_status obj A ns x) P R s \<longleftrightarrow> (\<forall>r w. ra_update_status A ns x (world s) = (r, w) \<longrightarrow>
     P r (record_event (Api VUpdateStatus (obj x)) w s))"
  "wp (api_patch ob A ns n p) P R s \<longleftrightarrow> (\<forall>r w. ra_patch A ns n p (world s) = (r, w) \<longrightarrow>
     P r (record_event (Api VPatch ob) w s))"
  "wp (api_delete kind A ns n) P R s \<longleftrightarrow> (\<forall>r w. ra_delete A ns n (world s) = (r, w) \<longrightarrow>
     P r (record_event (Api VDelete (Named kind n)) w s))"
  by (auto simp: wp_def api_get_def api_list_def api_create_def api_update_def api_update_status_def
      api_patch_def api_delete_def split: prod.splits)

lemma only_issues_api [issues]:
  "P (Api VGet (Named kind n)) \<Longrightarrow> only_issues P (api_get kind A ns n)"
  "P (Api VList (Named kind n)) \<Longrightarrow> only_issues P (api_list kind A ns n)"
  "P (Api VCreate (obj x)) \<Longrightarrow> only_issues P (api_create obj A ns x)"
  "P (Api VUpdate (obj x)) \<Longrightarrow> only_issues P (api_update obj A ns x)"
  "P (Api VUpdateStatus (obj x)) \<Longrightarrow> only_issues P (api_update_status obj A ns x)"
  "P (Api VPatch ob) \<Longrightarrow> only_issues P (api_patch ob A ns n p)"
  "P (Api VDelete (Named kind n)) \<Longrightarrow> only_issues P (api_delete kind A ns n)"
  by (simp_all add: only_issues_def api_get_def api_list_def api_create_def api_update_def
      api_update_status_def api_patch_def api_delete_def split: prod.splits)

section \<open>Config maps\<close>

definition cm_get :: "'w clientset \<Rightarrow> string \<Rightarrow> string \<Rightarrow> ('w host, go_error + ConfigMap) go" where
  "cm_get K ns name = api_get ''ConfigMap'' (ConfigMaps K) ns name"

definition cm_create :: "'w clientset \<Rightarrow> string \<Rightarrow> ConfigMap \<Rightarrow> ('w host, go_error option) go" where
  "cm_create K ns cm = api_create ConfigMapObj (ConfigMaps K) ns cm"

text \<open>
  \<open>PatchConfigMap\<close> of \<open>pkg/operator/k8sutil/configmap.go\<close>: the difference of the two
  objects is computed locally and sent for the old object's name.
\<close>

definition PatchConfigMap ::
    "'w clientset \<Rightarrow> string \<Rightarrow> ConfigMap \<Rightarrow> ConfigMap \<Rightarrow> ('w host, go_error option) go" where
  "PatchConfigMap K ns oldConfigMap newConfigMap =
     (case cm_merge_patch K oldConfigMap newConfigMap of
       Inl e \<Rightarrow> go_return (Some e)
     | Inr patchBytes \<Rightarrow>
         api_patch (ConfigMapObj newConfigMap) (ConfigMaps K) ns (CM_Name oldConfigMap) patchBytes)"

definition CreateOrPatchConfigmap :: "'w clientset \<Rightarrow> ConfigMap \<Rightarrow> ('w host, go_error option) go" where
  "CreateOrPatchConfigmap K cm =
     go_bind (cm_get K (CM_Namespace cm) (CM_Name cm)) (\<lambda>r. case r of
       Inr existingCm \<Rightarrow> PatchConfigMap K (CM_Namespace existingCm) existingCm cm
     | Inl _ \<Rightarrow> cm_create K (CM_Namespace cm) cm)"

text \<open>
  \<open>GetValue\<close>: a setting from the config map data, else from the environment, else the default.
\<close>

definition GetValue :: "'w clientset \<Rightarrow> string gomap \<Rightarrow> string \<Rightarrow> string \<Rightarrow> string" where
  "GetValue K d settingName defaultValue = (case gm_get d settingName of
      Some v \<Rightarrow> v
    | None \<Rightarrow> (case LookupEnv K settingName of Some v \<Rightarrow> v | None \<Rightarrow> defaultValue))"

definition GetOperatorSetting ::
    "'w clientset \<Rightarrow> string \<Rightarrow> string \<Rightarrow> string \<Rightarrow> string \<Rightarrow> ('w host, string \<times> go_error option) go" where
  "GetOperatorSetting K ns configMapName settingName defaultValue =
     go_bind (cm_get K ns configMapName) (\<lambda>r. case r of
       Inl e \<Rightarrow>
         if IsNotFound e then
           (case LookupEnv K settingName of
             Some v \<Rightarrow> go_return (v, None)
           | None \<Rightarrow> go_return (defaultValue, None))
         else go_return (defaultValue, Some (errorf (''error reading ConfigMap '' @ configMapName @ ''. '' @ err_msg e)))
     | Inr cm \<Rightarrow>
         (case gm_get (cm_data cm) settingName of
           Some v \<Rightarrow> go_return (v, None)
         | None \<Rightarrow>
             (case LookupEnv K settingName of
               Some v \<Rightarrow> go_return (v, None)
             | None \<Rightarrow> go_return (defaultValue, None))))"

section \<open>Names\<close>

text \<open>\<open>Hash\<close> and \<open>TruncateNodeName\<close> of \<open>k8sutils.go\<close>, the format given by what stands before \<open>%s\<close>.\<close>

definition hex_encode :: "string \<Rightarrow> string" where
  "hex_encode bs = concat (map (\<lambda>b. let n = of_char b :: nat in [hex_digit (n div 16), hex_digit (n mod 16)]) bs)"

definition Hash :: "'w clientset \<Rightarrow> string \<Rightarrow> string" where
  "Hash K s = hex_encode (take 16 (Sha256 K s))"

definition DNS1035LabelMaxLength :: nat where
  "DNS1035LabelMaxLength = 63"

definition TruncateNodeName :: "'w clientset \<Rightarrow> string \<Rightarrow> string \<Rightarrow> string" where
  "TruncateNodeName K format nodeName =
     (if length nodeName + length format > DNS1035LabelMaxLength
      then format @ Hash K nodeName else format @ nodeName)"

lemma length_hex_encode: "length (hex_encode bs) = 2 * length bs"
  by (induction bs) (simp_all add: hex_encode_def Let_def)

lemma length_Hash: "length (Hash K s) \<le> 32"
  by (simp add: Hash_def length_hex_encode)

lemma length_TruncateNodeName:
  "length format \<le> 31 \<Longrightarrow> length (TruncateNodeName K format nodeName) \<le> DNS1035LabelMaxLength"
  using length_Hash [of K nodeName] by (simp add: TruncateNodeName_def DNS1035LabelMaxLength_def)

section \<open>Who writes what\<close>

text \<open>Programs that run commands, read, and patch config maps with a property.\<close>

definition patches_only :: "(ConfigMap \<Rightarrow> bool) \<Rightarrow> event \<Rightarrow> bool" where
  "patches_only P ev \<longleftrightarrow> is_exec ev \<or> (\<exists>ob. ev = Api VGet ob) \<or> (\<exists>cm. ev = Api VPatch (ConfigMapObj cm) \<and> P cm)"

lemma exec_patches [intro]: "only_issues is_exec m \<Longrightarrow> only_issues (patches_only P) m"
  by (erule only_issues_mono) (simp add: patches_only_def)

lemma PatchConfigMap_issues [issues]:
  "P (Api VPatch (ConfigMapObj new)) \<Longrightarrow> only_issues P (PatchConfigMap K ns old new)"
  by (auto simp: PatchConfigMap_def intro!: issues)

text \<open>Programs that read, and update one cluster object with a property.\<close>

definition is_read :: "event \<Rightarrow> bool" where
  "is_read ev \<longleftrightarrow> (\<exists>ob. ev = Api VGet ob \<or> ev = Api VList ob)"

lemma is_read_simps [simp]: "is_read (Api VGet ob)" "is_read (Api VList ob)"
  by (simp_all add: is_read_def)

definition updates_cluster :: "(TopolvmCluster \<Rightarrow> bool) \<Rightarrow> event \<Rightarrow> bool" where
  "updates_cluster P ev \<longleftrightarrow> is_read ev \<or>
     (\<exists>cl. (ev = Api VUpdateStatus (ClusterObj cl) \<or> ev = Api VUpdate (ClusterObj cl)) \<and> P cl)"

lemma updates_cluster_simps [simp]:
  "updates_cluster P (Api VUpdateStatus (ClusterObj cl)) \<longleftrightarrow> P cl"
  "updates_cluster P (Api VUpdate (ClusterObj cl)) \<longleftrightarrow> P cl"
  "updates_cluster P (Api VGet ob)" "updates_cluster P (Api VList ob)"
  by (auto simp: updates_cluster_def is_read_def)

end
