(* ===== verification/Json.thy ===== *)
theory Json
  imports GoStrings
begin

text \<open>
  The part of Go's \<open>encoding/json\<close> the source uses, on byte strings: values, the compact
  printer of \<open>Marshal\<close> with its HTML-safe string escapes, and the reader of
  \<open>Unmarshal\<close> as a lexer and a parser with an explicit stack, both structurally
  recursive.  Proved: the reader gets back every value the printer writes, for strings in ASCII.
  Not modelled: the limit of 10000 on the nesting depth.
\<close>

datatype json =
    JNull
  | JBool bool
  | JNum string
  | JStr string
  | JArr "json list"
  | JObj "(string \<times> json) list"

section \<open>UTF-8\<close>

definition in_range :: "nat \<Rightarrow> nat \<Rightarrow> string \<Rightarrow> nat \<Rightarrow> bool" where
  "in_range lo hi s i \<longleftrightarrow> i < length s \<and> lo \<le> of_char (s ! i) \<and> (of_char (s ! i) :: nat) \<le> hi"

text \<open>The length of the valid multi-byte sequence a string starts with, or 0.\<close>

definition utf8_size :: "string \<Rightarrow> nat" where
  "utf8_size s =
     (if in_range 0xC2 0xDF s 0 \<and> in_range 0x80 0xBF s 1 then 2
      else if (in_range 0xE0 0xE0 s 0 \<and> in_range 0xA0 0xBF s 1 \<or>
               in_range 0xE1 0xEC s 0 \<and> in_range 0x80 0xBF s 1 \<or>
               in_range 0xED 0xED s 0 \<and> in_range 0x80 0x9F s 1 \<or>
               in_range 0xEE 0xEF s 0 \<and> in_range 0x80 0xBF s 1) \<and> in_range 0x80 0xBF s 2 then 3
      else if (in_range 0xF0 0xF0 s 0 \<and> in_range 0x90 0xBF s 1 \<or>
               in_range 0xF1 0xF3 s 0 \<and> in_range 0x80 0xBF s 1 \<or>
               in_range 0xF4 0xF4 s 0 \<and> in_range 0x80 0x8F s 1) \<and>
              in_range 0x80 0xBF s 2 \<and> in_range 0x80 0xBF s 3 then 4
      else 0)"

definition utf8_encode :: "nat \<Rightarrow> string" where
  "utf8_encode r =
     (if r < 0x80 then [char_of r]
      else if r < 0x800 then [char_of (0xC0 + r div 64), char_of (0x80 + r mod 64)]
      else if r < 0x10000 then
        [char_of (0xE0 + r div 4096), char_of (0x80 + r div 64 mod 64), char_of (0x80 + r mod 64)]
      else [char_of (0xF0 + r div 262144), char_of (0x80 + r div 4096 mod 64),
            char_of (0x80 + r div 64 mod 64), char_of (0x80 + r mod 64)])"

definition rune_error :: nat where "rune_error = 0xFFFD"

section \<open>Printing\<close>

definition unicode_escape :: "nat \<Rightarrow> string" where
  "unicode_escape n = CHR 0x5C # CHR ''u'' #
     [hex_digit (n div 4096 mod 16), hex_digit (n div 256 mod 16), hex_digit (n div 16 mod 16), hex_digit (n mod 16)]"

definition escape_ascii :: "char \<Rightarrow> string" where
  "escape_ascii c =
     (if c = CHR 0x22 \<or> c = CHR 0x5C then [CHR 0x5C, c]
      else if c = CHR 0x0A then [CHR 0x5C, CHR ''n'']
      else if c = CHR 0x0D then [CHR 0x5C, CHR ''r'']
      else if c = CHR 0x09 then [CHR 0x5C, CHR ''t'']
      else if (of_char c :: nat) < 32 \<or> c = CHR ''<'' \<or> c = CHR ''>'' \<or> c = CHR ''&''
      then unicode_escape (of_char c)
      else [c])"

fun json_escape :: "string \<Rightarrow> string" where
  "json_escape [] = []"
| "json_escape (c # cs) =
     (if (of_char c :: nat) < 128 then escape_ascii c @ json_escape cs
      else let n = utf8_size (c # cs) in
        if n = 0 then unicode_escape rune_error @ json_escape cs
        else if take n (c # cs) = [CHR 0xE2, CHR 0x80, CHR 0xA8] then unicode_escape 0x2028 @ json_escape (drop (n - 1) cs)
        else if take n (c # cs) = [CHR 0xE2, CHR 0x80, CHR 0xA9] then unicode_escape 0x2029 @ json_escape (drop (n - 1) cs)
        else take n (c # cs) @ json_escape (drop (n - 1) cs))"

definition json_quote :: "string \<Rightarrow> string" where
  "json_quote s = CHR 0x22 # json_escape s @ [CHR 0x22]"

fun json_print :: "json \<Rightarrow> string" where
  "json_print JNull = ''null''"
| "json_print (JBool b) = (if b then ''true'' else ''false'')"
| "json_print (JNum n) = n"
| "json_print (JStr s) = json_quote s"
| "json_print (JArr xs) = ''['' @ join_with '','' (map json_print xs) @ '']''"
| "json_print (JObj kvs) =
     ''{'' @ join_with '','' (map (\<lambda>(k, v). json_quote k @ '':'' @ json_print v) kvs) @ ''}''"

section \<open>Lexing\<close>

datatype token = TPunct char | TWord string | TString string

definition is_punct :: "char \<Rightarrow> bool" where
  "is_punct c \<longleftrightarrow> c \<in> set ''{}[]:,''"

definition json_space :: "char \<Rightarrow> bool" where
  "json_space c \<longleftrightarrow> c \<in> {CHR '' '', CHR 0x09, CHR 0x0A, CHR 0x0D}"

text \<open>
  Between tokens, inside a word (a literal or a number: the bytes read so far), or inside a
  string (the raw bytes read so far, and whether a backslash was just read).
\<close>

datatype lex_state = Between | InWord string | InString string bool

fun json_lex :: "lex_state \<Rightarrow> string \<Rightarrow> token list option" where
  "json_lex Between [] = Some []"
| "json_lex (InWord w) [] = Some [TWord w]"
| "json_lex (InString r esc) [] = None"
| "json_lex (InString r esc) (c # cs) =
     (if esc then json_lex (InString (r @ [c]) False) cs
      else if c = CHR 0x5C then json_lex (InString (r @ [c]) True) cs
      else if c = CHR 0x22 then map_option (Cons (TString r)) (json_lex Between cs)
      else json_lex (InString (r @ [c]) False) cs)"
| "json_lex (InWord w) (c # cs) =
     (if json_space c then map_option (Cons (TWord w)) (json_lex Between cs)
      else if is_punct c then map_option (\<lambda>ts. TWord w # TPunct c # ts) (json_lex Between cs)
      else if c = CHR 0x22 then None
      else json_lex (InWord (w @ [c])) cs)"
| "json_lex Between (c # cs) =
     (if json_space c then json_lex Between cs
      else if is_punct c then map_option (Cons (TPunct c)) (json_lex Between cs)
      else if c = CHR 0x22 then json_lex (InString [] False) cs
      else json_lex (InWord [c]) cs)"

section \<open>Words and strings\<close>

definition is_digit :: "char \<Rightarrow> bool" where
  "is_digit c \<longleftrightarrow> digit_of c \<noteq> None"

definition json_exponent :: "string \<Rightarrow> bool" where
  "json_exponent s = (case s of
      [] \<Rightarrow> True
    | c # cs \<Rightarrow> (c = CHR ''e'' \<or> c = CHR ''E'') \<and>
        (let ds = (case cs of [] \<Rightarrow> [] | x # xs \<Rightarrow> if x = CHR ''+'' \<or> x = CHR ''-'' then xs else cs)
         in ds \<noteq> [] \<and> list_all is_digit ds))"

definition json_fraction :: "string \<Rightarrow> bool" where
  "json_fraction s = (case s of
      [] \<Rightarrow> True
    | c # cs \<Rightarrow>
        if c = CHR ''.'' then takeWhile is_digit cs \<noteq> [] \<and> json_exponent (dropWhile is_digit cs)
        else json_exponent s)"

definition json_number :: "string \<Rightarrow> bool" where
  "json_number s =
     (let u = (case s of [] \<Rightarrow> [] | c # cs \<Rightarrow> if c = CHR ''-'' then cs else s)
      in case u of
        [] \<Rightarrow> False
      | d # ds \<Rightarrow> is_digit d \<and>
          (if d = CHR ''0'' then json_fraction ds else json_fraction (dropWhile is_digit ds)))"

definition word_value :: "string \<Rightarrow> json option" where
  "word_value w =
     (if w = ''null'' then Some JNull
      else if w = ''true'' then Some (JBool True)
      else if w = ''false'' then Some (JBool False)
      else if json_number w then Some (JNum w) else None)"

text \<open>Four hexadecimal digits, and the second half of a surrogate pair.\<close>

definition get_u4 :: "string \<Rightarrow> nat option" where
  "get_u4 s = (case s of
      a # b # c # d # _ \<Rightarrow>
        (case (hex_val a, hex_val b, hex_val c, hex_val d) of
          (Some p, Some q, Some r, Some t) \<Rightarrow> Some (p * 4096 + q * 256 + r * 16 + t)
        | _ \<Rightarrow> None)
    | _ \<Rightarrow> None)"

definition surrogate_pair :: "nat \<Rightarrow> string \<Rightarrow> nat option" where
  "surrogate_pair r s = (case s of
      c # u # ds \<Rightarrow>
        if c = CHR 0x5C \<and> u = CHR ''u'' then
          (case get_u4 ds of
            None \<Rightarrow> None
          | Some q \<Rightarrow>
              if 0xD800 \<le> r \<and> r < 0xDC00 \<and> 0xDC00 \<le> q \<and> q < 0xE000
              then Some (0x10000 + (r - 0xD800) * 1024 + (q - 0xDC00)) else None)
        else None
    | _ \<Rightarrow> None)"

definition simple_escape :: "char \<Rightarrow> char option" where
  "simple_escape e =
     (if e = CHR 0x22 \<or> e = CHR 0x5C \<or> e = CHR ''/'' then Some e
      else if e = CHR ''b'' then Some (CHR 0x08)
      else if e = CHR ''f'' then Some (CHR 0x0C)
      else if e = CHR ''n'' then Some (CHR 0x0A)
      else if e = CHR ''r'' then Some (CHR 0x0D)
      else if e = CHR ''t'' then Some (CHR 0x09)
      else None)"

fun json_unquote :: "string \<Rightarrow> string option" where
  "json_unquote [] = Some []"
| "json_unquote (c # cs) =
     (if c = CHR 0x5C then
        (case cs of
          [] \<Rightarrow> None
        | e # ds \<Rightarrow>
            (case simple_escape e of
              Some x \<Rightarrow> map_option (Cons x) (json_unquote ds)
            | None \<Rightarrow>
                if e = CHR ''u'' then
                  (case get_u4 ds of
                    None \<Rightarrow> None
                  | Some r \<Rightarrow>
                      if 0xD800 \<le> r \<and> r < 0xE000 then
                        (case surrogate_pair r (drop 4 ds) of
                          Some p \<Rightarrow> map_option (append (utf8_encode p)) (json_unquote (drop 10 ds))
                        | None \<Rightarrow> map_option (append (utf8_encode rune_error)) (json_unquote (drop 4 ds)))
                      else map_option (append (utf8_encode r)) (json_unquote (drop 4 ds)))
                else None))
      else if c = CHR 0x22 \<or> (of_char c :: nat) < 32 then None
      else if (of_char c :: nat) < 128 then map_option (Cons c) (json_unquote cs)
      else let n = utf8_size (c # cs) in
        if n = 0 then map_option (append (utf8_encode rune_error)) (json_unquote cs)
        else map_option (append (take n (c # cs))) (json_unquote (drop (n - 1) cs)))"

section \<open>Parsing\<close>

text \<open>
  The values that are still open: an array with the elements read so far, or an object with its
  members so far and the key whose value is being read.
\<close>

datatype frame = InArr "json list" | InObj "(string \<times> json) list" string

datatype parse_mode =
    WantValue
  | WantValueOrEnd
  | WantKey "(string \<times> json) list"
  | WantKeyOrEnd
  | WantColon "(string \<times> json) list" string
  | Got json

definition start_value :: "token \<Rightarrow> frame list \<Rightarrow> (parse_mode \<times> frame list) option" where
  "start_value t st = (case t of
      TWord w \<Rightarrow> map_option (\<lambda>v. (Got v, st)) (word_value w)
    | TString r \<Rightarrow> map_option (\<lambda>s. (Got (JStr s), st)) (json_unquote r)
    | TPunct c \<Rightarrow>
        if c = CHR ''['' then Some (WantValueOrEnd, InArr [] # st)
        else if c = CHR ''{'' then Some (WantKeyOrEnd, st)
        else None)"

definition start_key :: "token \<Rightarrow> (string \<times> json) list \<Rightarrow> frame list \<Rightarrow> (parse_mode \<times> frame list) option" where
  "start_key t kvs st = (case t of
      TString r \<Rightarrow> map_option (\<lambda>k. (WantColon kvs k, st)) (json_unquote r)
    | _ \<Rightarrow> None)"

fun parse_step :: "parse_mode \<Rightarrow> frame list \<Rightarrow> token \<Rightarrow> (parse_mode \<times> frame list) option" where
  "parse_step WantValue st t = start_value t st"
| "parse_step WantValueOrEnd st t =
     (if t = TPunct (CHR '']'') then Some (Got (JArr []), tl st) else start_value t st)"
| "parse_step (WantKey kvs) st t = start_key t kvs st"
| "parse_step WantKeyOrEnd st t =
     (if t = TPunct (CHR ''}'') then Some (Got (JObj []), st) else start_key t [] st)"
| "parse_step (WantColon kvs k) st t =
     (if t = TPunct (CHR '':'') then Some (WantValue, InObj kvs k # st) else None)"
| "parse_step (Got v) [] t = None"
| "parse_step (Got v) (InArr xs # st) t =
     (if t = TPunct (CHR '','') then Some (WantValue, InArr (xs @ [v]) # st)
      else if t = TPunct (CHR '']'') then Some (Got (JArr (xs @ [v])), st)
      else None)"
| "parse_step (Got v) (InObj kvs k # st) t =
     (if t = TPunct (CHR '','') then Some (WantKey (kvs @ [(k, v)]), st)
      else if t = TPunct (CHR ''}'') then Some (Got (JObj (kvs @ [(k, v)])), st)
      else None)"

fun parse_run :: "parse_mode \<Rightarrow> frame list \<Rightarrow> token list \<Rightarrow> json option" where
  "parse_run m st [] = (case (m, st) of (Got v, []) \<Rightarrow> Some v | _ \<Rightarrow> None)"
| "parse_run m st (t # ts) =
     (case parse_step m st t of None \<Rightarrow> None | Some (m', st') \<Rightarrow> parse_run m' st' ts)"

definition json_read :: "string \<Rightarrow> json option" where
  "json_read s = (case json_lex Between s of None \<Rightarrow> None | Some ts \<Rightarrow> parse_run WantValue [] ts)"

section \<open>The reader undoes the printer\<close>

definition ascii :: "string \<Rightarrow> bool" where
  "ascii s \<longleftrightarrow> list_all (\<lambda>c. (of_char c :: nat) < 128) s"

fun json_ok :: "json \<Rightarrow> bool" where
  "json_ok JNull = True"
| "json_ok (JBool b) = True"
| "json_ok (JNum n) = (json_number n \<and> list_all is_digit n)"
| "json_ok (JStr s) = ascii s"
| "json_ok (JArr xs) = list_all json_ok xs"
| "json_ok (JObj kvs) = list_all (\<lambda>(k, v). ascii k \<and> json_ok v) kvs"

text \<open>The tokens a printed value consists of.\<close>

fun join_tokens :: "token list list \<Rightarrow> token list" where
  "join_tokens [] = []"
| "join_tokens [w] = w"
| "join_tokens (w # v # ws) = w @ TPunct (CHR '','') # join_tokens (v # ws)"

fun json_tokens :: "json \<Rightarrow> token list" where
  "json_tokens JNull = [TWord ''null'']"
| "json_tokens (JBool b) = [TWord (if b then ''true'' else ''false'')]"
| "json_tokens (JNum n) = [TWord n]"
| "json_tokens (JStr s) = [TString (json_escape s)]"
| "json_tokens (JArr xs) = TPunct (CHR ''['') # join_tokens (map json_tokens xs) @ [TPunct (CHR '']'')]"
| "json_tokens (JObj kvs) = TPunct (CHR ''{'') #
     join_tokens (map (\<lambda>(k, v). TString (json_escape k) # TPunct (CHR '':'') # json_tokens v) kvs) @
     [TPunct (CHR ''}'')]"

lemma hex_digit_plain [simp]:
  "d < 16 \<Longrightarrow> hex_digit d \<noteq> CHR 0x5C" "d < 16 \<Longrightarrow> hex_digit d \<noteq> CHR 0x22"
  by (auto simp: hex_digit_def dest: arg_cong [where f = "of_char :: char \<Rightarrow> nat"] split: if_splits)

lemma lex_escape:
  "ascii s \<Longrightarrow> json_lex (InString r False) (json_escape s @ CHR 0x22 # rest) =
     map_option (Cons (TString (r @ json_escape s))) (json_lex Between rest)"
  by (induction s arbitrary: r) (auto simp: ascii_def escape_ascii_def unicode_escape_def)

lemma lex_quote:
  "ascii s \<Longrightarrow> json_lex Between (json_quote s @ rest) =
     map_option (Cons (TString (json_escape s))) (json_lex Between rest)"
  by (simp add: json_quote_def lex_escape json_space_def is_punct_def)

text \<open>A word ends at the end of the text or at a punctuation mark.\<close>

definition boundary :: "string \<Rightarrow> bool" where
  "boundary s \<longleftrightarrow> s = [] \<or> is_punct (hd s)"

definition word_char :: "char \<Rightarrow> bool" where
  "word_char c \<longleftrightarrow> \<not> json_space c \<and> \<not> is_punct c \<and> c \<noteq> CHR 0x22"

lemma lex_in_word:
  "list_all word_char w \<Longrightarrow> json_lex (InWord r) (w @ rest) = json_lex (InWord (r @ w)) rest"
  by (induction w arbitrary: r) (auto simp: word_char_def)

lemma punct_not_space: "is_punct c \<Longrightarrow> \<not> json_space c"
  by (auto simp: is_punct_def json_space_def)

lemma lex_boundary:
  "boundary rest \<Longrightarrow> json_lex (InWord w) rest = map_option (Cons (TWord w)) (json_lex Between rest)"
  by (cases rest) (auto simp: boundary_def punct_not_space option.map_comp comp_def)

lemma lex_word:
  "w \<noteq> [] \<Longrightarrow> list_all word_char w \<Longrightarrow> boundary rest \<Longrightarrow>
   json_lex Between (w @ rest) = map_option (Cons (TWord w)) (json_lex Between rest)"
  by (cases w) (simp_all add: lex_in_word lex_boundary, simp add: word_char_def lex_in_word lex_boundary)

lemma lex_punct:
  "is_punct c \<Longrightarrow> json_lex Between (c # cs) = map_option (Cons (TPunct c)) (json_lex Between cs)"
  by (simp add: punct_not_space)

lemma digit_word_char: "is_digit c \<Longrightarrow> word_char c"
  by (auto simp: is_digit_def digit_of_def word_char_def json_space_def is_punct_def Let_def split: if_splits)

lemma puncts [simp]:
  "is_punct (CHR ''['')" "is_punct (CHR '']'')" "is_punct (CHR ''{'')" "is_punct (CHR ''}'')"
  "is_punct (CHR '':'')" "is_punct (CHR '','')"
  by (simp_all add: is_punct_def)

lemma puncts_not_space [simp]:
  "\<not> json_space (CHR ''['')" "\<not> json_space (CHR '']'')" "\<not> json_space (CHR ''{'')"
  "\<not> json_space (CHR ''}'')" "\<not> json_space (CHR '':'')" "\<not> json_space (CHR '','')"
  by (simp_all add: json_space_def)

lemma boundary_punct [simp]: "boundary (c # cs) = is_punct c" "boundary []"
  by (simp_all add: boundary_def)

text \<open>Items that lex one by one lex when joined by commas.\<close>

lemma lex_join:
  assumes "\<And>x rest. x \<in> set xs \<Longrightarrow> boundary rest \<Longrightarrow>
      json_lex Between (p x @ rest) = map_option (append (t x)) (json_lex Between rest)"
    and "boundary rest"
  shows "json_lex Between (join_with '','' (map p xs) @ rest) =
      map_option (append (join_tokens (map t xs))) (json_lex Between rest)"
  using assms
proof (induction xs)
  case Nil
  then show ?case by (simp add: option.map_id0 id_def [symmetric])
next
  case (Cons x xs)
  show ?case
  proof (cases xs)
    case Nil
    then show ?thesis using Cons.prems by simp
  next
    case (Cons y ys)
    with Cons.IH Cons.prems show ?thesis
      by (simp add: lex_punct option.map_comp comp_def)
  qed
qed

lemma lex_print:
  "json_ok j \<Longrightarrow> boundary rest \<Longrightarrow>
   json_lex Between (json_print j @ rest) = map_option (append (json_tokens j)) (json_lex Between rest)"
proof (induction j arbitrary: rest)
  case (JNum n)
  then have "n \<noteq> []" by (auto simp: json_number_def)
  with JNum show ?case by (auto simp: lex_word list_all_iff digit_word_char cong: map_option_cong)
next
  case (JArr xs)
  then show ?case
    using lex_join [of xs json_print json_tokens "'']'' @ rest"]
    by (simp add: lex_punct option.map_comp comp_def list_all_iff)
next
  case (JObj kvs)
  let ?p = "\<lambda>(k, v). json_quote k @ '':'' @ json_print v"
  let ?t = "\<lambda>(k, v). TString (json_escape k) # TPunct (CHR '':'') # json_tokens v"
  have item: "json_lex Between (?p x @ rest) = map_option (append (?t x)) (json_lex Between rest)"
    if x: "x \<in> set kvs" and "boundary rest" for x rest
  proof (cases x)
    case (Pair k v)
    then have "ascii k" "json_ok v" "v \<in> Basic_BNFs.snds x"
      using x JObj.prems(1) by (auto simp: list_all_iff)
    then show ?thesis
      using JObj.IH [OF x, of v rest] Pair that(2)
      by (simp add: lex_quote lex_punct option.map_comp comp_def append_Cons [abs_def])
  qed
  show ?case
    using lex_join [of kvs ?p ?t "''}'' @ rest"] item
    by (simp add: lex_punct option.map_comp comp_def)
qed (auto simp: lex_boundary lex_quote json_space_def is_punct_def append_Cons [abs_def])

text \<open>Strings come back from their escapes.\<close>

lemma append_single: "(@) [c] = (#) c"
  by (rule ext) simp

lemma unquote_unicode:
  "n < 128 \<Longrightarrow> json_unquote (unicode_escape n @ rest) = map_option (Cons (char_of n)) (json_unquote rest)"
  by (simp add: unicode_escape_def get_u4_def simple_escape_def utf8_encode_def append_single)

lemma unquote_ascii:
  "(of_char c :: nat) < 128 \<Longrightarrow>
   json_unquote (escape_ascii c @ rest) = map_option (Cons c) (json_unquote rest)"
  by (auto simp: escape_ascii_def simple_escape_def unquote_unicode)

lemma unquote_escape: "ascii s \<Longrightarrow> json_unquote (json_escape s) = Some s"
  by (induction s) (simp_all add: ascii_def unquote_ascii)

text \<open>The parser run on the tokens of a value completes that value on top of the stack.\<close>

lemma word_value_number: "json_number n \<Longrightarrow> list_all is_digit n \<Longrightarrow> word_value n = Some (JNum n)"
  by (auto simp: word_value_def is_digit_def digit_of_def)

lemma run_array:
  assumes "\<And>y st ts. y \<in> set ys \<Longrightarrow>
      parse_run WantValue st (json_tokens y @ ts) = parse_run (Got y) st ts"
    and "ys \<noteq> []"
  shows "parse_run WantValue (InArr xs # st) (join_tokens (map json_tokens ys) @ TPunct (CHR '']'') # ts) =
    parse_run (Got (JArr (xs @ ys))) st ts"
  using assms
proof (induction ys arbitrary: xs)
  case (Cons y ys)
  show ?case
  proof (cases ys)
    case Nil
    then show ?thesis using Cons.prems by simp
  next
    case (Cons z zs)
    with Cons.IH [of "xs @ [y]"] Cons.prems show ?thesis by simp
  qed
qed simp

definition member_tokens :: "string \<times> json \<Rightarrow> token list" where
  "member_tokens = (\<lambda>(k, v). TString (json_escape k) # TPunct (CHR '':'') # json_tokens v)"

lemma member_tokens_pair [simp]:
  "member_tokens (k, v) = TString (json_escape k) # TPunct (CHR '':'') # json_tokens v"
  by (simp add: member_tokens_def)

lemma run_object:
  assumes "\<And>k v st ts. (k, v) \<in> set kvs \<Longrightarrow> ascii k \<and>
      parse_run WantValue st (json_tokens v @ ts) = parse_run (Got v) st ts"
    and "kvs \<noteq> []"
  shows "parse_run (WantKey done) st (join_tokens (map member_tokens kvs) @ TPunct (CHR ''}'') # ts) =
    parse_run (Got (JObj (done @ kvs))) st ts"
  using assms
proof (induction kvs arbitrary: "done")
  case (Cons kv kvs)
  obtain k v where kv: "kv = (k, v)" by (cases kv)
  have head: "json_unquote (json_escape k) = Some k"
    "parse_run WantValue st (json_tokens v @ ts) = parse_run (Got v) st ts" for st ts
    using Cons.prems(1) [of k v] kv by (simp_all add: unquote_escape)
  show ?case
  proof (cases kvs)
    case Nil
    then show ?thesis by (simp add: kv start_key_def head)
  next
    case (Cons z zs)
    have "parse_run (WantKey (done @ [kv])) st (join_tokens (map member_tokens kvs) @ TPunct (CHR ''}'') # ts) =
        parse_run (Got (JObj ((done @ [kv]) @ kvs))) st ts"
      by (rule Cons.IH) (use Cons Cons.prems(1) in auto)
    then show ?thesis using Cons
      by (simp add: kv start_key_def head)
  qed
qed simp

text \<open>After an opening bracket the first item parses as after a comma.\<close>

lemma first_value:
  "parse_run WantValueOrEnd st (json_tokens j @ ts) = parse_run WantValue st (json_tokens j @ ts)"
  by (cases j) simp_all

lemma first_array:
  "ys \<noteq> [] \<Longrightarrow> parse_run WantValueOrEnd st (join_tokens (map json_tokens ys) @ ts) =
     parse_run WantValue st (join_tokens (map json_tokens ys) @ ts)"
  by (cases ys; cases "tl ys") (simp_all add: first_value)

lemma first_object:
  "kvs \<noteq> [] \<Longrightarrow> parse_run WantKeyOrEnd st (join_tokens (map member_tokens kvs) @ ts) =
     parse_run (WantKey []) st (join_tokens (map member_tokens kvs) @ ts)"
  by (cases kvs; cases "tl kvs") (auto simp: member_tokens_def)

lemma run_value:
  "json_ok j \<Longrightarrow> parse_run WantValue st (json_tokens j @ ts) = parse_run (Got j) st ts"
proof (induction j arbitrary: st ts)
  case (JNum n)
  then show ?case by (simp add: start_value_def word_value_number)
next
  case (JArr ys)
  then show ?case
    by (cases "ys = []")
       (auto simp: start_value_def first_array list_all_iff run_array [where xs = "[]", simplified])
next
  case (JObj kvs)
  have items: "ascii k \<and> parse_run WantValue st (json_tokens v @ ts) = parse_run (Got v) st ts"
    if "(k, v) \<in> set kvs" for k v st ts
    using JObj.IH [OF that, of v st ts] JObj.prems that by (auto simp: list_all_iff)
  show ?case
    using run_object [of kvs "[]" st ts] items
    by (cases "kvs = []") (auto simp: start_value_def first_object simp flip: member_tokens_def)
qed (auto simp: start_value_def unquote_escape word_value_def)

theorem json_read_print: "json_ok j \<Longrightarrow> json_read (json_print j) = Some j"
  using lex_print [of j "[]"] run_value [of j "[]" "[]"] by (simp add: json_read_def)

end
