(* ===== verification/Codec.thy ===== *)
theory Codec
  imports Json ApiTypes Devices
begin

text \<open>
  The JSON form of the objects the components exchange through config maps: the node status
  (\<open>NodeStorageState\<close>, written and read) and the device list (\<open>[]LocalDiskAppendInfo\<close>,
  written only), following the field tags of \<open>api/v2/topolvmcluster_types.go\<close> and
  \<open>pkg/util/sys/device.go\<close>.  Decoding follows \<open>encoding/json\<close>: names match up to case,
  unknown members are ignored, null leaves a value alone and empties a slice, elements of a slice
  that is set again are decoded over the old ones, and a value of the wrong type is an error.
  Proved: reading back a written status gives the status, and the contract of that codec as an
  interpretation of the locale \<open>status_codec\<close>.
\<close>

section \<open>Encoding\<close>

definition str_member :: "string \<Rightarrow> string \<Rightarrow> (string \<times> json) list" where
  "str_member k s = [(k, JStr s)]"

definition str_member_omitempty :: "string \<Rightarrow> string \<Rightarrow> (string \<times> json) list" where
  "str_member_omitempty k s = (if s = [] then [] else [(k, JStr s)])"

definition encode_DeviceState :: "DeviceState \<Rightarrow> json" where
  "encode_DeviceState d = JObj (str_member_omitempty ''name'' (DS_Name d) @
     str_member_omitempty ''state'' (DS_State d) @ str_member_omitempty ''message'' (DS_Message d))"

definition encode_ClassState :: "ClassState \<Rightarrow> json" where
  "encode_ClassState c = JObj (str_member_omitempty ''className'' (CS_Name c) @
     str_member_omitempty ''vgName'' (CS_VgName c) @ str_member_omitempty ''state'' (CS_State c) @
     str_member_omitempty ''message'' (CS_Message c) @
     (if CS_DeviceStates c = [] then [] else [(''deviceStates'', JArr (map encode_DeviceState (CS_DeviceStates c)))]))"

definition encode_LoopState :: "LoopState \<Rightarrow> json" where
  "encode_LoopState l = JObj (str_member ''name'' (Loop_Name l) @ str_member ''file'' (Loop_File l) @
     str_member ''deviceName'' (Loop_DeviceName l) @ str_member ''status'' (Loop_Status l) @
     str_member ''message'' (Loop_Message l))"

text \<open>
  The two slices of classes are never nil when they are written; the slice of loops is nil until
  the first loop device.
\<close>

definition encode_NodeStorageState :: "NodeStorageState \<Rightarrow> json" where
  "encode_NodeStorageState s = JObj (str_member ''node'' (NS_Node s) @ str_member ''phase'' (NS_Phase s) @
     [(''failClasses'', JArr (map encode_ClassState (NS_FailClasses s))),
      (''successClasses'', JArr (map encode_ClassState (NS_SuccessClasses s))),
      (''loops'', if NS_Loops s = [] then JNull else JArr (map encode_LoopState (NS_Loops s)))])"

definition encode_size :: "64 word \<Rightarrow> json" where
  "encode_size w = JNum (nat_to_string (unat w))"

definition encode_Partition :: "Partition \<Rightarrow> json" where
  "encode_Partition p = JObj [(''Name'', JStr (Part_Name p)), (''Size'', encode_size (Part_Size p)),
     (''Label'', JStr (Part_Label p)), (''Filesystem'', JStr (Part_Filesystem p))]"

definition encode_LocalDiskAppendInfo :: "LocalDiskAppendInfo \<Rightarrow> json" where
  "encode_LocalDiskAppendInfo i = (let d = LDI_LocalDisk i in JObj (
     [(''name'', JStr (LD_Name d)), (''parent'', JStr (LD_Parent d)), (''hasChildren'', JBool (LD_HasChildren d)),
      (''devLinks'', JStr (LD_DevLinks d)), (''size'', encode_size (LD_Size d)), (''uuid'', JStr (LD_UUID d)),
      (''serial'', JStr (LD_Serial d)), (''type'', JStr (LD_Type d)), (''rotational'', JBool (LD_Rotational d)),
      (''readOnly'', JBool (LD_Readonly d)),
      (''Partitions'', if LD_Partitions d = [] then JNull else JArr (map encode_Partition (LD_Partitions d))),
      (''filesystem'', JStr (LD_Filesystem d)), (''vendor'', JStr (LD_Vendor d)), (''model'', JStr (LD_Model d)),
      (''wwn'', JStr (LD_WWN d)), (''wwnVendorExtension'', JStr (LD_WWNVendorExtension d)),
      (''empty'', JBool (LD_Empty d))] @
     str_member_omitempty ''real-path'' (LD_RealPath d) @ str_member_omitempty ''mount-point'' (LD_MountPoint d) @
     str_member_omitempty ''kernel-name'' (LD_KernelName d) @
     (if LD_Encrypted d then [(''encrypted'', JBool True)] else []) @
     [(''available'', JBool (LDI_Available i)), (''message'', JStr (LDI_Message i))]))"

text \<open>\<open>json.Marshal\<close> on the two types; it cannot fail on them.\<close>

definition Marshal_status :: "NodeStorageState \<Rightarrow> string" where
  "Marshal_status s = json_print (encode_NodeStorageState s)"

definition Marshal_devices :: "LocalDiskAppendInfo list \<Rightarrow> string" where
  "Marshal_devices ds = json_print (JArr (map encode_LocalDiskAppendInfo ds))"

section \<open>Decoding\<close>

type_synonym 'a decoder = "json \<Rightarrow> 'a \<Rightarrow> 'a option"

definition dec_string :: "string decoder" where
  "dec_string j old = (case j of JStr s \<Rightarrow> Some s | JNull \<Rightarrow> Some old | _ \<Rightarrow> None)"

text \<open>Decode into one field of a struct.\<close>

definition dec_field :: "('a \<Rightarrow> 'f) \<Rightarrow> ('f \<Rightarrow> 'a \<Rightarrow> 'a) \<Rightarrow> 'f decoder \<Rightarrow> 'a decoder" where
  "dec_field sel upd dec j a = map_option (\<lambda>v. upd v a) (dec j (sel a))"

fun dec_items :: "'a decoder \<Rightarrow> 'a \<Rightarrow> json list \<Rightarrow> 'a list \<Rightarrow> 'a list option" where
  "dec_items dec zero [] old = Some []"
| "dec_items dec zero (j # js) old =
     (case dec j (case old of [] \<Rightarrow> zero | o1 # _ \<Rightarrow> o1) of
       None \<Rightarrow> None
     | Some a \<Rightarrow> map_option (Cons a) (dec_items dec zero js (tl old)))"

definition dec_slice :: "'a decoder \<Rightarrow> 'a \<Rightarrow> 'a list decoder" where
  "dec_slice dec zero j old = (case j of
      JArr js \<Rightarrow> dec_items dec zero js old
    | JNull \<Rightarrow> Some []
    | _ \<Rightarrow> None)"

fun field_lookup :: "(string \<times> 'a decoder) list \<Rightarrow> string \<Rightarrow> 'a decoder option" where
  "field_lookup [] k = None"
| "field_lookup ((n, d) # fs) k = (if to_lower n = to_lower k then Some d else field_lookup fs k)"

fun dec_members :: "(string \<times> 'a decoder) list \<Rightarrow> (string \<times> json) list \<Rightarrow> 'a \<Rightarrow> 'a option" where
  "dec_members fs [] a = Some a"
| "dec_members fs ((k, v) # kvs) a =
     (case field_lookup fs k of
       None \<Rightarrow> dec_members fs kvs a
     | Some d \<Rightarrow> (case d v a of None \<Rightarrow> None | Some a' \<Rightarrow> dec_members fs kvs a'))"

definition dec_struct :: "(string \<times> 'a decoder) list \<Rightarrow> 'a decoder" where
  "dec_struct fs j a = (case j of
      JObj kvs \<Rightarrow> dec_members fs kvs a
    | JNull \<Rightarrow> Some a
    | _ \<Rightarrow> None)"

definition dec_DeviceState :: "DeviceState decoder" where
  "dec_DeviceState = dec_struct
     [(''name'', dec_field DS_Name (\<lambda>v. DS_Name_update (\<lambda>_. v)) dec_string),
      (''state'', dec_field DS_State (\<lambda>v. DS_State_update (\<lambda>_. v)) dec_string),
      (''message'', dec_field DS_Message (\<lambda>v. DS_Message_update (\<lambda>_. v)) dec_string)]"

definition dec_ClassState :: "ClassState decoder" where
  "dec_ClassState = dec_struct
     [(''className'', dec_field CS_Name (\<lambda>v. CS_Name_update (\<lambda>_. v)) dec_string),
      (''vgName'', dec_field CS_VgName (\<lambda>v. CS_VgName_update (\<lambda>_. v)) dec_string),
      (''state'', dec_field CS_State (\<lambda>v. CS_State_update (\<lambda>_. v)) dec_string),
      (''message'', dec_field CS_Message (\<lambda>v. CS_Message_update (\<lambda>_. v)) dec_string),
      (''deviceStates'', dec_field CS_DeviceStates (\<lambda>v. CS_DeviceStates_update (\<lambda>_. v))
         (dec_slice dec_DeviceState zero_DeviceState))]"

definition dec_LoopState :: "LoopState decoder" where
  "dec_LoopState = dec_struct
     [(''name'', dec_field Loop_Name (\<lambda>v. Loop_Name_update (\<lambda>_. v)) dec_string),
      (''file'', dec_field Loop_File (\<lambda>v. Loop_File_update (\<lambda>_. v)) dec_string),
      (''deviceName'', dec_field Loop_DeviceName (\<lambda>v. Loop_DeviceName_update (\<lambda>_. v)) dec_string),
      (''status'', dec_field Loop_Status (\<lambda>v. Loop_Status_update (\<lambda>_. v)) dec_string),
      (''message'', dec_field Loop_Message (\<lambda>v. Loop_Message_update (\<lambda>_. v)) dec_string)]"

definition dec_NodeStorageState :: "NodeStorageState decoder" where
  "dec_NodeStorageState = dec_struct
     [(''node'', dec_field NS_Node (\<lambda>v. NS_Node_update (\<lambda>_. v)) dec_string),
      (''phase'', dec_field NS_Phase (\<lambda>v. NS_Phase_update (\<lambda>_. v)) dec_string),
      (''failClasses'', dec_field NS_FailClasses (\<lambda>v. NS_FailClasses_update (\<lambda>_. v))
         (dec_slice dec_ClassState zero_ClassState)),
      (''successClasses'', dec_field NS_SuccessClasses (\<lambda>v. NS_SuccessClasses_update (\<lambda>_. v))
         (dec_slice dec_ClassState zero_ClassState)),
      (''loops'', dec_field NS_Loops (\<lambda>v. NS_Loops_update (\<lambda>_. v))
         (dec_slice dec_LoopState zero_LoopState))]"

text \<open>\<open>json.Unmarshal\<close> into a zero \<open>NodeStorageState\<close>.\<close>

definition Unmarshal_status :: "string \<Rightarrow> go_error + NodeStorageState" where
  "Unmarshal_status text = (case json_read text of
      None \<Rightarrow> Inl (errorf ''invalid character in JSON text'')
    | Some j \<Rightarrow> (case dec_NodeStorageState j zero_NodeStorageState of
        None \<Rightarrow> Inl (errorf ''json: cannot unmarshal value into Go struct'')
      | Some s \<Rightarrow> Inr s))"

section \<open>Reading back what was written\<close>

definition DeviceState_ascii :: "DeviceState \<Rightarrow> bool" where
  "DeviceState_ascii d \<longleftrightarrow> ascii (DS_Name d) \<and> ascii (DS_State d) \<and> ascii (DS_Message d)"

definition ClassState_ascii :: "ClassState \<Rightarrow> bool" where
  "ClassState_ascii c \<longleftrightarrow> ascii (CS_Name c) \<and> ascii (CS_VgName c) \<and> ascii (CS_State c) \<and>
     ascii (CS_Message c) \<and> list_all DeviceState_ascii (CS_DeviceStates c)"

definition LoopState_ascii :: "LoopState \<Rightarrow> bool" where
  "LoopState_ascii l \<longleftrightarrow> ascii (Loop_Name l) \<and> ascii (Loop_File l) \<and> ascii (Loop_DeviceName l) \<and>
     ascii (Loop_Status l) \<and> ascii (Loop_Message l)"

definition status_ascii :: "NodeStorageState \<Rightarrow> bool" where
  "status_ascii s \<longleftrightarrow> ascii (NS_Node s) \<and> ascii (NS_Phase s) \<and> list_all ClassState_ascii (NS_FailClasses s) \<and>
     list_all ClassState_ascii (NS_SuccessClasses s) \<and> list_all LoopState_ascii (NS_Loops s)"

lemmas ascii_defs = DeviceState_ascii_def ClassState_ascii_def LoopState_ascii_def status_ascii_def

named_theorems codec "simplification rules of the encoders and decoders"

lemma ascii_literal [codec]:
  "ascii ''name''" "ascii ''state''" "ascii ''message''" "ascii ''className''" "ascii ''vgName''"
  "ascii ''deviceStates''" "ascii ''file''" "ascii ''deviceName''" "ascii ''status''" "ascii ''node''"
  "ascii ''phase''" "ascii ''failClasses''" "ascii ''successClasses''" "ascii ''loops''"
  by (simp_all add: ascii_def)

lemma to_lower_literal [codec]:
  "to_lower ''name'' = ''name''" "to_lower ''state'' = ''state''" "to_lower ''message'' = ''message''"
  "to_lower ''className'' = ''classname''" "to_lower ''vgName'' = ''vgname''"
  "to_lower ''deviceStates'' = ''devicestates''" "to_lower ''file'' = ''file''"
  "to_lower ''deviceName'' = ''devicename''" "to_lower ''status'' = ''status''"
  "to_lower ''node'' = ''node''" "to_lower ''phase'' = ''phase''"
  "to_lower ''failClasses'' = ''failclasses''" "to_lower ''successClasses'' = ''successclasses''"
  "to_lower ''loops'' = ''loops''"
  by code_simp+

lemmas member_defs = str_member_def str_member_omitempty_def

lemma json_ok_DeviceState: "DeviceState_ascii d \<Longrightarrow> json_ok (encode_DeviceState d)"
  by (auto simp: encode_DeviceState_def ascii_defs codec member_defs)

lemma json_ok_ClassState: "ClassState_ascii c \<Longrightarrow> json_ok (encode_ClassState c)"
  by (auto simp: encode_ClassState_def ascii_defs(2) codec member_defs list_all_iff json_ok_DeviceState)

lemma json_ok_LoopState: "LoopState_ascii l \<Longrightarrow> json_ok (encode_LoopState l)"
  by (auto simp: encode_LoopState_def ascii_defs codec member_defs)

lemma json_ok_status: "status_ascii s \<Longrightarrow> json_ok (encode_NodeStorageState s)"
  by (auto simp: encode_NodeStorageState_def ascii_defs(4) codec member_defs list_all_iff
      json_ok_ClassState json_ok_LoopState)

text \<open>Slices decode element by element into fresh values.\<close>

lemma dec_items_encode:
  "(\<And>x. x \<in> set xs \<Longrightarrow> dec (enc x) zero = Some x) \<Longrightarrow> dec_items dec zero (map enc xs) [] = Some xs"
  by (induction xs) simp_all

lemma dec_slice_encode [codec]:
  "(\<And>x. dec (enc x) zero = Some x) \<Longrightarrow> dec_slice dec zero (JArr (map enc xs)) [] = Some xs"
  by (simp add: dec_slice_def dec_items_encode)

lemma dec_string_str [codec]: "dec_string (JStr s) old = Some s"
  by (simp add: dec_string_def)

lemma dec_encode_DeviceState: "dec_DeviceState (encode_DeviceState d) zero_DeviceState = Some d"
  by (cases d) (simp add: dec_DeviceState_def encode_DeviceState_def dec_struct_def member_defs
      zero_DeviceState_def dec_field_def codec)

lemma dec_encode_ClassState: "dec_ClassState (encode_ClassState c) zero_ClassState = Some c"
  by (cases c) (simp add: dec_ClassState_def encode_ClassState_def dec_struct_def member_defs
      zero_ClassState_def dec_field_def codec dec_encode_DeviceState)

lemma dec_encode_LoopState: "dec_LoopState (encode_LoopState l) zero_LoopState = Some l"
  by (cases l) (simp add: dec_LoopState_def encode_LoopState_def dec_struct_def member_defs
      zero_LoopState_def dec_field_def codec)

lemma dec_encode_status: "dec_NodeStorageState (encode_NodeStorageState s) zero_NodeStorageState = Some s"
  by (cases s) (simp add: dec_NodeStorageState_def encode_NodeStorageState_def dec_struct_def member_defs
      zero_NodeStorageState_def dec_field_def codec dec_encode_ClassState dec_encode_LoopState
      dec_slice_def [of _ _ JNull])

locale status_codec =
  fixes enc :: "'a \<Rightarrow> string"
    and dec :: "string \<Rightarrow> go_error + 'a"
    and printable :: "'a \<Rightarrow> bool"
  assumes dec_enc: "printable s \<Longrightarrow> dec (enc s) = Inr s"
begin

lemma enc_inject: "printable s \<Longrightarrow> printable t \<Longrightarrow> enc s = enc t \<longleftrightarrow> s = t"
  by (metis dec_enc sum.inject(2))

lemma dec_enc_not_error: "printable s \<Longrightarrow> dec (enc s) \<noteq> Inl e"
  by (simp add: dec_enc)

end

interpretation status: status_codec Marshal_status Unmarshal_status status_ascii
  by unfold_locales
     (simp add: Unmarshal_status_def Marshal_status_def json_read_print json_ok_status dec_encode_status)

end
