(* ===== verification/Provision.thy ===== *)
theory Provision
  imports ClassTables LoopDevices KubeApi Codec
begin

text \<open>
  \<open>PrePareVg.provision\<close> of \<open>controllers/preparevg_controller.go\<close>: one run of the job
  that brings the volume groups of a node in line with the cluster, and what it writes to the
  node's config map, the node status and the configuration of lvmd.
  The facts about it are in \<open>ProvisionFacts\<close>.
\<close>

section \<open>lvmd configuration\<close>

text \<open>\<open>yaml.v2\<close> on the three types it is used for.\<close>

record yaml_lib =
  yaml_class :: "DeviceClass \<Rightarrow> go_error + string"
  unyaml_class :: "string \<Rightarrow> go_error + LvmdDeviceClass"
  yaml_conf :: "LmvdConf \<Rightarrow> go_error + string"
  unyaml_conf :: "string \<Rightarrow> go_error + LmvdConf"

definition convertConfig :: "yaml_lib \<Rightarrow> DeviceClass \<Rightarrow> go_error + LvmdDeviceClass" where
  "convertConfig Y dev = (case yaml_class Y dev of Inl e \<Rightarrow> Inl e | Inr data \<Rightarrow> unyaml_class Y data)"

text \<open>The conversion loop stops at the first error.\<close>

fun convert_all :: "yaml_lib \<Rightarrow> DeviceClass list \<Rightarrow> go_error + LvmdDeviceClass list" where
  "convert_all Y [] = Inr []"
| "convert_all Y (d # ds) =
     (case convertConfig Y d of
       Inl e \<Rightarrow> Inl e
     | Inr c \<Rightarrow> (case convert_all Y ds of Inl e \<Rightarrow> Inl e | Inr cs \<Rightarrow> Inr (c # cs)))"

definition createLvmdConf ::
    "yaml_lib \<Rightarrow> ConfigMap \<Rightarrow> DeviceClass list \<Rightarrow> ('w host, go_error + ConfigMap) go" where
  "createLvmdConf Y cm newVgs =
     (if newVgs = [] then go_return (Inr cm)
      else case convert_all Y newVgs of
        Inl e \<Rightarrow> go_return (Inl e)
      | Inr cs \<Rightarrow>
          (case yaml_conf Y \<lparr>LConf_SocketName = LvmdSocketPath, LConf_DeviceClasses = cs\<rparr> of
            Inl e \<Rightarrow> go_return (Inl e)
          | Inr value \<Rightarrow>
              go_bind (go_lift (cm_put LvmdConfigMapKey value cm)) (\<lambda>cm'. go_return (Inr cm'))))"

text \<open>The default flag of every class of the same name follows the configured one, in order.\<close>

definition update_default :: "DeviceClass \<Rightarrow> LvmdDeviceClass \<Rightarrow> LvmdDeviceClass" where
  "update_default dev ele =
     (if LC_Name ele = DC_ClassName dev \<and> LC_Default ele \<noteq> DC_Default dev
      then ele\<lparr>LC_Default := DC_Default dev\<rparr> else ele)"

definition update_defaults :: "DeviceClass list \<Rightarrow> LvmdDeviceClass list \<Rightarrow> LvmdDeviceClass list" where
  "update_defaults devs cs = fold (\<lambda>dev. map (update_default dev)) devs cs"

text \<open>Classes whose name is none of a successful class are removed while an index walks.\<close>

definition prune_classes :: "ClassState list \<Rightarrow> LvmdDeviceClass list \<Rightarrow> LvmdDeviceClass list" where
  "prune_classes suc cs = delete_walk (\<lambda>ele. \<not> (\<exists>c \<in> set suc. LC_Name ele = CS_Name c)) 0 cs"

definition updateLvmdConf ::
    "'w executor \<Rightarrow> yaml_lib \<Rightarrow> DeviceClass list \<Rightarrow> ConfigMap \<Rightarrow> DeviceClass list \<Rightarrow> class_table \<Rightarrow>
     ('w host, go_error + ConfigMap) go" where
  "updateLvmdConf E Y classes cm newVgs sucClass =
     (case gm_get (cm_data cm) LvmdConfigMapKey of
       None \<Rightarrow> createLvmdConf Y cm newVgs
     | Some dataLvmd \<Rightarrow>
         (case unyaml_conf Y dataLvmd of
           Inl e \<Rightarrow> go_return (Inl e)
         | Inr lvmdConf \<Rightarrow>
             let updated = update_defaults classes (LConf_DeviceClasses lvmdConf)
             in case convert_all Y newVgs of
               Inl e \<Rightarrow> go_return (Inl e)
             | Inr new \<Rightarrow>
                 go_bind (go_range E sucClass) (\<lambda>ks.
                   case yaml_conf Y (lvmdConf\<lparr>LConf_DeviceClasses :=
                          prune_classes (gm_values sucClass ks) (updated @ new)\<rparr>) of
                     Inl e \<Rightarrow> go_return (Inl e)
                   | Inr value \<Rightarrow>
                       go_bind (go_lift (cm_put LvmdConfigMapKey value cm)) (\<lambda>cm'. go_return (Inr cm')))))"

section \<open>The node status\<close>

definition getVgNameMap :: "ClassState list \<Rightarrow> class_table" where
  "getVgNameMap classes = gm_build CS_VgName (\<lambda>c. c) classes []"

definition updateVgStatus ::
    "'w executor \<Rightarrow> ConfigMap \<Rightarrow> NodeStorageState \<Rightarrow> class_table \<Rightarrow> class_table \<Rightarrow> LoopState list \<Rightarrow>
     ('w host, ConfigMap) go" where
  "updateVgStatus E cm state sucClass failClass loopsState =
     go_bind (go_range E sucClass) (\<lambda>sks.
     go_bind (go_range E failClass) (\<lambda>fks.
       go_lift (cm_put VgStatusConfigMapKey
         (Marshal_status (state\<lparr>NS_FailClasses := gm_values failClass fks,
            NS_SuccessClasses := gm_values sucClass sks, NS_Loops := loopsState\<rparr>)) cm)))"

section \<open>Provisioning\<close>

text \<open>
  The fields of the controller that a run reads: the node, the namespace, the classes chosen for
  the node, the loop states and the loop map.
\<close>

record prepare_vg =
  PV_nodeName :: string
  PV_namespace :: string
  PV_nodeDevices :: NodeDevices
  PV_loopsState :: "LoopState list"
  PV_loopMap :: "LoopState gomap"

definition provision_class ::
    "'w executor \<Rightarrow> LoopState gomap \<Rightarrow> LocalDisk gomap \<Rightarrow> DeviceClass \<Rightarrow> class_table \<times> class_table \<Rightarrow>
     ('w host, (bool \<times> DeviceClass) \<times> class_table \<times> class_table) go" where
  "provision_class E loopMap disks dev tabs =
     (if gm_has (fst tabs) (DC_VgName dev) then
        go_bind (expand_op E loopMap dev tabs) (\<lambda>(_, tabs1).
        go_bind (shrink_op E dev tabs1) (\<lambda>(_, tabs2).
        go_return ((False, dev), tabs2)))
      else if gm_has (snd tabs) (DC_VgName dev) then retry_op E loopMap disks dev tabs
      else create_op E loopMap disks dev tabs)"

definition collect_new :: "bool \<times> DeviceClass \<Rightarrow> DeviceClass list \<Rightarrow> DeviceClass list" where
  "collect_new r sucVgs = (if fst r then sucVgs @ [snd r] else sucVgs)"

definition provision_classes where
  "provision_classes E loopMap disks classes tabs =
     go_fold (\<lambda>dev (sucVgs, tabs). go_bind (provision_class E loopMap disks dev tabs) (\<lambda>(r, tabs').
       go_return (collect_new r sucVgs, tabs'))) classes ([], tabs)"

text \<open>The end of \<open>provisionWithNodeStatus\<close>: the status is written and the config map patched.\<close>

definition write_status ::
    "'w executor \<Rightarrow> 'w clientset \<Rightarrow> prepare_vg \<Rightarrow> ConfigMap \<Rightarrow> NodeStorageState \<Rightarrow> class_table \<Rightarrow> class_table \<Rightarrow>
     ConfigMap \<Rightarrow> ('w host, go_error option) go" where
  "write_status E K c cm nodeStatus suc fail cm1 =
     go_bind (updateVgStatus E cm1 nodeStatus suc fail (PV_loopsState c)) (\<lambda>cm2.
     go_bind (PatchConfigMap K (PV_namespace c) cm cm2) (\<lambda>err. case err of
       Some e \<Rightarrow> go_return (Some (err_wrap e ''patch configmap failed''))
     | None \<Rightarrow> go_return None))"

text \<open>After the loop over the classes.\<close>

definition settle_classes ::
    "'w executor \<Rightarrow> 'w clientset \<Rightarrow> yaml_lib \<Rightarrow> prepare_vg \<Rightarrow> ConfigMap \<Rightarrow> NodeStorageState \<Rightarrow> DeviceClass list \<Rightarrow>
     class_table \<times> class_table \<Rightarrow> ('w host, go_error option) go" where
  "settle_classes E K Y c cm nodeStatus sucVgs tabs =
     (let classes = ND_DeviceClasses (PV_nodeDevices c)
      in go_bind (checkVgIfDelete E classes (fst tabs) (snd tabs)) (\<lambda>(suc, fail).
         go_bind (updateLvmdConf E Y classes cm sucVgs suc) (\<lambda>r. case r of
           Inl e \<Rightarrow> go_return (Some (err_wrap e ''update lvmd conf failed''))
         | Inr cm1 \<Rightarrow> write_status E K c cm nodeStatus suc fail cm1)))"

definition provisionWithNodeStatus ::
    "'w executor \<Rightarrow> 'w clientset \<Rightarrow> yaml_lib \<Rightarrow> prepare_vg \<Rightarrow> ConfigMap \<Rightarrow> string \<Rightarrow> LocalDisk gomap \<Rightarrow>
     ('w host, go_error option) go" where
  "provisionWithNodeStatus E K Y c cm vgStatus disks =
     (case Unmarshal_status vgStatus of
       Inl e \<Rightarrow> go_return (Some e)
     | Inr nodeStatus \<Rightarrow>
         go_bind (provision_classes E (PV_loopMap c) disks (ND_DeviceClasses (PV_nodeDevices c))
             (getVgNameMap (NS_SuccessClasses nodeStatus), getVgNameMap (NS_FailClasses nodeStatus)))
           (\<lambda>(sucVgs, tabs). settle_classes E K Y c cm nodeStatus sucVgs tabs))"

text \<open>
  The first run: a class whose group already exists fails (its entry does not record the group),
  any other class is created.
\<close>

definition first_step ::
    "'w executor \<Rightarrow> LoopState gomap \<Rightarrow> LocalDisk gomap \<Rightarrow> LVInfo \<Rightarrow> DeviceClass \<Rightarrow>
     DeviceClass list \<times> class_table \<times> class_table \<Rightarrow> ('w host, DeviceClass list \<times> class_table \<times> class_table) go" where
  "first_step E loopMap disks vgs dev = (\<lambda>(sucVgs, suc, fail).
     if gm_has vgs (DC_VgName dev) then
       go_return (sucVgs, suc, gm_put (DC_VgName dev)
         (zero_ClassState\<lparr>CS_Name := DC_ClassName dev, CS_State := ClassUnReady,
            CS_Message := ClassCreateFail @ '' vg existing''\<rparr>) fail)
     else go_bind (createVg E loopMap disks dev suc fail) (\<lambda>(ok, dev', suc', fail').
       go_return (collect_new (ok, dev') sucVgs, suc', fail')))"

definition new_node_cm :: "'w clientset \<Rightarrow> prepare_vg \<Rightarrow> ConfigMap" where
  "new_node_cm K c = \<lparr>
     CM_Name = TruncateNodeName K LvmdConfigMapFmt (ND_NodeName (PV_nodeDevices c)),
     CM_Namespace = PV_namespace c,
     CM_Labels = [(LvmdConfigMapLabelKey, LvmdConfigMapLabelValue)],
     CM_Annotations = [(LvmdAnnotationsNodeKey, PV_nodeName c)],
     CM_OwnerReferences = [],
     CM_Data = Some []\<rparr>"

definition provisionFirst ::
    "'w executor \<Rightarrow> 'w clientset \<Rightarrow> yaml_lib \<Rightarrow> prepare_vg \<Rightarrow> LocalDisk gomap \<Rightarrow> ConfigMap option \<Rightarrow>
     ('w host, go_error option) go" where
  "provisionFirst E K Y c disks cm =
     go_bind (GetVolumeGroups E) (\<lambda>r. case r of
       Inl e \<Rightarrow> go_return (Some e)
     | Inr vgs \<Rightarrow>
         go_bind (go_fold (first_step E (PV_loopMap c) disks vgs) (ND_DeviceClasses (PV_nodeDevices c)) ([], [], []))
           (\<lambda>(sucVgs, suc, fail).
         let cmNew = (case cm of None \<Rightarrow> new_node_cm K c | Some old \<Rightarrow> old)
         in go_bind (updateVgStatus E cmNew (zero_NodeStorageState\<lparr>NS_Node := PV_nodeName c\<rparr>) suc fail (PV_loopsState c)) (\<lambda>cm1.
            go_bind (createLvmdConf Y cm1 sucVgs) (\<lambda>r. case r of
              Inl e \<Rightarrow> go_return (Some (err_wrap e ''create lvmd conf failed''))
            | Inr cm2 \<Rightarrow>
                (case cm of
                  None \<Rightarrow> CreateOrPatchConfigmap K cm2
                | Some old \<Rightarrow>
                    go_bind (PatchConfigMap K (PV_namespace c) old cm2) (\<lambda>err. case err of
                      Some e \<Rightarrow> go_return (Some (err_wrap e ''patch configmap failed''))
                    | None \<Rightarrow> go_return None))))))"

text \<open>The loop states of the last status entry that names the node.\<close>

definition node_loops :: "string \<Rightarrow> NodeStorageState list \<Rightarrow> LoopState list \<Rightarrow> LoopState list" where
  "node_loops n devs loops0 = fold (\<lambda>dev loops. if NS_Node dev = n then NS_Loops dev else loops) devs loops0"

definition last_node_devices :: "string \<Rightarrow> NodeDevices list \<Rightarrow> NodeDevices \<Rightarrow> NodeDevices" where
  "last_node_devices n nds nd0 = fold (\<lambda>dev nd. if ND_NodeName dev = n then dev else nd) nds nd0"

text \<open>
  With \<open>UseLoop\<close>, the loop devices of each list of disks are checked in turn and the
  available devices listed again.
\<close>

definition check_loops_and_relist ::
    "'w executor \<Rightarrow> bool \<Rightarrow> Disk list list \<Rightarrow> LocalDisk gomap \<Rightarrow> LoopState list \<times> LoopState gomap \<Rightarrow>
     ('w host, go_error + LocalDisk gomap \<times> LoopState list \<times> LoopState gomap) go" where
  "check_loops_and_relist E useLoop diskss disks loops =
     (if useLoop then
        go_bind (go_fold (checkLoopDevice E) diskss loops) (\<lambda>loops1.
        go_bind (GetAvailableDevices E) (\<lambda>r. case r of
          Inl e \<Rightarrow> go_return (Inl e)
        | Inr disks1 \<Rightarrow> go_return (Inr (disks1, loops1))))
      else go_return (Inr (disks, loops)))"

definition single_class :: "Storage \<Rightarrow> Disk list \<Rightarrow> DeviceClass" where
  "single_class st devs = zero_DeviceClass\<lparr>DC_ClassName := St_ClassName st,
     DC_VgName := St_VolumeGroupName st, DC_Default := True, DC_Device := devs\<rparr>"

text \<open>The classes of the node by the three forms of the storage specification.\<close>

definition choose_devices ::
    "'w executor \<Rightarrow> TopolvmCluster \<Rightarrow> prepare_vg \<Rightarrow> LocalDisk gomap \<Rightarrow>
     ('w host, go_error + LocalDisk gomap \<times> prepare_vg) go" where
  "choose_devices E cl c disks =
     (let st = Spec_Storage (TC_Spec cl);
          loops = (PV_loopsState c, PV_loopMap c);
          finish = (\<lambda>nd. \<lambda>(disks1, ls, lm). (disks1, c\<lparr>PV_nodeDevices := nd, PV_loopsState := ls, PV_loopMap := lm\<rparr>))
      in if St_UseAllDevices st then
           go_bind (go_range E disks) (\<lambda>ks.
             let devs = map (\<lambda>key. zero_Disk\<lparr>Disk_Name := key,
                          Disk_Type := LD_Type (gm_get_default zero_LocalDisk disks key)\<rparr>) ks;
                 nd = \<lparr>ND_NodeName = PV_nodeName c, ND_DeviceClasses = [single_class st devs]\<rparr>
             in go_bind (check_loops_and_relist E (St_UseLoop st) [devs] disks loops) (\<lambda>r.
                  go_return (map_sum id (finish nd) r)))
         else (case St_Devices st of
           Some devs \<Rightarrow>
             let nd = \<lparr>ND_NodeName = PV_nodeName c, ND_DeviceClasses = [single_class st devs]\<rparr>
             in go_bind (check_loops_and_relist E (St_UseLoop st) [devs] disks loops) (\<lambda>r.
                  go_return (map_sum id (finish nd) r))
         | None \<Rightarrow>
             (case St_DeviceClasses st of
               Some nds \<Rightarrow>
                 let nd = last_node_devices (PV_nodeName c) nds (PV_nodeDevices c)
                 in go_bind (check_loops_and_relist E (St_UseLoop st) (map DC_Device (ND_DeviceClasses nd)) disks loops) (\<lambda>r.
                      go_return (map_sum id (finish nd) r))
             | None \<Rightarrow> go_return (Inr (disks, c)))))"

definition provision ::
    "'w executor \<Rightarrow> 'w clientset \<Rightarrow> yaml_lib \<Rightarrow> prepare_vg \<Rightarrow> TopolvmCluster \<Rightarrow> ('w host, go_error option) go" where
  "provision E K Y c0 cl =
     (let c = c0\<lparr>PV_loopsState := node_loops (PV_nodeName c0) (Status_NodeStorageStatus (TC_Status cl)) (PV_loopsState c0)\<rparr>
      in go_bind (GetAvailableDevices E) (\<lambda>r. case r of
        Inl e \<Rightarrow> go_return (Some e)
      | Inr disks0 \<Rightarrow>
          go_bind (choose_devices E cl c disks0) (\<lambda>r. case r of
            Inl e \<Rightarrow> go_return (Some e)
          | Inr (disks, c1) \<Rightarrow>
              go_bind (cm_get K (PV_namespace c1) (TruncateNodeName K LvmdConfigMapFmt (ND_NodeName (PV_nodeDevices c1))))
                (\<lambda>r. case r of
                  Inl e \<Rightarrow> if IsNotFound e then provisionFirst E K Y c1 disks None else go_return (Some e)
                | Inr cm \<Rightarrow>
                    (case gm_get (cm_data cm) VgStatusConfigMapKey of
                      Some vgStatus \<Rightarrow> provisionWithNodeStatus E K Y c1 cm vgStatus disks
                    | None \<Rightarrow> provisionFirst E K Y c1 disks (Some cm))))))"

definition NewPrepareVgController :: "string \<Rightarrow> string \<Rightarrow> prepare_vg" where
  "NewPrepareVgController nodeName nameSpace = \<lparr>PV_nodeName = nodeName, PV_namespace = nameSpace,
     PV_nodeDevices = \<lparr>ND_NodeName = [], ND_DeviceClasses = []\<rparr>, PV_loopsState = [], PV_loopMap = []\<rparr>"

text \<open>
  \<open>Reconcile\<close> of the job: its deferred function ends the process with status 0, whatever
  the result and even on a panic.
\<close>

definition PrePareVg_body ::
    "'w executor \<Rightarrow> 'w clientset \<Rightarrow> yaml_lib \<Rightarrow> prepare_vg \<Rightarrow> string \<Rightarrow> string \<Rightarrow> ('w host, go_error option) go" where
  "PrePareVg_body E K Y c ns name =
     go_bind (api_get ''TopolvmCluster'' (Clusters K) ns name) (\<lambda>r. case r of
       Inl e \<Rightarrow> if IsNotFound e then go_return None else go_return (Some (err_wrap e ''failed to get topolvm cluster''))
     | Inr cl \<Rightarrow> provision E K Y c cl)"

definition PrePareVg_Reconcile ::
    "'w executor \<Rightarrow> 'w clientset \<Rightarrow> yaml_lib \<Rightarrow> prepare_vg \<Rightarrow> string \<Rightarrow> string \<Rightarrow> 'w host \<Rightarrow> int \<times> 'w host" where
  "PrePareVg_Reconcile E K Y c ns name s = (0, snd (PrePareVg_body E K Y c ns name s))"

end
