(* ===== verification/ProvisionFacts.thy ===== *)
theory ProvisionFacts
  imports Provision
begin

text \<open>
  What a run of \<open>PrePareVg.provision\<close> leaves behind: the iteration over the classes as an
  interpretation of \<open>class_loop\<close>, the deletion of classes that are no longer configured, the
  configuration of lvmd, and the status it writes.
\<close>

section \<open>Node operations only run commands\<close>

lemma lvm_exec [issues]:
  "only_issues is_exec (wrapExecCommand E c a)"
  "only_issues is_exec (wrapExecCommandWithOutput E c a)"
  by (auto simp: wrapExecCommand_def wrapExecCommandWithOutput_def intro!: issues)

lemma query_exec: "only_issues lvm_query m \<Longrightarrow> only_issues is_exec m"
  by (erule only_issues_mono) (auto simp: lvm_query_def lvm_ev_def)

lemma discovery_exec: "only_issues report_cmd m \<Longrightarrow> only_issues is_exec m"
  by (erule only_issues_mono) (auto simp: report_cmd_def)

lemmas lvm_query_exec [issues] = only_issues_queries [THEN query_exec]

lemma vg_exec [issues]:
  "only_issues is_exec (RemoveVolumeGroup E vg)"
  "only_issues is_exec (ShrinkVolumeGroup E vg ds)"
  "only_issues is_exec (ExpandVolumeGroup E vg ds)"
  "only_issues is_exec (CreatePhysicalVolume E d)"
  "only_issues is_exec (CreateVolumeGroup E disks vg)"
  by (auto simp: RemoveVolumeGroup_def ShrinkVolumeGroup_def ExpandVolumeGroup_def CreatePhysicalVolume_def
      CreateVolumeGroup_def check_pvs_free_def intro!: issues)

lemma class_exec [issues]:
  "only_issues is_exec (provision_class E loopMap disks dev tabs)"
  "only_issues is_exec (checkVgIfDelete E classes suc fail)"
  by (auto simp: provision_class_def create_op_def retry_op_def expand_op_def shrink_op_def createVg_def
      createVgRetry_def checkVgIfExpand_def checkVgIfShrink_def checkVgIfDelete_def expand_step_def
      delete_suc_step_def Let_def intro!: issues)

lemma provision_classes_exec [issues]: "only_issues is_exec (provision_classes E loopMap disks classes tabs)"
  by (auto simp: provision_classes_def split: prod.splits intro!: issues)

section \<open>The loop over the classes\<close>

lemma provision_class_contract:
  shows "wp (provision_class E loopMap disks dev tabs) (\<lambda>r t. frame_ok (DC_VgName dev) tabs (snd r)) (\<lambda>_ _. True) s"
    and "tables_ok tabs \<Longrightarrow>
      wp (provision_class E loopMap disks dev tabs) (\<lambda>r t. tables_ok (snd r)) (\<lambda>_ _. True) s"
proof -
  have trans: "frame_ok vg a b \<Longrightarrow> frame_ok vg b c \<Longrightarrow> frame_ok vg a c" for vg a b c
    by (simp add: frame_ok_def)
  show "wp (provision_class E loopMap disks dev tabs) (\<lambda>r t. frame_ok (DC_VgName dev) tabs (snd r)) (\<lambda>_ _. True) s"
    by (auto simp: provision_class_def wpg case_prod_beta
        intro!: wp_mono [OF expand.frame] wp_mono [OF shrink.frame] create.frame retry.frame dest: trans)
  show "tables_ok tabs \<Longrightarrow>
      wp (provision_class E loopMap disks dev tabs) (\<lambda>r t. tables_ok (snd r)) (\<lambda>_ _. True) s"
    by (auto simp: provision_class_def wpg case_prod_beta
        intro!: wp_mono [OF expand.keeps] wp_mono [OF shrink.keeps] create.keeps retry.keeps)
qed

interpretation prov: class_loop "provision_class E loopMap disks" collect_new
  for E :: "'w executor" and loopMap disks
  by unfold_locales (auto intro: provision_class_contract)

lemma provision_classes_tables:
  "tables_ok tabs \<Longrightarrow> wp (provision_classes E loopMap disks classes tabs) (\<lambda>r t. tables_ok (snd r)) (\<lambda>_ _. True) s"
  unfolding provision_classes_def by (rule wp_mono [OF prov.loop_keeps]) auto

section \<open>Deleting classes\<close>

text \<open>Exactly the configured entries are left, whether or not the removal of a group failed.\<close>

lemma delete_suc_step_result:
  "wp (delete_suc_step E classes key m)
    (\<lambda>m' t. (\<forall>k. gm_get m' k = (if k = key \<and> \<not> vg_configured classes key then None else gm_get m k)) \<and>
       (gm_wf m \<longrightarrow> gm_wf m')) (\<lambda>_ _. True) s"
  by (auto simp: delete_suc_step_def wpg gm.get_del gm.wf_del update_class_def gm.get_put gm.wf_put
      split: option.splits intro!: wp_any)

lemma delete_fail_keys_get:
  "gm_get (delete_fail_keys classes ks m) k =
     (if k \<in> set ks \<and> \<not> vg_configured classes k then None else gm_get m k)"
  unfolding delete_fail_keys_def by (induction ks arbitrary: m) (auto simp: gm.get_del)

lemma delete_fail_keys_wf: "gm_wf m \<Longrightarrow> gm_wf (delete_fail_keys classes ks m)"
  unfolding delete_fail_keys_def by (induction ks arbitrary: m) (auto simp: gm.wf_del)

definition restricted :: "DeviceClass list \<Rightarrow> class_table \<Rightarrow> class_table \<Rightarrow> bool" where
  "restricted classes m m' \<longleftrightarrow>
     (\<forall>k. gm_get m' k = (if vg_configured classes k then gm_get m k else None)) \<and> (gm_wf m \<longrightarrow> gm_wf m')"

lemma checkVgIfDelete_result:
  "wp (checkVgIfDelete E classes suc fail)
     (\<lambda>r t. restricted classes suc (fst r) \<and> restricted classes fail (snd r)) (\<lambda>_ _. True) s"
proof -
  let ?I = "\<lambda>ys m (t :: 'a host).
      (\<forall>k. gm_get m k = (if k \<in> set ys \<and> \<not> vg_configured classes k then None else gm_get suc k)) \<and>
      (gm_wf suc \<longrightarrow> gm_wf m)"
  have loop: "wp (go_fold (delete_suc_step E classes) ks suc) (?I ks) (\<lambda>_ _. True) s" for ks s
    by (rule wp_go_fold_prefix [where I = ?I]) (auto intro!: wp_mono [OF delete_suc_step_result])
  have fin: "restricted classes m (delete_fail_keys classes ks m)" if "set ks = set (gm_keys m)" for ks m
    using that by (auto simp: restricted_def delete_fail_keys_get delete_fail_keys_wf gm.set_keys)
  show ?thesis
    unfolding checkVgIfDelete_def wp_bind
    by (rule wp_go_range_keys, rule wp_mono [OF loop])
       (auto simp: wpg restricted_def [of _ suc] gm.set_keys intro!: wp_go_range_keys fin)
qed

lemma restricted_tables_ok:
  "tables_ok (suc, fail) \<Longrightarrow> restricted classes suc suc' \<Longrightarrow> restricted classes fail fail' \<Longrightarrow>
   tables_ok (suc', fail')"
  by (auto simp: tables_ok_def table_ok_def restricted_def gm_has_def split: if_splits)

section \<open>The configuration of lvmd\<close>

definition named_after :: "class_table \<Rightarrow> LvmdDeviceClass \<Rightarrow> bool" where
  "named_after suc ele \<longleftrightarrow> (\<exists>k c. gm_get suc k = Some c \<and> CS_Name c = LC_Name ele)"

lemma prune_classes_filter:
  assumes "set ks = set (gm_keys suc)"
  shows "prune_classes (gm_values suc ks) cs = filter (named_after suc) cs"
proof -
  have "(\<exists>c \<in> set (gm_values suc ks). LC_Name ele = CS_Name c) \<longleftrightarrow> named_after suc ele" for ele
    unfolding named_after_def Bex_def set_gm_values [OF assms] by metis
  then show ?thesis by (simp add: prune_classes_def)
qed

text \<open>The entry for lvmd after an update, and that nothing else of the data changes.\<close>

lemma updateLvmdConf_result:
  assumes "gm_get (cm_data cm) LvmdConfigMapKey = Some text" and "unyaml_conf Y text = Inr conf"
  shows "wp (updateLvmdConf E Y classes cm newVgs suc)
    (\<lambda>r t. \<forall>cm'. r = Inr cm' \<longrightarrow> (\<exists>new value. convert_all Y newVgs = Inr new \<and>
       yaml_conf Y (conf\<lparr>LConf_DeviceClasses :=
         filter (named_after suc) (update_defaults classes (LConf_DeviceClasses conf) @ new)\<rparr>) = Inr value \<and>
       cm' = cm\<lparr>CM_Data := Some (gm_put LvmdConfigMapKey value (cm_data cm))\<rparr>)) (\<lambda>_ _. True) s"
  using assms
  by (auto simp: updateLvmdConf_def wpg Let_def prune_classes_filter cm_put_Ret
      split: sum.splits outcome.splits intro!: wp_go_range_keys)

lemma createLvmdConf_data:
  "wp (createLvmdConf Y cm newVgs) (\<lambda>r t. \<forall>cm'. r = Inr cm' \<longrightarrow>
     CM_Name cm' = CM_Name cm \<and>
     (\<forall>k. k \<noteq> LvmdConfigMapKey \<longrightarrow> gm_get (cm_data cm') k = gm_get (cm_data cm) k)) (\<lambda>_ _. True) s"
  by (auto simp: createLvmdConf_def wpg cm_data_put dest: cm_put_Ret [THEN iffD1] split: sum.splits outcome.splits)

lemma updateLvmdConf_data:
  "wp (updateLvmdConf E Y classes cm newVgs suc) (\<lambda>r t. \<forall>cm'. r = Inr cm' \<longrightarrow>
     CM_Name cm' = CM_Name cm \<and>
     (\<forall>k. k \<noteq> LvmdConfigMapKey \<longrightarrow> gm_get (cm_data cm') k = gm_get (cm_data cm) k)) (\<lambda>_ _. True) s"
  by (auto simp: updateLvmdConf_def wpg cm_data_put Let_def createLvmdConf_data dest: cm_put_Ret [THEN iffD1]
      split: sum.splits option.splits outcome.splits intro!: wp_go_range_keys)

text \<open>Default flags: the last configured class of the same name decides.\<close>

lemma update_defaults_sel:
  "map LC_Name (update_defaults devs cs) = map LC_Name cs"
  "length (update_defaults devs cs) = length cs"
  by (induction devs arbitrary: cs) (auto simp: update_defaults_def update_default_def comp_def)

lemma update_defaults_append:
  "update_defaults (ds @ es) cs = update_defaults es (update_defaults ds cs)"
  by (simp add: update_defaults_def)

lemma update_defaults_Default:
  assumes "i < length cs" "dev \<in> set devs" "DC_ClassName dev = LC_Name (cs ! i)"
    and "\<forall>d \<in> set devs. DC_ClassName d = DC_ClassName dev \<longrightarrow> DC_Default d = DC_Default dev"
  shows "LC_Default (update_defaults devs cs ! i) = DC_Default dev"
  using assms
proof (induction devs rule: rev_induct)
  case (snoc d ds)
  let ?cs = "update_defaults ds cs"
  have i: "i < length ?cs" using snoc.prems(1) by (simp add: update_defaults_sel)
  have name: "LC_Name (?cs ! i) = LC_Name (cs ! i)"
    using arg_cong [OF update_defaults_sel(1) [of ds cs], of "\<lambda>l. l ! i"] snoc.prems(1) i by simp
  have step: "update_defaults (ds @ [d]) cs ! i = update_default d (?cs ! i)"
    using i by (simp add: update_defaults_def)
  show ?case
  proof (cases "DC_ClassName d = LC_Name (cs ! i)")
    case True
    then have "DC_Default d = DC_Default dev" using snoc.prems(3,4) by simp
    then show ?thesis using True name by (simp add: step update_default_def)
  next
    case False
    then have "dev \<in> set ds" using snoc.prems(2,3) by auto
    then have "LC_Default (?cs ! i) = DC_Default dev" by (rule snoc.IH [OF snoc.prems(1)]) (use snoc.prems in auto)
    then show ?thesis using False name by (simp add: step update_default_def)
  qed
qed simp

section \<open>The written status\<close>

definition status_configured :: "DeviceClass list \<Rightarrow> NodeStorageState \<Rightarrow> bool" where
  "status_configured classes st \<longleftrightarrow> (\<forall>c \<in> set (status_classes st). vg_configured classes (CS_VgName c))"

lemma getVgNameMap_ok: "table_ok (getVgNameMap cs)"
proof -
  have "table_ok (fold (\<lambda>x. gm_put (CS_VgName x) x) cs m)" if "table_ok m" for m
    using that
  proof (induction cs arbitrary: m)
    case (Cons c cs)
    have "table_ok (gm_put (CS_VgName c) c m)"
      using Cons.prems by (auto simp: table_ok_def gm.get_put gm.wf_put)
    then show ?case by (simp add: Cons.IH)
  qed simp
  moreover have "table_ok []" by (simp add: table_ok_def gm.wf_empty gm.get_empty)
  ultimately show ?thesis by (simp add: getVgNameMap_def gm_build_def)
qed

lemma getVgNameMap_has [simp]: "gm_has (getVgNameMap cs) k \<longleftrightarrow> k \<in> CS_VgName ` set cs"
  by (simp add: getVgNameMap_def)

lemma status_ok_tables:
  "status_ok st \<Longrightarrow> tables_ok (getVgNameMap (NS_SuccessClasses st), getVgNameMap (NS_FailClasses st))"
  by (auto simp: tables_ok_def getVgNameMap_ok status_ok_def status_classes_def)

text \<open>The values of a table, listed along its keys, have the keys as their names.\<close>

lemma names_of_values:
  assumes "table_ok m" and "set ks \<subseteq> set (gm_keys m)"
  shows "map CS_VgName (gm_values m ks) = ks"
  using assms(2)
proof (induction ks)
  case (Cons k ks)
  then obtain c where "gm_get m k = Some c" by (auto simp: gm.set_keys)
  moreover from this have "CS_VgName c = k" using assms(1) by (auto simp: table_ok_def)
  ultimately show ?case using Cons by (simp add: gm_values_def map_filter_def)
qed (simp add: gm_values_def map_filter_def)

definition written_ok :: "DeviceClass list \<Rightarrow> ConfigMap \<Rightarrow> bool" where
  "written_ok classes cm \<longleftrightarrow> (\<exists>st. gm_get (cm_data cm) VgStatusConfigMapKey = Some (Marshal_status st) \<and>
     status_ok st \<and> status_configured classes st)"

text \<open>The config map after \<open>updateVgStatus\<close>: the values of both tables in the order of two ranges.\<close>

lemma updateVgStatus_puts:
  assumes "updateVgStatus E cm st suc fail loops s = (Ret cm', t)"
  shows "\<exists>sks fks. set sks = set (gm_keys suc) \<and> set fks = set (gm_keys fail) \<and>
    cm_put VgStatusConfigMapKey (Marshal_status (st\<lparr>NS_FailClasses := gm_values fail fks,
      NS_SuccessClasses := gm_values suc sks, NS_Loops := loops\<rparr>)) cm = Ret cm'"
proof -
  have "wp (updateVgStatus E cm st suc fail loops)
      (\<lambda>cm' t. \<exists>sks fks. set sks = set (gm_keys suc) \<and> set fks = set (gm_keys fail) \<and>
        cm_put VgStatusConfigMapKey (Marshal_status (st\<lparr>NS_FailClasses := gm_values fail fks,
          NS_SuccessClasses := gm_values suc sks, NS_Loops := loops\<rparr>)) cm = Ret cm') (\<lambda>_ _. True) s"
    unfolding updateVgStatus_def wp_bind
    by (intro wp_go_range_keys) (auto simp: wpg split: outcome.splits)
  from wp_retD [OF this assms] show ?thesis .
qed

lemma updateVgStatus_written:
  assumes "tables_ok (suc, fail)"
    and "\<forall>k. gm_has suc k \<or> gm_has fail k \<longrightarrow> vg_configured classes k"
  shows "wp (updateVgStatus E cm st suc fail loops) (\<lambda>cm' t. written_ok classes cm') (\<lambda>_ _. True) s"
proof -
  have tab: "table_ok suc" "table_ok fail" using assms(1) by (auto simp: tables_ok_def)
  have "written_ok classes cm'"
    if sks: "set sks = set (gm_keys suc)" "gm_wf suc \<Longrightarrow> distinct sks"
      and fks: "set fks = set (gm_keys fail)" "gm_wf fail \<Longrightarrow> distinct fks"
      and put: "cm_put VgStatusConfigMapKey (Marshal_status (st\<lparr>NS_FailClasses := gm_values fail fks,
            NS_SuccessClasses := gm_values suc sks, NS_Loops := loops\<rparr>)) cm = Ret cm'"
    for sks fks cm'
  proof -
    let ?st = "st\<lparr>NS_FailClasses := gm_values fail fks, NS_SuccessClasses := gm_values suc sks, NS_Loops := loops\<rparr>"
    have names: "map CS_VgName (status_classes ?st) = sks @ fks"
      using tab sks fks by (simp add: status_classes_def names_of_values)
    have "status_ok ?st"
      using assms(1) sks fks tab unfolding status_ok_def names
      by (auto simp: tables_ok_def table_ok_def gm_has_iff)
    moreover have "status_configured classes ?st"
    proof -
      have "CS_VgName c \<in> set (sks @ fks)" if "c \<in> set (status_classes ?st)" for c
        using that unfolding names [symmetric] by simp
      then show ?thesis using assms(2) sks fks by (auto simp: status_configured_def gm_has_iff)
    qed
    ultimately show ?thesis using put by (auto simp: written_ok_def cm_data_put)
  qed
  then show ?thesis
    unfolding updateVgStatus_def wp_bind
    by (intro wp_go_range_keys) (auto simp: wpg split: outcome.splits)
qed

lemma writers_silent [issues]:
  "only_issues is_exec (updateVgStatus E cm st suc fail loops)"
  "only_issues is_exec (updateLvmdConf E Y classes cm newVgs suc)"
  "only_issues is_exec (createLvmdConf Y cm newVgs)"
  by (auto simp: updateVgStatus_def updateLvmdConf_def createLvmdConf_def Let_def intro!: issues)

lemma write_status_writes:
  assumes "tables_ok (suc, fail)" "\<forall>k. gm_has suc k \<or> gm_has fail k \<longrightarrow> vg_configured classes k"
    and "grown (patches_only (written_ok classes)) s t"
  shows "wp (write_status E K c cm st suc fail cm1) (\<lambda>_. grown (patches_only (written_ok classes)) s)
     (\<lambda>_. grown (patches_only (written_ok classes)) s) t"
  unfolding write_status_def
  by (rule wp_grown_bind [OF assms(3) exec_patches [OF writers_silent(1)] updateVgStatus_written [OF assms(1,2)]])
     (auto intro!: wp_grown_only issues simp: patches_only_def)

lemma settle_classes_writes:
  assumes "tables_ok tabs" and "grown (patches_only (written_ok (ND_DeviceClasses (PV_nodeDevices c)))) s t"
  shows "wp (settle_classes E K Y c cm st sucVgs tabs)
     (\<lambda>_. grown (patches_only (written_ok (ND_DeviceClasses (PV_nodeDevices c)))) s)
     (\<lambda>_. grown (patches_only (written_ok (ND_DeviceClasses (PV_nodeDevices c)))) s) t"
  unfolding settle_classes_def Let_def
proof (rule wp_grown_bind [OF assms(2) exec_patches [OF class_exec(2)] checkVgIfDelete_result], goal_cases)
  case (1 b u)
  obtain suc fail where b: "b = (suc, fail)" by (cases b)
  have "tables_ok (suc, fail)"
    by (rule restricted_tables_ok [of "fst tabs" "snd tabs" "ND_DeviceClasses (PV_nodeDevices c)" suc fail]) (use assms(1) 1(1) b in simp_all)
  moreover have "\<forall>k. gm_has suc k \<or> gm_has fail k \<longrightarrow> vg_configured (ND_DeviceClasses (PV_nodeDevices c)) k"
    using 1(1) by (auto simp: b restricted_def gm_has_def split: if_splits)
  ultimately show ?case
    unfolding b case_prod_conv
    by (intro wp_grown_bind [OF 1(2) exec_patches [OF writers_silent(2)], where Q = "\<lambda>_. True"])
       (auto simp: wpg intro!: write_status_writes split: sum.splits)
qed

lemma provisionWithNodeStatus_writes:
  assumes "Unmarshal_status vgStatus = Inr st" and "status_ok st"
  shows "wp (provisionWithNodeStatus E K Y c cm vgStatus disks)
    (\<lambda>_. grown (patches_only (written_ok (ND_DeviceClasses (PV_nodeDevices c)))) s)
    (\<lambda>_. grown (patches_only (written_ok (ND_DeviceClasses (PV_nodeDevices c)))) s) s"
  unfolding provisionWithNodeStatus_def assms(1) sum.case
  by (rule wp_grown_bind [OF grown_refl exec_patches [OF provision_classes_exec]
        provision_classes_tables [OF status_ok_tables [OF assms(2)]]])
     (auto intro!: settle_classes_writes)

end
