(* ===== verification/Settled.thy ===== *)
theory Settled
  imports ProvisionFacts
begin

text \<open>
  The job of \<open>controllers/preparevg_controller.go\<close> on a node where everything is in place: every class of
  the node was created, its group consists of the configured disks, and no other class is recorded.
  Proved: a run then asks LVM for the groups' volumes, changes nothing on the node, and writes the
  status it found.
\<close>

definition in_place :: "'w executor \<Rightarrow> DeviceClass \<Rightarrow> bool" where
  "in_place E d \<longleftrightarrow> (\<forall>disk \<in> set (DC_Device d). \<not> auto_loop disk) \<and>
     (\<forall>s. \<exists>pvs t. GetPhysicalVolume E (DC_VgName d) s = (Ret (Inr pvs), t) \<and>
        set (gm_keys pvs) = Disk_Name ` set (DC_Device d))"

section \<open>One class\<close>

lemma wp_in_place:
  assumes "in_place E d"
  shows "wp (GetPhysicalVolume E (DC_VgName d)) (\<lambda>r t. \<exists>pvs. r = Inr pvs \<and>
      set (gm_keys pvs) = Disk_Name ` set (DC_Device d) \<and> grown lvm_query s t) (\<lambda>_ _. False) s"
proof -
  obtain pvs t where run: "GetPhysicalVolume E (DC_VgName d) s = (Ret (Inr pvs), t)"
    "set (gm_keys pvs) = Disk_Name ` set (DC_Device d)"
    using assms unfolding in_place_def by blast
  have "only_issues lvm_query (GetPhysicalVolume E (DC_VgName d))" by (rule only_issues_queries)
  from only_issuesD [OF this run(1)] run show ?thesis by (simp add: wp_def)
qed

lemma expand_steps_in_place:
  assumes "\<forall>d \<in> set ds. \<not> auto_loop d \<and> gm_has pv (Disk_Name d)"
  shows "go_fold (expand_step E loopMap pv vg) ds acc = go_return acc"
  using assms
proof (induction ds arbitrary: acc)
  case (Cons d ds)
  have "expand_step E loopMap pv vg d acc = go_return acc"
    using Cons.prems by (simp add: expand_step_def resolve_disk_def split: prod.split)
  then show ?case using Cons by simp
qed simp

lemma expand_in_place:
  assumes "in_place E d"
  shows "wp (expand_op E loopMap d tabs) (\<lambda>r t. r = (None, tabs) \<and> grown lvm_query s t) (\<lambda>_ _. False) s"
proof -
  have steps: "go_fold (expand_step E loopMap pvs (DC_VgName d)) (DC_Device d) acc = go_return acc"
    if "set (gm_keys pvs) = Disk_Name ` set (DC_Device d)" for pvs acc
    by (rule expand_steps_in_place) (use assms that in \<open>auto simp: in_place_def gm_has_iff\<close>)
  show ?thesis
    unfolding expand_op_def checkVgIfExpand_def wp_bind
    by (rule wp_mono [OF wp_in_place [OF assms]]) (auto simp: steps wpg)
qed

lemma shrink_in_place:
  assumes "in_place E d"
  shows "wp (shrink_op E d tabs) (\<lambda>r t. r = (None, tabs) \<and> grown lvm_query s t) (\<lambda>_ _. False) s"
proof -
  have none: "delete_pvs d ks = []" if "set ks = Disk_Name ` set (DC_Device d)" for ks
    using that by (auto simp: delete_pvs_def filter_empty_conv)
  have range: "wp (go_range E pvs) (\<lambda>ks t. set ks = set (gm_keys pvs) \<and> trace t = trace u) (\<lambda>_ _. False) u" for pvs u
    by (rule wp_go_range_keys) simp
  show ?thesis
    unfolding shrink_op_def checkVgIfShrink_def wp_bind
    by (rule wp_mono [OF wp_in_place [OF assms]])
       (auto simp: wp_bind wp_return Let_def none grown_def intro!: wp_mono [OF range])
qed

section \<open>All classes\<close>

lemma provision_class_in_place:
  assumes "in_place E d" "gm_has (fst tabs) (DC_VgName d)"
  shows "wp (provision_class E loopMap disks d tabs) (\<lambda>r t. r = ((False, d), tabs) \<and> grown lvm_query s t) (\<lambda>_ _. False) s"
proof -
  have shrink: "wp (shrink_op E d tabs) (\<lambda>r t. r = (None, tabs) \<and> grown lvm_query s t) (\<lambda>_ _. False) u"
    if "grown lvm_query s u" for u
    by (rule wp_mono [OF shrink_in_place [OF assms(1)]]) (use that in \<open>auto intro: grown_trans\<close>)
  show ?thesis
    unfolding provision_class_def if_P [OF assms(2)] wp_bind
    by (rule wp_mono [OF expand_in_place [OF assms(1)]]) (auto simp: wp_bind wp_return intro!: wp_mono [OF shrink])
qed

lemma provision_classes_in_place:
  assumes "\<forall>d \<in> set classes. in_place E d \<and> gm_has (fst tabs) (DC_VgName d)"
  shows "wp (provision_classes E loopMap disks classes tabs) (\<lambda>r t. r = ([], tabs) \<and> grown lvm_query s t) (\<lambda>_ _. False) s"
  unfolding provision_classes_def
proof (rule wp_go_fold_prefix [where I = "\<lambda>_ b t. b = ([], tabs) \<and> grown lvm_query s t"])
  fix ys d and b :: "DeviceClass list \<times> class_table \<times> class_table" and u :: "'a host"
  assume "d \<in> set classes" "b = ([], tabs) \<and> grown lvm_query s u"
  then show "wp (case b of (sucVgs, tabs) \<Rightarrow> go_bind (provision_class E loopMap disks d tabs)
      (\<lambda>(r, tabs'). go_return (collect_new r sucVgs, tabs'))) (\<lambda>b t. b = ([], tabs) \<and> grown lvm_query s t) (\<lambda>_ _. False) u"
    using assms by (auto simp: wp_bind wp_return collect_new_def intro!: wp_mono [OF provision_class_in_place] elim: grown_trans)
qed simp

section \<open>The tables at the end\<close>

lemma checkVgIfDelete_configured:
  assumes "\<forall>k. gm_has suc k \<longrightarrow> vg_configured classes k" "\<forall>k. gm_has fail k \<longrightarrow> \<not> vg_configured classes k"
  shows "wp (checkVgIfDelete E classes suc fail) (\<lambda>r t. fst r = suc \<and> (\<forall>k. gm_get (snd r) k = None) \<and> trace t = trace s)
    (\<lambda>_ _. False) s"
proof -
  have loop: "go_fold (delete_suc_step E classes) ks m = go_return m" if "\<forall>k \<in> set ks. vg_configured classes k" for ks m
    using that by (induction ks arbitrary: m) (simp_all add: delete_suc_step_def)
  have suc: "go_fold (delete_suc_step E classes) ks suc = go_return suc" if "set ks = set (gm_keys suc)" for ks
    by (rule loop) (use that assms(1) in \<open>auto simp: gm_has_iff\<close>)
  have gone: "gm_get (delete_fail_keys classes ks fail) k = None" if "set ks = set (gm_keys fail)" for ks k
    using that assms(2) by (auto simp: delete_fail_keys_get gm_has_def gm.set_keys)
  show ?thesis
    unfolding checkVgIfDelete_def wp_bind
    by (rule wp_go_range_keys) (auto simp: suc wpg intro!: wp_go_range_keys gone)
qed

lemma getVgNameMap_get:
  assumes "distinct (map CS_VgName cs)"
  shows "gm_get (getVgNameMap cs) k = Some c \<longleftrightarrow> c \<in> set cs \<and> CS_VgName c = k"
  using assms
proof (induction cs rule: rev_induct)
  case (snoc c' cs)
  have "getVgNameMap (cs @ [c']) = gm_put (CS_VgName c') c' (getVgNameMap cs)" by (simp add: getVgNameMap_def gm_build_def)
  with snoc show ?case by (auto simp: gm.get_put image_iff)
qed (simp add: getVgNameMap_def gm_build_def gm.get_empty)

section \<open>The run\<close>

definition keeps_status :: "NodeStorageState \<Rightarrow> ConfigMap \<Rightarrow> bool" where
  "keeps_status st cm \<longleftrightarrow> (\<exists>st'. gm_get (cm_data cm) VgStatusConfigMapKey = Some (Marshal_status st') \<and>
     NS_Node st' = NS_Node st \<and> NS_Phase st' = NS_Phase st \<and>
     set (NS_SuccessClasses st') = set (NS_SuccessClasses st) \<and> NS_FailClasses st' = [])"

definition settled_event :: "NodeStorageState \<Rightarrow> event \<Rightarrow> bool" where
  "settled_event st ev \<longleftrightarrow> lvm_query ev \<or> (\<exists>new. ev = Api VPatch (ConfigMapObj new) \<and> keeps_status st new)"

lemma updateVgStatus_keeps:
  assumes "\<forall>c. c \<in> set (NS_SuccessClasses st) \<longleftrightarrow> (\<exists>k. gm_get suc k = Some c)" "\<forall>k. gm_get fail k = None"
  shows "wp (updateVgStatus E cm st suc fail loops) (\<lambda>cm' t. keeps_status st cm' \<and> trace t = trace s) (\<lambda>_ t. trace t = trace s) s"
proof -
  have "keeps_status st cm'"
    if "set sks = set (gm_keys suc)" "set fks = set (gm_keys fail)"
      "cm_put VgStatusConfigMapKey (Marshal_status (st\<lparr>NS_FailClasses := gm_values fail fks,
          NS_SuccessClasses := gm_values suc sks, NS_Loops := loops\<rparr>)) cm = Ret cm'" for sks fks cm'
  proof -
    have "set (gm_values suc sks) = set (NS_SuccessClasses st)" using set_gm_values [OF that(1)] assms(1) by blast
    moreover have "gm_values fail fks = []" using set_gm_values [OF that(2)] assms(2) by (cases "gm_values fail fks") auto
    ultimately show ?thesis using that(3) by (auto simp: keeps_status_def cm_data_put)
  qed
  then show ?thesis
    unfolding updateVgStatus_def wp_bind
    by (intro wp_go_range_keys) (auto simp: wpg split: outcome.splits)
qed

lemma write_status_keeps:
  assumes "\<forall>c. c \<in> set (NS_SuccessClasses st) \<longleftrightarrow> (\<exists>k. gm_get suc k = Some c)" "\<forall>k. gm_get fail k = None"
    and "grown (settled_event st) s u"
  shows "wp (write_status E K c cm st suc fail cm1) (\<lambda>_. grown (settled_event st) s) (\<lambda>_. grown (settled_event st) s) u"
proof -
  have patch: "wp (PatchConfigMap K ns cm new) (\<lambda>_. grown (settled_event st) s) (\<lambda>_. grown (settled_event st) s) t"
    if "keeps_status st new" "trace t = trace u" for ns new t
  proof -
    have "grown (settled_event st) s t" using assms(3) that(2) by (simp add: grown_def)
    moreover have "only_issues (settled_event st) (PatchConfigMap K ns cm new)"
      by (rule PatchConfigMap_issues) (use that(1) in \<open>simp add: settled_event_def\<close>)
    ultimately show ?thesis by (rule wp_grown_only)
  qed
  have "grown (settled_event st) s t" if "trace t = trace u" for t using assms(3) that by (simp add: grown_def)
  then show ?thesis
    unfolding write_status_def wp_bind
    by (intro wp_mono [OF updateVgStatus_keeps [OF assms(1,2)]])
       (auto simp: wp_return split: option.split intro!: wp_mono [OF patch])
qed

lemma updateLvmdConf_silent:
  "wp (updateLvmdConf E Y classes cm newVgs suc) (\<lambda>_ t. trace t = trace s) (\<lambda>_ t. trace t = trace s) s"
  by (auto simp: updateLvmdConf_def createLvmdConf_def Let_def wpg split: option.split sum.split outcome.splits
      intro!: wp_go_range_keys)

lemma provisionWithNodeStatus_settled:
  assumes "Unmarshal_status vgStatus = Inr st" "status_ok st"
    and "\<forall>d \<in> set (ND_DeviceClasses (PV_nodeDevices c)). in_place E d \<and> DC_VgName d \<in> CS_VgName ` set (NS_SuccessClasses st)"
    and "\<forall>cs \<in> set (NS_SuccessClasses st). vg_configured (ND_DeviceClasses (PV_nodeDevices c)) (CS_VgName cs)"
  shows "wp (provisionWithNodeStatus E K Y c cm vgStatus disks) (\<lambda>_. grown (settled_event st) s) (\<lambda>_. grown (settled_event st) s) s"
proof -
  let ?classes = "ND_DeviceClasses (PV_nodeDevices c)"
  let ?suc = "getVgNameMap (NS_SuccessClasses st)" and ?fail = "getVgNameMap (NS_FailClasses st)"
  have apart: "CS_VgName a \<noteq> CS_VgName b" if "a \<in> set (NS_SuccessClasses st)" "b \<in> set (NS_FailClasses st)" for a b
    using assms(2) that by (auto simp: status_ok_def status_classes_def)
  have suc: "\<forall>cs. cs \<in> set (NS_SuccessClasses st) \<longleftrightarrow> (\<exists>k. gm_get ?suc k = Some cs)"
    using assms(2) by (simp add: getVgNameMap_get status_ok_def status_classes_def)
  have tables: "\<forall>k. gm_has ?suc k \<longrightarrow> vg_configured ?classes k" "\<forall>k. gm_has ?fail k \<longrightarrow> \<not> vg_configured ?classes k"
    using assms(3,4) apart by (auto simp: vg_configured_def)
  have recorded: "\<forall>d \<in> set ?classes. in_place E d \<and> gm_has (fst (?suc, ?fail)) (DC_VgName d)" using assms(3) by simp
  have settle: "wp (settle_classes E K Y c cm st [] (?suc, ?fail)) (\<lambda>_. grown (settled_event st) s) (\<lambda>_. grown (settled_event st) s) u"
    if u: "grown (settled_event st) s u" for u
  proof -
    have writes: "wp (updateLvmdConf E Y ?classes cm [] ?suc) (\<lambda>r. wp (case r of
        Inl e \<Rightarrow> go_return (Some (err_wrap e ''update lvmd conf failed''))
      | Inr cm1 \<Rightarrow> write_status E K c cm st ?suc fail cm1) (\<lambda>_. grown (settled_event st) s) (\<lambda>_. grown (settled_event st) s))
        (\<lambda>_. grown (settled_event st) s) t" if "\<forall>k. gm_get fail k = None" "trace t = trace u" for fail t
    proof (rule wp_mono [OF updateLvmdConf_silent])
      fix r and v :: "'a host"
      assume "trace v = trace t"
      then have "grown (settled_event st) s v" using u that(2) by (simp add: grown_def)
      then show "wp (case r of Inl e \<Rightarrow> go_return (Some (err_wrap e ''update lvmd conf failed''))
          | Inr cm1 \<Rightarrow> write_status E K c cm st ?suc fail cm1) (\<lambda>_. grown (settled_event st) s) (\<lambda>_. grown (settled_event st) s) v"
        using suc that(1) by (cases r) (auto simp: wp_return intro!: write_status_keeps)
    qed (use u that(2) in \<open>simp add: grown_def\<close>)
    show ?thesis
      unfolding settle_classes_def Let_def wp_bind fst_conv snd_conv
      by (rule wp_mono [OF checkVgIfDelete_configured [OF tables]]) (auto simp: wp_bind intro!: writes)
  qed
  have start: "grown (settled_event st) s t" if "grown lvm_query s t" for t
    using that by (auto simp: grown_def settled_event_def list_all_iff)
  show ?thesis
    unfolding provisionWithNodeStatus_def assms(1) sum.case wp_bind
    by (rule wp_mono [OF provision_classes_in_place [OF recorded]]) (auto intro!: settle start)
qed

end
