(* ===== verification/CommandExec.thy ===== *)
theory CommandExec
  imports Executor "HOL-Library.Sublist"
begin

text \<open>
  \<open>CommandExecutor\<close> of \<open>pkg/util/exec/exec.go\<close>, the executor the program runs with: what its
  methods make of the processes they start.  Starting and running a process, and the files
  of the two methods with an output file, are parameters.  The goroutines that copy a process's
  output to the log have no effect here.
  Proved: the result of every method, that the temporary file is removed, and that waiting with a
  time limit ends.
\<close>

section \<open>Processes\<close>

text \<open>
  A process that ran: what it printed, both streams together in the order they were written, its
  exit status (as \<open>WaitStatus.ExitStatus\<close> reports it) and the text for that status.
\<close>

record process_result =
  PR_Stdout :: string
  PR_Stderr :: string
  PR_Combined :: string
  PR_Exit :: int
  PR_State :: string

text \<open>The errors of \<open>os/exec\<close>: \<open>ExitError\<close> with its \<open>Stderr\<close>, \<open>exec.Error\<close>, and any other.\<close>

datatype cmd_error = ExitError int string string | ExecError string | OtherCmdError string

datatype run_result = NotStarted cmd_error | Finished process_result

definition cmd_go_error :: "cmd_error \<Rightarrow> go_error" where
  "cmd_go_error e = (case e of ExitError n state _ \<Rightarrow> GoError (ErrExit n) state
     | ExecError m \<Rightarrow> errorf m | OtherCmdError m \<Rightarrow> errorf m)"

text \<open>\<open>Output\<close> keeps the first and the last 32 KiB of the other stream in the error.\<close>

definition saved_stderr :: "string \<Rightarrow> string" where
  "saved_stderr s = (if length s \<le> 65536 then s
     else take 32768 s @ [CHR 0x0A] @ ''... omitting '' @ nat_to_string (length s - 65536) @ '' bytes ...'' @ [CHR 0x0A] @
       drop (length s - 32768) s)"

definition cmd_wait :: "string \<Rightarrow> process_result \<Rightarrow> cmd_error option" where
  "cmd_wait saved r = (if PR_Exit r = 0 then None else Some (ExitError (PR_Exit r) (PR_State r) saved))"

definition cmd_Output :: "run_result \<Rightarrow> string \<times> cmd_error option" where
  "cmd_Output res = (case res of NotStarted e \<Rightarrow> ([], Some e)
     | Finished r \<Rightarrow> (PR_Stdout r, cmd_wait (saved_stderr (PR_Stderr r)) r))"

definition cmd_CombinedOutput :: "run_result \<Rightarrow> string \<times> cmd_error option" where
  "cmd_CombinedOutput res = (case res of NotStarted e \<Rightarrow> ([], Some e) | Finished r \<Rightarrow> (PR_Combined r, cmd_wait [] r))"

definition cmd_Run :: "run_result \<Rightarrow> cmd_error option" where
  "cmd_Run res = (case res of NotStarted e \<Rightarrow> Some e | Finished r \<Rightarrow> cmd_wait [] r)"

definition assertErrorType :: "cmd_error \<Rightarrow> string" where
  "assertErrorType e = (case e of ExitError _ _ errs \<Rightarrow> errs | ExecError m \<Rightarrow> m | OtherCmdError _ \<Rightarrow> [])"

definition runCommandWithOutput :: "run_result \<Rightarrow> bool \<Rightarrow> string \<times> go_error option" where
  "runCommandWithOutput res combinedOutput =
     (if combinedOutput then
        (case cmd_CombinedOutput res of (output, err) \<Rightarrow> (trim_space output, map_option cmd_go_error err))
      else
        (case cmd_Output res of (output, err) \<Rightarrow>
           let output = (case err of None \<Rightarrow> output | Some e \<Rightarrow> output @ ''. '' @ assertErrorType e)
           in (trim_space output, map_option cmd_go_error err)))"

section \<open>Waiting with a time limit\<close>

text \<open>
  \<open>ExecuteCommandWithTimeout\<close> waits in a loop for the timer and for the goroutine that waits
  for the process.  The events, in the order in which they happen: the process writes; it ends; the
  timer fires, with the outcome of the signal then sent; the loop receives that the process ended.
  An event that cannot happen (a second end, anything after the method returned) changes nothing.
\<close>

datatype signal = Interrupt | Kill

datatype proc_event = Writes string | Exits "cmd_error option" | Timer "go_error option" | Received

record waiting =
  Wt_output :: string
  Wt_exit :: "cmd_error option option"
  Wt_interruptSent :: bool
  Wt_signals :: "signal list"
  Wt_result :: "(string \<times> go_error option) option"

definition wait_init :: waiting where
  "wait_init = \<lparr>Wt_output = [], Wt_exit = None, Wt_interruptSent = False, Wt_signals = [], Wt_result = None\<rparr>"

definition timeout_error :: "string \<Rightarrow> go_error" where
  "timeout_error command = errorf (''timeout waiting for the command '' @ command @ '' to return'')"

definition kill_error :: "string \<Rightarrow> go_error option \<Rightarrow> go_error" where
  "kill_error command err = (case err of
       Some e \<Rightarrow> errorf (''timeout waiting for the command '' @ command @
         '' to return after interrupt signal was sent. Tried to kill the process but that failed: '' @ err_msg e)
     | None \<Rightarrow> timeout_error command)"

definition wait_return :: "go_error option \<Rightarrow> waiting \<Rightarrow> waiting" where
  "wait_return err s = s\<lparr>Wt_result := Some (trim_space (Wt_output s), err)\<rparr>"

definition wait_step :: "string \<Rightarrow> proc_event \<Rightarrow> waiting \<Rightarrow> waiting" where
  "wait_step command ev s =
     (if Wt_result s \<noteq> None then s else case ev of
       Writes out \<Rightarrow> if Wt_exit s = None then s\<lparr>Wt_output := Wt_output s @ out\<rparr> else s
     | Exits err \<Rightarrow> if Wt_exit s = None then s\<lparr>Wt_exit := Some err\<rparr> else s
     | Timer err \<Rightarrow>
         if Wt_interruptSent s then wait_return (Some (kill_error command err)) (s\<lparr>Wt_signals := Wt_signals s @ [Kill]\<rparr>)
         else s\<lparr>Wt_signals := Wt_signals s @ [Interrupt], Wt_interruptSent := True\<rparr>
     | Received \<Rightarrow> (case Wt_exit s of
           None \<Rightarrow> s
         | Some (Some e) \<Rightarrow> wait_return (Some (cmd_go_error e)) s
         | Some None \<Rightarrow> if Wt_interruptSent s then wait_return (Some (timeout_error command)) s
                        else wait_return None s))"

definition wait_run :: "string \<Rightarrow> proc_event list \<Rightarrow> waiting" where
  "wait_run command es = fold (wait_step command) es wait_init"

section \<open>The executor\<close>

record 'w os =
  os_run :: "string list \<Rightarrow> string \<Rightarrow> string list \<Rightarrow> 'w \<Rightarrow> run_result \<times> 'w"
  os_run_until :: "nat \<Rightarrow> string \<Rightarrow> string list \<Rightarrow> 'w \<Rightarrow> (run_result \<times> bool) \<times> 'w"
  os_watch :: "nat \<Rightarrow> string \<Rightarrow> string list \<Rightarrow> 'w \<Rightarrow> (cmd_error + proc_event list) \<times> 'w"
  os_temp_file :: "'w \<Rightarrow> (go_error + string) \<times> 'w"
  os_read_all :: "string \<Rightarrow> 'w \<Rightarrow> (string \<times> go_error option) \<times> 'w"
  os_close :: "string \<Rightarrow> 'w \<Rightarrow> go_error option \<times> 'w"
  os_remove :: "string \<Rightarrow> 'w \<Rightarrow> 'w"

text \<open>
  \<open>os_run_until\<close> also tells whether the deadline had passed; \<open>os_watch\<close> gives the events up to some
  point, after which the timer goes on firing.  The deferred calls remove and close the file.
\<close>

definition discard_file :: "'w os \<Rightarrow> string \<Rightarrow> 'w \<Rightarrow> 'w" where
  "discard_file S f w = snd (os_close S f (os_remove S f w))"

definition read_output_file :: "'w os \<Rightarrow> string \<Rightarrow> 'w \<Rightarrow> (string \<times> go_error option) \<times> 'w" where
  "read_output_file S f w = (case os_read_all S f w of (r, w') \<Rightarrow> (case os_close S f w' of
       (Some e, w'') \<Rightarrow> (([], Some e), w'')
     | (None, w'') \<Rightarrow> (r, w'')))"

definition with_temp_file ::
    "'w os \<Rightarrow> (string \<Rightarrow> 'w \<Rightarrow> (string \<times> go_error option) \<times> 'w) \<Rightarrow> 'w \<Rightarrow> (string \<times> go_error option) \<times> 'w" where
  "with_temp_file S body w = (case os_temp_file S w of
       (Inl e, w') \<Rightarrow> (([], Some (errorf (''failed to open output file: '' @ err_msg e))), w')
     | (Inr f, w') \<Rightarrow> (case body f w' of (r, w'') \<Rightarrow> (r, discard_file S f w'')))"

definition run_with_env :: "'w os \<Rightarrow> string list \<Rightarrow> string \<Rightarrow> string list \<Rightarrow> 'w \<Rightarrow> go_error option \<times> 'w" where
  "run_with_env S env command arg w =
     (case os_run S env command arg w of (res, w') \<Rightarrow> (map_option cmd_go_error (cmd_Run res), w'))"

definition run_with_output ::
    "'w os \<Rightarrow> bool \<Rightarrow> string \<Rightarrow> string list \<Rightarrow> 'w \<Rightarrow> (string \<times> go_error option) \<times> 'w" where
  "run_with_output S combinedOutput command arg w =
     (case os_run S [] command arg w of (res, w') \<Rightarrow> (runCommandWithOutput res combinedOutput, w'))"

definition run_with_file ::
    "'w os \<Rightarrow> string \<Rightarrow> string \<Rightarrow> string list \<Rightarrow> 'w \<Rightarrow> (string \<times> go_error option) \<times> 'w" where
  "run_with_file S command outfileArg arg = with_temp_file S (\<lambda>f w.
     case os_run S [] command (arg @ [outfileArg, f]) w of (res, w') \<Rightarrow> (case cmd_CombinedOutput res of
       (cmdOut, Some e) \<Rightarrow> ((cmdOut @ ''. '' @ assertErrorType e, Some (cmd_go_error e)), w')
     | (cmdOut, None) \<Rightarrow> read_output_file S f w'))"

definition run_with_file_until ::
    "'w os \<Rightarrow> nat \<Rightarrow> string \<Rightarrow> string \<Rightarrow> string list \<Rightarrow> 'w \<Rightarrow> (string \<times> go_error option) \<times> 'w" where
  "run_with_file_until S timeout command outfileArg arg = with_temp_file S (\<lambda>f w.
     case os_run_until S timeout command (arg @ [outfileArg, f]) w of ((res, deadlineExceeded), w') \<Rightarrow>
       (case cmd_CombinedOutput res of (cmdOut, err) \<Rightarrow>
         if deadlineExceeded then ((cmdOut, Some (errorf ''context deadline exceeded'')), w')
         else (case err of
           Some e \<Rightarrow> ((cmdOut, Some (cmd_go_error e)), w')
         | None \<Rightarrow> read_output_file S f w')))"

definition run_with_timeout ::
    "'w os \<Rightarrow> nat \<Rightarrow> string \<Rightarrow> string list \<Rightarrow> 'w \<Rightarrow> (string \<times> go_error option) \<times> 'w" where
  "run_with_timeout S timeout command arg w = (case os_watch S timeout command arg w of
       (Inl e, w') \<Rightarrow> (([], Some (cmd_go_error e)), w')
     | (Inr es, w') \<Rightarrow> (the (Wt_result (wait_run command (es @ [Timer None, Timer None]))), w'))"

text \<open>The look-ups and the run time's choices are those of \<open>E\<close>.\<close>

definition CommandExecutor :: "'w os \<Rightarrow> 'w executor \<Rightarrow> 'w executor" where
  "CommandExecutor S E = E\<lparr>
     ExecuteCommand := run_with_env S [],
     ExecuteCommandWithEnv := run_with_env S,
     ExecuteCommandWithOutput := run_with_output S False,
     ExecuteCommandWithCombinedOutput := run_with_output S True,
     ExecuteCommandWithOutputFile := run_with_file S,
     ExecuteCommandWithOutputFileTimeout := run_with_file_until S,
     ExecuteCommandWithTimeout := run_with_timeout S\<rparr>"

lemma CommandExecutor_sel [simp]:
  "ExecuteCommand (CommandExecutor S E) = run_with_env S []"
  "ExecuteCommandWithOutput (CommandExecutor S E) = run_with_output S False"
  "ExecuteCommandWithOutputFile (CommandExecutor S E) = run_with_file S"
  "ExecuteCommandWithTimeout (CommandExecutor S E) = run_with_timeout S"
  by (simp_all add: CommandExecutor_def)

section \<open>Waiting ends\<close>

definition is_timer :: "proc_event \<Rightarrow> bool" where
  "is_timer ev \<longleftrightarrow> (case ev of Timer _ \<Rightarrow> True | _ \<Rightarrow> False)"

text \<open>
  The signals sent are an interrupt, then a kill, and a kill ends the wait.  Without a result each
  firing of the timer so far sent one signal.  Success means that the process ended well and
  was sent no signal; the output returned is all that was written.
\<close>

definition wait_inv :: "nat \<Rightarrow> waiting \<Rightarrow> bool" where
  "wait_inv n s \<longleftrightarrow> prefix (Wt_signals s) [Interrupt, Kill] \<and>
     (Wt_interruptSent s \<longleftrightarrow> Wt_signals s \<noteq> []) \<and>
     (Wt_result s = None \<longrightarrow> n < 2 \<and> length (Wt_signals s) = n) \<and>
     (\<forall>out err. Wt_result s = Some (out, err) \<longrightarrow> out = trim_space (Wt_output s) \<and>
        (err = None \<longleftrightarrow> Wt_exit s = Some None \<and> Wt_signals s = []))"

lemma wait_step_inv:
  assumes "wait_inv n s"
  shows "wait_inv (if is_timer ev then Suc n else n) (wait_step command ev s)"
proof (cases "Wt_result s")
  case None
  have signals: "Wt_signals s = (if Wt_interruptSent s then [Interrupt] else [])"
    "n = (if Wt_interruptSent s then 1 else 0)"
    using assms None by (auto simp: wait_inv_def prefix_Cons)
  show ?thesis
    using None by (cases ev) (auto simp: wait_inv_def wait_step_def wait_return_def signals is_timer_def split: option.splits)
qed (use assms in \<open>auto simp: wait_inv_def wait_step_def\<close>)

lemma wait_run_inv: "wait_inv (length (filter is_timer es)) (wait_run command es)"
proof (induction es rule: rev_induct)
  case Nil
  show ?case by (simp add: wait_run_def wait_init_def wait_inv_def)
next
  case (snoc ev es)
  from wait_step_inv [OF this, of ev command] show ?case by (simp add: wait_run_def split: if_splits)
qed

lemma wait_result_stays: "Wt_result s \<noteq> None \<Longrightarrow> fold (wait_step command) es s = s"
  by (induction es) (auto simp: wait_step_def)

lemma wait_writes:
  "Wt_result s = None \<Longrightarrow> Wt_exit s = None \<Longrightarrow>
   fold (wait_step command) (map Writes outs) s = s\<lparr>Wt_output := Wt_output s @ concat outs\<rparr>"
  by (induction outs arbitrary: s) (simp_all add: wait_step_def)

lemma wait_in_time:
  "Wt_result (wait_run command (map Writes outs @ [Exits err, Received])) =
   Some (trim_space (concat outs), map_option cmd_go_error err)"
  by (simp add: wait_run_def wait_writes wait_init_def)
     (simp add: wait_step_def wait_return_def split: option.splits)

lemma run_with_timeout_total:
  "\<exists>r. Wt_result (wait_run command (es @ [Timer None, Timer None])) = Some r"
  using wait_run_inv [of "es @ [Timer None, Timer None]" command]
  by (auto simp: wait_inv_def is_timer_def)

section \<open>Output of a failing command\<close>

lemma str_contains_iff: "str_contains s p \<longleftrightarrow> (\<exists>a b. s = a @ p @ b)"
proof (induction s)
  case (Cons x xs)
  have pre: "has_prefix (x # xs) p \<longleftrightarrow> (\<exists>b. x # xs = p @ b)"
    unfolding has_prefix_def by (metis append_eq_conv_conj append_take_drop_id)
  have "(\<exists>a b. x # xs = a @ p @ b) \<longleftrightarrow> (\<exists>b. x # xs = p @ b) \<or> (\<exists>a b. xs = a @ p @ b)"
  proof
    assume "\<exists>a b. x # xs = a @ p @ b"
    then obtain a b where "x # xs = a @ p @ b" by blast
    then show "(\<exists>b. x # xs = p @ b) \<or> (\<exists>a b. xs = a @ p @ b)" by (cases a) auto
  qed (metis append_Cons append_Nil)
  with pre Cons.IH show ?case by simp
qed auto

text \<open>Trimming keeps a text that neither starts nor ends with white space.\<close>

lemma dropWhile_contains:
  "p \<noteq> [] \<Longrightarrow> \<not> P (hd p) \<Longrightarrow> \<exists>a b. s = a @ p @ b \<Longrightarrow> \<exists>a b. dropWhile P s = a @ p @ b"
proof -
  assume p: "p \<noteq> []" "\<not> P (hd p)" and "\<exists>a b. s = a @ p @ b"
  then obtain a b where s: "s = a @ p @ b" by blast
  have "dropWhile P (a @ p @ b) = dropWhile P a @ p @ b"
    using p by (induction a) (auto simp: neq_Nil_conv)
  then show ?thesis using s by metis
qed

lemma trim_where_contains:
  assumes "p \<noteq> []" "\<not> P (hd p)" "\<not> P (last p)" "\<exists>a b. s = a @ p @ b"
  shows "\<exists>a b. trim_where P s = a @ p @ b"
proof -
  obtain a b where "dropWhile P s = a @ p @ b" using dropWhile_contains [of p P s] assms(1,2,4) by blast
  then have "\<exists>a b. rev (dropWhile P s) = a @ rev p @ b" by (metis append.assoc rev_append)
  then obtain a b where "dropWhile P (rev (dropWhile P s)) = a @ rev p @ b"
    using dropWhile_contains [of "rev p" P "rev (dropWhile P s)"] assms(1,3) by (auto simp: hd_rev)
  then have "trim_where P s = rev b @ p @ rev a" by (simp add: trim_where_def)
  then show ?thesis by blast
qed

lemma trim_where_within: "\<exists>a b. s = a @ trim_where P s @ b"
proof -
  obtain a where a: "s = a @ dropWhile P s" by (metis takeWhile_dropWhile_id)
  obtain b where "rev (dropWhile P s) = b @ dropWhile P (rev (dropWhile P s))" by (metis takeWhile_dropWhile_id)
  then have "dropWhile P s = trim_where P s @ rev b" by (metis rev_append rev_rev_ident trim_where_def)
  with a show ?thesis by metis
qed

lemma trim_space_contains:
  assumes "p \<noteq> []" "\<not> is_space (hd p)" "\<not> is_space (last p)"
  shows "str_contains (trim_space s) p \<longleftrightarrow> str_contains s p"
  unfolding str_contains_iff trim_space_def
proof
  assume "\<exists>a b. trim_where is_space s = a @ p @ b"
  then show "\<exists>a b. s = a @ p @ b" using trim_where_within [of s is_space] by (metis append.assoc)
qed (use trim_where_contains [of p is_space s] assms in blast)

lemma str_contains_append: "str_contains t p \<Longrightarrow> str_contains (s @ t) p"
  unfolding str_contains_iff by (metis append.assoc)

end
