(* ===== verification/Discover.thy ===== *)
theory Discover
  imports Disks KubeApi Codec "HOL-Library.Sublist"
begin

text \<open>
  \<open>pkg/operator/discover/discover.go\<close>, the daemon of every node: it publishes the device
  list in the node's config map, sets loop devices up again after a restart, follows the devices
  of the volume groups in the node status, and watches udev.
  The udev monitor, two goroutines and a timer around channels, is a step relation.
  The regular expressions of \<open>matchUdevEvent\<close> are a parameter, the matching function.
\<close>

section \<open>Loop devices after a restart\<close>

definition resetup_step :: "'w executor \<Rightarrow> LoopState \<Rightarrow> bool \<Rightarrow> ('w host, bool) go" where
  "resetup_step E ele failed =
     (if Loop_Status ele = LoopCreateSuccessful then
        go_bind (ReSetupLoop E (Loop_File ele) (Loop_DeviceName ele)) (\<lambda>err. case err of
          Some _ \<Rightarrow> go_return True
        | None \<Rightarrow> go_return failed)
      else go_return failed)"

definition discover_checkLoopDevice ::
    "'w executor \<Rightarrow> 'w clientset \<Rightarrow> string \<Rightarrow> string \<Rightarrow> ('w host, go_error option) go" where
  "discover_checkLoopDevice E K ns cmName =
     go_bind (cm_get K ns cmName) (\<lambda>r. case r of
       Inl e \<Rightarrow> if \<not> IsNotFound e then go_return (Some e) else go_return None
     | Inr cmTemp \<Rightarrow>
         (case gm_get (cm_data cmTemp) VgStatusConfigMapKey of
           None \<Rightarrow> go_return None
         | Some loopDevices \<Rightarrow>
             (case Unmarshal_status loopDevices of
               Inl e \<Rightarrow> go_return (Some e)
             | Inr nodeStatus \<Rightarrow>
                 go_bind (go_fold (resetup_step E) (NS_Loops nodeStatus) False) (\<lambda>failed.
                   if failed then go_return (Some (errorf ''some loop device resetup failed''))
                   else go_return None))))"

section \<open>The device list\<close>

definition new_device_cm :: "string \<Rightarrow> string \<Rightarrow> string \<Rightarrow> string \<Rightarrow> ConfigMap" where
  "new_device_cm ns cmName nodeName deviceStr = \<lparr>
     CM_Name = cmName, CM_Namespace = ns,
     CM_Labels = [(LvmdConfigMapLabelKey, LvmdConfigMapLabelValue)],
     CM_Annotations = [(LvmdAnnotationsNodeKey, nodeName)],
     CM_OwnerReferences = [],
     CM_Data = Some [(LocalDiskCMData, deviceStr)]\<rparr>"

definition updateDeviceCM ::
    "'w executor \<Rightarrow> 'w clientset \<Rightarrow> string \<Rightarrow> string \<Rightarrow> string \<Rightarrow> ('w host, go_error option) go" where
  "updateDeviceCM E K nodeName ns cmName =
     go_bind (GetAllDevices E) (\<lambda>r. case r of
       Inl e \<Rightarrow> go_return (Some e)
     | Inr devices \<Rightarrow>
         let deviceStr = Marshal_devices devices
         in go_bind (cm_get K ns cmName) (\<lambda>r. case r of
              Inr cm \<Rightarrow>
                if gm_get_default [] (cm_data cm) LocalDiskCMData \<noteq> deviceStr then
                  go_bind (go_lift (cm_put LocalDiskCMData deviceStr cm)) (\<lambda>newcm.
                  go_bind (PatchConfigMap K (CM_Namespace newcm) cm newcm) (\<lambda>err. go_return err))
                else go_return None
            | Inl e \<Rightarrow>
                if \<not> IsNotFound e then go_return (Some e)
                else go_bind (cm_create K ns (new_device_cm ns cmName nodeName deviceStr)) (\<lambda>err. case err of
                  Some e \<Rightarrow> go_return (Some (errorf
                     (''failed to create local device map '' @ cmName @ '': '' @ err_msg e)))
                | None \<Rightarrow> go_return None)))"

section \<open>The devices of the volume groups\<close>

text \<open>One class against the physical volumes of its group.\<close>

definition class_with_pvs :: "LVInfo \<Rightarrow> ClassState \<Rightarrow> ClassState" where
  "class_with_pvs pvs c = c\<lparr>
     CS_DeviceStates := map (\<lambda>d. if gm_has pvs (DS_Name d) then d else d\<lparr>DS_State := DeviceOffline\<rparr>) (CS_DeviceStates c),
     CS_State := (if \<forall>d \<in> set (CS_DeviceStates c). gm_has pvs (DS_Name d) then ClassReady else ClassUnReady)\<rparr>"

text \<open>The loop over the successful classes returns at the first error.\<close>

fun check_classes :: "'w executor \<Rightarrow> ClassState list \<Rightarrow> ('w host, go_error + ClassState list) go" where
  "check_classes E [] = go_return (Inr [])"
| "check_classes E (c # cs) =
     go_bind (GetPhysicalVolume E (CS_VgName c)) (\<lambda>r. case r of
       Inl e \<Rightarrow> go_return (Inl e)
     | Inr pvs \<Rightarrow> go_bind (check_classes E cs) (\<lambda>r. case r of
           Inl e \<Rightarrow> go_return (Inl e)
         | Inr cs' \<Rightarrow> go_return (Inr (class_with_pvs pvs c # cs'))))"

definition checkDeviceClass ::
    "'w executor \<Rightarrow> 'w clientset \<Rightarrow> string \<Rightarrow> string \<Rightarrow> ('w host, go_error option) go" where
  "checkDeviceClass E K ns cmName =
     go_bind (cm_get K ns cmName) (\<lambda>r. case r of
       Inl e \<Rightarrow> go_return None
     | Inr cm \<Rightarrow>
         let status = gm_get_default [] (cm_data cm) VgStatusConfigMapKey
         in if status = [] then go_return None
            else case Unmarshal_status status of
              Inl e \<Rightarrow> go_return (Some e)
            | Inr nodeStatus \<Rightarrow>
                go_bind (check_classes E (NS_SuccessClasses nodeStatus)) (\<lambda>r. case r of
                  Inl e \<Rightarrow> go_return (Some e)
                | Inr cs \<Rightarrow>
                    go_bind (go_lift (cm_put VgStatusConfigMapKey
                        (Marshal_status (nodeStatus\<lparr>NS_SuccessClasses := cs\<rparr>)) cm)) (\<lambda>newcm.
                    go_bind (PatchConfigMap K (CM_Namespace newcm) cm newcm) (\<lambda>err. go_return err))))"

section \<open>udev\<close>

fun any_match :: "(string \<Rightarrow> string \<Rightarrow> go_error + bool) \<Rightarrow> string \<Rightarrow> string list \<Rightarrow> go_error + bool" where
  "any_match MatchString txt [] = Inr False"
| "any_match MatchString txt (p # ps) =
     (case MatchString p txt of
       Inl e \<Rightarrow> Inl (errorf (''failed to search string: '' @ err_msg e))
     | Inr True \<Rightarrow> Inr True
     | Inr False \<Rightarrow> any_match MatchString txt ps)"

fun matchUdevEvent ::
    "(string \<Rightarrow> string \<Rightarrow> go_error + bool) \<Rightarrow> string \<Rightarrow> string list \<Rightarrow> string list \<Rightarrow> go_error + bool" where
  "matchUdevEvent MatchString txt [] exclusions = Inr False"
| "matchUdevEvent MatchString txt (m # matches) exclusions =
     (case MatchString m txt of
       Inl e \<Rightarrow> Inl (errorf (''failed to search string: '' @ err_msg e))
     | Inr False \<Rightarrow> matchUdevEvent MatchString txt matches exclusions
     | Inr True \<Rightarrow>
         (case any_match MatchString txt exclusions of
           Inl e \<Rightarrow> Inl e
         | Inr hasExclusion \<Rightarrow>
             if \<not> hasExclusion then Inr True else matchUdevEvent MatchString txt matches exclusions))"

text \<open>
  \<open>udevBlockMonitor\<close>: it waits for an event, then for its timer, dropping the events that
  arrive meanwhile, then hands the first event over.  The raw monitor may close its channel while
  it waits; an event whose timer still runs is lost then.
\<close>

datatype monitor_mode = Idle | Window string | Sending string | Closed

record monitor_state =
  Mon_mode :: monitor_mode
  Mon_received :: "string list"
  Mon_delivered :: "string list"
  Mon_timeouts :: nat

definition monitor_init :: monitor_state where
  "monitor_init = \<lparr>Mon_mode = Idle, Mon_received = [], Mon_delivered = [], Mon_timeouts = 0\<rparr>"

inductive monitor_step :: "monitor_state \<Rightarrow> monitor_state \<Rightarrow> bool" where
  first: "Mon_mode m = Idle \<Longrightarrow>
    monitor_step m (m\<lparr>Mon_mode := Window e, Mon_received := Mon_received m @ [e]\<rparr>)"
| drop_event: "Mon_mode m = Window e \<Longrightarrow> monitor_step m (m\<lparr>Mon_received := Mon_received m @ [e']\<rparr>)"
| timeout: "Mon_mode m = Window e \<Longrightarrow>
    monitor_step m (m\<lparr>Mon_mode := Sending e, Mon_timeouts := Suc (Mon_timeouts m)\<rparr>)"
| deliver: "Mon_mode m = Sending e \<Longrightarrow>
    monitor_step m (m\<lparr>Mon_mode := Idle, Mon_delivered := Mon_delivered m @ [e]\<rparr>)"
| closing: "Mon_mode m = Idle \<or> Mon_mode m = Window e \<Longrightarrow> monitor_step m (m\<lparr>Mon_mode := Closed\<rparr>)"

inductive monitor_reachable :: "monitor_state \<Rightarrow> bool" where
  start: "monitor_reachable monitor_init"
| step: "monitor_reachable m \<Longrightarrow> monitor_step m m' \<Longrightarrow> monitor_reachable m'"

inductive_cases monitor_stepE: "monitor_step m m'"

section \<open>The monitor delivers some of the events, in order\<close>

text \<open>The event the monitor still holds, if any.\<close>

definition mon_pending :: "monitor_state \<Rightarrow> string list" where
  "mon_pending m = (case Mon_mode m of Window e \<Rightarrow> [e] | Sending e \<Rightarrow> [e] | _ \<Rightarrow> [])"

definition monitor_inv :: "monitor_state \<Rightarrow> bool" where
  "monitor_inv m \<longleftrightarrow> subseq (Mon_delivered m @ mon_pending m) (Mon_received m) \<and>
     Mon_timeouts m = length (Mon_delivered m) + (case Mon_mode m of Sending _ \<Rightarrow> 1 | _ \<Rightarrow> 0)"

lemma subseq_drop_last: "subseq (xs @ ys) zs \<Longrightarrow> subseq xs zs"
  by (erule subseq_order.trans [rotated]) (simp add: subseq_rev_drop_many)

lemma monitor_step_inv: "monitor_step m m' \<Longrightarrow> monitor_inv m \<Longrightarrow> monitor_inv m'"
  by (erule monitor_stepE)
     (auto simp: monitor_inv_def mon_pending_def subseq_append' intro: subseq_rev_drop_many dest: subseq_drop_last)

lemma monitor_invariant: "monitor_reachable m \<Longrightarrow> monitor_inv m"
proof (induction rule: monitor_reachable.induct)
  case start
  show ?case by (simp add: monitor_inv_def monitor_init_def mon_pending_def)
qed (blast intro: monitor_step_inv)

lemma matchUdevEvent_iff:
  assumes "\<And>p t e. MatchString p t \<noteq> Inl e"
  shows "matchUdevEvent MatchString txt matches exclusions =
    Inr ((\<exists>m \<in> set matches. MatchString m txt = Inr True) \<and> (\<forall>x \<in> set exclusions. MatchString x txt \<noteq> Inr True))"
proof -
  have total: "\<exists>b. MatchString p t = Inr b" for p t using assms [of p t] by (cases "MatchString p t") auto
  have any: "any_match MatchString txt ps = Inr (\<exists>x \<in> set ps. MatchString x txt = Inr True)" for ps
  proof (induction ps)
    case (Cons p ps)
    obtain b where "MatchString p txt = Inr b" using total by blast
    with Cons show ?case by (cases b) simp_all
  qed simp
  show ?thesis
  proof (induction matches)
    case (Cons m ms)
    obtain b where "MatchString m txt = Inr b" using total by blast
    with Cons any show ?case by (cases b) auto
  qed simp
qed

section \<open>What the daemon writes\<close>

lemma exec_GetAllDevices [issues]: "only_issues report_cmd (GetAllDevices E)"
  by (rule discovery_reports)

text \<open>A class is ready exactly when all its devices are physical volumes of its group.\<close>

lemma class_with_pvs_sel [simp]:
  "CS_VgName (class_with_pvs pvs c) = CS_VgName c"
  "CS_Name (class_with_pvs pvs c) = CS_Name c"
  "map DS_Name (CS_DeviceStates (class_with_pvs pvs c)) = map DS_Name (CS_DeviceStates c)"
  by (simp_all add: class_with_pvs_def comp_def if_distrib cong: if_cong)

lemma class_with_pvs_ready:
  "CS_State (class_with_pvs pvs c) = ClassReady \<longleftrightarrow> (\<forall>d \<in> set (CS_DeviceStates c). gm_has pvs (DS_Name d))"
  by (auto simp: class_with_pvs_def)

lemma check_classes_result:
  "wp (check_classes E cs) (\<lambda>r t. \<forall>cs'. r = Inr cs' \<longrightarrow> list_all2 (\<lambda>c c'. \<exists>pvs. c' = class_with_pvs pvs c) cs cs')
     (\<lambda>_ _. True) s"
proof (induction cs arbitrary: s)
  case (Cons c cs)
  show ?case
    unfolding check_classes.simps wp_bind
    by (rule wp_any) (auto simp: wpg split: sum.splits intro!: wp_mono [OF Cons.IH])
qed (simp add: wpg)

definition follows :: "NodeStorageState \<Rightarrow> ConfigMap \<Rightarrow> bool" where
  "follows st cm \<longleftrightarrow> (\<exists>cs. gm_get (cm_data cm) VgStatusConfigMapKey = Some (Marshal_status (st\<lparr>NS_SuccessClasses := cs\<rparr>)) \<and>
     list_all2 (\<lambda>c c'. \<exists>pvs. c' = class_with_pvs pvs c) (NS_SuccessClasses st) cs)"

lemma api_get_patches [intro]: "only_issues (patches_only P) (cm_get K ns name)"
  by (auto simp: cm_get_def patches_only_def intro!: issues)

lemma exec_check_classes [issues]: "only_issues is_exec (check_classes E cs)"
proof (induction cs)
  case (Cons c cs)
  have "only_issues is_exec (GetPhysicalVolume E vg)" for vg
    by (rule only_issues_mono [OF only_issues_queries(2)]) (auto simp: lvm_query_def lvm_ev_def)
  then show ?case by (auto intro!: issues Cons)
qed (simp add: issues)

text \<open>
  The status that is patched in differs from the one read in the successful classes only, each
  of them updated against the volumes found.
\<close>

definition stored_status :: "ConfigMap \<Rightarrow> string" where
  "stored_status cm = gm_get_default [] (cm_data cm) VgStatusConfigMapKey"

lemma checkDeviceClass_writes:
  assumes "\<And>w r w'. ra_get (ConfigMaps K) ns cmName w = (r, w') \<Longrightarrow> r = Inr cm"
    and "Unmarshal_status (stored_status cm) = Inr st"
  shows "wp (checkDeviceClass E K ns cmName) (\<lambda>_. grown (patches_only (follows st)) s) (\<lambda>_. grown (patches_only (follows st)) s) s"
  unfolding checkDeviceClass_def
proof (rule wp_grown_bind [OF grown_refl api_get_patches, where Q = "\<lambda>r. r = Inr cm"], goal_cases)
  case 1
  show ?case using assms(1) by (auto simp: cm_get_def wpg)
next
  case (2 r t)
  have cls: "wp (go_bind (check_classes E (NS_SuccessClasses st)) (\<lambda>r. case r of
        Inl e \<Rightarrow> go_return (Some e)
      | Inr cs \<Rightarrow> go_bind (go_lift (cm_put VgStatusConfigMapKey (Marshal_status (st\<lparr>NS_SuccessClasses := cs\<rparr>)) cm))
          (\<lambda>newcm. go_bind (PatchConfigMap K (CM_Namespace newcm) cm newcm) (\<lambda>err. go_return err))))
      (\<lambda>_. grown (patches_only (follows st)) s) (\<lambda>_. grown (patches_only (follows st)) s) t"
  proof (rule wp_grown_bind [OF 2(2) exec_patches [OF exec_check_classes] check_classes_result], goal_cases)
    case (1 r u)
    then show ?case
      by (auto simp: wpg patches_only_def follows_def cm_data_put split: sum.splits outcome.splits
          intro!: wp_grown_only issues)
  qed
  then show ?case
    using 2(2) assms(2) unfolding 2(1) sum.case Let_def stored_status_def
    by (cases "gm_get_default [] (cm_data cm) VgStatusConfigMapKey = []")
       (simp_all only: wp_branches(1) sum.case wp_return if_True if_False refl simp_thms)
qed

text \<open>
  The device list is written only when it changed, and as the list of all devices; a second
  update that finds the same devices writes nothing.
\<close>

definition holds_devices :: "string \<Rightarrow> ConfigMap \<Rightarrow> bool" where
  "holds_devices devs cm \<longleftrightarrow> gm_get (cm_data cm) LocalDiskCMData = Some devs"

lemma updateDeviceCM_result:
  assumes dev: "wp (GetAllDevices E) (\<lambda>r t. r = Inr devices \<and> world t = w) (\<lambda>_ _. False) s"
    and cm: "ra_get (ConfigMaps K) ns cmName w = (Inr cm, w')"
    and patch: "cm_merge_patch K cm (cm\<lparr>CM_Data := Some (gm_put LocalDiskCMData (Marshal_devices devices) (cm_data cm))\<rparr>) = Inr p"
  shows "wp (updateDeviceCM E K nodeName ns cmName)
    (\<lambda>r t. if holds_devices (Marshal_devices devices) cm then r = None \<and> world t = w'
       else r = fst (ra_patch (ConfigMaps K) (CM_Namespace cm) (CM_Name cm) p w') \<and>
         (\<exists>new. last (trace t) = Api VPatch (ConfigMapObj new) \<and> holds_devices (Marshal_devices devices) new))
    (\<lambda>_ _. CM_Data cm = None) s"
  unfolding updateDeviceCM_def wp_bind
proof (rule wp_mono [OF dev], goal_cases)
  case (1 r t)
  have "Marshal_devices devices \<noteq> []" by (simp add: Marshal_devices_def)
  then show ?case
    using 1 cm patch
    by (auto simp: wpg cm_get_def Let_def holds_devices_def gm_get_default_def cm_put_Ret PatchConfigMap_def
        cm_data_def gm.get_put cm_put_def split: option.splits outcome.splits)
qed auto

end
