(* ===== verification/DiscoverDaemon.thy ===== *)
theory DiscoverDaemon
  imports Discover
begin

text \<open>
  The main loop of the discovery daemon and its raw udev monitor (\<open>Run\<close>, \<open>retryLoopDevice\<close> and
  \<open>rawUdevBlockMonitor\<close> of \<open>pkg/operator/discover/discover.go\<close>).
  The loop selects among channels and a timer: it is run on the events in the order in which it
  takes them.  The goroutine that tries the loop devices again is one of these events, a
  whole try at a time.
  Proved: what the daemon may do to its node and to the cluster, and which lines of udev it reports.
\<close>

section \<open>The raw udev monitor\<close>

text \<open>
  The lines of \<open>bufio.Scanner\<close>: without their line ends, up to the first of at least 64 KiB, at
  which the scanner gives up.
\<close>

definition drop_cr :: "string \<Rightarrow> string" where
  "drop_cr l = (if has_suffix l [CHR 0x0D] then butlast l else l)"

definition scan_lines :: "string \<Rightarrow> string list" where
  "scan_lines s = (let ls = split_on (CHR 0x0A) s
     in map drop_cr (takeWhile (\<lambda>l. length l < 65536) (if last ls = [] then butlast ls else ls)))"

fun send_matches ::
    "(string \<Rightarrow> string \<Rightarrow> go_error + bool) \<Rightarrow> string list \<Rightarrow> string list \<Rightarrow> string list \<Rightarrow> string list" where
  "send_matches MatchString matches exclusions [] = []"
| "send_matches MatchString matches exclusions (txt # txts) =
     (case matchUdevEvent MatchString txt matches exclusions of
       Inl e \<Rightarrow> []
     | Inr matched \<Rightarrow> (if matched then [txt] else []) @ send_matches MatchString matches exclusions txts)"

text \<open>What is sent to the channel before it is closed, for the output of \<open>udevadm monitor\<close>, if it starts.\<close>

definition rawUdevBlockMonitor ::
    "(string \<Rightarrow> string \<Rightarrow> go_error + bool) \<Rightarrow> string option \<Rightarrow> string list \<Rightarrow> string list \<Rightarrow> string list" where
  "rawUdevBlockMonitor MatchString output matches exclusions =
     (case output of None \<Rightarrow> [] | Some s \<Rightarrow> send_matches MatchString matches exclusions (scan_lines s))"

definition udev_matches :: "string list" where
  "udev_matches = [''(?i)add'', ''(?i)remove'']"

definition udev_filter :: "string \<Rightarrow> string list" where
  "udev_filter discoverUdev = split_on (CHR '','')
     (if discoverUdev = [] then ''(?i)dm-[0-9]+,(?i)rbd[0-9]+,(?i)nbd[0-9]+'' else discoverUdev)"

lemma send_matches_filter:
  assumes "\<And>p t e. MatchString p t \<noteq> Inl e"
  shows "send_matches MatchString matches exclusions txts = filter (\<lambda>txt.
    (\<exists>m \<in> set matches. MatchString m txt = Inr True) \<and> \<not> (\<exists>x \<in> set exclusions. MatchString x txt = Inr True)) txts"
  by (induction txts) (simp_all add: matchUdevEvent_iff [OF assms])

section \<open>The main loop\<close>

definition getenv :: "'w clientset \<Rightarrow> string \<Rightarrow> string" where
  "getenv K name = (case LookupEnv K name of None \<Rightarrow> [] | Some v \<Rightarrow> v)"

definition PodNameSpaceEnv :: string where "PodNameSpaceEnv = ''POD_NAMESPACE''"
definition UseLoopEnv :: string where "UseLoopEnv = ''USE_LOOP''"
definition UseLoop :: string where "UseLoop = ''true''"

datatype daemon_event = Shutdown | ProbeDue | UdevEvent | UdevClosed | RetryDue

text \<open>Whether the channel of udev events is still set, and whether the retrying goroutine runs.\<close>

record daemon =
  Dm_udevEvents :: bool
  Dm_retrying :: bool

definition retryLoopDevice :: "'w executor \<Rightarrow> 'w clientset \<Rightarrow> string \<Rightarrow> string \<Rightarrow> daemon \<Rightarrow> ('w host, daemon) go" where
  "retryLoopDevice E K ns cmName d =
     (if Dm_retrying d then
        go_bind (discover_checkLoopDevice E K ns cmName) (\<lambda>err. go_return (d\<lparr>Dm_retrying := err \<noteq> None\<rparr>))
      else go_return d)"

text \<open>\<open>Some\<close> is what \<open>Run\<close> returns, \<open>None\<close> that it still runs after these events.\<close>

fun daemon_loop ::
    "'w executor \<Rightarrow> 'w clientset \<Rightarrow> string \<Rightarrow> string \<Rightarrow> string \<Rightarrow> daemon_event list \<Rightarrow> daemon \<Rightarrow>
     ('w host, go_error option option) go" where
  "daemon_loop E K nodeName ns cmName [] d = go_return None"
| "daemon_loop E K nodeName ns cmName (ev # evs) d = (case ev of
       Shutdown \<Rightarrow> go_return (Some None)
     | ProbeDue \<Rightarrow>
         go_bind (updateDeviceCM E K nodeName ns cmName) (\<lambda>_.
         go_bind (checkDeviceClass E K ns cmName) (\<lambda>_. daemon_loop E K nodeName ns cmName evs d))
     | UdevEvent \<Rightarrow>
         if Dm_udevEvents d then
           go_bind (updateDeviceCM E K nodeName ns cmName) (\<lambda>_. daemon_loop E K nodeName ns cmName evs d)
         else daemon_loop E K nodeName ns cmName evs d
     | UdevClosed \<Rightarrow> daemon_loop E K nodeName ns cmName evs (d\<lparr>Dm_udevEvents := False\<rparr>)
     | RetryDue \<Rightarrow> go_bind (retryLoopDevice E K ns cmName d) (daemon_loop E K nodeName ns cmName evs))"

definition discover_Run ::
    "('w executor \<times> 'w clientset) option \<Rightarrow> daemon_event list \<Rightarrow> ('w host, go_error option option) go" where
  "discover_Run ctx evs = (case ctx of
       None \<Rightarrow> go_return (Some (Some (errorf ''nil context'')))
     | Some (E, K) \<Rightarrow>
         let nodeName = getenv K NodeNameEnv; ns = getenv K PodNameSpaceEnv; useLoop = (getenv K UseLoopEnv = UseLoop);
             cmName = TruncateNodeName K LvmdConfigMapFmt nodeName;
             loop = (\<lambda>retrying. daemon_loop E K nodeName ns cmName evs \<lparr>Dm_udevEvents = True, Dm_retrying = retrying\<rparr>)
         in go_bind (updateDeviceCM E K nodeName ns cmName) (\<lambda>err. case err of
              Some e \<Rightarrow> go_return (Some (Some e))
            | None \<Rightarrow>
                if useLoop then go_bind (discover_checkLoopDevice E K ns cmName) (\<lambda>err. loop (err \<noteq> None))
                else loop False))"

section \<open>What the daemon may do\<close>

text \<open>
  It runs the commands that report on devices and volume groups, attaches loop devices, reads its
  config map, creates it with the device list, and patches config maps.
\<close>

definition daemon_may :: "string \<Rightarrow> string \<Rightarrow> string \<Rightarrow> event \<Rightarrow> bool" where
  "daemon_may nodeName ns cmName ev \<longleftrightarrow> report_cmd ev \<or> lvm_query ev \<or>
     (\<exists>loop file. ev = Exec ''nsenter'' (nsenter_args ''losetup'' [loop, file])) \<or>
     ev = Api VGet (Named ''ConfigMap'' cmName) \<or>
     (\<exists>devices. ev = Api VCreate (ConfigMapObj (new_device_cm ns cmName nodeName devices))) \<or>
     (\<exists>cm. ev = Api VPatch (ConfigMapObj cm))"

lemma daemon_may_intros [simp, intro]:
  "daemon_may nodeName ns cmName (Exec ''nsenter'' (nsenter_args ''losetup'' [loop, file]))"
  "daemon_may nodeName ns cmName (Api VGet (Named ''ConfigMap'' cmName))"
  "daemon_may nodeName ns cmName (Api VCreate (ConfigMapObj (new_device_cm ns cmName nodeName devices)))"
  "daemon_may nodeName ns cmName (Api VPatch (ConfigMapObj cm))"
  by (auto simp: daemon_may_def)

lemma daemon_reports: "only_issues report_cmd m \<Longrightarrow> only_issues (daemon_may nodeName ns cmName) m"
  by (erule only_issues_mono) (simp add: daemon_may_def)

lemma daemon_queries: "only_issues lvm_query m \<Longrightarrow> only_issues (daemon_may nodeName ns cmName) m"
  by (erule only_issues_mono) (simp add: daemon_may_def)

lemma daemon_cm_get [issues]: "only_issues (daemon_may nodeName ns cmName) (cm_get K ns' cmName)"
  by (auto simp: cm_get_def intro!: issues)

lemma daemon_ReSetupLoop [issues]: "only_issues (daemon_may nodeName ns cmName) (ReSetupLoop E file loop)"
  unfolding ReSetupLoop_def wrapExecCommand_def
  by (auto intro!: issues daemon_reports [OF discovery_reports(4)])

lemma daemon_checkLoopDevice [issues]:
  "only_issues (daemon_may nodeName ns cmName) (discover_checkLoopDevice E K ns' cmName)"
  unfolding discover_checkLoopDevice_def resetup_step_def by (intro issues)

lemma daemon_check_classes [issues]: "only_issues (daemon_may nodeName ns cmName) (check_classes E cs)"
  by (induction cs) (auto intro!: issues daemon_queries [OF only_issues_queries(2)])

lemma daemon_checkDeviceClass [issues]:
  "only_issues (daemon_may nodeName ns cmName) (checkDeviceClass E K ns' cmName)"
  unfolding checkDeviceClass_def by (intro issues daemon_may_intros)

lemma daemon_updateDeviceCM [issues]:
  "only_issues (daemon_may nodeName ns cmName) (updateDeviceCM E K nodeName ns cmName)"
  unfolding updateDeviceCM_def cm_create_def
  by (intro issues daemon_may_intros daemon_reports [OF discovery_reports(6)])

lemma daemon_loop_issues: "only_issues (daemon_may nodeName ns cmName) (daemon_loop E K nodeName ns cmName evs d)"
proof (induction evs arbitrary: d)
  case (Cons ev evs)
  then show ?case by (cases ev) (auto simp: retryLoopDevice_def intro!: issues)
qed simp

lemma discover_Run_issues:
  "only_issues (daemon_may (getenv K NodeNameEnv) (getenv K PodNameSpaceEnv)
      (TruncateNodeName K LvmdConfigMapFmt (getenv K NodeNameEnv))) (discover_Run (Some (E, K)) evs)"
  unfolding discover_Run_def by (auto simp: Let_def intro!: issues daemon_loop_issues)

text \<open>Once udev is gone its events change nothing, and a success ends the retries.\<close>

lemma daemon_loop_without_udev:
  "\<not> Dm_udevEvents d \<Longrightarrow>
   daemon_loop E K nodeName ns cmName (filter (\<lambda>ev. ev \<noteq> UdevEvent) evs) d = daemon_loop E K nodeName ns cmName evs d"
proof (induction evs arbitrary: d)
  case (Cons ev evs)
  have "go_bind (retryLoopDevice E K ns cmName d) (daemon_loop E K nodeName ns cmName (filter (\<lambda>ev. ev \<noteq> UdevEvent) evs)) =
      go_bind (retryLoopDevice E K ns cmName d) (daemon_loop E K nodeName ns cmName evs)"
    unfolding retryLoopDevice_def using Cons by (simp add: go_bind_assoc)
  with Cons show ?case by (cases ev) (simp_all del: go_bind_return)
qed simp

end
