(* ===== verification/K8sUtil.thy ===== *)
theory K8sUtil
  imports KubeApi
begin

text \<open>
  The helpers of \<open>pkg/operator/k8sutil\<close> and \<open>pkg/operator/controller\<close> around single
  resources: status updates, deletion with verification, jobs, deployments and daemon sets,
  finalizers, containers.  Waiting between attempts has no effect in the model.
  Proved: how often and in which order the API server is asked, which outcomes count as success,
  and what the finalizer functions do to the list.
\<close>

section \<open>UpdateStatus\<close>

text \<open>\<open>client.Status().Update\<close>, and \<open>Update\<close> when the object does not exist yet.\<close>

definition try_update_status :: "'w clientset \<Rightarrow> string \<Rightarrow> TopolvmCluster \<Rightarrow> ('w host, go_error option) go" where
  "try_update_status K ns obj =
     go_bind (api_update_status ClusterObj (Clusters K) ns obj) (\<lambda>err. case err of
       None \<Rightarrow> go_return None
     | Some e \<Rightarrow> if IsNotFound e then api_update ClusterObj (Clusters K) ns obj else go_return (Some e))"

definition update_status_error :: "TopolvmCluster \<Rightarrow> go_error \<Rightarrow> go_error" where
  "update_status_error obj e = err_wrap e (''failed to update object '' @ TC_Name obj @ '' status'')"

definition UpdateStatus :: "'w clientset \<Rightarrow> string \<Rightarrow> TopolvmCluster \<Rightarrow> ('w host, go_error option) go" where
  "UpdateStatus K ns obj =
     go_bind (try_update_status K ns obj) (\<lambda>err. case err of
       None \<Rightarrow> go_return None
     | Some e \<Rightarrow>
         if \<not> IsConflict e \<or> \<not> IsInvalid e then go_return (Some (update_status_error obj e))
         else go_bind (try_update_status K ns obj) (\<lambda>err. case err of
           None \<Rightarrow> go_return None
         | Some e \<Rightarrow> go_return (Some (update_status_error obj e))))"

section \<open>Deletion\<close>

record WaitOptions =
  WO_Wait :: bool
  WO_RetryCount :: "64 word"
  WO_RetryInterval :: nat
  WO_ErrorOnTimeout :: bool

record DeleteOptions =
  DO_MustDelete :: bool
  DO_WaitOptions :: WaitOptions

definition retryCountOrDefault :: "WaitOptions \<Rightarrow> 64 word \<Rightarrow> 64 word" where
  "retryCountOrDefault w def = (if WO_RetryCount w > 0 then WO_RetryCount w else def)"

definition retryIntervalOrDefault :: "WaitOptions \<Rightarrow> nat \<Rightarrow> nat" where
  "retryIntervalOrDefault w def = (if WO_RetryInterval w > 0 then WO_RetryInterval w else def)"

text \<open>
  The loop over the retries, with the error of the last verification: \<open>Inl\<close> when the resource
  is gone, \<open>Inr\<close> when the tries are used up.
\<close>

fun verify_gone :: "('w host, go_error option) go \<Rightarrow> nat \<Rightarrow> go_error option \<Rightarrow> ('w host, unit + go_error option) go" where
  "verify_gone verify 0 err = go_return (Inr err)"
| "verify_gone verify (Suc n) err =
     go_bind verify (\<lambda>err. case err of
       Some e \<Rightarrow> if IsNotFound e then go_return (Inl ()) else verify_gone verify n (Some e)
     | None \<Rightarrow> verify_gone verify n None)"

definition error_text :: "go_error option \<Rightarrow> string" where
  "error_text err = (case err of None \<Rightarrow> ''<nil>'' | Some e \<Rightarrow> err_msg e)"

definition DeleteResource ::
    "('w host, go_error option) go \<Rightarrow> ('w host, go_error option) go \<Rightarrow> string \<Rightarrow> DeleteOptions \<Rightarrow> WaitOptions \<Rightarrow>
     ('w host, go_error option) go" where
  "DeleteResource delete verify resource opts defaultWaitOptions =
     go_bind delete (\<lambda>err. case err of
       Some e \<Rightarrow>
         if IsNotFound e \<and> DO_MustDelete opts then
           go_return (Some (errorf (''failed to delete '' @ resource @ ''; it does not exist. '' @ err_msg e)))
         else if IsNotFound e \<and> \<not> DO_MustDelete opts then go_return None
         else go_return (Some (errorf (''failed to delete '' @ resource @ ''. '' @ err_msg e)))
     | None \<Rightarrow>
         if \<not> WO_Wait (DO_WaitOptions opts) then go_return None
         else
           let retries = retryCountOrDefault (DO_WaitOptions opts) (retryCountOrDefault defaultWaitOptions 30);
               retryInterval = retryIntervalOrDefault (DO_WaitOptions opts) (retryIntervalOrDefault defaultWaitOptions 5)
           in go_bind (verify_gone verify (Suc (unat retries)) None) (\<lambda>r. case r of
                Inl _ \<Rightarrow> go_return None
              | Inr err \<Rightarrow>
                  if WO_ErrorOnTimeout (DO_WaitOptions opts) then
                    go_return (Some (errorf (''failed to delete '' @ resource @ ''. gave up waiting after '' @
                      nat_to_string (unat retries) @ '' retries every '' @ nat_to_string retryInterval @ '' seconds. '' @
                      error_text err)))
                  else go_return None))"

definition no_wait :: WaitOptions where
  "no_wait = \<lparr>WO_Wait = False, WO_RetryCount = 0, WO_RetryInterval = 0, WO_ErrorOnTimeout = False\<rparr>"

definition DeleteConfigMap :: "'w clientset \<Rightarrow> string \<Rightarrow> string \<Rightarrow> DeleteOptions \<Rightarrow> ('w host, go_error option) go" where
  "DeleteConfigMap K cmName ns opts =
     DeleteResource (api_delete ''ConfigMap'' (ConfigMaps K) ns cmName)
       (go_bind (cm_get K ns cmName) (\<lambda>r. case r of Inl e \<Rightarrow> go_return (Some e) | Inr _ \<Rightarrow> go_return None))
       (''ConfigMap '' @ cmName) opts
       (no_wait\<lparr>WO_RetryCount := 20, WO_RetryInterval := 2\<rparr>)"

definition CreateReplaceableConfigmap :: "'w clientset \<Rightarrow> ConfigMap \<Rightarrow> ('w host, go_error option) go" where
  "CreateReplaceableConfigmap K cm =
     go_bind (cm_get K (CM_Namespace cm) (CM_Name cm)) (\<lambda>r.
       go_bind (case r of
           Inl _ \<Rightarrow> go_return None
         | Inr existingCm \<Rightarrow> DeleteConfigMap K (CM_Name existingCm) (CM_Namespace existingCm)
             \<lparr>DO_MustDelete = True, DO_WaitOptions = no_wait\<rparr>)
         (\<lambda>_. cm_create K (CM_Namespace cm) cm))"

text \<open>\<open>deleteResourceAndWait\<close>: at most 45 looks whether the resource is gone.\<close>

fun wait_gone :: "('w host, go_error option) go \<Rightarrow> string \<Rightarrow> nat \<Rightarrow> ('w host, go_error option) go" where
  "wait_gone getAction name 0 =
     go_return (Some (errorf (''gave up waiting for '' @ name @ '' pods to be terminated'')))"
| "wait_gone getAction name (Suc n) =
     go_bind getAction (\<lambda>err. case err of
       Some e \<Rightarrow> if IsNotFound e then go_return None
                 else go_return (Some (errorf (''failed to get '' @ name @ ''. '' @ err_msg e)))
     | None \<Rightarrow> wait_gone getAction name n)"

definition deleteResourceAndWait ::
    "string \<Rightarrow> ('w host, go_error option) go \<Rightarrow> ('w host, go_error option) go \<Rightarrow> ('w host, go_error option) go" where
  "deleteResourceAndWait name deleteAction getAction =
     go_bind deleteAction (\<lambda>err. case err of
       Some e \<Rightarrow> if \<not> IsNotFound e then go_return (Some (errorf (''failed to delete '' @ name @ ''. '' @ err_msg e)))
                 else go_return None
     | None \<Rightarrow> wait_gone getAction name 45)"

section \<open>Deployments and daemon sets\<close>

definition error_of :: "go_error + 'a \<Rightarrow> go_error option" where
  "error_of r = (case r of Inl e \<Rightarrow> Some e | Inr _ \<Rightarrow> None)"

text \<open>Create, and update instead when the object exists; the shape of both helpers.\<close>

definition create_or_update ::
    "('o \<Rightarrow> kobject) \<Rightarrow> ('w, 'o) resource_api \<Rightarrow> string \<Rightarrow> 'o \<Rightarrow> string \<Rightarrow> ('w host, go_error option) go" where
  "create_or_update obj A ns x what =
     go_bind (api_create obj A ns x) (\<lambda>err. case err of
       None \<Rightarrow> go_return None
     | Some e \<Rightarrow>
         go_bind (if IsAlreadyExists e then api_update obj A ns x else go_return (Some e)) (\<lambda>err. case err of
           None \<Rightarrow> go_return None
         | Some e \<Rightarrow> go_return (Some (errorf (''failed to start '' @ what @ '': '' @ err_msg e)))))"

definition CreateDeployment :: "'w clientset \<Rightarrow> string \<Rightarrow> string \<Rightarrow> Workload \<Rightarrow> ('w host, go_error option) go" where
  "CreateDeployment K name ns dep = create_or_update DeploymentObj (Deployments K) ns dep (name @ '' deployment'')"

definition CreateDaemonSet :: "'w clientset \<Rightarrow> string \<Rightarrow> string \<Rightarrow> Workload \<Rightarrow> ('w host, go_error option) go" where
  "CreateDaemonSet K name ns ds = create_or_update DaemonSetObj (DaemonSets K) ns ds (name @ '' daemonset'')"

definition DeleteDeployment :: "'w clientset \<Rightarrow> string \<Rightarrow> string \<Rightarrow> ('w host, go_error option) go" where
  "DeleteDeployment K ns name = deleteResourceAndWait name
     (api_delete ''Deployment'' (Deployments K) ns name)
     (go_bind (api_get ''Deployment'' (Deployments K) ns name) (\<lambda>r. go_return (error_of r)))"

definition DeleteDaemonset :: "'w clientset \<Rightarrow> string \<Rightarrow> string \<Rightarrow> ('w host, go_error option) go" where
  "DeleteDaemonset K ns name = deleteResourceAndWait name
     (api_delete ''DaemonSet'' (DaemonSets K) ns name)
     (go_bind (api_get ''DaemonSet'' (DaemonSets K) ns name) (\<lambda>r. go_return (error_of r)))"

definition GetDaemonsets :: "'w clientset \<Rightarrow> string \<Rightarrow> string \<Rightarrow> ('w host, go_error + Workload list) go" where
  "GetDaemonsets K ns labelSelector =
     go_bind (api_list ''DaemonSet'' (DaemonSets K) ns labelSelector) (\<lambda>r. case r of
       Inl e \<Rightarrow> go_return (Inl (errorf (''failed to list deployments with labelSelector '' @ labelSelector @ '': '' @ err_msg e)))
     | Inr ds \<Rightarrow> go_return (Inr ds))"

definition GetDaemonset :: "'w clientset \<Rightarrow> string \<Rightarrow> string \<Rightarrow> ('w host, go_error + Workload) go" where
  "GetDaemonset K ns name =
     go_bind (api_get ''DaemonSet'' (DaemonSets K) ns name) (\<lambda>r. case r of
       Inl e \<Rightarrow> go_return (Inl (errorf (''failed to get daemonset  '' @ name @ '': '' @ err_msg e)))
     | Inr d \<Rightarrow> go_return (Inr d))"

section \<open>Jobs\<close>

text \<open>
  \<open>wait.Poll\<close> of the apimachinery package runs a condition until it is true, fails, or the
  time is up; it is a parameter that gets the condition.
\<close>

type_synonym 'w poller = "nat \<Rightarrow> nat \<Rightarrow> ('w host, bool \<times> go_error option) go \<Rightarrow> ('w host, go_error option) go"

definition job_condition :: "'w clientset \<Rightarrow> string \<Rightarrow> string \<Rightarrow> ('w host, bool \<times> go_error option) go" where
  "job_condition K ns name =
     go_bind (api_get ''Job'' (Jobs K) ns name) (\<lambda>r. case r of
       Inl e \<Rightarrow> go_return (False, Some (errorf (''failed to detect job '' @ name @ ''. '' @ err_msg e)))
     | Inr job \<Rightarrow>
         if J_Active job > 0 then go_return (False, None)
         else if J_Failed job > 0 then go_return (False, Some (errorf (''job '' @ name @ '' failed'')))
         else if J_Succeeded job > 0 then go_return (True, None)
         else go_return (False, None))"

definition WaitForJobCompletion ::
    "'w poller \<Rightarrow> 'w clientset \<Rightarrow> string \<Rightarrow> Job \<Rightarrow> nat \<Rightarrow> ('w host, go_error option) go" where
  "WaitForJobCompletion Poll K ns job timeout = Poll 5 timeout (job_condition K ns (J_Name job))"

text \<open>\<open>DeleteBatchJob\<close> looks at most 20 times and then reports success all the same.\<close>

fun wait_job_gone :: "'w clientset \<Rightarrow> string \<Rightarrow> string \<Rightarrow> nat \<Rightarrow> ('w host, go_error option) go" where
  "wait_job_gone K ns name 0 = go_return None"
| "wait_job_gone K ns name (Suc n) =
     go_bind (api_get ''Job'' (Jobs K) ns name) (\<lambda>r. case r of
       Inl e \<Rightarrow> if IsNotFound e then go_return None else wait_job_gone K ns name n
     | Inr _ \<Rightarrow> wait_job_gone K ns name n)"

definition DeleteBatchJob :: "'w clientset \<Rightarrow> string \<Rightarrow> string \<Rightarrow> bool \<Rightarrow> ('w host, go_error option) go" where
  "DeleteBatchJob K ns name wait =
     go_bind (api_delete ''Job'' (Jobs K) ns name) (\<lambda>err. case err of
       Some e \<Rightarrow>
         if IsNotFound e then go_return None
         else go_return (Some (errorf (''failed to remove previous provisioning job for node '' @ name @ ''. '' @ err_msg e)))
     | None \<Rightarrow> if \<not> wait then go_return None else wait_job_gone K ns name 20)"

definition RunReplaceableJob ::
    "'w poller \<Rightarrow> 'w clientset \<Rightarrow> string \<Rightarrow> Job \<Rightarrow> bool \<Rightarrow> ('w host, go_error option) go" where
  "RunReplaceableJob Poll K ns job deleteIfFound =
     go_bind (api_get ''Job'' (Jobs K) ns (J_Name job)) (\<lambda>r. case r of
       Inl _ \<Rightarrow> api_create JobObj (Jobs K) ns job
     | Inr existingJob \<Rightarrow>
         if J_Active existingJob > 0 \<and> \<not> deleteIfFound then go_return None
         else
           go_bind (WaitForJobCompletion Poll K ns existingJob 3600) (\<lambda>_.
           go_bind (DeleteBatchJob K ns (J_Name existingJob) True) (\<lambda>_.
           api_create JobObj (Jobs K) ns job)))"

section \<open>Finalizers\<close>

text \<open>
  \<open>remove\<close> deletes from a slice while the loop still ranges over the original one: both
  share their array, of which \<open>list\<close> is the first \<open>len\<close> elements.
\<close>

definition delete_in_place :: "nat \<Rightarrow> nat \<Rightarrow> 'a list \<Rightarrow> 'a list" where
  "delete_in_place i len arr = take i arr @ take (len - Suc i) (drop (Suc i) arr) @ drop (len - 1) arr"

fun remove_from :: "string \<Rightarrow> nat \<Rightarrow> nat \<Rightarrow> nat \<Rightarrow> string list \<Rightarrow> string list outcome" where
  "remove_from s 0 i len arr = Ret (take len arr)"
| "remove_from s (Suc n) i len arr =
     (if arr ! i = s then
        (if Suc i \<le> len then remove_from s n (Suc i) (len - 1) (delete_in_place i len arr)
         else Panic ''slice bounds out of range'')
      else remove_from s n (Suc i) len arr)"

definition remove_string :: "string list \<Rightarrow> string \<Rightarrow> string list outcome" where
  "remove_string xs s = remove_from s (length xs) 0 (length xs) xs"

definition CustomResourceGroup :: string where "CustomResourceGroup = ''topolvm.cybozu.com''"

definition buildFinalizerName :: "string \<Rightarrow> string" where
  "buildFinalizerName kind = to_lower kind @ ''.'' @ CustomResourceGroup"

definition AddFinalizerIfNotPresent ::
    "'w clientset \<Rightarrow> string \<Rightarrow> string \<Rightarrow> TopolvmCluster \<Rightarrow> ('w host, go_error option \<times> TopolvmCluster) go" where
  "AddFinalizerIfNotPresent K ns kind obj =
     (let objectFinalizer = buildFinalizerName kind
      in if \<not> List.member (TC_Finalizers obj) objectFinalizer then
           let obj' = obj\<lparr>TC_Finalizers := TC_Finalizers obj @ [objectFinalizer]\<rparr>
           in go_bind (api_update ClusterObj (Clusters K) ns obj') (\<lambda>err. case err of
                Some e \<Rightarrow> go_return (Some (err_wrap e (''failed to add finalizer '' @ objectFinalizer @ '' on '' @ TC_Name obj)), obj')
              | None \<Rightarrow> go_return (None, obj'))
         else go_return (None, obj))"

definition RemoveFinalizer ::
    "'w clientset \<Rightarrow> string \<Rightarrow> string \<Rightarrow> TopolvmCluster \<Rightarrow> ('w host, go_error option) go" where
  "RemoveFinalizer K ns kind obj =
     (let objectFinalizer = buildFinalizerName kind
      in if List.member (TC_Finalizers obj) objectFinalizer then
           go_bind (go_lift (remove_string (TC_Finalizers obj) objectFinalizer)) (\<lambda>fs.
           go_bind (api_update ClusterObj (Clusters K) ns (obj\<lparr>TC_Finalizers := fs\<rparr>)) (\<lambda>err. case err of
             Some e \<Rightarrow> go_return (Some (err_wrap e (''failed to remove finalizer '' @ objectFinalizer @ '' on '' @ TC_Name obj)))
           | None \<Rightarrow> go_return None))
         else go_return None)"

section \<open>Pods and containers\<close>

definition GetRunningPod :: "'w clientset \<Rightarrow> ('w host, go_error + Pod) go" where
  "GetRunningPod K =
     (let podName = (case LookupEnv K ''POD_NAME'' of None \<Rightarrow> [] | Some v \<Rightarrow> v);
          podNamespace = (case LookupEnv K ''POD_NAMESPACE'' of None \<Rightarrow> [] | Some v \<Rightarrow> v)
      in if podName = [] then go_return (Inl (errorf
             ''cannot detect the pod name. Please provide it using the downward API in the manifest file''))
         else api_get ''Pod'' (Pods K) podNamespace podName)"

fun first_container :: "Container list \<Rightarrow> string \<Rightarrow> Container option" where
  "first_container [] name = None"
| "first_container (c # cs) name = (if Co_Name c = name then Some c else first_container cs name)"

definition GetMatchingContainer :: "Container list \<Rightarrow> string \<Rightarrow> go_error + Container" where
  "GetMatchingContainer containers name =
     (case (if length containers = 1 then Some (hd containers) else first_container containers name) of
       None \<Rightarrow> Inl (errorf (''failed to find image for container '' @ name))
     | Some c \<Rightarrow> Inr c)"

definition GetSpecContainerImage :: "Container list \<Rightarrow> string \<Rightarrow> go_error + string" where
  "GetSpecContainerImage containers name =
     (case GetMatchingContainer containers name of Inl e \<Rightarrow> Inl e | Inr c \<Rightarrow> Inr (Co_Image c))"

definition GetContainerImage :: "Pod \<Rightarrow> string \<Rightarrow> go_error + string" where
  "GetContainerImage pod name = GetSpecContainerImage (P_Containers pod) name"

section \<open>Facts\<close>

text \<open>\<open>at_most n m\<close>: \<open>m\<close> adds at most \<open>n\<close> events to the trace.\<close>

definition at_most :: "nat \<Rightarrow> ('w host, 'a) go \<Rightarrow> bool" where
  "at_most n m \<longleftrightarrow> (\<forall>s. length (trace (snd (m s))) \<le> length (trace s) + n)"

lemma at_most_mono: "at_most n m \<Longrightarrow> n \<le> k \<Longrightarrow> at_most k m"
  unfolding at_most_def by (meson add_left_mono le_trans)

lemma at_most_return [simp]: "at_most n (go_return a)"
  by (simp add: at_most_def go_return_def)

lemma at_most_bind:
  assumes "at_most a m" and "\<And>x. at_most b (f x)"
  shows "at_most (a + b) (go_bind m f)"
  unfolding at_most_def
proof
  fix s
  obtain r t where m: "m s = (r, t)" by (cases "m s")
  have "length (trace t) \<le> length (trace s) + a" using assms(1) m by (metis at_most_def snd_conv)
  moreover have "length (trace (snd (f x t))) \<le> length (trace t) + b" for x using assms(2) by (simp add: at_most_def)
  ultimately show "length (trace (snd (go_bind m f s))) \<le> length (trace s) + (a + b)"
    by (cases r) (auto simp: go_bind_def m intro: order_trans add_mono simp flip: add.assoc
        dest: order_trans [OF _ add_right_mono])
qed

lemma at_most_api:
  "at_most 1 (api_get kind A ns n)"
  "at_most 1 (api_create obj A' ns x)"
  "at_most 1 (api_update obj A' ns x)"
  "at_most 1 (api_update_status obj A' ns x)"
  "at_most 1 (api_delete kind A ns n)"
  by (simp_all add: at_most_def api_get_def api_create_def api_update_def api_update_status_def api_delete_def
      split: prod.splits)

lemma UpdateStatus_issues [issues]:
  "P (Api VUpdateStatus (ClusterObj obj)) \<Longrightarrow> P (Api VUpdate (ClusterObj obj)) \<Longrightarrow> only_issues P (UpdateStatus K ns obj)"
  by (auto simp: UpdateStatus_def try_update_status_def intro!: issues)

text \<open>The condition before the second try is always true: one kind excludes the other.\<close>

lemma UpdateStatus_no_retry:
  "UpdateStatus K ns obj = go_bind (try_update_status K ns obj)
     (\<lambda>err. go_return (map_option (update_status_error obj) err))"
  unfolding UpdateStatus_def
  by (rule arg_cong [where f = "go_bind (try_update_status K ns obj)"], rule ext)
     (auto simp: IsConflict_def IsInvalid_def split: option.splits)

lemma try_update_status_at_most: "at_most 2 (try_update_status K ns obj)"
proof -
  have "at_most (1 + 1) (try_update_status K ns obj)"
    unfolding try_update_status_def
    by (rule at_most_bind [OF at_most_api(4)]) (auto intro: at_most_api [simplified] split: option.splits)
  then show ?thesis by (simp add: numeral_2_eq_2)
qed

lemma UpdateStatus_at_most: "at_most 2 (UpdateStatus K ns obj)"
  using at_most_bind [OF try_update_status_at_most, of 0 "\<lambda>err. go_return (map_option (update_status_error obj) err)" K ns obj]
  by (simp add: UpdateStatus_no_retry)

lemma verify_gone_at_most: "at_most 1 verify \<Longrightarrow> at_most n (verify_gone verify n err)"
proof (induction n arbitrary: err)
  case (Suc n)
  have "at_most (1 + n) (verify_gone verify (Suc n) err)"
    unfolding verify_gone.simps
    by (rule at_most_bind [OF Suc.prems]) (auto intro: Suc split: option.splits)
  then show ?case by simp
qed simp

text \<open>What is verified as gone was found missing, and giving up means it never was.\<close>

lemma wait_gone_result:
  assumes "\<And>s. wp getAction (\<lambda>err t. \<forall>e. err = Some e \<longrightarrow> \<not> IsNotFound e) (\<lambda>_ _. False) s"
  shows "wp (wait_gone getAction name n) (\<lambda>r t. \<exists>e. r = Some e) (\<lambda>_ _. False) s"
proof (induction n arbitrary: s)
  case (Suc n)
  show ?case
    unfolding wait_gone.simps wp_bind
    by (rule wp_mono [OF assms]) (auto simp: wpg Suc split: option.splits)
qed (simp add: wpg)

lemma verify_gone_result:
  assumes "\<And>s. wp verify (\<lambda>err t. \<forall>e. err = Some e \<longrightarrow> \<not> IsNotFound e) (\<lambda>_ _. False) s"
  shows "wp (verify_gone verify n err) (\<lambda>r t. \<exists>e. r = Inr e) (\<lambda>_ _. False) s"
proof (induction n arbitrary: err s)
  case (Suc n)
  show ?case
    unfolding verify_gone.simps wp_bind
    by (rule wp_mono [OF assms]) (auto simp: wpg Suc split: option.splits)
qed (simp add: wpg)

text \<open>Deletion asks at most once to delete and once per try to verify.\<close>

lemma DeleteResource_at_most:
  assumes "at_most 1 delete" "at_most 1 verify"
  shows "at_most (2 + unat (retryCountOrDefault (DO_WaitOptions opts) (retryCountOrDefault dflt 30)))
     (DeleteResource delete verify resource opts dflt)"
proof -
  let ?n = "Suc (unat (retryCountOrDefault (DO_WaitOptions opts) (retryCountOrDefault dflt 30)))"
  have loop: "at_most (?n + 0) (go_bind (verify_gone verify ?n None) f)" if "\<And>x. at_most 0 (f x)" for f :: "_ \<Rightarrow> ('a host, 'b) go"
    by (rule at_most_bind [OF verify_gone_at_most [OF assms(2)] that])
  have "at_most (1 + ?n) (DeleteResource delete verify resource opts dflt)"
    unfolding DeleteResource_def Let_def
    by (intro at_most_bind [OF assms(1)]) (auto simp del: verify_gone.simps intro!: loop [simplified] split: option.splits sum.splits)
  then show ?thesis by simp
qed

text \<open>
  What deletion promises when it was told to wait and to report a timeout: success means that
  nothing was there to delete, or that the resource was seen to be gone.
\<close>

lemma DeleteResource_timeout:
  assumes "WO_Wait (DO_WaitOptions opts)" "WO_ErrorOnTimeout (DO_WaitOptions opts)"
    and "\<And>s. wp delete (\<lambda>err t. err = None) (\<lambda>_ _. False) s"
    and "\<And>s. wp verify (\<lambda>err t. \<forall>e. err = Some e \<longrightarrow> \<not> IsNotFound e) (\<lambda>_ _. False) s"
  shows "wp (DeleteResource delete verify resource opts dflt) (\<lambda>r t. r \<noteq> None) (\<lambda>_ _. False) s"
  unfolding DeleteResource_def wp_bind
  by (rule wp_mono [OF assms(3)])
     (auto simp: wpg Let_def assms(1,2) simp del: verify_gone.simps intro!: wp_mono [OF verify_gone_result [OF assms(4)]])

lemma deleteResourceAndWait_timeout:
  assumes "\<And>s. wp delete (\<lambda>err t. err = None) (\<lambda>_ _. False) s"
    and "\<And>s. wp getAction (\<lambda>err t. \<forall>e. err = Some e \<longrightarrow> \<not> IsNotFound e) (\<lambda>_ _. False) s"
  shows "wp (deleteResourceAndWait name delete getAction) (\<lambda>r t. r \<noteq> None) (\<lambda>_ _. False) s"
  unfolding deleteResourceAndWait_def wp_bind
  by (rule wp_mono [OF assms(1)]) (auto simp del: wait_gone.simps intro!: wp_mono [OF wait_gone_result [OF assms(2)]])

text \<open>A job that is running is left alone unless its replacement was asked for.\<close>

lemma RunReplaceableJob_running:
  assumes "ra_get (Jobs K) ns (J_Name job) (world s) = (Inr old, w)" "J_Active old > 0"
  shows "RunReplaceableJob Poll K ns job False s =
    (Ret None, record_event (Api VGet (Named ''Job'' (J_Name job))) w s)"
  using assms by (simp add: RunReplaceableJob_def go_bind_def api_get_def go_return_def)

section \<open>Finalizer lists\<close>

lemma remove_from_absent:
  "s \<notin> set (drop i arr) \<Longrightarrow> n \<le> length arr - i \<Longrightarrow> remove_from s n i len arr = Ret (take len arr)"
proof (induction n arbitrary: i)
  case (Suc n)
  then have i: "i < length arr" by simp
  then have "arr ! i \<in> set (drop i arr)" by (metis Cons_nth_drop_Suc list.set_intros(1))
  moreover have "s \<notin> set (drop (Suc i) arr)" using Suc.prems(1) set_drop_subset_set_drop [of i "Suc i" arr] by auto
  ultimately show ?case using Suc i by auto
qed simp

lemma remove_from_prefix:
  "s \<notin> set xs \<Longrightarrow> remove_from s (length xs + n) (length ps) len (ps @ xs @ ys) =
     remove_from s n (length ps + length xs) len (ps @ xs @ ys)"
proof (induction xs arbitrary: ps)
  case (Cons x xs)
  then show ?case using Cons.IH [of "ps @ [x]"] by (auto simp: nth_append)
qed simp

text \<open>A finalizer that occurs once is removed, and nothing else.\<close>

lemma remove_string_once:
  assumes "s \<notin> set xs" "s \<notin> set ys"
  shows "remove_string (xs @ s # ys) s = Ret (xs @ ys)"
proof -
  let ?arr = "xs @ s # ys" and ?n = "length xs" and ?len = "length xs + Suc (length ys)"
  have arr': "delete_in_place ?n ?len ?arr = xs @ ys @ drop (length ys) (s # ys)"
    by (simp add: delete_in_place_def)
  have "s \<notin> set (drop (length ys) ys)" "s \<notin> set (drop (Suc ?n) (xs @ ys @ drop (length ys) (s # ys)))"
    using assms by (cases ys; auto dest!: in_set_dropD)+
  then have rest: "remove_from s (length ys) (Suc ?n) (?len - 1) (delete_in_place ?n ?len ?arr) = Ret (xs @ ys)"
    unfolding arr' by (subst remove_from_absent) auto
  have "remove_string ?arr s = remove_from s (?n + Suc (length ys)) 0 ?len ?arr"
    by (simp add: remove_string_def)
  also have "\<dots> = remove_from s (Suc (length ys)) ?n ?len ?arr"
    using remove_from_prefix [of s xs "Suc (length ys)" "[]" ?len "s # ys"] assms(1) by simp
  also have "\<dots> = Ret (xs @ ys)" using rest by (simp add: nth_append)
  finally show ?thesis .
qed

lemma remove_string_absent: "s \<notin> set xs \<Longrightarrow> remove_string xs s = Ret xs"
  by (simp add: remove_string_def remove_from_absent)

text \<open>A finalizer that ends the list twice makes the function panic.\<close>

lemma remove_string_twice_panics: "\<exists>e. remove_string [s, s] s = Panic e"
  by (simp add: remove_string_def delete_in_place_def numeral_2_eq_2)

section \<open>Watching the operator's settings\<close>

text \<open>The informer hands every change of the one config map to the handler of its kind, in order.\<close>

datatype settings_event = SettingsAdded ConfigMap | SettingsUpdated ConfigMap ConfigMap | SettingsDeleted ConfigMap

fun StartOperatorSettingsWatch ::
    "(ConfigMap \<Rightarrow> ('w host, unit) go) \<Rightarrow> (ConfigMap \<Rightarrow> ConfigMap \<Rightarrow> ('w host, unit) go) \<Rightarrow> (ConfigMap \<Rightarrow> ('w host, unit) go) \<Rightarrow>
     settings_event list \<Rightarrow> ('w host, unit) go" where
  "StartOperatorSettingsWatch addFunc updateFunc deleteFunc [] = go_return ()"
| "StartOperatorSettingsWatch addFunc updateFunc deleteFunc (ev # evs) =
     go_bind (case ev of
         SettingsAdded cm \<Rightarrow> addFunc cm
       | SettingsUpdated old new \<Rightarrow> updateFunc old new
       | SettingsDeleted cm \<Rightarrow> deleteFunc cm)
       (\<lambda>_. StartOperatorSettingsWatch addFunc updateFunc deleteFunc evs)"

end
