(* ===== verification/Workloads.thy ===== *)
theory Workloads
  imports K8sUtil
begin

text \<open>
  The workloads the operator creates: the node deployment (\<open>pkg/operator/node/node.go\<close>), the
  controller deployment (\<open>pkg/operator/volumectr/volume_controller.go\<close>), the discovery daemon
  set (\<open>pkg/operator/discover/daemon.go\<close>) and the job that prepares volume groups
  (\<open>pkg/operator/volumegroup/vgmanager.go\<close>), with the operations that create, replace and
  update them.
  Proved: every mount of every container names a volume of its pod, selectors match the labels of
  the pods they select, also after the kubelet path was changed, and in which order a
  deployment is replaced.
\<close>

section \<open>Globals\<close>

text \<open>The variables of \<open>pkg/cluster/common.go\<close>.\<close>

record globals =
  G_TopolvmImage :: string
  G_CertsSecret :: string
  G_NameSpace :: string
  G_ClusterName :: string
  G_CSIKubeletRootDir :: string
  G_IsOperatorHub :: bool
  G_EnableDiscoverDevices :: string

definition AppAttr :: string where "AppAttr = ''app.kubernetes.io/name''"
definition TopolvmComposeAttr :: string where "TopolvmComposeAttr = ''app.kubernetes.io/compose''"
definition TopolvmComposeNode :: string where "TopolvmComposeNode = ''node''"
definition ClusterAttr :: string where "ClusterAttr = ''topolvm_cluster''"
definition LabelHostname :: string where "LabelHostname = ''kubernetes.io/hostname''"
definition NodeServiceAccount :: string where "NodeServiceAccount = ''topolvm-node''"
definition TopolvmNodeDeploymentLabelName :: string where "TopolvmNodeDeploymentLabelName = ''topolvm-node''"
definition ContollerServiceAccount :: string where "ContollerServiceAccount = ''topolvm-controller''"
definition LvmdContainerName :: string where "LvmdContainerName = ''lvmd''"
definition NodeContainerName :: string where "NodeContainerName = ''topolvm-node''"
definition CsiRegistrarContainerName :: string where "CsiRegistrarContainerName = ''csi-registrar''"
definition TopolvmControllerDeploymentName :: string where "TopolvmControllerDeploymentName = ''topolvm-controller''"
definition TopolvmControllerContainerName :: string where "TopolvmControllerContainerName = ''topolvm-controller''"
definition TopolvmCsiResizerContainerName :: string where "TopolvmCsiResizerContainerName = ''csi-resizer''"
definition TopolvmCsiProvisionerContainerName :: string where "TopolvmCsiProvisionerContainerName = ''csi-provisioner''"
definition TopolvmCsiLivenessProbeContainerName :: string where "TopolvmCsiLivenessProbeContainerName = ''liveness-probe''"
definition PrepareVgServiceAccount :: string where "PrepareVgServiceAccount = ''topolvm-preparevg''"
definition PrePareVgAppName :: string where "PrePareVgAppName = ''prepare-volume-group''"
definition PrepareVgJobFmt :: string where "PrepareVgJobFmt = ''topolvm-prepare-vg-''"
definition PrePareVgContainerName :: string where "PrePareVgContainerName = ''preparevg''"
definition DiscoverDevicesAccount :: string where "DiscoverDevicesAccount = ''topolvm-discover''"
definition DiscoverAppName :: string where "DiscoverAppName = ''topolvm-discover''"
definition DiscoverContainerName :: string where "DiscoverContainerName = ''discover''"
definition LoopAnnotationsKey :: string where "LoopAnnotationsKey = ''loop''"
definition LoopAnnotationsVal :: string where "LoopAnnotationsVal = ''true''"
definition UseLoopEnv :: string where "UseLoopEnv = ''USE_LOOP''"

definition resources :: "string \<Rightarrow> string \<Rightarrow> string gomap" where
  "resources cpu mem = [(''cpu'', cpu), (''memory'', mem)]"

text \<open>A mount that sets nothing but name and path, and a container that sets nothing else.\<close>

definition mount_at :: "string \<Rightarrow> string \<Rightarrow> VolumeMount" where
  "mount_at name path = \<lparr>VM_Name = name, VM_MountPath = path, VM_ReadOnly = False, VM_Propagation = None\<rparr>"

definition plain_container :: "string \<Rightarrow> string \<Rightarrow> string list \<Rightarrow> VolumeMount list \<Rightarrow> Container" where
  "plain_container name img command mounts = \<lparr>Co_Name = name, Co_Image = img, Co_Command = command, Co_Ports = [],
     Co_Env = [], Co_Limits = [], Co_Requests = [], Co_Mounts = mounts, Co_LivenessProbe = None, Co_ReadinessProbe = None,
     Co_PreStop = None, Co_SecurityContext = None\<rparr>"

text \<open>Privileged, as root; the health check of two containers; the operator of every toleration.\<close>

definition getPrivilegeSecurityContext :: SecurityContext where
  "getPrivilegeSecurityContext = \<lparr>SC_Privileged = True, SC_RunAsUser = 0\<rparr>"

definition healthz_probe :: "string \<Rightarrow> Probe" where
  "healthz_probe port = \<lparr>Pr_Handler = HTTPGetAction ''/healthz'' (PortName port) [], Pr_FailureThreshold = 3,
     Pr_InitialDelaySeconds = 10, Pr_TimeoutSeconds = 3, Pr_PeriodSeconds = 60\<rparr>"

definition healthz_port :: "string \<Rightarrow> int \<Rightarrow> ContainerPort" where
  "healthz_port name port = \<lparr>CP_Name = name, CP_ContainerPort = port, CP_Protocol = ''TCP''\<rparr>"

definition TolerationOpExists :: string where "TolerationOpExists = ''Exists''"

section \<open>The node deployment\<close>

definition getAbsoluteKubeletPath :: "string \<Rightarrow> string" where
  "getAbsoluteKubeletPath name = (if has_suffix name ''/'' then name else name @ ''/'')"

definition registrar_command :: "string \<Rightarrow> string list" where
  "registrar_command path = [''/csi-node-driver-registrar'', ''--csi-address=/run/topolvm/csi-topolvm.sock'',
     ''--kubelet-registration-path='' @ getAbsoluteKubeletPath path @ ''plugins/topolvm.cybozu.com/node/csi-topolvm.sock'']"

definition node_mounts :: "string \<Rightarrow> VolumeMount list" where
  "node_mounts path = [mount_at ''node-plugin-dir'' ''/run/topolvm'', mount_at ''lvmd-socket-dir'' ''/run/lvmd'',
     (mount_at ''pod-volumes-dir'' (getAbsoluteKubeletPath path @ ''pods''))\<lparr>VM_Propagation := Some ''Bidirectional''\<rparr>,
     (mount_at ''csi-plugin-dir'' (getAbsoluteKubeletPath path @ ''plugins/kubernetes.io/csi''))
       \<lparr>VM_Propagation := Some ''Bidirectional''\<rparr>]"

definition getLvmdContainer :: "globals \<Rightarrow> Container" where
  "getLvmdContainer G = (plain_container LvmdContainerName (G_TopolvmImage G)
     [''/lvmd'', ''--config=/etc/topolvm/lvmd.yaml'', ''--container=true'']
     [mount_at ''lvmd-socket-dir'' ''/run/topolvm'', mount_at ''lvmd-config-dir'' ''/etc/topolvm''])
     \<lparr>Co_Limits := resources ''250m'' ''250Mi'', Co_Requests := resources ''250m'' ''250Mi'',
       Co_SecurityContext := Some getPrivilegeSecurityContext\<rparr>"

definition getNodeContainer :: "globals \<Rightarrow> Container" where
  "getNodeContainer G = (plain_container NodeContainerName (G_TopolvmImage G)
     [''/topolvm-node'', ''--lvmd-socket=/run/lvmd/lvmd.sock''] (node_mounts (G_CSIKubeletRootDir G)))
     \<lparr>Co_Env := [(''NODE_NAME'', EnvField ''spec.nodeName'')],
       Co_Ports := [healthz_port ''healthz'' 9808], Co_LivenessProbe := Some (healthz_probe ''healthz''),
       Co_Limits := resources ''250m'' ''250Mi'', Co_Requests := resources ''250m'' ''250Mi'',
       Co_SecurityContext := Some getPrivilegeSecurityContext\<rparr>"

definition getCsiRegistrarContainer :: "globals \<Rightarrow> Container" where
  "getCsiRegistrarContainer G = (plain_container CsiRegistrarContainerName (G_TopolvmImage G)
     (registrar_command (G_CSIKubeletRootDir G))
     [mount_at ''node-plugin-dir'' ''/run/topolvm'', mount_at ''registration-dir'' ''/registration''])
     \<lparr>Co_PreStop := Some (ExecAction [''/bin/sh'', ''-c'',
        ''rm -rf /registration/topolvm.cybozu.com /registration/topolvm.cybozu.com-reg.sock''])\<rparr>"

definition node_getLivenessProbeContainer :: "globals \<Rightarrow> Container" where
  "node_getLivenessProbeContainer G = plain_container TopolvmCsiLivenessProbeContainerName (G_TopolvmImage G)
     [''/livenessprobe'', ''--csi-address=/run/topolvm/csi-topolvm.sock'']
     [mount_at ''node-plugin-dir'' ''/run/topolvm'']"

definition node_getDeployment :: "globals \<Rightarrow> string \<Rightarrow> string \<Rightarrow> string \<Rightarrow> OwnerReference \<Rightarrow> Workload" where
  "node_getDeployment G appName nodeName configmap ref =
     (let root = getAbsoluteKubeletPath (G_CSIKubeletRootDir G)
      in \<lparr>W_Name = appName, W_Namespace = G_NameSpace G,
        W_Labels = [(AppAttr, TopolvmNodeDeploymentLabelName)], W_Annotations = None,
        W_OwnerReferences = [ref], W_Replicas = Some 1, W_Selector = [(AppAttr, appName)],
        W_Strategy = \<lparr>Str_Type = ''Recreate'', Str_RollingUpdate = None\<rparr>,
        W_Pod = \<lparr>PS_Name = appName, PS_Namespace = [],
          PS_Labels = [(AppAttr, appName), (TopolvmComposeAttr, TopolvmComposeNode)],
          PS_ServiceAccount = NodeServiceAccount, PS_NodeSelector = [(LabelHostname, nodeName)],
          PS_Tolerations = [TolerationOpExists], PS_AntiAffinity = [], PS_HostPID = True, PS_HostIPC = False,
          PS_RestartPolicy = [], PS_InitContainers = [],
          PS_Containers = [getLvmdContainer G, getNodeContainer G, getCsiRegistrarContainer G, node_getLivenessProbeContainer G],
          PS_Volumes = [(''registration-dir'', HostPath (root @ ''plugins_registry/'') HostPathDirectory),
            (''node-plugin-dir'', HostPath (root @ ''plugins/topolvm.cybozu.com/node'') HostPathDirectoryOrCreate),
            (''csi-plugin-dir'', HostPath (root @ ''plugins/kubernetes.io/csi'') HostPathDirectoryOrCreate),
            (''pod-volumes-dir'', HostPath (root @ ''pods/'') HostPathDirectoryOrCreate),
            (''lvmd-config-dir'', ConfigMapVolume configmap),
            (''lvmd-socket-dir'', EmptyDir ''Memory'')]\<rparr>\<rparr>)"

definition CheckNodeDeploymentIsExisting :: "'w clientset \<Rightarrow> globals \<Rightarrow> string \<Rightarrow> ('w host, bool \<times> go_error option) go" where
  "CheckNodeDeploymentIsExisting K G deploymentName =
     go_bind (api_get ''Deployment'' (Deployments K) (G_NameSpace G) deploymentName) (\<lambda>r. case r of
       Inl e \<Rightarrow> if \<not> IsNotFound e
         then go_return (False, Some (err_wrap e (''failed to detect deployment '' @ deploymentName)))
         else go_return (False, None)
     | Inr _ \<Rightarrow> go_return (True, None))"

definition CreateNodeDeployment ::
    "'w clientset \<Rightarrow> globals \<Rightarrow> string \<Rightarrow> string \<Rightarrow> string \<Rightarrow> OwnerReference \<Rightarrow> ('w host, go_error option) go" where
  "CreateNodeDeployment K G deploymentName cmName nodeName ref =
     go_bind (CreateDeployment K deploymentName (G_NameSpace G) (node_getDeployment G deploymentName nodeName cmName ref)) (\<lambda>err.
       go_return (map_option (\<lambda>e. err_wrap e (''create node deployment '' @ deploymentName @ '' failed'')) err))"

definition CreateReplaceDeployment ::
    "'w clientset \<Rightarrow> globals \<Rightarrow> string \<Rightarrow> string \<Rightarrow> string \<Rightarrow> OwnerReference \<Rightarrow> ('w host, go_error option) go" where
  "CreateReplaceDeployment K G deploymentName cmName nodeName ref =
     go_bind (api_get ''Deployment'' (Deployments K) (G_NameSpace G) deploymentName) (\<lambda>r. case r of
       Inl e \<Rightarrow>
         if \<not> IsNotFound e then go_return (Some (err_wrap e (''failed to detect deployment '' @ deploymentName)))
         else CreateNodeDeployment K G deploymentName cmName nodeName ref
     | Inr _ \<Rightarrow>
         go_bind (DeleteDeployment K (G_NameSpace G) deploymentName) (\<lambda>err. case err of
           Some e \<Rightarrow> go_return (Some (err_wrap e (''failed to remove deployment '' @ deploymentName)))
         | None \<Rightarrow> CreateNodeDeployment K G deploymentName cmName nodeName ref))"

text \<open>
  \<open>UpdateNodeDeploymentCSIKubeletRootPath\<close>: the host paths of four volumes, the command of the
  registrar and the mounts of the node container follow the new path.  A volume of one of the
  four names that is not a host path is a nil pointer.
\<close>

definition kubelet_volume_path :: "string \<Rightarrow> string \<Rightarrow> string option" where
  "kubelet_volume_path path name =
     (if name = ''registration-dir'' then Some (getAbsoluteKubeletPath path @ ''plugins_registry/'')
      else if name = ''node-plugin-dir'' then Some (getAbsoluteKubeletPath path @ ''plugins/topolvm.cybozu.com/node'')
      else if name = ''csi-plugin-dir'' then Some (getAbsoluteKubeletPath path @ ''plugins/kubernetes.io/csi'')
      else if name = ''pod-volumes-dir'' then Some (getAbsoluteKubeletPath path @ ''pods/'')
      else None)"

fun update_volumes :: "string \<Rightarrow> (string \<times> volume_source) list \<Rightarrow> (string \<times> volume_source) list outcome" where
  "update_volumes path [] = Ret []"
| "update_volumes path ((name, src) # vs) =
     (case update_volumes path vs of
       Panic e \<Rightarrow> Panic e
     | Ret vs' \<Rightarrow>
         (case kubelet_volume_path path name of
           None \<Rightarrow> Ret ((name, src) # vs')
         | Some p \<Rightarrow>
             (case src of
               HostPath _ ty \<Rightarrow> Ret ((name, HostPath p ty) # vs')
             | _ \<Rightarrow> Panic ''invalid memory address or nil pointer dereference'')))"

definition update_container_path :: "string \<Rightarrow> Container \<Rightarrow> Container" where
  "update_container_path path c =
     (if Co_Name c = CsiRegistrarContainerName then c\<lparr>Co_Command := registrar_command path\<rparr>
      else if Co_Name c = NodeContainerName then c\<lparr>Co_Mounts := node_mounts path\<rparr>
      else c)"

definition with_kubelet_path :: "string \<Rightarrow> Workload \<Rightarrow> Workload outcome" where
  "with_kubelet_path path d =
     (case update_volumes path (PS_Volumes (W_Pod d)) of
       Panic e \<Rightarrow> Panic e
     | Ret vs \<Rightarrow> Ret (d\<lparr>W_Pod := (W_Pod d)\<lparr>PS_Volumes := vs,
          PS_Containers := map (update_container_path path) (PS_Containers (W_Pod d))\<rparr>\<rparr>))"

definition update_path_step ::
    "'w clientset \<Rightarrow> globals \<Rightarrow> string \<Rightarrow> Workload \<Rightarrow> unit \<Rightarrow> ('w host, go_error + unit) go" where
  "update_path_step K G path d u =
     go_bind (go_lift (with_kubelet_path path d)) (\<lambda>newDep.
       let patchChanged = (case workload_patch_empty K d newDep of Inl _ \<Rightarrow> True | Inr isEmpty \<Rightarrow> \<not> isEmpty)
       in if \<not> patchChanged then go_return (Inr ())
          else go_bind (api_update DeploymentObj (Deployments K) (G_NameSpace G) newDep) (\<lambda>err. case err of
            Some e \<Rightarrow> go_return (Inl (errorf (''failed to update deployment '' @ W_Name newDep @ ''. '' @ err_msg e)))
          | None \<Rightarrow> go_return (Inr ())))"

definition UpdateNodeDeploymentCSIKubeletRootPath ::
    "'w clientset \<Rightarrow> globals \<Rightarrow> string \<Rightarrow> ('w host, go_error option) go" where
  "UpdateNodeDeploymentCSIKubeletRootPath K G path =
     go_bind (api_list ''Deployment'' (Deployments K) (G_NameSpace G) (AppAttr @ ''='' @ TopolvmNodeDeploymentLabelName)) (\<lambda>r.
       case (case r of Inl e \<Rightarrow> if \<not> IsNotFound e then Inl e else Inr [] | Inr ds \<Rightarrow> Inr ds) of
         Inl e \<Rightarrow> go_return (Some (err_wrap e ''failed to list topolvm node deployment''))
       | Inr ds \<Rightarrow>
           go_bind (go_loop (update_path_step K G path) ds ()) (\<lambda>r. case r of
             Inl e \<Rightarrow> go_return (Some e)
           | Inr _ \<Rightarrow> go_return None))"

section \<open>The controller deployment\<close>

definition getInitContainer :: Container where
  "getInitContainer = plain_container ''self-signed-cert-generator'' ''alpine/openssl''
     [''sh'', ''-c'', ''openssl req -nodes -x509 -newkey rsa:4096 -subj '' @ [CHR 0x27] @ ''/DC=self_signed_certificate'' @
        [CHR 0x27] @ '' -keyout /certs/tls.key -out /certs/tls.crt -days 365'']
     [mount_at ''certs'' ''/certs'']"

definition getControllerContainer :: "globals \<Rightarrow> Container" where
  "getControllerContainer G = (plain_container TopolvmControllerContainerName (G_TopolvmImage G)
     [''/topolvm-controller'', ''--cert-dir=/certs'']
     [mount_at ''socket-dir'' ''/run/topolvm'', mount_at ''certs'' ''/certs''])
     \<lparr>Co_Ports := [healthz_port ''healthz'' 9808], Co_LivenessProbe := Some (healthz_probe ''healthz''),
       Co_ReadinessProbe := Some \<lparr>Pr_Handler = HTTPGetAction ''/metrics'' (PortNumber 8080) ''HTTP'', Pr_FailureThreshold = 0,
         Pr_InitialDelaySeconds = 0, Pr_TimeoutSeconds = 0, Pr_PeriodSeconds = 0\<rparr>,
       Co_Limits := resources ''250m'' ''250Mi'', Co_Requests := resources ''250m'' ''250Mi''\<rparr>"

definition getCsiResizerContainer :: "globals \<Rightarrow> Container" where
  "getCsiResizerContainer G = plain_container TopolvmCsiResizerContainerName (G_TopolvmImage G)
     [''/csi-resizer'', ''--csi-address=/run/topolvm/csi-topolvm.sock'', ''--leader-election'',
      ''--leader-election-namespace='' @ G_NameSpace G]
     [mount_at ''socket-dir'' ''/run/topolvm'']"

definition getCsiProvisionerContainer :: "globals \<Rightarrow> Container" where
  "getCsiProvisionerContainer G = (plain_container TopolvmCsiProvisionerContainerName (G_TopolvmImage G)
     [''/csi-provisioner'', ''--csi-address=/run/topolvm/csi-topolvm.sock'', ''--enable-capacity'',
      ''--capacity-ownerref-level=2'', ''--capacity-poll-interval=30s'', ''--feature-gates=Topology=true'',
      ''--leader-election'', ''--leader-election-namespace='' @ G_NameSpace G]
     [mount_at ''socket-dir'' ''/run/topolvm''])
     \<lparr>Co_Env := [(''POD_NAMESPACE'', EnvField ''metadata.namespace''), (''POD_NAME'', EnvField ''metadata.name''),
         (''NAMESPACE'', EnvField ''metadata.namespace'')],
       Co_Limits := resources ''250m'' ''250Mi'', Co_Requests := resources ''250m'' ''250Mi''\<rparr>"

definition ctr_getLivenessProbeContainer :: "globals \<Rightarrow> Container" where
  "ctr_getLivenessProbeContainer G = plain_container TopolvmCsiLivenessProbeContainerName (G_TopolvmImage G)
     [''/livenessprobe'', ''--csi-address=/run/topolvm/csi-topolvm.sock''] [mount_at ''socket-dir'' ''/run/topolvm'']"

text \<open>With a certificate secret that exists it is mounted, without one an init container makes a certificate.\<close>

definition controller_deployment :: "globals \<Rightarrow> OwnerReference \<Rightarrow> int \<Rightarrow> bool \<Rightarrow> Workload" where
  "controller_deployment G ref replicas certsFound = \<lparr>W_Name = TopolvmControllerDeploymentName,
     W_Namespace = G_NameSpace G, W_Labels = [], W_Annotations = None, W_OwnerReferences = [ref],
     W_Replicas = Some replicas, W_Selector = [(AppAttr, TopolvmControllerDeploymentName)],
     W_Strategy = \<lparr>Str_Type = [], Str_RollingUpdate = Some (1, 1)\<rparr>,
     W_Pod = \<lparr>PS_Name = TopolvmControllerDeploymentName, PS_Namespace = G_NameSpace G,
       PS_Labels = [(AppAttr, TopolvmControllerDeploymentName)],
       PS_ServiceAccount = ContollerServiceAccount, PS_NodeSelector = [], PS_Tolerations = [TolerationOpExists],
       PS_AntiAffinity = [\<lparr>AT_Expressions = [(AppAttr, ''In'', [TopolvmControllerDeploymentName])],
         AT_TopologyKey = LabelHostname\<rparr>],
       PS_HostPID = False, PS_HostIPC = False, PS_RestartPolicy = [],
       PS_InitContainers = (if certsFound then [] else [getInitContainer]),
       PS_Containers = [getControllerContainer G, getCsiProvisionerContainer G, getCsiResizerContainer G, ctr_getLivenessProbeContainer G],
       PS_Volumes = [(''socket-dir'', EmptyDir []), (''certs'', if certsFound then SecretVolume (G_CertsSecret G) else EmptyDir [])]\<rparr>\<rparr>"

definition ctr_getDeployment ::
    "'w clientset \<Rightarrow> globals \<Rightarrow> OwnerReference \<Rightarrow> ('w host, go_error + Workload) go" where
  "ctr_getDeployment K G ref =
     go_bind (api_list ''Node'' (Nodes K) [] []) (\<lambda>r.
       let replicas = (case r of Inl _ \<Rightarrow> 1 | Inr nodes \<Rightarrow> if length nodes > 1 then 2 else 1)
       in if G_CertsSecret G \<noteq> [] then
            go_bind (api_get ''Secret'' (Secrets K) (G_NameSpace G) (G_CertsSecret G)) (\<lambda>r. case r of
              Inl e \<Rightarrow> go_return (Inl e)
            | Inr _ \<Rightarrow> go_return (Inr (controller_deployment G ref replicas True)))
          else go_return (Inr (controller_deployment G ref replicas False)))"

definition CreateControllerDeployment :: "'w clientset \<Rightarrow> globals \<Rightarrow> OwnerReference \<Rightarrow> ('w host, go_error option) go" where
  "CreateControllerDeployment K G ref =
     go_bind (ctr_getDeployment K G ref) (\<lambda>r. case r of
       Inl e \<Rightarrow> go_return (Some e)
     | Inr deployment \<Rightarrow> CreateDeployment K TopolvmControllerDeploymentName (G_NameSpace G) deployment)"

definition CreateReplaceTopolvmControllerDeployment ::
    "'w clientset \<Rightarrow> globals \<Rightarrow> OwnerReference \<Rightarrow> ('w host, go_error option) go" where
  "CreateReplaceTopolvmControllerDeployment K G ref =
     go_bind (api_get ''Deployment'' (Deployments K) (G_NameSpace G) TopolvmControllerDeploymentName) (\<lambda>r. case r of
       Inl e \<Rightarrow> if \<not> IsNotFound e then go_return (Some e) else CreateControllerDeployment K G ref
     | Inr _ \<Rightarrow>
         go_bind (DeleteDeployment K (G_NameSpace G) TopolvmControllerDeploymentName) (\<lambda>err. case err of
           Some e \<Rightarrow> go_return (Some e)
         | None \<Rightarrow> CreateControllerDeployment K G ref))"

section \<open>The discovery daemon set\<close>

definition discover_container :: "string \<Rightarrow> bool \<Rightarrow> Container" where
  "discover_container img useLoop = (plain_container DiscoverContainerName img [''/topolvm'', ''discover'']
     [mount_at ''devices'' ''/dev'', (mount_at ''udev'' ''/run/udev'')\<lparr>VM_ReadOnly := True\<rparr>,
      (mount_at ''sys'' ''/sys'')\<lparr>VM_ReadOnly := True\<rparr>])
     \<lparr>Co_Env := [(''POD_NAMESPACE'', EnvField ''metadata.namespace''), (''NODE_NAME'', EnvField ''spec.nodeName''),
         (''POD_NAME'', EnvField ''metadata.name'')] @
         (if useLoop then [(UseLoopEnv, EnvValue ''true'')] else []),
       Co_Limits := resources ''50m'' ''50Mi'', Co_Requests := resources ''50m'' ''50Mi'',
       Co_SecurityContext := Some getPrivilegeSecurityContext\<rparr>"

definition getDaemonset :: "globals \<Rightarrow> string \<Rightarrow> string \<Rightarrow> bool \<Rightarrow> Workload" where
  "getDaemonset G appName img useLoop = \<lparr>W_Name = appName, W_Namespace = G_NameSpace G, W_Labels = [],
     W_Annotations = Some (if useLoop then [(LoopAnnotationsKey, LoopAnnotationsVal)] else []),
     W_OwnerReferences = [], W_Replicas = None, W_Selector = [(AppAttr, appName)],
     W_Strategy = \<lparr>Str_Type = ''RollingUpdate'', Str_RollingUpdate = None\<rparr>,
     W_Pod = \<lparr>PS_Name = appName, PS_Namespace = [], PS_Labels = [(AppAttr, appName)],
       PS_ServiceAccount = DiscoverDevicesAccount, PS_NodeSelector = [], PS_Tolerations = [TolerationOpExists],
       PS_AntiAffinity = [], PS_HostPID = True, PS_HostIPC = False, PS_RestartPolicy = [],
       PS_InitContainers = [], PS_Containers = [discover_container img useLoop],
       PS_Volumes = [(''devices'', HostPath ''/dev'' UnsetType), (''udev'', HostPath ''/run/udev'' UnsetType),
         (''sys'', HostPath ''/sys'' UnsetType)]\<rparr>\<rparr>"

text \<open>\<open>SetOwnerRefsWithoutBlockOwner\<close> of \<open>resources.go\<close>, on the references.\<close>

definition plain_owner_ref :: "OwnerReference \<Rightarrow> OwnerReference" where
  "plain_owner_ref r = r\<lparr>OR_Controller := None, OR_BlockOwnerDeletion := None\<rparr>"

definition MakeDiscoverDevicesDaemonset ::
    "'w clientset \<Rightarrow> globals \<Rightarrow> string \<Rightarrow> string \<Rightarrow> bool \<Rightarrow> ('w host, go_error option) go" where
  "MakeDiscoverDevicesDaemonset K G appName img useLoop =
     go_bind (GetRunningPod K) (\<lambda>r.
       let daemon = (case r of
              Inl _ \<Rightarrow> getDaemonset G appName img useLoop
            | Inr operatorPod \<Rightarrow> (getDaemonset G appName img useLoop)
                \<lparr>W_OwnerReferences := map plain_owner_ref (P_OwnerReferences operatorPod)\<rparr>)
       in go_bind (CreateDaemonSet K appName (G_NameSpace G) daemon) (\<lambda>err.
            go_return (map_option (\<lambda>e. err_wrap e (''create daemonset  '' @ appName @ '' failed'')) err)))"

section \<open>The job that prepares volume groups\<close>

definition preparevg_container :: "globals \<Rightarrow> string \<Rightarrow> string \<Rightarrow> Container" where
  "preparevg_container G nodeName img = (plain_container PrePareVgContainerName img [''/topolvm'', ''prepareVg'']
     [mount_at ''devices'' ''/dev'', mount_at ''udev'' ''/run/udev''])
     \<lparr>Co_Env := [(NodeNameEnv, EnvValue nodeName), (''POD_NAMESPACE'', EnvValue (G_NameSpace G)),
         (''TOPOLVM_LOG_LEVEL'', EnvValue ''DEBUG''), (''CLUSTER_NAME'', EnvValue (G_ClusterName G))],
       Co_Limits := resources ''100m'' ''100Mi'', Co_Requests := resources ''50m'' ''50Mi'',
       Co_SecurityContext := Some getPrivilegeSecurityContext\<rparr>"

definition provisionPodTemplateSpec :: "globals \<Rightarrow> string \<Rightarrow> string \<Rightarrow> string \<Rightarrow> PodSpec" where
  "provisionPodTemplateSpec G nodeName img restart = \<lparr>
     PS_Name = PrePareVgAppName, PS_Namespace = [], PS_Labels = [(AppAttr, PrePareVgAppName), (ClusterAttr, G_NameSpace G)],
     PS_ServiceAccount = PrepareVgServiceAccount, PS_NodeSelector = [(LabelHostname, nodeName)],
     PS_Tolerations = [TolerationOpExists], PS_AntiAffinity = [], PS_HostPID = True, PS_HostIPC = True,
     PS_RestartPolicy = restart,
     PS_InitContainers = [], PS_Containers = [preparevg_container G nodeName img],
     PS_Volumes = [(''devices'', HostPath ''/dev'' UnsetType), (''udev'', HostPath ''/run/udev'' UnsetType)]\<rparr>"

text \<open>Go compares strings byte by byte; so does the check of the server version.\<close>

fun string_le :: "string \<Rightarrow> string \<Rightarrow> bool" where
  "string_le [] t = True"
| "string_le (c # s) [] = False"
| "string_le (c # s) (d # t) =
     ((of_char c :: nat) < of_char d \<or> c = d \<and> string_le s t)"

definition truncateNodeNameForIndexJob :: "'w clientset \<Rightarrow> string \<Rightarrow> string \<Rightarrow> string" where
  "truncateNodeNameForIndexJob K format nodeName = format @ Hash K nodeName"

definition server_version :: "'w clientset \<Rightarrow> ('w host, go_error + string \<times> string) go" where
  "server_version K = (\<lambda>s. case ServerVersion K (world s) of
     (r, w) \<Rightarrow> (Ret r, record_event (Api VGet (Named ''Version'' [])) w s))"

definition makeJob :: "'w clientset \<Rightarrow> globals \<Rightarrow> string \<Rightarrow> string \<Rightarrow> OwnerReference \<Rightarrow> ('w host, go_error + Job) go" where
  "makeJob K G nodeName img reference =
     go_bind (server_version K) (\<lambda>r. case r of
       Inl e \<Rightarrow> go_return (Inl e)
     | Inr (major, minor) \<Rightarrow> go_return (Inr
         \<lparr>J_Name = truncateNodeNameForIndexJob K PrepareVgJobFmt nodeName, J_Namespace = G_NameSpace G,
          J_Labels = [(AppAttr, PrePareVgAppName), (ClusterAttr, G_NameSpace G)],
          J_OwnerReferences = [reference],
          J_Pod = provisionPodTemplateSpec G nodeName img ''Never'',
          J_Indexed = (if string_le ''1'' major \<and> string_le ''22'' minor then Some (1, 1) else None),
          J_Active = 0, J_Succeeded = 0, J_Failed = 0\<rparr>))"

definition MakeAndRunJob ::
    "'w poller \<Rightarrow> 'w clientset \<Rightarrow> globals \<Rightarrow> string \<Rightarrow> string \<Rightarrow> OwnerReference \<Rightarrow> ('w host, go_error option) go" where
  "MakeAndRunJob Poll K G nodeName img reference =
     go_bind (makeJob K G nodeName img reference) (\<lambda>r. case r of
       Inl e \<Rightarrow> go_return (Some e)
     | Inr job \<Rightarrow>
         go_bind (RunReplaceableJob Poll K (G_NameSpace G) job False) (\<lambda>err. case err of
           Some _ \<Rightarrow> go_return (Some (errorf (''run job for node:'' @ nodeName @ '' failed'')))
         | None \<Rightarrow> go_return None))"

section \<open>Facts\<close>

text \<open>
  What the API server and the kubelet require of a workload: volume names are unique, every mount
  of a container names a volume of its pod at a path of its own, and the selector matches the pod.
\<close>

definition mounts_ok :: "PodSpec \<Rightarrow> Container \<Rightarrow> bool" where
  "mounts_ok p c \<longleftrightarrow> VM_Name ` set (Co_Mounts c) \<subseteq> fst ` set (PS_Volumes p) \<and> distinct (map VM_MountPath (Co_Mounts c))"

definition pod_ok :: "PodSpec \<Rightarrow> bool" where
  "pod_ok p \<longleftrightarrow> distinct (map fst (PS_Volumes p)) \<and> distinct (map Co_Name (PS_InitContainers p @ PS_Containers p)) \<and>
     (\<forall>c \<in> set (PS_InitContainers p @ PS_Containers p). mounts_ok p c)"

definition selector_ok :: "Workload \<Rightarrow> bool" where
  "selector_ok w \<longleftrightarrow> set (W_Selector w) \<subseteq> set (PS_Labels (W_Pod w))"

lemmas container_defs = plain_container_def mount_at_def getLvmdContainer_def getNodeContainer_def getCsiRegistrarContainer_def
  node_getLivenessProbeContainer_def getInitContainer_def getControllerContainer_def getCsiResizerContainer_def
  getCsiProvisionerContainer_def ctr_getLivenessProbeContainer_def discover_container_def preparevg_container_def

lemmas container_name_defs = LvmdContainerName_def NodeContainerName_def CsiRegistrarContainerName_def
  TopolvmControllerContainerName_def TopolvmCsiResizerContainerName_def TopolvmCsiProvisionerContainerName_def
  TopolvmCsiLivenessProbeContainerName_def

lemma last_char_neq: "last s \<noteq> last t \<Longrightarrow> s \<noteq> [] \<Longrightarrow> t \<noteq> [] \<Longrightarrow> p @ s \<noteq> q @ t"
  by (metis last_appendR)

lemma node_mounts_ok:
  "VM_Name ` set (node_mounts path) = {''node-plugin-dir'', ''lvmd-socket-dir'', ''pod-volumes-dir'', ''csi-plugin-dir''}"
  "distinct (map VM_MountPath (node_mounts path))"
proof -
  have "getAbsoluteKubeletPath path @ x \<noteq> ''/run/topolvm''" "getAbsoluteKubeletPath path @ x \<noteq> ''/run/lvmd''"
    if "last x = CHR ''s'' \<or> last x = CHR ''i''" "x \<noteq> []" for x
    using that by (auto dest: arg_cong [where f = last])
  then show "distinct (map VM_MountPath (node_mounts path))" by (simp add: node_mounts_def mount_at_def)
qed (auto simp: node_mounts_def mount_at_def)

lemma node_deployment_ok:
  "pod_ok (W_Pod (node_getDeployment G appName nodeName configmap ref))"
  "selector_ok (node_getDeployment G appName nodeName configmap ref)"
  using node_mounts_ok [of "G_CSIKubeletRootDir G"]
  by (simp_all add: node_getDeployment_def pod_ok_def mounts_ok_def selector_ok_def container_defs container_name_defs Let_def)

lemma controller_deployment_ok:
  "pod_ok (W_Pod (controller_deployment G ref replicas certsFound))"
  "selector_ok (controller_deployment G ref replicas certsFound)"
  by (simp_all add: controller_deployment_def pod_ok_def mounts_ok_def selector_ok_def container_defs container_name_defs)

lemma daemonset_ok:
  "pod_ok (W_Pod (getDaemonset G appName img useLoop))" "selector_ok (getDaemonset G appName img useLoop)"
  by (simp_all add: getDaemonset_def pod_ok_def mounts_ok_def selector_ok_def container_defs)

lemma job_pod_ok: "pod_ok (provisionPodTemplateSpec G nodeName img restart)"
  by (simp add: provisionPodTemplateSpec_def pod_ok_def mounts_ok_def container_defs)

text \<open>Changing the kubelet path changes no volume name, and keeps a pod well formed.\<close>

lemma update_volumes_names: "update_volumes path vs = Ret vs' \<Longrightarrow> map fst vs' = map fst vs"
  by (induction vs arbitrary: vs') (auto split: outcome.splits option.splits volume_source.splits)

lemma with_kubelet_path_ok:
  assumes "pod_ok (W_Pod d)" "with_kubelet_path path d = Ret d'"
    and "{''node-plugin-dir'', ''lvmd-socket-dir'', ''pod-volumes-dir'', ''csi-plugin-dir''} \<subseteq> fst ` set (PS_Volumes (W_Pod d))"
  shows "pod_ok (W_Pod d')"
proof -
  obtain vs where vs: "update_volumes path (PS_Volumes (W_Pod d)) = Ret vs"
    and d': "d' = d\<lparr>W_Pod := (W_Pod d)\<lparr>PS_Volumes := vs,
          PS_Containers := map (update_container_path path) (PS_Containers (W_Pod d))\<rparr>\<rparr>"
    using assms(2) by (auto simp: with_kubelet_path_def split: outcome.splits)
  have names: "map fst vs = map fst (PS_Volumes (W_Pod d))" using vs by (rule update_volumes_names)
  then have vols: "fst ` set vs = fst ` set (PS_Volumes (W_Pod d))" by (metis list.set_map)
  have co: "Co_Name (update_container_path path c) = Co_Name c" for c by (simp add: update_container_path_def)
  have "mounts_ok (W_Pod d') (update_container_path path c)" if "mounts_ok (W_Pod d) c" for c
    using that assms(3) node_mounts_ok [of path] vols
    by (auto simp: update_container_path_def mounts_ok_def d')
  moreover have "mounts_ok (W_Pod d') c" if "mounts_ok (W_Pod d) c" for c
    using that vols by (auto simp: mounts_ok_def d')
  ultimately show ?thesis
    using assms(1) names by (auto simp: pod_ok_def d' comp_def co)
qed

text \<open>A path with or without a slash at its end is the same path.\<close>

lemma getAbsoluteKubeletPath_slash:
  "has_suffix (getAbsoluteKubeletPath p) ''/''"
  "getAbsoluteKubeletPath (getAbsoluteKubeletPath p) = getAbsoluteKubeletPath p"
  "\<not> has_suffix p ''/'' \<Longrightarrow> getAbsoluteKubeletPath (p @ ''/'') = getAbsoluteKubeletPath p"
  by (auto simp: getAbsoluteKubeletPath_def has_suffix_def)

end
