(* ===== verification/Policies.thy ===== *)
theory Policies
  imports Workloads
begin

text \<open>
  The objects the operator creates for the cluster as a whole: the CSI driver
  (\<open>pkg/operator/csidriver\<close>), two pod security policies (\<open>pkg/operator/psp\<close>) and the security context
  constraints of OpenShift (\<open>api/v2/scc.go\<close>).
  Proved: which of the operator's pods the policies made for them admit.
\<close>

section \<open>CSI driver and pod security policies\<close>

definition TopolvmCSIDriverName :: string where "TopolvmCSIDriverName = ''topolvm.cybozu.com''"
definition TopolvmNodePsp :: string where "TopolvmNodePsp = ''topolvm-node''"
definition TopolvmPrepareVgPsp :: string where "TopolvmPrepareVgPsp = ''topolvm-preparevg''"

definition topolvm_csi_driver :: CSIDriver where
  "topolvm_csi_driver = \<lparr>CD_Name = TopolvmCSIDriverName, CD_AttachRequired = False, CD_PodInfoOnMount = True,
     CD_StorageCapacity = True, CD_VolumeLifecycleModes = [''Persistent'', ''Ephemeral'']\<rparr>"

definition CheckTopolvmCsiDriverExisting :: "'w clientset \<Rightarrow> ('w host, go_error option) go" where
  "CheckTopolvmCsiDriverExisting K =
     go_bind (api_get ''CSIDriver'' (CSIDrivers K) [] TopolvmCSIDriverName) (\<lambda>r. case r of
       Inl e \<Rightarrow> if \<not> IsNotFound e then go_return (Some (err_wrap e (''failed to detect CsiDriver '' @ TopolvmCSIDriverName)))
                else api_create CSIDriverObj (CSIDrivers K) [] topolvm_csi_driver
     | Inr _ \<Rightarrow> go_return None)"

definition DeleteTopolvmCsiDriver :: "'w clientset \<Rightarrow> ('w host, go_error option) go" where
  "DeleteTopolvmCsiDriver K = api_delete ''CSIDriver'' (CSIDrivers K) [] TopolvmCSIDriverName"

definition CheckPspExisting :: "'w clientset \<Rightarrow> string \<Rightarrow> ('w host, bool \<times> go_error option) go" where
  "CheckPspExisting K name =
     go_bind (api_get ''PodSecurityPolicy'' (PodSecurityPolicies K) [] name) (\<lambda>r. case r of
       Inl e \<Rightarrow> if \<not> IsNotFound e
         then go_return (False, Some (err_wrap e (''failed to detect PodSecurityPolicies '' @ name)))
         else go_return (False, None)
     | Inr _ \<Rightarrow> go_return (True, None))"

text \<open>The two policies of \<open>pkg/operator/psp/psp.go\<close>.\<close>

definition node_psp :: PodSecurityPolicy where
  "node_psp = \<lparr>PSP_Name = TopolvmNodePsp, PSP_Privileged = True, PSP_AllowPrivilegeEscalation = True,
     PSP_Volumes = [''configMap'', ''emptyDir'', ''secret'', ''hostPath''],
     PSP_AllowedHostPaths = [(''/var/lib/kubelet'', False), (''/run/topolvm'', False), (''/etc/topolvm'', False)],
     PSP_HostNetwork = True, PSP_HostPID = True, PSP_HostIPC = False,
     PSP_RunAsUser = ''RunAsAny'', PSP_SELinux = ''RunAsAny'', PSP_SupplementalGroups = ''RunAsAny'',
     PSP_FSGroup = ''RunAsAny'', PSP_ReadOnlyRootFilesystem = True\<rparr>"

definition preparevg_psp :: PodSecurityPolicy where
  "preparevg_psp = \<lparr>PSP_Name = TopolvmPrepareVgPsp, PSP_Privileged = True, PSP_AllowPrivilegeEscalation = True,
     PSP_Volumes = [''configMap'', ''emptyDir'', ''secret'', ''hostPath''],
     PSP_AllowedHostPaths = [(''/dev'', False), (''/run/udev'', False), (''/sys'', False)],
     PSP_HostNetwork = True, PSP_HostPID = True, PSP_HostIPC = True,
     PSP_RunAsUser = ''RunAsAny'', PSP_SELinux = ''RunAsAny'', PSP_SupplementalGroups = ''RunAsAny'',
     PSP_FSGroup = ''RunAsAny'', PSP_ReadOnlyRootFilesystem = True\<rparr>"

definition CreateTopolvmNodePsp :: "'w clientset \<Rightarrow> ('w host, go_error option) go" where
  "CreateTopolvmNodePsp K = api_create PspObj (PodSecurityPolicies K) [] node_psp"

definition CreateTopolvmPrepareVgPsp :: "'w clientset \<Rightarrow> ('w host, go_error option) go" where
  "CreateTopolvmPrepareVgPsp K = api_create PspObj (PodSecurityPolicies K) [] preparevg_psp"

text \<open>\<open>checkAndCreatePsp\<close> of the cluster controller: the same for two policies in turn.\<close>

definition ensure_psp :: "'w clientset \<Rightarrow> string \<Rightarrow> ('w host, go_error option) go \<Rightarrow> ('w host, go_error option) go" where
  "ensure_psp K name create =
     go_bind (CheckPspExisting K name) (\<lambda>(existing, err). case err of
       Some e \<Rightarrow> go_return (Some (err_wrap e (''check psp '' @ name @ '' failed'')))
     | None \<Rightarrow>
         if \<not> existing then
           go_bind create (\<lambda>err. go_return (map_option (\<lambda>e. err_wrap e (''create psp '' @ name @ '' failed'')) err))
         else go_return None)"

definition checkAndCreatePsp :: "'w clientset \<Rightarrow> ('w host, go_error option) go" where
  "checkAndCreatePsp K =
     go_bind (ensure_psp K TopolvmNodePsp (CreateTopolvmNodePsp K)) (\<lambda>err. case err of
       Some e \<Rightarrow> go_return (Some e)
     | None \<Rightarrow> ensure_psp K TopolvmPrepareVgPsp (CreateTopolvmPrepareVgPsp K))"

section \<open>Which pods the policies admit\<close>

text \<open>
  What Kubernetes requires of a pod under a policy, as far as the operator's pods use it: the kinds
  of volumes, host paths at or below an allowed one, the host's namespaces, and privilege.
\<close>

definition volume_kind :: "volume_source \<Rightarrow> string" where
  "volume_kind v = (case v of HostPath _ _ \<Rightarrow> ''hostPath'' | ConfigMapVolume _ \<Rightarrow> ''configMap''
     | SecretVolume _ \<Rightarrow> ''secret'' | EmptyDir _ \<Rightarrow> ''emptyDir'')"

definition path_within :: "string \<Rightarrow> string \<Rightarrow> bool" where
  "path_within path allowed \<longleftrightarrow> path = allowed \<or> has_prefix path (allowed @ ''/'')"

definition psp_admits_volume :: "PodSecurityPolicy \<Rightarrow> volume_source \<Rightarrow> bool" where
  "psp_admits_volume q v \<longleftrightarrow> volume_kind v \<in> set (PSP_Volumes q) \<and>
     (case v of HostPath path _ \<Rightarrow> (\<exists>a \<in> set (PSP_AllowedHostPaths q). path_within path (fst a)) | _ \<Rightarrow> True)"

definition psp_admits :: "PodSecurityPolicy \<Rightarrow> PodSpec \<Rightarrow> bool" where
  "psp_admits q p \<longleftrightarrow> (\<forall>v \<in> set (PS_Volumes p). psp_admits_volume q (snd v)) \<and>
     (PS_HostPID p \<longrightarrow> PSP_HostPID q) \<and> (PS_HostIPC p \<longrightarrow> PSP_HostIPC q) \<and>
     (\<forall>c \<in> set (PS_InitContainers p @ PS_Containers p).
        case Co_SecurityContext c of None \<Rightarrow> True | Some sc \<Rightarrow> SC_Privileged sc \<longrightarrow> PSP_Privileged q)"

lemma preparevg_pod_admitted: "psp_admits preparevg_psp (provisionPodTemplateSpec G nodeName img restart)"
  by (simp add: psp_admits_def psp_admits_volume_def preparevg_psp_def provisionPodTemplateSpec_def volume_kind_def
      path_within_def preparevg_container_def plain_container_def)

text \<open>
  A directory that ends in a slash, continued by a name in \<open>p\<close>, lies below a path in which no
  component starts with \<open>p\<close> only if the directory does.
\<close>

definition no_p_component :: "string \<Rightarrow> bool" where
  "no_p_component c \<longleftrightarrow> list_all (\<lambda>(a, b). \<not> (a = CHR ''/'' \<and> b = CHR ''p'')) (zip c (tl c))"

lemma no_p_componentD:
  assumes "no_p_component c" "c ! i = CHR ''/''" "Suc i < length c"
  shows "c ! Suc i \<noteq> CHR ''p''"
proof -
  have "zip c (tl c) ! i = (c ! i, c ! Suc i)" "i < length (zip c (tl c))"
    using assms(3) by (auto simp: nth_tl)
  then have "(c ! i, c ! Suc i) \<in> set (zip c (tl c))" by (metis nth_mem)
  then show ?thesis using assms(1,2) by (auto simp: no_p_component_def list_all_iff)
qed

lemma below_iff:
  assumes "has_suffix root ''/''" "no_p_component c"
  shows "has_prefix (root @ CHR ''p'' # x) c \<longleftrightarrow> has_prefix root c"
proof (cases "length c \<le> length root")
  case True
  then show ?thesis by (simp add: has_prefix_def)
next
  case False
  obtain r where root: "root = r @ ''/''" using assms(1) by (metis append_take_drop_id has_suffix_def)
  have "\<not> has_prefix (root @ CHR ''p'' # x) c"
  proof
    assume "has_prefix (root @ CHR ''p'' # x) c"
    then have c: "c = take (length c) (root @ CHR ''p'' # x)" by (auto simp: has_prefix_def)
    have "c ! i = (root @ CHR ''p'' # x) ! i" if "i < length c" for i by (metis c nth_take that)
    then have "c ! length r = CHR ''/''" "c ! Suc (length r) = CHR ''p''"
      using False root by (simp_all add: nth_append)
    then show False using no_p_componentD [OF assms(2)] False root by simp
  qed
  moreover have "\<not> has_prefix root c" using False by (auto simp: has_prefix_def)
  ultimately show ?thesis by simp
qed

lemma path_within_p:
  assumes "has_suffix root ''/''" "no_p_component a" "no_p_component (a @ ''/'')"
  shows "path_within (root @ CHR ''p'' # x) a \<longleftrightarrow> has_prefix root (a @ ''/'')"
proof -
  have "root @ CHR ''p'' # x \<noteq> a"
  proof
    assume a: "root @ CHR ''p'' # x = a"
    then have "has_prefix (root @ CHR ''p'' # x) a" by (simp add: has_prefix_def)
    then have "has_prefix root a" using below_iff [OF assms(1,2)] by simp
    then have "length a \<le> length root" unfolding has_prefix_def by (metis length_take min.cobounded1)
    then show False using arg_cong [OF a, of length] by simp
  qed
  then show ?thesis using below_iff [OF assms(1,3)] by (simp add: path_within_def)
qed

text \<open>The node's pod is admitted exactly when the kubelet's directory lies below an allowed path.\<close>

definition allowed_root :: "string \<Rightarrow> bool" where
  "allowed_root root \<longleftrightarrow> (\<exists>a \<in> set (PSP_AllowedHostPaths node_psp). has_prefix root (fst a @ ''/''))"

lemma node_psp_paths:
  assumes "has_suffix root ''/''"
  shows "(\<exists>a \<in> set (PSP_AllowedHostPaths node_psp). path_within (root @ CHR ''p'' # x) (fst a)) \<longleftrightarrow> allowed_root root"
proof -
  have "no_p_component (fst a) \<and> no_p_component (fst a @ ''/'')" if "a \<in> set (PSP_AllowedHostPaths node_psp)" for a
    using that by (auto simp: node_psp_def no_p_component_def)
  then show ?thesis using path_within_p [OF assms] by (auto simp: allowed_root_def)
qed

lemma node_pod_admitted_iff:
  "psp_admits node_psp (W_Pod (node_getDeployment G appName nodeName configmap ref)) \<longleftrightarrow>
   allowed_root (getAbsoluteKubeletPath (G_CSIKubeletRootDir G))"
proof -
  let ?root = "getAbsoluteKubeletPath (G_CSIKubeletRootDir G)"
  have suf: "has_suffix ?root ''/''" by (rule getAbsoluteKubeletPath_slash)
  have host: "psp_admits_volume node_psp (HostPath (?root @ CHR ''p'' # x) ty) \<longleftrightarrow> allowed_root ?root" for x ty
    using node_psp_paths [OF suf, of x]
    by (simp add: psp_admits_volume_def volume_kind_def) (simp add: node_psp_def)
  have rest: "psp_admits_volume node_psp (ConfigMapVolume configmap)" "psp_admits_volume node_psp (EmptyDir m)"
    "PSP_HostPID node_psp" "PSP_Privileged node_psp" for m
    by (simp_all add: psp_admits_volume_def volume_kind_def node_psp_def)
  show ?thesis
    by (simp add: psp_admits_def node_getDeployment_def Let_def host rest
        getLvmdContainer_def getNodeContainer_def getCsiRegistrarContainer_def node_getLivenessProbeContainer_def plain_container_def)
qed

section \<open>Security context constraints\<close>

record SecurityContextConstraints =
  SCC_Name :: string
  SCC_Namespace :: string
  SCC_AllowPrivilegedContainer :: bool
  SCC_AllowHostDirVolumePlugin :: bool
  SCC_ReadOnlyRootFilesystem :: bool
  SCC_AllowHostPID :: bool
  SCC_AllowHostIPC :: bool
  SCC_AllowHostNetwork :: bool
  SCC_AllowHostPorts :: bool
  SCC_RequiredDropCapabilities :: "string list"
  SCC_DefaultAddCapabilities :: "string list"
  SCC_RunAsUser :: string
  SCC_SELinuxContext :: string
  SCC_FSGroup :: string
  SCC_SupplementalGroups :: string
  SCC_Volumes :: "string list"
  SCC_Users :: "string list"

definition NewSecurityContextConstraints :: "string \<Rightarrow> string \<Rightarrow> SecurityContextConstraints" where
  "NewSecurityContextConstraints name namespace = \<lparr>SCC_Name = name, SCC_Namespace = namespace,
     SCC_AllowPrivilegedContainer = True, SCC_AllowHostDirVolumePlugin = True, SCC_ReadOnlyRootFilesystem = False,
     SCC_AllowHostPID = True, SCC_AllowHostIPC = True, SCC_AllowHostNetwork = False, SCC_AllowHostPorts = False,
     SCC_RequiredDropCapabilities = [], SCC_DefaultAddCapabilities = [],
     SCC_RunAsUser = ''RunAsAny'', SCC_SELinuxContext = ''MustRunAs'', SCC_FSGroup = ''MustRunAs'',
     SCC_SupplementalGroups = ''RunAsAny'', SCC_Volumes = [''configMap'', ''emptyDir'', ''hostPath'', ''secret''],
     SCC_Users = map (\<lambda>account. ''system:serviceaccount:'' @ namespace @ '':'' @ account)
       [''topolvm-node'', ''topolvm-discover'', ''topolvm-preparevg'']\<rparr>"

end
