(* ===== verification/ClusterController.thy ===== *)
theory ClusterController
  imports Policies
begin

text \<open>
  \<open>ClusterController\<close> of \<open>controllers/topolvmcluster_controller.go\<close>: bringing the
  discovery daemon set, the jobs that prepare volume groups, the controller deployment and the node
  deployments in line with a cluster object, and removing the capacity annotations from nodes.
  Jobs that the code starts in a goroutine are returned as the list of nodes to run them for;
  \<open>run_jobs\<close> is what the goroutine does.
\<close>

section \<open>Images\<close>

text \<open>
  \<open>Containers[0].Image\<close> of an empty list is an index out of range; setting the image of every
  container is the loop of the source.
\<close>

definition first_image :: "Workload \<Rightarrow> string outcome" where
  "first_image w = (case PS_Containers (W_Pod w) of
      [] \<Rightarrow> Panic ''index out of range''
    | c # _ \<Rightarrow> Ret (Co_Image c))"

definition set_images :: "string \<Rightarrow> Workload \<Rightarrow> Workload" where
  "set_images img w = w\<lparr>W_Pod := (W_Pod w)\<lparr>PS_Containers := map (\<lambda>c. c\<lparr>Co_Image := img\<rparr>) (PS_Containers (W_Pod w))\<rparr>\<rparr>"

section \<open>The discovery daemon set\<close>

text \<open>The loop annotation and its environment variable; the annotations may be a nil map.\<close>

definition enable_loop :: "Workload \<Rightarrow> Workload outcome" where
  "enable_loop w = (case W_Annotations w of
      None \<Rightarrow> Panic ''assignment to entry in nil map''
    | Some a \<Rightarrow> Ret (w\<lparr>W_Annotations := Some (gm_put LoopAnnotationsKey LoopAnnotationsVal a),
        W_Pod := (W_Pod w)\<lparr>PS_Containers := (case PS_Containers (W_Pod w) of
            [] \<Rightarrow> []
          | c # cs \<Rightarrow> c\<lparr>Co_Env := Co_Env c @ [(UseLoopEnv, EnvValue ''true'')]\<rparr> # cs)\<rparr>\<rparr>))"

definition has_loop_annotation :: "Workload \<Rightarrow> bool" where
  "has_loop_annotation w = (case W_Annotations w of None \<Rightarrow> False | Some a \<Rightarrow> gm_has a LoopAnnotationsKey)"

definition updated_daemonset :: "string \<Rightarrow> bool \<Rightarrow> Workload \<Rightarrow> (bool \<times> Workload) outcome" where
  "updated_daemonset img useLoop d =
     (case first_image d of
       Panic e \<Rightarrow> Panic e
     | Ret img0 \<Rightarrow>
         let d1 = (if img0 \<noteq> img then set_images img d else d)
         in if useLoop \<and> \<not> has_loop_annotation d1 then
              (case enable_loop d1 of Panic e \<Rightarrow> Panic e | Ret d2 \<Rightarrow> Ret (True, d2))
            else Ret (img0 \<noteq> img, d1))"

definition checkUpdateDiscoverDaemonset ::
    "'w clientset \<Rightarrow> globals \<Rightarrow> string \<Rightarrow> TopolvmCluster \<Rightarrow> ('w host, go_error option) go" where
  "checkUpdateDiscoverDaemonset K G operatorImage cl =
     (let useLoop = St_UseLoop (Spec_Storage (TC_Spec cl))
      in go_bind (api_get ''DaemonSet'' (DaemonSets K) (G_NameSpace G) DiscoverAppName) (\<lambda>r. case r of
        Inl e \<Rightarrow>
          if \<not> IsNotFound e then go_return (Some (err_wrap e ''failed to detect daemonset''))
          else if useLoop then MakeDiscoverDevicesDaemonset K G DiscoverAppName operatorImage useLoop
          else go_return None
      | Inr d \<Rightarrow>
          go_bind (go_lift (updated_daemonset operatorImage useLoop d)) (\<lambda>(needUpdate, d').
            if needUpdate then
              go_bind (api_update DaemonSetObj (DaemonSets K) (W_Namespace d') d') (\<lambda>err.
                go_return (map_option (\<lambda>e. err_wrap e ''update discover daemonset failed'') err))
            else go_return None)))"

section \<open>Jobs\<close>

definition run_jobs ::
    "'w poller \<Rightarrow> 'w clientset \<Rightarrow> globals \<Rightarrow> string \<Rightarrow> OwnerReference \<Rightarrow> string list \<Rightarrow> ('w host, unit) go" where
  "run_jobs Poll K G operatorImage ref nodes =
     go_fold (\<lambda>node _. go_bind (MakeAndRunJob Poll K G node operatorImage ref) (\<lambda>_. go_return ())) nodes ()"

definition needs_job :: "NodeStorageState \<Rightarrow> bool" where
  "needs_job ele \<longleftrightarrow> length (NS_FailClasses ele) > 0 \<or> length (NS_SuccessClasses ele) = 0"

text \<open>The error, and the nodes whose jobs are started in the background.\<close>

definition startPrepareVolumeGroupJob ::
    "'w poller \<Rightarrow> 'w clientset \<Rightarrow> globals \<Rightarrow> string \<Rightarrow> TopolvmCluster option \<Rightarrow> TopolvmCluster \<Rightarrow> OwnerReference \<Rightarrow>
     ('w host, go_error option \<times> string list) go" where
  "startPrepareVolumeGroupJob Poll K G operatorImage lastCluster cl ref =
     (let storage = Spec_Storage (TC_Spec cl)
      in if (case lastCluster of None \<Rightarrow> False | Some old \<Rightarrow> Spec_Storage (TC_Spec old) = storage) then
           go_return (None, map NS_Node (filter needs_job (Status_NodeStorageStatus (TC_Status cl))))
         else if St_UseAllNodes storage then
           go_bind (api_list ''Node'' (Nodes K) [] []) (\<lambda>r. case r of
             Inl e \<Rightarrow> go_return (Some e, [])
           | Inr nodes \<Rightarrow>
               go_bind (run_jobs Poll K G operatorImage ref (map N_Name nodes)) (\<lambda>_. go_return (None, [])))
         else go_return (None, (case St_DeviceClasses storage of None \<Rightarrow> [] | Some nds \<Rightarrow> map ND_NodeName nds)))"

definition RestartJob ::
    "'w poller \<Rightarrow> 'w clientset \<Rightarrow> globals \<Rightarrow> string \<Rightarrow> string \<Rightarrow> OwnerReference \<Rightarrow> ('w host, go_error option) go" where
  "RestartJob Poll K G operatorImage node ref = MakeAndRunJob Poll K G node operatorImage ref"

section \<open>Deployments\<close>

definition startTopolvmControllerDeployment ::
    "'w clientset \<Rightarrow> globals \<Rightarrow> TopolvmCluster \<Rightarrow> OwnerReference \<Rightarrow> ('w host, go_error option) go" where
  "startTopolvmControllerDeployment K G cl ref =
     (let img = Spec_TopolvmVersion (TC_Spec cl)
      in go_bind (api_get ''Deployment'' (Deployments K) (G_NameSpace G) TopolvmControllerDeploymentName) (\<lambda>r. case r of
        Inl e \<Rightarrow>
          if \<not> IsNotFound e then go_return (Some (err_wrap e ''failed to detect deployment''))
          else go_bind (CreateReplaceTopolvmControllerDeployment K G ref) (\<lambda>err.
            go_return (map_option (\<lambda>e. err_wrap e ''create and replace controller deployment failed'') err))
      | Inr d \<Rightarrow>
          go_bind (go_lift (first_image d)) (\<lambda>img0.
            if img0 = img then go_return None
            else go_bind (api_update DeploymentObj (Deployments K) (W_Namespace d) (set_images img d)) (\<lambda>err.
              go_return (map_option (\<lambda>e. err_wrap e ''update topolvm controller image failed'') err)))))"

text \<open>
  The loop over all deployments returns at the first node deployment that has the wanted image;
  a failed update is only logged.
\<close>

definition replace_image_step ::
    "'w clientset \<Rightarrow> globals \<Rightarrow> string \<Rightarrow> Workload \<Rightarrow> unit \<Rightarrow> ('w host, unit + unit) go" where
  "replace_image_step K G img d u =
     (if has_prefix (W_Name d) TopolvmNodeDeploymentNamePrefix then
        go_bind (go_lift (first_image d)) (\<lambda>img0.
          if img0 = img then go_return (Inl ())
          else go_bind (api_update DeploymentObj (Deployments K) (G_NameSpace G) (set_images img d)) (\<lambda>_.
            go_return (Inr ())))
      else go_return (Inr ()))"

definition startReplaceNodeDeployment ::
    "'w clientset \<Rightarrow> globals \<Rightarrow> TopolvmCluster \<Rightarrow> ('w host, go_error option) go" where
  "startReplaceNodeDeployment K G cl =
     go_bind (api_list ''Deployment'' (Deployments K) (G_NameSpace G) []) (\<lambda>r. case r of
       Inl e \<Rightarrow> go_return (Some e)
     | Inr ds \<Rightarrow>
         go_bind (go_loop (replace_image_step K G (Spec_TopolvmVersion (TC_Spec cl))) ds ()) (\<lambda>_. go_return None))"

section \<open>Orchestration\<close>

definition wrapped :: "string \<Rightarrow> go_error option \<Rightarrow> go_error option" where
  "wrapped m = map_option (\<lambda>e. err_wrap e m)"

definition hub_checks :: "'w clientset \<Rightarrow> globals \<Rightarrow> ('w host, go_error option) go" where
  "hub_checks K G =
     (if G_IsOperatorHub G then
        go_bind (CheckTopolvmCsiDriverExisting K) (\<lambda>err. case err of
          Some e \<Rightarrow> go_return (Some e)
        | None \<Rightarrow> checkAndCreatePsp K)
      else go_return None)"

text \<open>\<open>onAdd\<close>: the error and the background jobs; without an error the cluster is remembered.\<close>

definition onAdd ::
    "'w poller \<Rightarrow> 'w clientset \<Rightarrow> globals \<Rightarrow> string \<Rightarrow> TopolvmCluster option \<Rightarrow> TopolvmCluster \<Rightarrow> OwnerReference \<Rightarrow>
     ('w host, go_error option \<times> string list \<times> TopolvmCluster option) go" where
  "onAdd Poll K G operatorImage lastCluster cl ref =
     go_bind (hub_checks K G) (\<lambda>err. case err of
       Some e \<Rightarrow> go_return (Some e, [], lastCluster)
     | None \<Rightarrow>
     go_bind (checkUpdateDiscoverDaemonset K G operatorImage cl) (\<lambda>err. case err of
       Some e \<Rightarrow> go_return (wrapped ''check update discover damemonset failed'' (Some e), [], lastCluster)
     | None \<Rightarrow>
     go_bind (startPrepareVolumeGroupJob Poll K G operatorImage lastCluster cl ref) (\<lambda>(err, jobs). case err of
       Some e \<Rightarrow> go_return (wrapped ''start prepare volume group failed'' (Some e), jobs, lastCluster)
     | None \<Rightarrow>
     go_bind (startTopolvmControllerDeployment K G cl ref) (\<lambda>err. case err of
       Some e \<Rightarrow> go_return (wrapped ''start create or update topolvm controller deployment  failed'' (Some e), jobs, lastCluster)
     | None \<Rightarrow>
     go_bind (startReplaceNodeDeployment K G cl) (\<lambda>err. case err of
       Some e \<Rightarrow> go_return (wrapped ''start replace node deployment  failed'' (Some e), jobs, lastCluster)
     | None \<Rightarrow> go_return (None, jobs, Some cl))))))"

end
