(* ===== verification/Reconciler.thy ===== *)
theory Reconciler
  imports ClusterController
begin

text \<open>
  \<open>TopolvmClusterReconciler\<close> of \<open>controllers/topolvmcluster_controller.go\<close>: which cluster
  object is served, finalizers and deletion, the check of the storage configuration, and the
  status entry of a node.
\<close>

section \<open>Status\<close>

text \<open>The first entry of the node is replaced, or the state is appended.\<close>

definition put_node_state :: "NodeStorageState \<Rightarrow> NodeStorageState list \<Rightarrow> NodeStorageState list" where
  "put_node_state state entries =
     (case find_index (\<lambda>e. NS_Node e = NS_Node state) entries of
       Some i \<Rightarrow> entries[i := state]
     | None \<Rightarrow> entries @ [state])"

definition reconciler_UpdateStatus ::
    "'w clientset \<Rightarrow> (string \<times> string) option \<Rightarrow> NodeStorageState \<Rightarrow> ('w host, go_error option) go" where
  "reconciler_UpdateStatus K namespacedName state =
     (case namespacedName of
       None \<Rightarrow> go_panic ''invalid memory address or nil pointer dereference''
     | Some (ns, name) \<Rightarrow>
         go_bind (api_get ''TopolvmCluster'' (Clusters K) ns name) (\<lambda>r. case r of
           Inl e \<Rightarrow>
             if IsNotFound e then go_return None
             else go_return (Some (err_wrap e (''failed to retrieve topolvm cluster '' @ name @ '' to update topolvm cluster status '')))
         | Inr cl \<Rightarrow>
             let st = TC_Status cl;
                 cl' = cl\<lparr>TC_Status := st\<lparr>Status_NodeStorageStatus := put_node_state state (Status_NodeStorageStatus st)\<rparr>\<rparr>
             in go_bind (UpdateStatus K ns cl') (\<lambda>err.
                  go_return (wrapped (''failed to update cluster '' @ name @ '' status'') err))))"

section \<open>The storage configuration\<close>

definition checkStorageConfig :: "TopolvmCluster \<Rightarrow> go_error option" where
  "checkStorageConfig cl =
     (let st = Spec_Storage (TC_Spec cl)
      in if St_UseAllNodes st \<and> St_DeviceClasses st \<noteq> None
         then Some (errorf ''should not both config use all node and deviceclasses '')
         else if \<not> St_UseAllNodes st \<and> St_UseAllDevices st
         then Some (errorf ''should not config useAllNodes false but useAllDevice true'')
         else if St_UseAllDevices st \<and> St_Devices st \<noteq> None
         then Some (errorf ''should not config useAllNodes true but config storage.devices'')
         else if St_UseAllNodes st \<and> (St_VolumeGroupName st = [] \<or> St_ClassName st = [])
         then Some (errorf ''if use all nodes ,volumeGroupName and className must be define'')
         else None)"

section \<open>Capacity annotations\<close>

definition capacity_key_step ::
    "'w clientset \<Rightarrow> Node \<Rightarrow> string \<Rightarrow> string gomap \<Rightarrow> ('w host, go_error + string gomap) go" where
  "capacity_key_step K old key ann =
     (if has_prefix key CapacityKeyPrefix then
        let new = old\<lparr>N_Annotations := gm_del key ann\<rparr>
        in case node_merge_patch K old new of
             Inl e \<Rightarrow> go_return (Inl e)
           | Inr p \<Rightarrow>
               go_bind (api_patch (NodeObj new) (Nodes K) [] (N_Name old) p) (\<lambda>_.
                 go_return (Inr (gm_del key ann)))
      else go_return (Inr ann))"

definition capacity_node_step ::
    "'w executor \<Rightarrow> 'w clientset \<Rightarrow> Node \<Rightarrow> unit \<Rightarrow> ('w host, go_error + unit) go" where
  "capacity_node_step E K n u =
     go_bind (go_range E (N_Annotations n)) (\<lambda>ks.
     go_bind (go_loop (capacity_key_step K n) ks (N_Annotations n)) (\<lambda>r. case r of
       Inl e \<Rightarrow> go_return (Inl e)
     | Inr _ \<Rightarrow> go_return (Inr ())))"

text \<open>An error of the list is returned at the end, without the text the code wraps it in.\<close>

definition RemoveNodeCapacityAnnotations :: "'w executor \<Rightarrow> 'w clientset \<Rightarrow> ('w host, go_error option) go" where
  "RemoveNodeCapacityAnnotations E K =
     go_bind (api_list ''Node'' (Nodes K) [] []) (\<lambda>r. case r of
       Inl e \<Rightarrow> go_return (Some e)
     | Inr nodes \<Rightarrow>
         go_bind (go_loop (capacity_node_step E K) nodes ()) (\<lambda>r. case r of
           Inl e \<Rightarrow> go_return (Some e)
         | Inr _ \<Rightarrow> go_return None))"

section \<open>Reconciling\<close>

text \<open>
  The state that outlives a request.  The stop channel may be nil, open or closed; closing it
  is a panic unless it is open.  The configuration map controller is started once and keeps the
  current owner reference.
\<close>

datatype stop_channel = NilChan | OpenChan | ClosedChan

record reconciler =
  R_namespacedName :: "(string \<times> string) option"
  R_lastCluster :: "TopolvmCluster option"
  R_cmControllerRef :: "OwnerReference option"
  R_clusterRef :: "OwnerReference option"
  R_stopCh :: stop_channel
  R_checkers :: nat
  R_globals :: globals
  R_operatorImage :: string

text \<open>
  The kind of an object and its owner reference come from the controller runtime, and so does
  whether a list without items is nil.
\<close>

record runtime_lib =
  rt_kind :: "TopolvmCluster \<Rightarrow> string"
  rt_owner_ref :: "TopolvmCluster \<Rightarrow> go_error + OwnerReference"
  rt_empty_is_nil :: bool

fun oldest_from :: "TopolvmCluster \<Rightarrow> TopolvmCluster list \<Rightarrow> TopolvmCluster" where
  "oldest_from best [] = best"
| "oldest_from best (c # cs) =
     oldest_from (if TC_CreationTimestamp c < TC_CreationTimestamp best then c else best) cs"

text \<open>Whether a request for the named cluster is served, given the clusters there are.\<close>

definition serves :: "TopolvmCluster list \<Rightarrow> string \<Rightarrow> bool" where
  "serves clusters name = (case clusters of
      c # d # cs \<Rightarrow> name = TC_Name (oldest_from c (d # cs))
    | _ \<Rightarrow> True)"

definition removeFinalizer ::
    "'w clientset \<Rightarrow> runtime_lib \<Rightarrow> string \<Rightarrow> string \<Rightarrow> ('w host, go_error option) go" where
  "removeFinalizer K L ns name =
     go_bind (api_get ''TopolvmCluster'' (Clusters K) ns name) (\<lambda>r. case r of
       Inl e \<Rightarrow>
         if IsNotFound e then go_return None
         else go_return (Some (err_wrap e (''failed to retrieve topolvm cluster '' @ name @ '' to remove finalizer'')))
     | Inr cl \<Rightarrow>
         go_bind (RemoveFinalizer K ns (rt_kind L cl) cl) (\<lambda>err.
           go_return (wrapped ''failed to remove finalizer'' err)))"

definition close_channel :: "stop_channel \<Rightarrow> stop_channel outcome" where
  "close_channel ch = (case ch of
      NilChan \<Rightarrow> Panic ''close of nil channel''
    | OpenChan \<Rightarrow> Ret ClosedChan
    | ClosedChan \<Rightarrow> Panic ''close of closed channel'')"

text \<open>The deletion branch.\<close>

definition reconcile_delete ::
    "'w executor \<Rightarrow> 'w clientset \<Rightarrow> runtime_lib \<Rightarrow> string \<Rightarrow> string \<Rightarrow> reconciler \<Rightarrow>
     ('w host, go_error option \<times> reconciler) go" where
  "reconcile_delete E K L ns name r0 =
     (let r = r0\<lparr>R_lastCluster := None\<rparr>
      in go_bind (removeFinalizer K L ns name) (\<lambda>err. case err of
        Some e \<Rightarrow> go_return (wrapped ''failed to remove finalize'' (Some e), r)
      | None \<Rightarrow>
          go_bind (RemoveNodeCapacityAnnotations E K) (\<lambda>err. case err of
            Some e \<Rightarrow> go_return (wrapped ''failed to remove node capacity annotations'' (Some e), r)
          | None \<Rightarrow>
              go_bind (DeleteTopolvmCsiDriver K) (\<lambda>_.
              go_bind (go_lift (close_channel (R_stopCh r))) (\<lambda>ch.
                go_return (None, r\<lparr>R_stopCh := ch\<rparr>))))))"

text \<open>The rest, for an object that is not being deleted; with the jobs started in the background.\<close>

definition reconcile_cluster ::
    "'w poller \<Rightarrow> 'w clientset \<Rightarrow> runtime_lib \<Rightarrow> TopolvmCluster \<Rightarrow> reconciler \<Rightarrow>
     ('w host, go_error option \<times> string list \<times> reconciler) go" where
  "reconcile_cluster Poll K L cl r0 =
     (case rt_owner_ref L cl of
       Inl e \<Rightarrow> go_return (Some (err_wrap e (''failed to get controller '' @ TC_Name cl @ '' owner reference'')), [], r0)
     | Inr ref \<Rightarrow>
         let r1 = r0\<lparr>R_clusterRef := Some ref\<rparr>
         in case checkStorageConfig cl of
              Some e \<Rightarrow> go_return (Some (err_wrap e ''check storage config failed''), [], r1)
            | None \<Rightarrow>
                let r2 = r1\<lparr>R_cmControllerRef := Some ref\<rparr>;
                    r3 = (if R_lastCluster r2 = None
                          then r2\<lparr>R_stopCh := OpenChan, R_checkers := Suc (R_checkers r2)\<rparr> else r2)
                in go_bind (onAdd Poll K (R_globals r3) (R_operatorImage r3) (R_lastCluster r3) cl ref) (\<lambda>(err, jobs, last').
                     go_return (wrapped (''failed to reconcile cluster '' @ TC_Name cl) err, jobs, r3\<lparr>R_lastCluster := last'\<rparr>)))"

definition reconcile ::
    "'w poller \<Rightarrow> 'w executor \<Rightarrow> 'w clientset \<Rightarrow> runtime_lib \<Rightarrow> string \<Rightarrow> string \<Rightarrow> reconciler \<Rightarrow>
     ('w host, go_error option \<times> string list \<times> reconciler) go" where
  "reconcile Poll E K L ns name r0 =
     (if ns \<noteq> G_NameSpace (R_globals r0) then go_return (None, [], r0)
      else go_bind (api_list ''TopolvmCluster'' (Clusters K) [] []) (\<lambda>res. case res of
        Inl e \<Rightarrow> go_return (Some (err_wrap e ''failed to list topolvm cluster''), [], r0)
      | Inr clusters \<Rightarrow>
          if clusters = [] \<and> rt_empty_is_nil L then go_return (Some (errorf ''no topolvm cluster instance existing''), [], r0)
          else if \<not> serves clusters name then go_return (None, [], r0)
          else go_bind (api_get ''TopolvmCluster'' (Clusters K) ns name) (\<lambda>res. case res of
            Inl e \<Rightarrow>
              if IsNotFound e then go_return (None, [], r0)
              else go_return (Some (err_wrap e ''failed to get topolvm cluster''), [], r0)
          | Inr cl0 \<Rightarrow>
              let r1 = r0\<lparr>R_namespacedName := (case R_namespacedName r0 of None \<Rightarrow> Some (ns, name) | Some n \<Rightarrow> Some n),
                    R_globals := (R_globals r0)\<lparr>G_ClusterName := name,
                      G_TopolvmImage := Spec_TopolvmVersion (TC_Spec cl0),
                      G_CertsSecret := Spec_CertsSecret (TC_Spec cl0)\<rparr>\<rparr>
              in go_bind (AddFinalizerIfNotPresent K ns (rt_kind L cl0) cl0) (\<lambda>(err, cl). case err of
                   Some e \<Rightarrow> go_return (Some (err_wrap e ''failed to add finalizer''), [], r1)
                 | None \<Rightarrow>
                     if TC_Deleted cl then
                       go_bind (reconcile_delete E K L ns name r1) (\<lambda>(err, r2). go_return (err, [], r2))
                     else reconcile_cluster Poll K L cl r1))))"

text \<open>\<open>NewTopolvmClusterReconciler\<close>: no cluster yet, no config map controller, no checker.\<close>

definition reconciler_init :: "globals \<Rightarrow> string \<Rightarrow> reconciler" where
  "reconciler_init G img = \<lparr>R_namespacedName = None, R_lastCluster = None, R_cmControllerRef = None,
     R_clusterRef = None, R_stopCh = NilChan, R_checkers = 0, R_globals = G, R_operatorImage = img\<rparr>"

end
