(* ===== verification/ReconcilerFacts.thy ===== *)
theory ReconcilerFacts
  imports Reconciler
begin

text \<open>
  Facts about the cluster controller: the cluster that is served is the oldest, the storage
  configurations that pass, the entries of the status, the capacity annotations that are removed,
  and an invariant of the reconciler's state over any sequence of requests.
\<close>

section \<open>The oldest cluster\<close>

lemma oldest_from_in: "oldest_from best cs \<in> insert best (set cs)"
  by (induction cs arbitrary: best) (auto split: if_splits)

lemma oldest_from_le: "TC_CreationTimestamp (oldest_from best cs) \<le> TC_CreationTimestamp best"
proof (induction cs arbitrary: best)
  case (Cons c cs)
  show ?case using Cons.IH [of c] Cons.IH [of best] by simp
qed simp

lemma oldest_from_min:
  "c \<in> insert best (set cs) \<Longrightarrow> TC_CreationTimestamp (oldest_from best cs) \<le> TC_CreationTimestamp c"
proof (induction cs arbitrary: best)
  case (Cons d ds)
  let ?b = "if TC_CreationTimestamp d < TC_CreationTimestamp best then d else best"
  have "TC_CreationTimestamp (oldest_from ?b ds) \<le> TC_CreationTimestamp ?b" by (rule oldest_from_le)
  moreover have "c \<in> set ds \<Longrightarrow> TC_CreationTimestamp (oldest_from ?b ds) \<le> TC_CreationTimestamp c"
    by (rule Cons.IH) simp
  ultimately show ?case using Cons.prems by (auto split: if_splits)
qed simp

lemma serves_oldest:
  assumes "length clusters > 1" "serves clusters name"
  shows "\<exists>c \<in> set clusters. TC_Name c = name \<and>
     (\<forall>d \<in> set clusters. TC_CreationTimestamp c \<le> TC_CreationTimestamp d)"
proof -
  obtain c d cs where cl: "clusters = c # d # cs" using assms(1) by (cases clusters; cases "tl clusters") auto
  let ?o = "oldest_from c (d # cs)"
  have "?o \<in> set clusters" using oldest_from_in [of c "d # cs"] cl by simp
  moreover have "TC_CreationTimestamp ?o \<le> TC_CreationTimestamp x" if "x \<in> set clusters" for x
    by (rule oldest_from_min) (use that cl in simp)
  moreover have "TC_Name ?o = name" using assms(2) cl by (simp add: serves_def)
  ultimately show ?thesis by blast
qed

lemma serves_unique: "length clusters > 1 \<Longrightarrow> serves clusters m \<Longrightarrow> serves clusters n \<Longrightarrow> m = n"
  by (auto simp: serves_def split: list.splits)

section \<open>Status entries\<close>

lemma put_node_state_get:
  "\<exists>i < length (put_node_state st es). put_node_state st es ! i = st"
proof (cases "find_index (\<lambda>e. NS_Node e = NS_Node st) es")
  case (Some i)
  then have "i < length es" using find_index_Some by blast
  then show ?thesis by (intro exI [of _ i]) (simp add: put_node_state_def Some)
qed (auto simp: put_node_state_def intro!: exI [of _ "length es"])

lemma put_node_state_others:
  "NS_Node e \<noteq> NS_Node st \<Longrightarrow> e \<in> set (put_node_state st es) \<longleftrightarrow> e \<in> set es"
proof (cases "find_index (\<lambda>e. NS_Node e = NS_Node st) es")
  case (Some i)
  assume ne: "NS_Node e \<noteq> NS_Node st"
  have i: "i < length es" "NS_Node (es ! i) = NS_Node st" using find_index_Some [OF Some] by auto
  have "e \<in> set (es[i := st]) \<longleftrightarrow> e \<in> set es"
  proof
    show "e \<in> set (es[i := st]) \<Longrightarrow> e \<in> set es" using ne set_update_subset_insert [of es i st] by auto
    assume "e \<in> set es"
    then obtain j where "j < length es" "es ! j = e" by (auto simp: in_set_conv_nth)
    moreover from this have "j \<noteq> i" using ne i by auto
    ultimately show "e \<in> set (es[i := st])" by (metis length_list_update nth_list_update_neq nth_mem)
  qed
  then show ?thesis by (simp add: put_node_state_def Some)
qed (auto simp: put_node_state_def)

lemma put_node_state_nodes:
  "map NS_Node (put_node_state st es) =
     (if NS_Node st \<in> NS_Node ` set es then map NS_Node es else map NS_Node es @ [NS_Node st])"
proof (cases "find_index (\<lambda>e. NS_Node e = NS_Node st) es")
  case None
  have "NS_Node st \<notin> NS_Node ` set es" using None by (auto simp: find_index_None)
  then show ?thesis by (simp add: put_node_state_def None)
next
  case (Some i)
  have i: "i < length es" "NS_Node (es ! i) = NS_Node st" using find_index_Some [OF Some] by auto
  then have "map NS_Node (es[i := st]) = map NS_Node es" by (metis list_update_id map_update)
  moreover have "NS_Node st \<in> NS_Node ` set es" using i by (metis image_eqI nth_mem)
  ultimately show ?thesis by (simp add: put_node_state_def Some)
qed

section \<open>Capacity annotations\<close>

text \<open>
  What may be patched into a node: its own object, with some annotations of the capacity prefix
  removed and every other one kept.
\<close>

definition capacity_removed :: "Node \<Rightarrow> Node \<Rightarrow> bool" where
  "capacity_removed n n' \<longleftrightarrow> (\<exists>ann. n' = n\<lparr>N_Annotations := ann\<rparr> \<and>
     (\<forall>k. \<not> has_prefix k CapacityKeyPrefix \<longrightarrow> gm_get ann k = gm_get (N_Annotations n) k) \<and>
     (\<forall>k. gm_get ann k \<noteq> None \<longrightarrow> gm_get ann k = gm_get (N_Annotations n) k))"

definition patches_nodes :: "Node list \<Rightarrow> event \<Rightarrow> bool" where
  "patches_nodes ns ev \<longleftrightarrow> is_read ev \<or> (\<exists>n \<in> set ns. \<exists>n'. ev = Api VPatch (NodeObj n') \<and> capacity_removed n n')"

definition remaining :: "string list \<Rightarrow> string gomap \<Rightarrow> string gomap \<Rightarrow> bool" where
  "remaining done m0 m \<longleftrightarrow>
     (\<forall>k. gm_get m k = (if k \<in> set done \<and> has_prefix k CapacityKeyPrefix then None else gm_get m0 k))"

lemma remaining_removed:
  "remaining done (N_Annotations n) m \<Longrightarrow> capacity_removed n (n\<lparr>N_Annotations := m\<rparr>)"
  unfolding capacity_removed_def by (rule exI [of _ m]) (auto simp: remaining_def)

lemma capacity_key_step_ok:
  assumes "remaining done (N_Annotations n) m" "n \<in> set ns" "grown (patches_nodes ns) s0 s"
  shows "wp (capacity_key_step K n key m)
    (\<lambda>r t. grown (patches_nodes ns) s0 t \<and> (\<forall>m'. r = Inr m' \<longrightarrow> remaining (done @ [key]) (N_Annotations n) m'))
    (\<lambda>_ _. False) s"
proof -
  have rem: "remaining (done @ [key]) (N_Annotations n) (gm_del key m)" if "has_prefix key CapacityKeyPrefix"
    using assms(1) that by (auto simp: remaining_def gm.get_del)
  have keep: "remaining (done @ [key]) (N_Annotations n) m" if "\<not> has_prefix key CapacityKeyPrefix"
    using assms(1) that by (auto simp: remaining_def)
  show ?thesis
    using assms rem keep
    by (auto simp: capacity_key_step_def wpg Let_def patches_nodes_def
        intro!: remaining_removed split: sum.splits)
qed

lemma capacity_node_step_ok:
  assumes "n \<in> set ns" "grown (patches_nodes ns) s0 s"
  shows "wp (capacity_node_step E K n u) (\<lambda>r. grown (patches_nodes ns) s0) (\<lambda>_ _. False) s"
proof -
  have loop: "wp (go_loop (capacity_key_step K n) ks (N_Annotations n))
      (\<lambda>r t. case r of Inl e \<Rightarrow> grown (patches_nodes ns) s0 t
        | Inr m \<Rightarrow> remaining ks (N_Annotations n) m \<and> grown (patches_nodes ns) s0 t) (\<lambda>_ _. False) t"
    if "grown (patches_nodes ns) s0 t" for ks t
  proof (rule wp_go_loop_prefix [where I = "\<lambda>done m t. remaining done (N_Annotations n) m \<and> grown (patches_nodes ns) s0 t"
        and E = "\<lambda>e t. grown (patches_nodes ns) s0 t"])
    show "remaining [] (N_Annotations n) (N_Annotations n) \<and> grown (patches_nodes ns) s0 t"
      using that by (simp add: remaining_def)
  next
    fix ys x m u assume "remaining ys (N_Annotations n) m \<and> grown (patches_nodes ns) s0 u"
    then have "wp (capacity_key_step K n x m)
        (\<lambda>r t. grown (patches_nodes ns) s0 t \<and> (\<forall>m'. r = Inr m' \<longrightarrow> remaining (ys @ [x]) (N_Annotations n) m'))
        (\<lambda>_ _. False) u" using assms(1) by (blast intro: capacity_key_step_ok)
    then show "wp (capacity_key_step K n x m) (\<lambda>r t. case r of Inl e \<Rightarrow> grown (patches_nodes ns) s0 t
        | Inr m \<Rightarrow> remaining (ys @ [x]) (N_Annotations n) m \<and> grown (patches_nodes ns) s0 t) (\<lambda>_ _. False) u"
      by (rule wp_mono) (auto split: sum.splits)
  qed
  have world: "grown (patches_nodes ns) s0 (s\<lparr>world := w\<rparr>)" for w using assms(2) by (simp add: grown_def)
  show ?thesis
    unfolding capacity_node_step_def wp_bind
    by (rule wp_go_range_keys, rule wp_mono [OF loop [OF world]]) (auto simp: wpg split: sum.splits)
qed

text \<open>No node loses an annotation other than those of the capacity prefix.\<close>

lemma RemoveNodeCapacityAnnotations_writes:
  assumes "\<And>w r w'. ra_list (Nodes K) [] [] w = (r, w') \<Longrightarrow> r = Inr ns"
  shows "wp (RemoveNodeCapacityAnnotations E K) (\<lambda>_. grown (patches_nodes ns) s) (\<lambda>_ _. False) s"
proof -
  have loop: "wp (go_loop (capacity_node_step E K) ns ())
      (\<lambda>r t. case r of Inl e \<Rightarrow> grown (patches_nodes ns) s t | Inr u \<Rightarrow> grown (patches_nodes ns) s t) (\<lambda>_ _. False) t"
    if "grown (patches_nodes ns) s t" for t
    by (rule wp_go_loop [where I = "\<lambda>u t. grown (patches_nodes ns) s t" and E = "\<lambda>e t. grown (patches_nodes ns) s t"])
       (use that capacity_node_step_ok [of _ ns s _ E K "()"] in \<open>auto cong: sum.case_cong intro: wp_mono split: sum.splits\<close>)
  show ?thesis
    unfolding RemoveNodeCapacityAnnotations_def wp_bind
    by (auto simp: wpg patches_nodes_def dest!: assms intro!: wp_mono [OF loop] split: sum.splits)
qed

section \<open>Orchestration\<close>

text \<open>A cluster is remembered exactly when everything went well.\<close>

lemma onAdd_remembers:
  "wp (onAdd Poll K G img old cl ref) (\<lambda>(err, jobs, new) t. new = (if err = None then Some cl else old)) (\<lambda>_ _. True) s"
  by (auto simp: onAdd_def wpg wrapped_def split: option.splits prod.splits intro!: wp_any)

text \<open>
  The reconciler between requests: while a cluster is remembered, its stop channel is open and
  a checker was started for it.
\<close>

definition reconciler_inv :: "reconciler \<Rightarrow> bool" where
  "reconciler_inv r \<longleftrightarrow> (R_lastCluster r \<noteq> None \<longrightarrow> R_stopCh r = OpenChan) \<and>
     (R_stopCh r = NilChan \<longleftrightarrow> R_checkers r = 0) \<and> (R_stopCh r \<noteq> NilChan \<longrightarrow> R_namespacedName r \<noteq> None)"

lemma reconcile_cluster_inv:
  assumes "reconciler_inv r" "R_namespacedName r \<noteq> None"
  shows "wp (reconcile_cluster Poll K L cl r) (\<lambda>res t. reconciler_inv (snd (snd res))) (\<lambda>_ _. True) s"
  using assms
  by (auto simp: reconcile_cluster_def wpg Let_def reconciler_inv_def split: sum.splits option.splits prod.splits
      intro!: wp_mono [OF onAdd_remembers])

lemma reconcile_delete_inv:
  assumes "reconciler_inv r"
  shows "wp (reconcile_delete E K L ns name r) (\<lambda>res t. reconciler_inv (snd res)) (\<lambda>_ _. True) s"
  using assms
  by (auto simp: reconcile_delete_def wpg Let_def reconciler_inv_def close_channel_def
      split: sum.splits option.splits prod.splits outcome.splits stop_channel.splits intro!: wp_any)

lemma reconcile_inv:
  assumes "reconciler_inv r"
  shows "wp (reconcile Poll E K L ns name r) (\<lambda>res t. reconciler_inv (snd (snd res))) (\<lambda>_ _. True) s"
proof -
  have upd: "reconciler_inv (r\<lparr>R_namespacedName := (case R_namespacedName r of None \<Rightarrow> Some n | Some m \<Rightarrow> Some m), R_globals := g\<rparr>)" for n g
    using assms by (auto simp: reconciler_inv_def split: option.splits)
  show ?thesis
    using assms upd
    by (auto simp: reconcile_def wpg Let_def AddFinalizerIfNotPresent_def split: sum.splits option.splits prod.splits
        intro!: wp_mono [OF reconcile_delete_inv] reconcile_cluster_inv)
qed

text \<open>Every state the reconciler can be in after any requests to any API servers.\<close>

inductive reconciler_reachable ::
    "'w poller \<Rightarrow> 'w executor \<Rightarrow> 'w clientset \<Rightarrow> runtime_lib \<Rightarrow> globals \<Rightarrow> string \<Rightarrow> reconciler \<Rightarrow> bool"
  for Poll E K L G img where
  init: "reconciler_reachable Poll E K L G img (reconciler_init G img)"
| request: "reconciler_reachable Poll E K L G img r \<Longrightarrow>
    reconcile Poll E K L ns name r s = (Ret (err, jobs, r'), t) \<Longrightarrow>
    reconciler_reachable Poll E K L G img r'"

lemma reconciler_reachable_inv: "reconciler_reachable Poll E K L G img r \<Longrightarrow> reconciler_inv r"
proof (induction rule: reconciler_reachable.induct)
  case init
  show ?case by (simp add: reconciler_inv_def reconciler_init_def)
next
  case (request r ns name s err jobs r' t)
  show ?case using wp_retD [OF reconcile_inv [OF request.IH] request.hyps(2)] by simp
qed

text \<open>A request for a cluster that is not the oldest changes nothing, outside or inside.\<close>

lemma reconcile_not_served:
  assumes "ra_list (Clusters K) [] [] (world s) = (Inr clusters, w)" "\<not> serves clusters name"
  shows "wp (reconcile Poll E K L ns name r) (\<lambda>(err, jobs, r') t. err = None \<and> jobs = [] \<and> r' = r \<and> grown is_read s t)
    (\<lambda>_ _. False) s"
  using assms by (auto simp: reconcile_def wpg serves_def grown_def)

text \<open>
  Deleting the cluster object in a process that never started a checker ends in a panic, after
  the finalizer and the annotations were removed.
\<close>

lemma reconcile_delete_panics:
  assumes "R_stopCh r = NilChan"
    and "\<And>s. wp (removeFinalizer K L ns name) (\<lambda>err t. err = None) (\<lambda>_ _. True) s"
    and "\<And>s. wp (RemoveNodeCapacityAnnotations E K) (\<lambda>err t. err = None) (\<lambda>_ _. True) s"
  shows "wp (reconcile_delete E K L ns name r) (\<lambda>_ _. False) (\<lambda>_ _. True) s"
  unfolding reconcile_delete_def Let_def wp_bind
  by (rule wp_mono [OF assms(2)])
     (auto simp: wpg DeleteTopolvmCsiDriver_def close_channel_def assms(1) intro!: wp_mono [OF assms(3)])

section \<open>Images of the node deployments\<close>

text \<open>A node deployment that is up to date hides all later ones.\<close>

lemma startReplaceNodeDeployment_stops:
  assumes "ra_list (Deployments K) (G_NameSpace G) [] (world s) = (Inr (d # ds), w)"
    and "has_prefix (W_Name d) TopolvmNodeDeploymentNamePrefix"
    and "first_image d = Ret (Spec_TopolvmVersion (TC_Spec cl))"
  shows "startReplaceNodeDeployment K G cl s = (Ret None, record_event (Api VList (Named ''Deployment'' [])) w s)"
  using assms
  by (simp add: startReplaceNodeDeployment_def go_bind_def api_list_def replace_image_step_def go_return_def go_lift_def)

lemma set_images_first: "PS_Containers (W_Pod w) \<noteq> [] \<Longrightarrow> first_image (set_images img w) = Ret img"
  by (cases "PS_Containers (W_Pod w)") (simp_all add: first_image_def set_images_def)

text \<open>
  A cluster for which nothing is to be done: the daemon set and the controller deployment are up
  to date, and so is every node deployment.
\<close>

definition settled :: "'w clientset \<Rightarrow> globals \<Rightarrow> string \<Rightarrow> TopolvmCluster \<Rightarrow> bool" where
  "settled K G img cl \<longleftrightarrow>
     (\<forall>w. \<exists>d. fst (ra_get (DaemonSets K) (G_NameSpace G) DiscoverAppName w) = Inr d \<and>
        updated_daemonset img (St_UseLoop (Spec_Storage (TC_Spec cl))) d = Ret (False, d)) \<and>
     (\<forall>w. \<exists>d. fst (ra_get (Deployments K) (G_NameSpace G) TopolvmControllerDeploymentName w) = Inr d \<and>
        first_image d = Ret (Spec_TopolvmVersion (TC_Spec cl))) \<and>
     (\<forall>w. \<exists>ds. fst (ra_list (Deployments K) (G_NameSpace G) [] w) = Inr ds \<and>
        (\<forall>d \<in> set ds. has_prefix (W_Name d) TopolvmNodeDeploymentNamePrefix \<longrightarrow>
           first_image d = Ret (Spec_TopolvmVersion (TC_Spec cl))))"

lemma settledD:
  assumes "settled K G img cl"
  shows "ra_get (DaemonSets K) (G_NameSpace G) DiscoverAppName w = (r, w') \<Longrightarrow>
      \<exists>d. r = Inr d \<and> updated_daemonset img (St_UseLoop (Spec_Storage (TC_Spec cl))) d = Ret (False, d)"
    and "ra_get (Deployments K) (G_NameSpace G) TopolvmControllerDeploymentName w = (r', w') \<Longrightarrow>
      \<exists>d. r' = Inr d \<and> first_image d = Ret (Spec_TopolvmVersion (TC_Spec cl))"
    and "ra_list (Deployments K) (G_NameSpace G) [] w = (r'', w') \<Longrightarrow>
      \<exists>ds. r'' = Inr ds \<and> (\<forall>d \<in> set ds. has_prefix (W_Name d) TopolvmNodeDeploymentNamePrefix \<longrightarrow>
           first_image d = Ret (Spec_TopolvmVersion (TC_Spec cl)))"
  using assms unfolding settled_def by (metis fst_conv)+

lemma replace_images_uptodate:
  assumes "\<forall>d \<in> set ds. has_prefix (W_Name d) TopolvmNodeDeploymentNamePrefix \<longrightarrow> first_image d = Ret img"
  shows "wp (go_loop (replace_image_step K G img) ds ()) (\<lambda>_ t. t = s) (\<lambda>_ _. False) s"
proof -
  have "wp (go_loop (replace_image_step K G img) ds ())
      (\<lambda>r t. case r of Inl e \<Rightarrow> t = s | Inr b \<Rightarrow> t = s) (\<lambda>_ _. False) s"
    by (rule wp_go_loop [where I = "\<lambda>_ t. t = s" and E = "\<lambda>_ t. t = s"])
       (use assms in \<open>auto simp: replace_image_step_def wpg\<close>)
  then show ?thesis by (rule wp_mono) (auto split: sum.splits)
qed

lemma onAdd_settled:
  assumes "settled K G img cl" "\<not> G_IsOperatorHub G"
    and "Spec_Storage (TC_Spec old) = Spec_Storage (TC_Spec cl)"
    and "\<forall>e \<in> set (Status_NodeStorageStatus (TC_Status cl)). \<not> needs_job e"
  shows "wp (onAdd Poll K G img (Some old) cl ref)
    (\<lambda>(err, jobs, new) t. err = None \<and> jobs = [] \<and> new = Some cl \<and> grown is_read s t) (\<lambda>_ _. False) s"
proof -
  have jobs: "filter needs_job (Status_NodeStorageStatus (TC_Status cl)) = []" using assms(4) by (simp add: filter_empty_conv)
  show ?thesis
    by (auto simp: onAdd_def hub_checks_def assms(2,3) jobs wpg checkUpdateDiscoverDaemonset_def Let_def
        startPrepareVolumeGroupJob_def startTopolvmControllerDeployment_def startReplaceNodeDeployment_def grown_def
        dest!: settledD [OF assms(1)] intro!: wp_mono [OF replace_images_uptodate])
qed

text \<open>The daemon set after an update: every container has the image, and the loop setting is there.\<close>

lemma updated_daemonset_ok:
  assumes "updated_daemonset img useLoop d = Ret (needUpdate, d')"
  shows "first_image d' = Ret img" "useLoop \<longrightarrow> has_loop_annotation d'"
    "\<not> needUpdate \<longrightarrow> d' = d"
  using assms
  by (auto simp: updated_daemonset_def Let_def enable_loop_def has_loop_annotation_def first_image_def set_images_def
      split: outcome.splits option.splits list.splits if_splits)

end
