(* ===== verification/LvmdConfig.thy ===== *)
theory LvmdConfig
  imports Reconciler Codec
begin

text \<open>
  \<open>ConfigMapController\<close> of \<open>controllers/lvmdconfig_controller.go\<close>: the operator's watch on
  the nodes' config maps.  It makes the cluster own them, copies the node status into the cluster
  status, restarts the job when the devices change, and creates the node deployment or
  restarts its pods when the configuration of lvmd changes.
  Proved: which changes of a config map lead to which action.
\<close>

text \<open>The controller: its namespace, the current owner reference, and the reconciler it reports to.\<close>

record cm_controller =
  CC_namespace :: string
  CC_ref :: OwnerReference
  CC_reconciler :: reconciler

definition NewConfigMapController :: "string \<Rightarrow> OwnerReference \<Rightarrow> reconciler \<Rightarrow> cm_controller" where
  "NewConfigMapController namespace ref controller =
     \<lparr>CC_namespace = namespace, CC_ref = ref, CC_reconciler = controller\<rparr>"

definition UpdateRef :: "OwnerReference \<Rightarrow> cm_controller \<Rightarrow> cm_controller" where
  "UpdateRef ref c = c\<lparr>CC_ref := ref\<rparr>"

definition getNodeName :: "ConfigMap \<Rightarrow> string" where
  "getNodeName cm = (case gm_get (CM_Annotations cm) LvmdAnnotationsNodeKey of None \<Rightarrow> [] | Some n \<Rightarrow> n)"

definition checkingDeploymentExisting :: "'w clientset \<Rightarrow> globals \<Rightarrow> string \<Rightarrow> ('w host, bool) go" where
  "checkingDeploymentExisting K G nodeName =
     go_bind (CheckNodeDeploymentIsExisting K G (TruncateNodeName K TopolvmNodeDeploymentFmt nodeName)) (\<lambda>(existing, err).
       case err of Some _ \<Rightarrow> go_return False | None \<Rightarrow> go_return existing)"

definition replaceNodePod :: "'w clientset \<Rightarrow> globals \<Rightarrow> string \<Rightarrow> ('w host, unit) go" where
  "replaceNodePod K G nodeName =
     go_bind (api_list ''Pod'' (Pods K) (G_NameSpace G)
         (AppAttr @ ''='' @ TruncateNodeName K TopolvmNodeDeploymentFmt nodeName)) (\<lambda>r.
       go_fold (\<lambda>val _. go_bind (api_delete ''Pod'' (Pods K) (G_NameSpace G) (P_Name val)) (\<lambda>_. go_return ()))
         (case r of Inl _ \<Rightarrow> [] | Inr pods \<Rightarrow> pods) ())"

definition createNodeDeployment ::
    "'w clientset \<Rightarrow> globals \<Rightarrow> string \<Rightarrow> string \<Rightarrow> OwnerReference \<Rightarrow> ('w host, unit) go" where
  "createNodeDeployment K G configmap nodeName ref =
     go_bind (CreateReplaceDeployment K G (TruncateNodeName K TopolvmNodeDeploymentFmt nodeName) configmap nodeName ref)
       (\<lambda>_. go_return ())"

definition updateClusterStatus :: "'w clientset \<Rightarrow> cm_controller \<Rightarrow> ConfigMap \<Rightarrow> ('w host, unit) go" where
  "updateClusterStatus K c cm =
     (case Unmarshal_status (gm_get_default [] (cm_data cm) VgStatusConfigMapKey) of
       Inl _ \<Rightarrow> go_return ()
     | Inr nodeStatus \<Rightarrow>
         go_bind (reconciler_UpdateStatus K (R_namespacedName (CC_reconciler c)) nodeStatus) (\<lambda>_. go_return ()))"

definition checkUpdateClusterStatus ::
    "'w clientset \<Rightarrow> cm_controller \<Rightarrow> ConfigMap \<Rightarrow> ConfigMap \<Rightarrow> ('w host, go_error option) go" where
  "checkUpdateClusterStatus K c old new =
     (let status = gm_get_default [] (cm_data new) VgStatusConfigMapKey
      in if gm_get_default [] (cm_data old) VgStatusConfigMapKey \<noteq> status then
           (case Unmarshal_status status of
             Inl e \<Rightarrow> go_return (Some e)
           | Inr nodeStatus \<Rightarrow>
               go_bind (reconciler_UpdateStatus K (R_namespacedName (CC_reconciler c)) nodeStatus) (\<lambda>err.
                 go_return (wrapped (''update node '' @ NS_Node nodeStatus @ '' status failed'') err)))
         else go_return None)"

definition cm_onAdd :: "'w clientset \<Rightarrow> cm_controller \<Rightarrow> ConfigMap \<Rightarrow> ('w host, unit) go" where
  "cm_onAdd K c cm0 =
     (let G = R_globals (CC_reconciler c)
      in if \<not> has_prefix (CM_Name cm0) LvmdConfigMapNamePrefix then go_return ()
         else
           let cm = cm0\<lparr>CM_OwnerReferences := [CC_ref c]\<rparr>
           in go_bind (api_update ConfigMapObj (ConfigMaps K) (CC_namespace c) cm) (\<lambda>_.
              go_bind (updateClusterStatus K c cm) (\<lambda>_.
                if \<not> gm_has (cm_data cm) LvmdConfigMapKey then go_return ()
                else if getNodeName cm = [] then go_return ()
                else go_bind (checkingDeploymentExisting K G (getNodeName cm)) (\<lambda>existing.
                  if existing then go_return ()
                  else createNodeDeployment K G (CM_Name cm) (getNodeName cm) (CC_ref c)))))"

text \<open>The end of \<open>onUpdate\<close>, about the node deployment.\<close>

definition update_node_deployment ::
    "'w clientset \<Rightarrow> cm_controller \<Rightarrow> string \<Rightarrow> ConfigMap \<Rightarrow> ConfigMap \<Rightarrow> ('w host, unit) go" where
  "update_node_deployment K c nodeName oldCm newCm =
     (let G = R_globals (CC_reconciler c)
      in if \<not> gm_has (cm_data newCm) LvmdConfigMapKey then go_return ()
         else go_bind (checkingDeploymentExisting K G nodeName) (\<lambda>existing.
           if existing then
             if gm_get_default [] (cm_data oldCm) LvmdConfigMapKey = gm_get_default [] (cm_data newCm) LvmdConfigMapKey
             then go_return ()
             else replaceNodePod K G nodeName
           else createNodeDeployment K G (CM_Name newCm) nodeName (CC_ref c)))"

text \<open>\<open>UseAllNodeAndDevices\<close> reads the remembered cluster through a pointer.\<close>

definition UseAllNodeAndDevices :: "reconciler \<Rightarrow> bool outcome" where
  "UseAllNodeAndDevices r = (case R_lastCluster r of
      None \<Rightarrow> Panic ''invalid memory address or nil pointer dereference''
    | Some cl \<Rightarrow> Ret (St_UseAllNodes (Spec_Storage (TC_Spec cl))))"

definition restart_on_device_change ::
    "'w poller \<Rightarrow> 'w clientset \<Rightarrow> cm_controller \<Rightarrow> string \<Rightarrow> ConfigMap \<Rightarrow> ConfigMap \<Rightarrow> ('w host, unit) go" where
  "restart_on_device_change Poll K c nodeName oldCm newCm =
     (case gm_get (cm_data oldCm) LocalDiskCMData of
       None \<Rightarrow> go_return ()
     | Some d \<Rightarrow>
         if d \<noteq> gm_get_default [] (cm_data newCm) LocalDiskCMData then
           go_bind (go_lift (UseAllNodeAndDevices (CC_reconciler c))) (\<lambda>useAll.
             if useAll then
               go_bind (RestartJob Poll K (R_globals (CC_reconciler c)) (R_operatorImage (CC_reconciler c)) nodeName (CC_ref c))
                 (\<lambda>_. go_return ())
             else go_return ())
         else go_return ())"

definition cm_onUpdate ::
    "'w poller \<Rightarrow> 'w clientset \<Rightarrow> cm_controller \<Rightarrow> ConfigMap \<Rightarrow> ConfigMap \<Rightarrow> ('w host, unit) go" where
  "cm_onUpdate Poll K c oldCm newCm0 =
     (if \<not> has_prefix (CM_Name oldCm) LvmdConfigMapNamePrefix then go_return ()
      else
        let orphan = CM_OwnerReferences newCm0 = [];
            newCm = (if orphan then newCm0\<lparr>CM_OwnerReferences := [CC_ref c]\<rparr> else newCm0)
        in go_bind (if orphan then go_bind (api_update ConfigMapObj (ConfigMaps K) (CC_namespace c) newCm) (\<lambda>_. go_return ())
                    else go_return ()) (\<lambda>_.
           go_bind (checkUpdateClusterStatus K c oldCm newCm) (\<lambda>_.
             if getNodeName newCm = [] then go_return ()
             else go_bind (restart_on_device_change Poll K c (getNodeName newCm) oldCm newCm) (\<lambda>_.
                  update_node_deployment K c (getNodeName newCm) oldCm newCm))))"

section \<open>Facts\<close>

lemma delete_pods_trace:
  "wp (go_fold (\<lambda>val _. go_bind (api_delete ''Pod'' A ns (P_Name val)) (\<lambda>_. go_return ())) pods ())
     (\<lambda>_ t. trace t = trace s @ map (\<lambda>p. Api VDelete (Named ''Pod'' (P_Name p))) pods) (\<lambda>_ _. False) s"
  by (rule wp_go_fold_prefix [where I = "\<lambda>ys _ t. trace t = trace s @ map (\<lambda>p. Api VDelete (Named ''Pod'' (P_Name p))) ys"])
     (auto simp: wpg)

definition pod_selector :: "'w clientset \<Rightarrow> string \<Rightarrow> string" where
  "pod_selector K nodeName = AppAttr @ ''='' @ TruncateNodeName K TopolvmNodeDeploymentFmt nodeName"

text \<open>Restarting a node's pods: one list of the pods the deployment selects, and one deletion of each.\<close>

lemma replaceNodePod_trace:
  assumes "ra_list (Pods K) (G_NameSpace G) (pod_selector K nodeName) (world s) = (Inr pods, w)"
  shows "wp (replaceNodePod K G nodeName)
    (\<lambda>_ t. trace t = trace s @ Api VList (Named ''Pod'' (pod_selector K nodeName)) #
       map (\<lambda>p. Api VDelete (Named ''Pod'' (P_Name p))) pods) (\<lambda>_ _. False) s"
  unfolding replaceNodePod_def wp_bind
  using assms by (auto simp: wpg pod_selector_def intro!: wp_mono [OF delete_pods_trace])

text \<open>The selector is the one the deployment of that node carries on its pods.\<close>

lemma pod_selector_matches:
  "(AppAttr, TruncateNodeName K TopolvmNodeDeploymentFmt nodeName) \<in>
     set (PS_Labels (W_Pod (node_getDeployment G (TruncateNodeName K TopolvmNodeDeploymentFmt nodeName) nodeName cmName ref)))"
  by (simp add: node_getDeployment_def Let_def)

text \<open>The node deployment is touched only when the configuration of lvmd is there and changed.\<close>

lemma update_node_deployment_trace:
  assumes "gm_get (cm_data newCm) LvmdConfigMapKey = Some conf"
    and "ra_get (Deployments K) (G_NameSpace (R_globals (CC_reconciler c)))
           (TruncateNodeName K TopolvmNodeDeploymentFmt nodeName) (world s) = (Inr d, w)"
    and "ra_list (Pods K) (G_NameSpace (R_globals (CC_reconciler c))) (pod_selector K nodeName) w = (Inr pods, w')"
  shows "wp (update_node_deployment K c nodeName oldCm newCm)
    (\<lambda>_ t. trace t = trace s @ Api VGet (Named ''Deployment'' (TruncateNodeName K TopolvmNodeDeploymentFmt nodeName)) #
       (if gm_get_default [] (cm_data oldCm) LvmdConfigMapKey = conf then []
        else Api VList (Named ''Pod'' (pod_selector K nodeName)) #
          map (\<lambda>p. Api VDelete (Named ''Pod'' (P_Name p))) pods)) (\<lambda>_ _. False) s"
  using assms
  by (auto simp: update_node_deployment_def Let_def wpg checkingDeploymentExisting_def CheckNodeDeploymentIsExisting_def
      gm_has_def gm_get_default_def intro!: wp_mono [OF replaceNodePod_trace])

text \<open>A config map of another name is ignored.\<close>

lemma cm_onUpdate_other:
  "\<not> has_prefix (CM_Name oldCm) LvmdConfigMapNamePrefix \<Longrightarrow> cm_onUpdate Poll K c oldCm newCm = go_return ()"
  by (simp add: cm_onUpdate_def)

text \<open>A written status arrives in the cluster status as it was.\<close>

lemma checkUpdateClusterStatus_written:
  assumes "status_ascii st"
    and "gm_get (cm_data new) VgStatusConfigMapKey = Some (Marshal_status st)"
    and "gm_get_default [] (cm_data old) VgStatusConfigMapKey \<noteq> Marshal_status st"
  shows "checkUpdateClusterStatus K c old new =
    go_bind (reconciler_UpdateStatus K (R_namespacedName (CC_reconciler c)) st) (\<lambda>err.
      go_return (wrapped (''update node '' @ NS_Node st @ '' status failed'') err))"
  using assms by (simp add: checkUpdateClusterStatus_def gm_get_default_def status.dec_enc)

text \<open>
  A change of the devices before the first cluster was set up completely dereferences a nil
  pointer, and ends the operator.
\<close>

lemma restart_on_device_change_panics:
  assumes "R_lastCluster (CC_reconciler c) = None" "gm_get (cm_data oldCm) LocalDiskCMData = Some d"
    and "gm_get_default [] (cm_data newCm) LocalDiskCMData \<noteq> d"
  shows "\<exists>e. restart_on_device_change Poll K c nodeName oldCm newCm s = (Panic e, s)"
  using assms by (auto simp: restart_on_device_change_def UseAllNodeAndDevices_def go_bind_def go_lift_def)

end
