(* ===== verification/Monitor.thy ===== *)
theory Monitor
  imports K8sUtil
begin

text \<open>
  \<open>checkStatus\<close> of \<open>pkg/operator/monitor/status.go\<close>: the phases of the nodes and of the
  cluster from the pods of the node deployments, the nodes' conditions and the states of the
  volume groups, with the metrics sent to the exporter.
  Proved: the phase a node gets from its pods, that a failing pod never counts as ready, that the
  classes recorded in the status are never touched, and when the cluster counts as ready.
\<close>

section \<open>Pods\<close>

definition pod_phase :: "Pod \<Rightarrow> string \<times> 8 word" where
  "pod_phase item =
     (let (phase, status) =
        (if P_Phase item = ''Running'' then (ConditionReady, 0)
         else if P_Phase item = ''Unknown'' then (ConditionUnknown, 1)
         else if P_Phase item = ''Failed'' then (ConditionFailure, 1)
         else if P_Phase item = ''Pending'' then (ConditionPending, 1)
         else (ConditionUnknown, 1))
      in if \<exists>ready \<in> set (P_ContainersReady item). \<not> ready then (ConditionFailure, 1) else (phase, status))"

definition node_entry :: "string \<Rightarrow> string \<Rightarrow> NodeStorageState" where
  "node_entry node phase = zero_NodeStorageState\<lparr>NS_Node := node, NS_Phase := phase\<rparr>"

text \<open>The pods of one node, in order; the last one decides, each adds a metric.\<close>

definition pod_step ::
    "string \<Rightarrow> Pod \<Rightarrow> bool \<times> NodeStorageState gomap \<times> NodeStatusMetrics list \<Rightarrow>
     bool \<times> NodeStorageState gomap \<times> NodeStatusMetrics list" where
  "pod_step node item = (\<lambda>(found, nodesStatus, metrics).
     if P_NodeName item \<noteq> node then (found, nodesStatus, metrics)
     else case pod_phase item of (phase, status) \<Rightarrow>
       (True, gm_put (P_NodeName item) (node_entry (P_NodeName item) phase) nodesStatus,
        metrics @ [\<lparr>NM_Node = P_NodeName item, NM_Status = status\<rparr>]))"

definition node_step ::
    "Pod list \<Rightarrow> string \<Rightarrow> NodeStorageState gomap \<times> NodeStatusMetrics list \<Rightarrow>
     NodeStorageState gomap \<times> NodeStatusMetrics list" where
  "node_step pods node = (\<lambda>(nodesStatus, metrics).
     case fold (pod_step node) pods (False, nodesStatus, metrics) of (found, nodesStatus1, metrics1) \<Rightarrow>
       if \<not> found then
         (gm_put node (node_entry node ConditionFailure) nodesStatus1,
          metrics1 @ [\<lparr>NM_Node = node, NM_Status = 1\<rparr>])
       else (nodesStatus1, metrics1))"

definition pods_status :: "Pod list \<Rightarrow> string list \<Rightarrow> NodeStorageState gomap \<times> NodeStatusMetrics list" where
  "pods_status pods nodes = fold (node_step pods) nodes ([], [])"

section \<open>Node conditions\<close>

definition set_metric :: "string \<Rightarrow> NodeStatusMetrics list \<Rightarrow> NodeStatusMetrics list" where
  "set_metric key = map (\<lambda>m. if NM_Node m = key then m\<lparr>NM_Status := 1\<rparr> else m)"

definition ready_unknown :: "Node \<Rightarrow> bool" where
  "ready_unknown n \<longleftrightarrow> (\<exists>c \<in> set (N_Conditions n). c = (''Ready'', ''Unknown''))"

definition condition_step ::
    "'w clientset \<Rightarrow> string \<Rightarrow> NodeStorageState gomap \<times> NodeStatusMetrics list \<Rightarrow>
     ('w host, NodeStorageState gomap \<times> NodeStatusMetrics list) go" where
  "condition_step K key = (\<lambda>(nodesStatus, metrics).
     go_bind (api_get ''Node'' (Nodes K) [] key) (\<lambda>r. case r of
       Inl _ \<Rightarrow> go_return (nodesStatus, metrics)
     | Inr n \<Rightarrow>
         if ready_unknown n then
           (case gm_get nodesStatus key of
             None \<Rightarrow> go_panic ''invalid memory address or nil pointer dereference''
           | Some st \<Rightarrow> go_return (gm_put key (st\<lparr>NS_Phase := ConditionUnknown\<rparr>) nodesStatus, set_metric key metrics))
         else go_return (nodesStatus, metrics)))"

section \<open>The cluster status\<close>

text \<open>The phase goes into every entry of the node, or a new entry is appended.\<close>

definition merge_node :: "NodeStorageState gomap \<Rightarrow> string \<Rightarrow> NodeStorageState list \<Rightarrow> NodeStorageState list" where
  "merge_node nodesStatus key entries =
     (let val = gm_get_default zero_NodeStorageState nodesStatus key
      in if \<exists>e \<in> set entries. NS_Node e = key
         then map (\<lambda>e. if NS_Node e = key then e\<lparr>NS_Phase := NS_Phase val\<rparr> else e) entries
         else entries @ [val])"

definition node_ready :: "NodeStorageState \<Rightarrow> bool" where
  "node_ready n \<longleftrightarrow> (\<exists>c \<in> set (NS_SuccessClasses n). CS_State c = ClassReady)"

text \<open>
  The last loop: an entry without a ready class becomes a failure, also in the metrics; whether
  the cluster is ready is read off the copy taken before that.
\<close>

definition final_step ::
    "NodeStorageState \<Rightarrow> NodeStorageState list \<times> NodeStatusMetrics list \<times> bool \<Rightarrow>
     NodeStorageState list \<times> NodeStatusMetrics list \<times> bool" where
  "final_step n = (\<lambda>(out, metrics, clusterReady).
     (out @ [if \<not> node_ready n then n\<lparr>NS_Phase := ConditionFailure\<rparr> else n],
      if \<not> node_ready n then set_metric (NS_Node n) metrics else metrics,
      clusterReady \<or> NS_Phase n = ConditionReady))"

definition final_status ::
    "NodeStorageState list \<Rightarrow> NodeStatusMetrics list \<Rightarrow> TopolvmClusterStatus \<times> Metrics" where
  "final_status entries metrics =
     (case fold final_step entries ([], metrics, False) of (out, metrics1, clusterReady) \<Rightarrow>
       (\<lparr>Status_Phase = (if clusterReady then ConditionReady else ConditionFailure), Status_NodeStorageStatus = out\<rparr>,
        \<lparr>M_Cluster = [], M_ClusterStatus = (if clusterReady then 0 else 1), M_NodeStatus = metrics1\<rparr>))"

definition list_or_empty :: "go_error + 'a list \<Rightarrow> 'a list" where
  "list_or_empty r = (case r of Inl _ \<Rightarrow> [] | Inr xs \<Rightarrow> xs)"

text \<open>The nodes the status is about: those of the config maps, or those of the specification.\<close>

definition status_nodes :: "'w clientset \<Rightarrow> string \<Rightarrow> TopolvmCluster \<Rightarrow> ('w host, string list) go" where
  "status_nodes K ns cl =
     (let st = Spec_Storage (TC_Spec cl)
      in if St_UseAllNodes st then
           go_bind (api_list ''ConfigMap'' (ConfigMaps K) ns (LvmdConfigMapLabelKey @ ''='' @ LvmdConfigMapLabelValue)) (\<lambda>r.
             go_return (map (\<lambda>cm. gm_get_default [] (CM_Annotations cm) LvmdAnnotationsNodeKey) (list_or_empty r)))
         else go_return (case St_DeviceClasses st of None \<Rightarrow> [] | Some nds \<Rightarrow> map ND_NodeName nds))"

text \<open>
  The result is the metrics sent to the exporter, if any: a status that did not change is
  neither sent nor written.
\<close>

definition checkStatus ::
    "'w executor \<Rightarrow> 'w clientset \<Rightarrow> string \<Rightarrow> string \<Rightarrow> string \<Rightarrow> ('w host, Metrics option) go" where
  "checkStatus E K operatorNs ns name =
     go_bind (api_list ''Pod'' (Pods K) operatorNs ''app.kubernetes.io/compose=node'') (\<lambda>pods.
     go_bind (api_get ''TopolvmCluster'' (Clusters K) ns name) (\<lambda>r. case r of
       Inl _ \<Rightarrow> go_return None
     | Inr cl \<Rightarrow>
         go_bind (status_nodes K operatorNs cl) (\<lambda>nodes.
         case pods_status (list_or_empty pods) nodes of (nodesStatus, metrics) \<Rightarrow>
         go_bind (go_range E nodesStatus) (\<lambda>ks.
         go_bind (go_fold (condition_step K) ks (nodesStatus, metrics)) (\<lambda>(nodesStatus1, metrics1).
         go_bind (go_range E nodesStatus1) (\<lambda>ks1.
           case final_status (fold (merge_node nodesStatus1) ks1 (Status_NodeStorageStatus (TC_Status cl))) metrics1 of
             (st, met) \<Rightarrow>
               if TC_Status cl = st then go_return None
               else go_bind (UpdateStatus K ns (cl\<lparr>TC_Status := st\<rparr>)) (\<lambda>_.
                 go_return (Some (met\<lparr>M_Cluster := TC_Name cl\<rparr>)))))))))"

section \<open>Facts\<close>

text \<open>A pod that runs with all containers ready is the only one that counts as ready.\<close>

lemma pod_phase_ready:
  "fst (pod_phase p) = ConditionReady \<longleftrightarrow> P_Phase p = ''Running'' \<and> (\<forall>r \<in> set (P_ContainersReady p). r)"
  "snd (pod_phase p) = 0 \<longleftrightarrow> fst (pod_phase p) = ConditionReady"
  by (auto simp: pod_phase_def Let_def)

text \<open>The phase of a node: failure without a pod, else that of its last pod.\<close>

definition phase_of_pods :: "Pod list \<Rightarrow> string \<Rightarrow> string" where
  "phase_of_pods pods node =
     (let ps = filter (\<lambda>p. P_NodeName p = node) pods
      in if ps = [] then ConditionFailure else fst (pod_phase (last ps)))"

lemma phase_of_pods_snoc:
  "phase_of_pods (ps @ [p]) node = (if P_NodeName p = node then fst (pod_phase p) else phase_of_pods ps node)"
  by (simp add: phase_of_pods_def Let_def)

lemma pod_steps_get:
  "case fold (pod_step node) pods (f, st, metrics) of (f', st', metrics') \<Rightarrow>
     f' = (f \<or> (\<exists>p \<in> set pods. P_NodeName p = node)) \<and>
     (\<forall>k. gm_get st' k = (if k = node \<and> (\<exists>p \<in> set pods. P_NodeName p = node)
        then Some (node_entry node (phase_of_pods pods node)) else gm_get st k))"
proof (induction pods rule: rev_induct)
  case (snoc p ps)
  then show ?case
    by (auto simp: pod_step_def [of node p] phase_of_pods_snoc gm.get_put split: prod.splits)
qed simp

lemma phase_without_pods: "\<not> (\<exists>p \<in> set pods. P_NodeName p = node) \<Longrightarrow> phase_of_pods pods node = ConditionFailure"
  by (auto simp: phase_of_pods_def filter_empty_conv Let_def)

lemma node_step_get:
  "gm_get (fst (node_step pods node (st, metrics))) k =
     (if k = node then Some (node_entry node (phase_of_pods pods node)) else gm_get st k)"
  using pod_steps_get [where node = node and pods = pods and f = False and st = st and metrics = metrics]
  by (auto simp: node_step_def gm.get_put phase_without_pods split: prod.splits)

lemma pods_status_get:
  "gm_get (fst (pods_status pods nodes)) k =
     (if k \<in> set nodes then Some (node_entry k (phase_of_pods pods k)) else None)"
proof -
  have "gm_get (fst (fold (node_step pods) nodes b)) k =
      (if k \<in> set nodes then Some (node_entry k (phase_of_pods pods k)) else gm_get (fst b) k)" for b
  proof (induction nodes arbitrary: b)
    case (Cons n ns)
    have "gm_get (fst (node_step pods n b)) k =
        (if k = n then Some (node_entry n (phase_of_pods pods n)) else gm_get (fst b) k)"
      using node_step_get [of pods n "fst b" "snd b" k] by simp
    then show ?case by (auto simp: Cons.IH)
  qed simp
  from this [of "([], [])"] show ?thesis by (simp add: pods_status_def gm.get_empty)
qed

text \<open>What the monitor must not change: everything of an entry but its phase.\<close>

definition record_of :: "NodeStorageState \<Rightarrow> string \<times> ClassState list \<times> ClassState list \<times> LoopState list" where
  "record_of n = (NS_Node n, NS_FailClasses n, NS_SuccessClasses n, NS_Loops n)"

definition keeps_records :: "NodeStorageState list \<Rightarrow> NodeStorageState list \<Rightarrow> bool" where
  "keeps_records old new \<longleftrightarrow> (\<exists>added. map record_of new = map record_of old @ added)"

lemma keeps_records_refl [simp]: "keeps_records xs xs"
  by (simp add: keeps_records_def)

lemma keeps_records_trans: "keeps_records a b \<Longrightarrow> keeps_records b c \<Longrightarrow> keeps_records a c"
  by (auto simp: keeps_records_def)

lemma merge_node_keeps: "keeps_records entries (merge_node nodesStatus key entries)"
proof -
  have "map record_of (map (\<lambda>e. if NS_Node e = key then e\<lparr>NS_Phase := x\<rparr> else e) entries) = map record_of entries" for x
    by (induction entries) (auto simp: record_of_def)
  then show ?thesis by (auto simp: merge_node_def keeps_records_def Let_def simp del: map_map)
qed

lemma merge_nodes_keep: "keeps_records entries (fold (merge_node nodesStatus) ks entries)"
proof (induction ks arbitrary: entries)
  case (Cons k ks)
  show ?case using keeps_records_trans [OF merge_node_keeps Cons.IH] by simp
qed simp

text \<open>The last loop in closed form; the cluster is ready when some entry was, before the check of its classes.\<close>

definition failed_without_class :: "NodeStorageState \<Rightarrow> NodeStorageState" where
  "failed_without_class n = (if node_ready n then n else n\<lparr>NS_Phase := ConditionFailure\<rparr>)"

lemma final_steps:
  "fold final_step entries (out, metrics, r) =
     (out @ map failed_without_class entries,
      fold (\<lambda>n. if node_ready n then id else set_metric (NS_Node n)) entries metrics,
      r \<or> (\<exists>n \<in> set entries. NS_Phase n = ConditionReady))"
  by (induction entries arbitrary: out metrics r)
     (auto simp: final_step_def failed_without_class_def)

lemma final_status_fst:
  "fst (final_status entries metrics) =
     \<lparr>Status_Phase = (if \<exists>n \<in> set entries. NS_Phase n = ConditionReady then ConditionReady else ConditionFailure),
      Status_NodeStorageStatus = map failed_without_class entries\<rparr>"
  by (simp add: final_status_def final_steps)

lemma record_of_failed [simp]: "record_of (failed_without_class n) = record_of n"
  by (simp add: failed_without_class_def record_of_def)

lemma final_status_keeps: "keeps_records entries (Status_NodeStorageStatus (fst (final_status entries metrics)))"
  by (simp add: final_status_fst keeps_records_def comp_def)

lemma condition_step_reads [issues]: "only_issues (updates_cluster P) (condition_step K key b)"
  by (auto simp: condition_step_def split: prod.splits intro!: issues)

lemma status_nodes_reads [issues]: "only_issues (updates_cluster P) (status_nodes K ns cl)"
  by (auto simp: status_nodes_def Let_def intro!: issues)

text \<open>
  Whatever the API server answers: the only thing the monitor writes is the status of the cluster,
  every entry keeps its classes and loops, and the cluster is called ready exactly when some
  entry had the ready phase when its classes were looked at.
\<close>

definition monitored :: "TopolvmCluster \<Rightarrow> TopolvmCluster \<Rightarrow> bool" where
  "monitored cl cl' \<longleftrightarrow> (\<exists>entries. keeps_records (Status_NodeStorageStatus (TC_Status cl)) entries \<and>
     cl' = cl\<lparr>TC_Status := \<lparr>Status_Phase = (if \<exists>n \<in> set entries. NS_Phase n = ConditionReady then ConditionReady else ConditionFailure),
        Status_NodeStorageStatus = map failed_without_class entries\<rparr>\<rparr>)"

lemma checkStatus_writes:
  assumes "\<And>w r w'. ra_get (Clusters K) ns name w = (r, w') \<Longrightarrow> r = Inr cl"
  shows "wp (checkStatus E K operatorNs ns name) (\<lambda>_. grown (updates_cluster (monitored cl)) s)
     (\<lambda>_. grown (updates_cluster (monitored cl)) s) s"
proof -
  have tail: "only_issues (updates_cluster (monitored cl)) (case final_status (fold (merge_node st) ks (Status_NodeStorageStatus (TC_Status cl))) metrics of
      (st, met) \<Rightarrow> if TC_Status cl = st then go_return None
        else go_bind (UpdateStatus K ns (cl\<lparr>TC_Status := st\<rparr>)) (\<lambda>_. go_return (Some (met\<lparr>M_Cluster := TC_Name cl\<rparr>))))"
    for st ks metrics
  proof -
    let ?entries = "fold (merge_node st) ks (Status_NodeStorageStatus (TC_Status cl))"
    have "monitored cl (cl\<lparr>TC_Status := fst (final_status ?entries metrics)\<rparr>)"
      unfolding monitored_def final_status_fst by (rule exI [of _ ?entries]) (simp add: merge_nodes_keep)
    then show ?thesis by (auto split: prod.split intro!: issues)
  qed
  show ?thesis
    unfolding checkStatus_def
    apply (rule wp_grown_bind [OF grown_refl, where Q = "\<lambda>_. True"])
      apply (auto intro!: issues)[2]
    apply (rule wp_grown_bind [where Q = "\<lambda>r. r = Inr cl"])
       apply assumption
      apply (auto intro!: issues)[1]
     apply (use assms in \<open>auto simp: wpg\<close>)[1]
    apply (auto intro!: wp_grown_only issues tail split: prod.splits)
    done
qed

end
