(* ===== verification/Metering.thy ===== *)
theory Metering
  imports Monitor
begin

text \<open>
  What Prometheus sees of the operator: the exporter of \<open>pkg/metric/metric_exporter.go\<close>, the service
  monitor and the alerting rules (\<open>pkg/operator/monitor/monitor.go\<close>, \<open>pkg/operator/k8sutil/prometheus.go\<close>),
  and the loop of \<open>CheckClusterStatus\<close> that drives them.  The rules' YAML is decoded by a parameter.
  Proved: what a gauge shows after a sequence of reports, and that a node without a ready class raises
  the alarm.
\<close>

section \<open>The exporter\<close>

text \<open>Gauges by their label: the cluster's name, the node's name.\<close>

record gauges =
  Ga_cluster_status :: "8 word gomap"
  Ga_node_status :: "8 word gomap"

definition NewMetricsExporter :: gauges where
  "NewMetricsExporter = \<lparr>Ga_cluster_status = [], Ga_node_status = []\<rparr>"

definition exporter_step :: "Metrics \<Rightarrow> gauges \<Rightarrow> gauges" where
  "exporter_step met g = g\<lparr>Ga_cluster_status := gm_put (M_Cluster met) (M_ClusterStatus met) (Ga_cluster_status g),
     Ga_node_status := fold (\<lambda>ele. gm_put (NM_Node ele) (NM_Status ele)) (M_NodeStatus met) (Ga_node_status g)\<rparr>"

definition exporter_Start :: "Metrics list \<Rightarrow> gauges" where
  "exporter_Start mets = fold exporter_step mets NewMetricsExporter"

text \<open>The expression of the alert \<open>topolvm.node.unavailable\<close>.\<close>

definition node_unavailable :: "gauges \<Rightarrow> string \<Rightarrow> bool" where
  "node_unavailable g node \<longleftrightarrow> (case gm_get (Ga_node_status g) node of None \<Rightarrow> False | Some v \<Rightarrow> v \<noteq> 0)"

lemma node_gauges:
  "gm_get (fold (\<lambda>ele. gm_put (NM_Node ele) (NM_Status ele)) es m) node =
     (case filter (\<lambda>ele. NM_Node ele = node) es of [] \<Rightarrow> gm_get m node | e # es' \<Rightarrow> Some (NM_Status (last (e # es'))))"
proof (induction es rule: rev_induct)
  case (snoc e es)
  then show ?case by (auto simp: gm.get_put split: list.splits)
qed simp

text \<open>A gauge shows the last report about its node, however many reports without the node follow.\<close>

lemma exporter_stale:
  assumes "\<forall>met \<in> set mets. node \<notin> NM_Node ` set (M_NodeStatus met)"
  shows "gm_get (Ga_node_status (fold exporter_step mets g)) node = gm_get (Ga_node_status g) node"
  using assms
proof (induction mets arbitrary: g)
  case (Cons met mets)
  have "filter (\<lambda>ele. NM_Node ele = node) (M_NodeStatus met) = []" using Cons.prems by (auto simp: filter_empty_conv)
  then have "gm_get (Ga_node_status (exporter_step met g)) node = gm_get (Ga_node_status g) node"
    by (simp add: exporter_step_def node_gauges)
  with Cons show ?case by simp
qed simp

section \<open>A node without a ready class\<close>

lemma in_set_metric:
  assumes "m \<in> set (set_metric key ms)"
  obtains x where "x \<in> set ms" "m = (if NM_Node x = key then x\<lparr>NM_Status := 1\<rparr> else x)"
  using assms unfolding set_metric_def set_map by blast

lemma set_metric_sets: "\<forall>m \<in> set (set_metric key ms). NM_Node m = key \<longrightarrow> NM_Status m = 1"
proof
  fix m
  assume "m \<in> set (set_metric key ms)"
  then obtain x where m: "m = (if NM_Node x = key then x\<lparr>NM_Status := 1\<rparr> else x)" by (rule in_set_metric)
  show "NM_Node m = key \<longrightarrow> NM_Status m = 1" unfolding m by (cases "NM_Node x = key") simp_all
qed

lemma set_metric_nodes: "NM_Node ` set (set_metric key ms) = NM_Node ` set ms"
proof -
  have "map NM_Node (set_metric key ms) = map NM_Node ms" by (simp add: set_metric_def)
  then show ?thesis by (metis set_map)
qed

lemma set_metric_keeps:
  assumes "\<forall>m \<in> set ms. NM_Node m = node \<longrightarrow> NM_Status m = 1"
  shows "\<forall>m \<in> set (set_metric key ms). NM_Node m = node \<longrightarrow> NM_Status m = 1"
proof
  fix m
  assume "m \<in> set (set_metric key ms)"
  then obtain x where "x \<in> set ms" and m: "m = (if NM_Node x = key then x\<lparr>NM_Status := 1\<rparr> else x)"
    by (rule in_set_metric)
  then have "NM_Node x = node \<longrightarrow> NM_Status x = 1" using assms by blast
  then show "NM_Node m = node \<longrightarrow> NM_Status m = 1" unfolding m by (cases "NM_Node x = key") simp_all
qed

definition unready_metrics :: "NodeStorageState list \<Rightarrow> NodeStatusMetrics list \<Rightarrow> NodeStatusMetrics list" where
  "unready_metrics entries = fold (\<lambda>n. if node_ready n then id else set_metric (NS_Node n)) entries"

lemma unready_metrics_simps [simp]:
  "unready_metrics [] ms = ms"
  "unready_metrics (n # entries) ms = unready_metrics entries (if node_ready n then ms else set_metric (NS_Node n) ms)"
  by (simp_all add: unready_metrics_def)

lemma unready_metrics_nodes: "NM_Node ` set (unready_metrics entries ms) = NM_Node ` set ms"
  by (induction entries arbitrary: ms) (simp_all add: set_metric_nodes)

lemma unready_metrics_keep:
  "\<forall>m \<in> set ms. NM_Node m = node \<longrightarrow> NM_Status m = 1 \<Longrightarrow>
   \<forall>m \<in> set (unready_metrics entries ms). NM_Node m = node \<longrightarrow> NM_Status m = 1"
proof (induction entries arbitrary: ms)
  case (Cons n entries)
  have "\<forall>m \<in> set (if node_ready n then ms else set_metric (NS_Node n) ms). NM_Node m = node \<longrightarrow> NM_Status m = 1"
    using Cons.prems set_metric_keeps [OF Cons.prems] by simp
  from Cons.IH [OF this] show ?case by simp
qed simp

lemma unready_metrics_set:
  assumes "n \<in> set entries" "\<not> node_ready n"
  shows "\<forall>m \<in> set (unready_metrics entries ms). NM_Node m = NS_Node n \<longrightarrow> NM_Status m = 1"
  using assms(1)
proof (induction entries arbitrary: ms)
  case (Cons x entries)
  show ?case
  proof (cases "x = n")
    case True
    then show ?thesis using unready_metrics_keep [OF set_metric_sets] assms(2) by simp
  next
    case False
    with Cons show ?thesis by simp
  qed
qed simp

lemma final_status_metrics: "M_NodeStatus (snd (final_status entries ms)) = unready_metrics entries ms"
  by (simp add: final_status_def final_steps unready_metrics_def [symmetric])

lemma reported_gauge:
  assumes "node \<in> NM_Node ` set (M_NodeStatus met)"
    and "\<forall>m \<in> set (M_NodeStatus met). NM_Node m = node \<longrightarrow> NM_Status m = v"
  shows "gm_get (Ga_node_status (exporter_step met g)) node = Some v"
proof -
  let ?es = "filter (\<lambda>ele. NM_Node ele = node) (M_NodeStatus met)"
  obtain e es' where es: "?es = e # es'" using assms(1) by (cases ?es) (auto simp: filter_empty_conv)
  then have "last (e # es') \<in> set ?es" by (metis last_in_set list.distinct(1))
  then have "NM_Status (last (e # es')) = v" using assms(2) by auto
  then show ?thesis by (simp add: exporter_step_def node_gauges es del: last.simps)
qed

lemma unready_node_gauge:
  assumes "n \<in> set entries" "\<not> node_ready n" "NS_Node n \<in> NM_Node ` set ms"
  shows "gm_get (Ga_node_status (exporter_step (snd (final_status entries ms)\<lparr>M_Cluster := c\<rparr>) g)) (NS_Node n) = Some 1"
  using assms unready_metrics_set [OF assms(1,2), of ms]
  by (intro reported_gauge) (simp_all add: final_status_metrics unready_metrics_nodes)

section \<open>Prometheus objects\<close>

record ServiceMonitorSpec =
  SMS_Endpoints :: "(string \<times> string \<times> string) list"
  SMS_MatchNames :: "string list"
  SMS_MatchLabels :: "(string \<times> string) list"

record ServiceMonitor =
  SM_Name :: string
  SM_Namespace :: string
  SM_Labels :: "(string \<times> string) list"
  SM_OwnerReferences :: "OwnerReference list"
  SM_Spec :: ServiceMonitorSpec

text \<open>The groups of a rule are kept as the text they are decoded from.\<close>

record PrometheusRule =
  Rule_Name :: string
  Rule_Namespace :: string
  Rule_OwnerReferences :: "OwnerReference list"
  Rule_Spec :: string

record 'w monitoring_client =
  ServiceMonitors :: "('w, ServiceMonitor) resource_api"
  PrometheusRules :: "('w, PrometheusRule) resource_api"

definition sm_object :: "ServiceMonitor \<Rightarrow> kobject" where
  "sm_object sm = Named ''ServiceMonitor'' (SM_Name sm)"

definition rule_object :: "PrometheusRule \<Rightarrow> kobject" where
  "rule_object r = Named ''PrometheusRule'' (Rule_Name r)"

text \<open>Building the configuration and the client, reading a file and decoding it are parameters.\<close>

definition getMonitoringClient ::
    "go_error + 'c \<Rightarrow> ('c \<Rightarrow> go_error + 'w monitoring_client) \<Rightarrow> go_error + 'w monitoring_client" where
  "getMonitoringClient BuildConfig NewForConfig = (case BuildConfig of
       Inl e \<Rightarrow> Inl (errorf (''failed to build config. '' @ err_msg e))
     | Inr cfg \<Rightarrow> (case NewForConfig cfg of
         Inl e \<Rightarrow> Inl (errorf (''failed to get monitoring client. '' @ err_msg e))
       | Inr client \<Rightarrow> Inr client))"

definition GetServiceMonitor ::
    "(string \<Rightarrow> go_error + string) \<Rightarrow> (string \<Rightarrow> go_error + ServiceMonitor) \<Rightarrow> string \<Rightarrow> go_error + ServiceMonitor" where
  "GetServiceMonitor ReadFile Decode filePath = (case ReadFile filePath of
       Inl e \<Rightarrow> Inl (errorf (''servicemonitor file could not be fetched. '' @ err_msg e))
     | Inr file \<Rightarrow> (case Decode file of
         Inl e \<Rightarrow> Inl (errorf (''servicemonitor could not be decoded. '' @ err_msg e))
       | Inr sm \<Rightarrow> Inr sm))"

definition GetPrometheusRule ::
    "(string \<Rightarrow> go_error + string) \<Rightarrow> (string \<Rightarrow> go_error + PrometheusRule) \<Rightarrow> string \<Rightarrow> go_error + PrometheusRule" where
  "GetPrometheusRule ReadFile Decode ruleFilePath = (case ReadFile ruleFilePath of
       Inl e \<Rightarrow> Inl (errorf (''prometheusRules file could not be fetched. '' @ err_msg e))
     | Inr file \<Rightarrow> (case Decode file of
         Inl e \<Rightarrow> Inl (errorf (''prometheusRules could not be decoded. '' @ err_msg e))
       | Inr rule \<Rightarrow> Inr rule))"

text \<open>What \<open>getMonitoringClient\<close> gave is the sum: an error or the client.\<close>

definition CreateOrUpdateServiceMonitor ::
    "go_error + 'w monitoring_client \<Rightarrow> ServiceMonitor \<Rightarrow> ('w host, go_error option) go" where
  "CreateOrUpdateServiceMonitor mc def = (case mc of
       Inl e \<Rightarrow> go_return (Some (errorf (''failed to get monitoring client. '' @ err_msg e)))
     | Inr client \<Rightarrow>
         go_bind (api_get ''ServiceMonitor'' (ServiceMonitors client) (SM_Namespace def) (SM_Name def)) (\<lambda>r. case r of
           Inl e \<Rightarrow>
             if IsNotFound e then
               go_bind (api_create sm_object (ServiceMonitors client) (SM_Namespace def) def) (\<lambda>err.
                 go_return (map_option (\<lambda>e. errorf (''failed to create servicemonitor. '' @ err_msg e)) err))
             else go_return (Some (errorf (''failed to retrieve servicemonitor. '' @ err_msg e)))
         | Inr oldSm \<Rightarrow>
             go_bind (api_update sm_object (ServiceMonitors client) (SM_Namespace def) (oldSm\<lparr>SM_Spec := SM_Spec def\<rparr>)) (\<lambda>err.
               go_return (map_option (\<lambda>e. errorf (''failed to update servicemonitor. '' @ err_msg e)) err))))"

definition k8sutil_CreateOrUpdatePrometheusRule ::
    "go_error + 'w monitoring_client \<Rightarrow> PrometheusRule \<Rightarrow> ('w host, go_error option) go" where
  "k8sutil_CreateOrUpdatePrometheusRule mc rule = (case mc of
       Inl e \<Rightarrow> go_return (Some (errorf (''failed to get monitoring client. '' @ err_msg e)))
     | Inr client \<Rightarrow>
         go_bind (api_create rule_object (PrometheusRules client) (Rule_Namespace rule) rule) (\<lambda>err. case err of
           None \<Rightarrow> go_return None
         | Some e \<Rightarrow>
             if \<not> IsAlreadyExists e then go_return (Some (errorf (''failed to create prometheusRules. '' @ err_msg e)))
             else go_bind (api_get ''PrometheusRule'' (PrometheusRules client) (Rule_Namespace rule) (Rule_Name rule)) (\<lambda>r. case r of
               Inl e \<Rightarrow> go_return (Some (errorf (''failed to get prometheusRule object. '' @ err_msg e)))
             | Inr promRule \<Rightarrow>
                 go_bind (api_update rule_object (PrometheusRules client) (Rule_Namespace rule)
                     (promRule\<lparr>Rule_Spec := Rule_Spec rule\<rparr>)) (\<lambda>err.
                   go_return (map_option (\<lambda>e. errorf (''failed to update prometheusRule. '' @ err_msg e)) err)))))"

definition topolvm_service_monitor :: "string \<Rightarrow> OwnerReference \<Rightarrow> ServiceMonitor" where
  "topolvm_service_monitor ns ref = \<lparr>SM_Name = ''topolvm-service-monitor'', SM_Namespace = ns,
     SM_Labels = [(''prometheus'', ''kube-prometheus'')], SM_OwnerReferences = [ref],
     SM_Spec = \<lparr>SMS_Endpoints = [(''30s'', ''/metrics'', ''metrics'')], SMS_MatchNames = [ns],
       SMS_MatchLabels = [(''app.kubernetes.io/compose'', ''metrics'')]\<rparr>\<rparr>"

definition EnableServiceMonitor ::
    "go_error + 'w monitoring_client \<Rightarrow> string \<Rightarrow> OwnerReference \<Rightarrow> ('w host, go_error option) go" where
  "EnableServiceMonitor mc ns ref =
     go_bind (CreateOrUpdateServiceMonitor mc (topolvm_service_monitor ns ref)) (\<lambda>err.
       go_return (map_option (\<lambda>e. err_wrap e ''service monitor could not be enabled'') err))"

definition monitor_CreateOrUpdatePrometheusRule ::
    "go_error + 'w monitoring_client \<Rightarrow> go_error + PrometheusRule \<Rightarrow> string \<Rightarrow> OwnerReference \<Rightarrow>
     ('w host, go_error option) go" where
  "monitor_CreateOrUpdatePrometheusRule mc decoded ns ref = (case decoded of
       Inl e \<Rightarrow> go_return (Some (errorf (''prometheusRules could not be decoded. '' @ err_msg e)))
     | Inr rule \<Rightarrow> k8sutil_CreateOrUpdatePrometheusRule mc (rule\<lparr>Rule_OwnerReferences := [ref], Rule_Namespace := ns\<rparr>))"

section \<open>The checker's loop\<close>

text \<open>
  One check, then one for every tick of the timer until the channel is closed; the metrics sent, in
  order.  \<open>ticks\<close> is the number of ticks before the channel is closed.
\<close>

definition check_and_send ::
    "'w executor \<Rightarrow> 'w clientset \<Rightarrow> string \<Rightarrow> string \<Rightarrow> string \<Rightarrow> Metrics list \<Rightarrow> ('w host, Metrics list) go" where
  "check_and_send E K operatorNs ns name sent =
     go_bind (checkStatus E K operatorNs ns name) (\<lambda>met. go_return (sent @ (case met of None \<Rightarrow> [] | Some m \<Rightarrow> [m])))"

definition checker_tick ::
    "'w executor \<Rightarrow> 'w clientset \<Rightarrow> go_error + 'w monitoring_client \<Rightarrow> go_error + PrometheusRule \<Rightarrow> string \<Rightarrow> string \<Rightarrow>
     string \<Rightarrow> OwnerReference \<Rightarrow> Metrics list \<Rightarrow> ('w host, Metrics list) go" where
  "checker_tick E K mc decoded operatorNs ns name ref sent =
     go_bind (check_and_send E K operatorNs ns name sent) (\<lambda>sent1.
     go_bind (EnableServiceMonitor mc operatorNs ref) (\<lambda>_.
     go_bind (monitor_CreateOrUpdatePrometheusRule mc decoded operatorNs ref) (\<lambda>_. go_return sent1)))"

definition CheckClusterStatus ::
    "'w executor \<Rightarrow> 'w clientset \<Rightarrow> go_error + 'w monitoring_client \<Rightarrow> go_error + PrometheusRule \<Rightarrow> string \<Rightarrow> string \<Rightarrow>
     string \<Rightarrow> OwnerReference \<Rightarrow> nat \<Rightarrow> ('w host, Metrics list) go" where
  "CheckClusterStatus E K mc decoded operatorNs ns name ref ticks =
     go_bind (check_and_send E K operatorNs ns name [])
       (go_fold (\<lambda>_. checker_tick E K mc decoded operatorNs ns name ref) [0..<ticks])"

text \<open>An existing service monitor keeps everything but its specification.\<close>

lemma EnableServiceMonitor_updates:
  assumes "ra_get (ServiceMonitors client) ns ''topolvm-service-monitor'' (world s) = (Inr old, w)"
    and "ra_update (ServiceMonitors client) ns (old\<lparr>SM_Spec := SM_Spec (topolvm_service_monitor ns ref)\<rparr>) w = (None, w')"
  shows "wp (EnableServiceMonitor (Inr client) ns ref) (\<lambda>r t. r = None \<and> world t = w') (\<lambda>_ _. False) s"
  using assms by (simp add: EnableServiceMonitor_def CreateOrUpdateServiceMonitor_def topolvm_service_monitor_def wpg)

end
