(* ===== verification/OperatorConfig.thy ===== *)
theory OperatorConfig
  imports Workloads
begin

text \<open>
  \<open>controllers/operatorconfig_controller.go\<close>: the operator's settings in a config map of that
  name, the kubelet path of the node deployments and the discovery daemon set.
  Proved: which events of config maps lead to a request, and that a missing config map leaves
  the settings of the last one in force.
\<close>

definition OperatorSettingConfigMapName :: string where
  "OperatorSettingConfigMapName = ''topolvm-operator-setting''"
definition KubeletRootPathEnv :: string where "KubeletRootPathEnv = ''KUBELET_ROOT_DIR''"
definition DiscoverDevicesEnv :: string where "DiscoverDevicesEnv = ''ENABLE_DISCOVER_DEVICES''"

record OperatorConfig =
  OC_Parameters :: "string gomap"
  OC_Image :: string

text \<open>The events of the watch; the objects of other kinds do not pass the filter.\<close>

datatype cm_event =
    CreateEvent ConfigMap
  | UpdateEvent ConfigMap ConfigMap
  | DeleteEvent ConfigMap
  | GenericEvent

fun predicateController :: "cm_event \<Rightarrow> bool" where
  "predicateController (CreateEvent cm) = (CM_Name cm = OperatorSettingConfigMapName)"
| "predicateController (UpdateEvent old new) =
     (CM_Name old = OperatorSettingConfigMapName \<and> CM_Name new = OperatorSettingConfigMapName)"
| "predicateController (DeleteEvent cm) = False"
| "predicateController GenericEvent = False"

definition updateCsiDriver :: "'w clientset \<Rightarrow> globals \<Rightarrow> OperatorConfig \<Rightarrow> ('w host, go_error option) go" where
  "updateCsiDriver K G c =
     (let kubeletRootDir = GetValue K (OC_Parameters c) KubeletRootPathEnv (G_CSIKubeletRootDir G)
      in if kubeletRootDir \<noteq> G_CSIKubeletRootDir G
         then UpdateNodeDeploymentCSIKubeletRootPath K G kubeletRootDir
         else go_return None)"

definition starDiscoverDaemonset :: "'w clientset \<Rightarrow> globals \<Rightarrow> OperatorConfig \<Rightarrow> ('w host, go_error option) go" where
  "starDiscoverDaemonset K G c =
     (if GetValue K (OC_Parameters c) DiscoverDevicesEnv (G_EnableDiscoverDevices G) = ''true''
      then MakeDiscoverDevicesDaemonset K G DiscoverAppName (OC_Image c) False
      else go_return None)"

text \<open>The error, whether the request is retried at once, and the settings now in force.\<close>

definition config_reconcile ::
    "'w clientset \<Rightarrow> globals \<Rightarrow> string \<Rightarrow> string \<Rightarrow> OperatorConfig \<Rightarrow>
     ('w host, go_error option \<times> bool \<times> OperatorConfig) go" where
  "config_reconcile K G ns name c0 =
     go_bind (cm_get K ns name) (\<lambda>r.
       case (case r of
           Inl e \<Rightarrow> if IsNotFound e then Inr c0 else Inl (err_wrap e (''failed to get operator'' @ [CHR 0x27] @ ''s configmap''))
         | Inr cm \<Rightarrow> Inr (c0\<lparr>OC_Parameters := cm_data cm\<rparr>)) of
         Inl e \<Rightarrow> go_return (Some e, True, c0)
       | Inr c \<Rightarrow>
           go_bind (updateCsiDriver K G c) (\<lambda>err. case err of
             Some e \<Rightarrow> go_return (Some e, True, c)
           | None \<Rightarrow>
               go_bind (starDiscoverDaemonset K G c) (\<lambda>err. case err of
                 Some e \<Rightarrow> go_return (Some e, True, c)
               | None \<Rightarrow> go_return (None, False, c))))"

text \<open>A setting of the config map wins over the environment, that over the default.\<close>

lemma GetValue_cases:
  "gm_get d n = Some v \<Longrightarrow> GetValue K d n dflt = v"
  "gm_get d n = None \<Longrightarrow> LookupEnv K n = Some v \<Longrightarrow> GetValue K d n dflt = v"
  "gm_get d n = None \<Longrightarrow> LookupEnv K n = None \<Longrightarrow> GetValue K d n dflt = dflt"
  by (simp_all add: GetValue_def)

lemma config_reconcile_missing:
  assumes "ra_get (ConfigMaps K) ns name (world s) = (Inl e, w)" "IsNotFound e"
  shows "wp (config_reconcile K G ns name c) (\<lambda>(err, again, c') t. c' = c \<and> (again \<longleftrightarrow> err \<noteq> None)) (\<lambda>_ _. True) s"
  using assms by (auto simp: config_reconcile_def cm_get_def wpg intro!: wp_any split: option.splits)

text \<open>With the settings at their defaults the controller only reads.\<close>

lemma config_reconcile_defaults:
  assumes "ra_get (ConfigMaps K) ns name (world s) = (Inr cm, w)"
    and "GetValue K (cm_data cm) KubeletRootPathEnv (G_CSIKubeletRootDir G) = G_CSIKubeletRootDir G"
    and "GetValue K (cm_data cm) DiscoverDevicesEnv (G_EnableDiscoverDevices G) \<noteq> ''true''"
  shows "wp (config_reconcile K G ns name c)
    (\<lambda>(err, again, c') t. err = None \<and> \<not> again \<and> OC_Parameters c' = cm_data cm \<and> grown is_read s t) (\<lambda>_ _. False) s"
  using assms
  by (auto simp: config_reconcile_def cm_get_def wpg updateCsiDriver_def starDiscoverDaemonset_def Let_def grown_def)

end
