(* ===== verification/Scenarios.thy ===== *)
theory Scenarios
  imports Settled CommandExec DiscoverDaemon ReconcilerFacts LvmdConfig Metering Owners OperatorConfig
begin

text \<open>
  Concrete surroundings in which the properties are applied: a node whose commands all succeed and
  print what a script says, API servers that hold one object of a kind or none, and a few objects.
  Nothing here is part of the model.
\<close>

definition start :: "unit host" where
  "start = \<lparr>world = (), trace = []\<rparr>"

definition scripted :: "(string \<Rightarrow> string list \<Rightarrow> string) \<Rightarrow> 'w executor" where
  "scripted out = \<lparr>
     ExecuteCommand = (\<lambda>cmd args w. (None, w)),
     ExecuteCommandWithOutput = (\<lambda>cmd args w. ((out cmd args, None), w)),
     ExecuteCommandWithEnv = (\<lambda>env cmd args w. (None, w)),
     ExecuteCommandWithCombinedOutput = (\<lambda>cmd args w. ((out cmd args, None), w)),
     ExecuteCommandWithOutputFile = (\<lambda>cmd fileArg args w. ((out cmd args, None), w)),
     ExecuteCommandWithOutputFileTimeout = (\<lambda>timeout cmd fileArg args w. ((out cmd args, None), w)),
     ExecuteCommandWithTimeout = (\<lambda>timeout cmd args w. ((out cmd args, None), w)),
     LookPath = (\<lambda>p w. False), UuidParse = (\<lambda>s. None), UuidNew = (\<lambda>w. (''uuid'', w)),
     MapRank = (\<lambda>w. (\<lambda>_. 0, w))\<rparr>"

text \<open>A node on which every command that changes something fails.\<close>

definition broken :: "(string \<Rightarrow> string list \<Rightarrow> string) \<Rightarrow> 'w executor" where
  "broken out = (scripted out)\<lparr>ExecuteCommand := (\<lambda>cmd args w. (Some (GoError (ErrExit 5) ''exit status 5''), w))\<rparr>"

definition missing :: go_error where
  "missing = GoError ErrNotFound ''not found''"

definition holding :: "'o list \<Rightarrow> ('w, 'o) resource_api" where
  "holding objs = \<lparr>
     ra_get = (\<lambda>ns n w. (case objs of [] \<Rightarrow> Inl missing | ob # _ \<Rightarrow> Inr ob, w)),
     ra_list = (\<lambda>ns sel w. (Inr objs, w)),
     ra_create = (\<lambda>ns ob w. (None, w)), ra_update = (\<lambda>ns ob w. (None, w)),
     ra_update_status = (\<lambda>ns ob w. (None, w)), ra_patch = (\<lambda>ns n p w. (None, w)),
     ra_delete = (\<lambda>ns n w. (case objs of [] \<Rightarrow> Some missing | _ \<Rightarrow> None, w))\<rparr>"

definition empty_cluster :: "'w clientset" where
  "empty_cluster = \<lparr>ConfigMaps = holding [], Deployments = holding [], DaemonSets = holding [], Nodes = holding [],
     Pods = holding [], Jobs = holding [], Clusters = holding [], CSIDrivers = holding [],
     PodSecurityPolicies = holding [], Secrets = holding [],
     cm_merge_patch = (\<lambda>old new. Inr ''patch''), node_merge_patch = (\<lambda>old new. Inr ''patch''),
     workload_patch_empty = (\<lambda>old new. Inr False), ServerVersion = (\<lambda>w. (Inr (''1'', ''22''), w)),
     LookupEnv = (\<lambda>_. None), Sha256 = (\<lambda>s. [])\<rparr>"

lemma holding_sel [simp]:
  "ra_get (holding [ob]) ns n w = (Inr ob, w)" "ra_get (holding []) ns n w = (Inl missing, w)"
  "ra_list (holding obs) ns sel w = (Inr obs, w)" "ra_create (holding obs) ns ob w = (None, w)"
  "ra_update (holding obs) ns ob w = (None, w)" "ra_update_status (holding obs) ns ob w = (None, w)"
  "ra_patch (holding obs) ns n p w = (None, w)" "ra_delete (holding [ob]) ns n w = (None, w)"
  by (simp_all add: holding_def)

lemma scripted_sel [simp]:
  "ExecuteCommand (scripted out) cmd args w = (None, w)"
  "ExecuteCommandWithOutput (scripted out) cmd args w = ((out cmd args, None), w)"
  "MapRank (scripted out) w = (\<lambda>_. 0, w)" "UuidNew (scripted out) w = (''uuid'', w)"
  "ExecuteCommand (broken out) cmd args w = (Some (GoError (ErrExit 5) ''exit status 5''), w)"
  "ExecuteCommandWithOutput (broken out) cmd args w = ((out cmd args, None), w)"
  by (simp_all add: scripted_def broken_def)

lemma empty_cluster_sel [simp]:
  "ConfigMaps empty_cluster = holding []" "Nodes empty_cluster = holding []" "Pods empty_cluster = holding []"
  "Clusters empty_cluster = holding []" "Deployments empty_cluster = holding []" "Jobs empty_cluster = holding []"
  "cm_merge_patch empty_cluster old new = Inr ''patch''" "node_merge_patch empty_cluster n n' = Inr ''patch''"
  "LookupEnv empty_cluster v = None" "CSIDrivers empty_cluster = holding []"
  "DaemonSets empty_cluster = holding []"
  by (simp_all add: empty_cluster_def)

definition node_cm :: "string gomap \<Rightarrow> ConfigMap" where
  "node_cm d = \<lparr>CM_Name = ''lvmdconfig-n1'', CM_Namespace = ''ns'', CM_Labels = [],
     CM_Annotations = [(LvmdAnnotationsNodeKey, ''n1'')], CM_OwnerReferences = [], CM_Data = Some d\<rparr>"

definition some_storage :: Storage where
  "some_storage = \<lparr>St_DeviceClasses = Some [], St_UseAllNodes = False, St_UseAllDevices = False, St_Devices = None,
     St_VolumeGroupName = [], St_ClassName = [], St_UseLoop = False\<rparr>"

definition some_cluster :: "string \<Rightarrow> nat \<Rightarrow> TopolvmCluster" where
  "some_cluster name created = \<lparr>TC_Name = name, TC_CreationTimestamp = created, TC_Deleted = False, TC_Finalizers = [],
     TC_Spec = \<lparr>Spec_TopolvmVersion = ''img:2'', Spec_CertsSecret = [], Spec_Storage = some_storage\<rparr>,
     TC_Status = \<lparr>Status_Phase = [], Status_NodeStorageStatus = []\<rparr>\<rparr>"

definition some_globals :: globals where
  "some_globals = \<lparr>G_TopolvmImage = ''img:2'', G_CertsSecret = [], G_NameSpace = ''ns'', G_ClusterName = ''c1'',
     G_CSIKubeletRootDir = ''/var/lib/kubelet/'', G_IsOperatorHub = False, G_EnableDiscoverDevices = ''false''\<rparr>"

definition some_ref :: OwnerReference where
  "some_ref = \<lparr>OR_APIVersion = ''topolvm.cybozu.com/v2'', OR_Kind = ''TopolvmCluster'', OR_Name = ''c1'',
     OR_UID = ''u1'', OR_Controller = Some True, OR_BlockOwnerDeletion = Some True\<rparr>"

definition some_disk :: "string \<Rightarrow> Disk" where
  "some_disk n = zero_Disk\<lparr>Disk_Name := n\<rparr>"

definition some_class :: "string \<Rightarrow> string \<Rightarrow> string list \<Rightarrow> DeviceClass" where
  "some_class name vg disks = zero_DeviceClass\<lparr>DC_ClassName := name, DC_VgName := vg, DC_Device := map some_disk disks\<rparr>"

definition class_state :: "string \<Rightarrow> string \<Rightarrow> ClassState" where
  "class_state name vg = zero_ClassState\<lparr>CS_Name := name, CS_VgName := vg, CS_State := ClassReady\<rparr>"

definition some_controller :: cm_controller where
  "some_controller = \<lparr>CC_namespace = ''ns'', CC_ref = some_ref,
     CC_reconciler = (reconciler_init some_globals ''img:2'')\<lparr>R_namespacedName := Some (''ns'', ''c1'')\<rparr>\<rparr>"

text \<open>A stand-in for YAML that reads every text as one class and prints the names of the classes.\<close>

definition lvmd_class :: "string \<Rightarrow> LvmdDeviceClass" where
  "lvmd_class n = \<lparr>LC_Name = n, LC_VolumeGroup = [], LC_SpareGb = 0, LC_Default = False, LC_Stripe = 0,
     LC_StripeSize = []\<rparr>"

definition names_yaml :: yaml_lib where
  "names_yaml = \<lparr>yaml_class = (\<lambda>c. Inr (DC_ClassName c)), unyaml_class = (\<lambda>s. Inr (lvmd_class s)),
     yaml_conf = (\<lambda>c. Inr (concat (map LC_Name (LConf_DeviceClasses c)))),
     unyaml_conf = (\<lambda>s. Inr \<lparr>LConf_SocketName = [], LConf_DeviceClasses = [lvmd_class s]\<rparr>)\<rparr>"

lemma some_sel [simp]:
  "CM_Name (node_cm d) = ''lvmdconfig-n1''" "CM_Data (node_cm d) = Some d" "cm_data (node_cm d) = d"
  "Disk_Name (some_disk n) = n" "Disk_Type (some_disk n) = []" "\<not> auto_loop (some_disk n)"
  "DC_VgName (some_class c vg ds) = vg" "DC_ClassName (some_class c vg ds) = c"
  "DC_Device (some_class c vg ds) = map some_disk ds" "DC_Default (some_class c vg ds) = False"
  "CS_VgName (class_state c vg) = vg" "CS_Name (class_state c vg) = c"
  by (simp_all add: node_cm_def cm_data_def some_disk_def some_class_def class_state_def zero_defs auto_loop_def Loop_def)

end
