(* ===== verification/NodeProperties.thy ===== *)
theory NodeProperties
  imports Scenarios
begin

text \<open>
  The properties of the code that runs on the storage nodes: LVM, device discovery, the job that
  prepares the volume groups, and the discovery daemon.  Each is applied once to concrete
  surroundings, in the theorem after it.
\<close>

section \<open>LVM\<close>

text \<open>C7: \<open>RemoveVolumeGroup\<close> does nothing but report unless the group was found free of logical
  volumes, and then it does not claim success; where it succeeds, it removed the group first and
  then the label of each of the group's physical volumes, each volume once.\<close>

theorem RemoveVolumeGroup_safe:
  "(fst (CheckVgHasLogicalVolume E vg s) \<noteq> Ret (Inr False) \<longrightarrow>
      grown lvm_query s (snd (RemoveVolumeGroup E vg s)) \<and> fst (RemoveVolumeGroup E vg s) \<noteq> Ret None) \<and>
   (fst (RemoveVolumeGroup E vg s) = Ret None \<longrightarrow>
      (\<exists>s1 s2 pvs ks. CheckVgHasLogicalVolume E vg s = (Ret (Inr False), s1) \<and>
         GetPhysicalVolume E vg s1 = (Ret (Inr pvs), s2) \<and> set ks = set (gm_keys pvs) \<and> length ks = length pvs \<and>
         trace (snd (RemoveVolumeGroup E vg s)) =
           trace s2 @ [lvm_ev [''vgremove'', vg]] @ map (\<lambda>k. lvm_ev [''pvremove'', k]) ks))"
  using RemoveVolumeGroup_guarded [of E vg s] RemoveVolumeGroup_success [of E vg s "snd (RemoveVolumeGroup E vg s)"]
  by (cases "RemoveVolumeGroup E vg s") auto

text \<open>A group that still has a logical volume.\<close>

definition vg_in_use :: "string \<Rightarrow> string list \<Rightarrow> string" where
  "vg_in_use cmd args = ''  LVM2_LV_NAME='' @ [CHR 0x27] @ ''lv1'' @ [CHR 0x27]"

lemma vg_in_use_check: "fst (CheckVgHasLogicalVolume (scripted vg_in_use) ''vg1'' start) \<noteq> Ret (Inr False)"
proof -
  have "parseLines (vg_in_use cmd args) = Ret [[(''lv_name'', ''lv1'')]]" for cmd args
    unfolding vg_in_use_def by code_simp
  then have "fst (CheckVgHasLogicalVolume (scripted vg_in_use) ''vg1'' start) = Ret (Inr True)"
    by (simp add: CheckVgHasLogicalVolume_def parseOutput_def wrapExecCommandWithOutput_def run_out_def
        go_bind_def go_return_def go_lift_def gm_get_default_def gm_get_def)
  then show ?thesis by simp
qed

theorem RemoveVolumeGroup_safe_applied:
  "fst (RemoveVolumeGroup (scripted vg_in_use) ''vg1'' start) \<noteq> Ret None"
  using RemoveVolumeGroup_safe [of "scripted vg_in_use" "''vg1''" start] vg_in_use_check by blast

text \<open>C8: \<open>ShrinkVolumeGroup\<close> reduces the group only after each volume to be removed was checked and
  found free; if a check fails or finds a logical volume, nothing but the checks ran.  Where it
  succeeds, the checks are followed by exactly one \<open>vgreduce\<close> and one \<open>pvremove\<close> of those volumes.\<close>

theorem ShrinkVolumeGroup_safe:
  "(fst (check_pvs_free E pvs s) \<noteq> Ret None \<longrightarrow>
      grown lvm_query s (snd (ShrinkVolumeGroup E vg pvs s)) \<and> fst (ShrinkVolumeGroup E vg pvs s) \<noteq> Ret None) \<and>
   (fst (ShrinkVolumeGroup E vg pvs s) = Ret None \<longrightarrow>
      (\<forall>pv \<in> set pvs. \<exists>s1 s2. CheckPVHasLogicalVolume E pv s1 = (Ret (Inr False), s2)) \<and>
      (\<exists>s1. check_pvs_free E pvs s = (Ret None, s1) \<and> grown lvm_query s s1 \<and>
         trace (snd (ShrinkVolumeGroup E vg pvs s)) =
           trace s1 @ [lvm_ev ([''vgreduce'', vg] @ pvs), lvm_ev ([''pvremove''] @ pvs)]))"
  using ShrinkVolumeGroup_guarded [of E pvs s vg] ShrinkVolumeGroup_success [of E vg pvs s]
  by (cases "check_pvs_free E pvs s") (auto dest: check_pvs_free_None)

theorem ShrinkVolumeGroup_safe_applied:
  "\<exists>t. check_pvs_free (scripted (\<lambda>_ _. [])) [''/dev/sdb''] start = (Ret None, t) \<and>
     trace (snd (ShrinkVolumeGroup (scripted (\<lambda>_ _. [])) ''vg1'' [''/dev/sdb''] start)) =
       trace t @ [lvm_ev [''vgreduce'', ''vg1'', ''/dev/sdb''], lvm_ev [''pvremove'', ''/dev/sdb'']]"
proof -
  have "parseLines [] = Ret []" by code_simp
  then have "fst (ShrinkVolumeGroup (scripted (\<lambda>_ _. [])) ''vg1'' [''/dev/sdb''] start) = Ret None"
    by (simp add: ShrinkVolumeGroup_def check_pvs_free_def CheckPVHasLogicalVolume_def parseOutput_def
        wrapExecCommandWithOutput_def wrapExecCommand_def run_out_def run_cmd_def go_bind_def go_return_def go_lift_def)
  then show ?thesis
    using ShrinkVolumeGroup_safe [of "scripted (\<lambda>_ _. [])" "[''/dev/sdb'']" start "''vg1''"] by auto
qed


text \<open>C24: What LVM prints with \<open>--nameprefixes\<close>, one line of fields per object, is read back by
  \<open>parseLines\<close> as one map per line, with the field names in lower case, whatever the fields are
  called and hold as long as they contain no separator.\<close>

theorem parseLines_reads_back:
  assumes "rows \<noteq> []" and "\<forall>kvs \<in> set rows. kvs \<noteq> [] \<and> (\<forall>kv \<in> set kvs. plain_field kv)"
  shows "parseLines (join_with [CHR 0x0A] (map render_line rows)) =
    Ret (map (\<lambda>kvs. gm_build (to_lower \<circ> fst) snd kvs []) rows)"
  using assms by (rule parseLines_render)

theorem parseLines_reads_back_applied:
  "parseLines (join_with [CHR 0x0A] (map render_line
       [[(''PV_NAME'', ''/dev/sdb''), (''PV_FREE'', ''0'')], [(''PV_NAME'', ''/dev/sdc'')]])) =
     Ret [[(''pv_name'', ''/dev/sdb''), (''pv_free'', ''0'')], [(''pv_name'', ''/dev/sdc'')]]"
proof -
  have "map (\<lambda>kvs. gm_build (to_lower \<circ> fst) snd kvs [])
      [[(''PV_NAME'', ''/dev/sdb''), (''PV_FREE'', ''0'')], [(''PV_NAME'', ''/dev/sdc'')]] =
      [[(''pv_name'', ''/dev/sdb''), (''pv_free'', ''0'')], [(''pv_name'', ''/dev/sdc'')]]"
    by code_simp
  moreover have "parseLines (join_with [CHR 0x0A] (map render_line
       [[(''PV_NAME'', ''/dev/sdb''), (''PV_FREE'', ''0'')], [(''PV_NAME'', ''/dev/sdc'')]])) =
      Ret (map (\<lambda>kvs. gm_build (to_lower \<circ> fst) snd kvs [])
        [[(''PV_NAME'', ''/dev/sdb''), (''PV_FREE'', ''0'')], [(''PV_NAME'', ''/dev/sdc'')]])"
    by (rule parseLines_reads_back) (simp_all add: plain_field_def)
  ultimately show ?thesis by simp
qed

text \<open>C40: \<open>parseLines\<close> panics on exactly the outputs that contain a word without an equals sign or with
  a key shorter than the prefix it cuts off; on every other output it returns.\<close>

theorem parseLines_panics_iff:
  "(\<exists>e. parseLines out = Panic e) \<longleftrightarrow>
   (\<exists>line \<in> set (split_on (CHR 0x0A) out). \<exists>t \<in> set (split_on (CHR '' '') (trim_space line)).
      t \<noteq> [] \<and> \<not> (CHR ''='' \<in> set t \<and> 5 \<le> length (hd (split_on (CHR ''='') t))))"
  by (simp add: parseLines_def parse_each_line_panics not_le disj_commute)

section \<open>Devices\<close>

text \<open>C35: \<open>GetDevicePartitions\<close> returns the partitions of the listed lines in their order, each with the
  size its line gives, and as unused space the size of the device less the sum of the sizes,
  computed modulo \<open>2^64\<close>, or 0 when the device has no line.\<close>

theorem GetDevicePartitions_sums:
  assumes "ExecuteCommandWithOutput E ''lsblk''
      [device_path device, ''--bytes'', ''--pairs'', ''--output'', ''NAME,SIZE,TYPE,PKNAME''] (world s) = ((out, None), w)"
    and "ls = split_on (CHR 0x0A) out" and "GetDevicePartitions E device s = (Ret (Inr (ps, unused)), t)"
  shows "map Part_Name ps = map (line_prop ''NAME'') (filter (is_partition_line device) ls) \<and>
    map Part_Size ps = map line_size (filter (is_partition_line device) ls) \<and>
    unused = (if device_size device ls > 0 then device_size device ls - sum_list (map Part_Size ps) else 0)"
  using wp_retD [OF GetDevicePartitions_result [OF assms(1)] assms(3)] assms(2) by (auto simp: unused_space_def)

text \<open>
  A device of 100 bytes for which a partition of 160 is listed: the unused space wraps around.
\<close>

definition disk_line :: string where
  "disk_line = join_with '' '' (map render_pair
     [(''NAME'', ''sda''), (''SIZE'', ''100''), (''TYPE'', ''disk''), (''PKNAME'', [])])"

definition part_line :: string where
  "part_line = join_with '' '' (map render_pair
     [(''NAME'', ''sda1''), (''SIZE'', ''160''), (''TYPE'', ''part''), (''PKNAME'', ''sda'')])"

definition one_partition :: "string \<Rightarrow> string list \<Rightarrow> string" where
  "one_partition cmd args = (if cmd = ''lsblk'' then disk_line @ [CHR 0x0A] @ part_line else [])"

lemma one_partition_lines:
  "split_on (CHR 0x0A) (disk_line @ [CHR 0x0A] @ part_line) = [disk_line, part_line]"
  "parseKeyValuePairString disk_line = [(''NAME'', ''sda''), (''SIZE'', ''100''), (''TYPE'', ''disk''), (''PKNAME'', [])]"
  "parseKeyValuePairString part_line = [(''NAME'', ''sda1''), (''SIZE'', ''160''), (''TYPE'', ''part''), (''PKNAME'', ''sda'')]"
  "parseUdevInfo [] = []"
  by code_simp+

lemma one_partition_run:
  "GetDevicePartitions (scripted one_partition) ''sda'' start =
     (Ret (Inr ([\<lparr>Part_Name = ''sda1'', Part_Size = 160, Part_Label = [], Part_Filesystem = []\<rparr>], -60)),
      snd (GetDevicePartitions (scripted one_partition) ''sda'' start))"
proof -
  have sizes: "ParseUint ''100'' = Inr 100" "ParseUint ''160'' = Inr 160" by (simp_all add: ParseUint_def digit_of_def)
  show ?thesis
    by (simp add: GetDevicePartitions_def run_out_def go_bind_def go_return_def one_partition_def [of "''lsblk''"]
        one_partition_lines [simplified] partition_step_def gm_get_default_def gm_get_def sizes GetUdevInfo_def
        PartType_def one_partition_def [of "''udevadm''"] Let_def del: split_on.simps)
qed

theorem GetDevicePartitions_sums_applied:
  "map line_size (filter (is_partition_line ''sda'') [disk_line, part_line]) = [160] \<and>
   device_size ''sda'' [disk_line, part_line] - 160 = 18446744073709551556"
proof -
  have "ExecuteCommandWithOutput (scripted one_partition) ''lsblk'' a w =
      ((disk_line @ [CHR 0x0A] @ part_line, None), w)" for a w
    by (simp add: one_partition_def)
  from GetDevicePartitions_sums [OF this refl one_partition_run, unfolded one_partition_lines(1)] show ?thesis
    by (auto split: if_splits)
qed

text \<open>A node with one free disk of 3000000000 bytes.\<close>

definition sdb_line :: string where
  "sdb_line = join_with '' '' (map render_pair
     [(''SIZE'', ''3000000000''), (''TYPE'', ''disk''), (''NAME'', ''/dev/sdb''), (''KNAME'', ''/dev/sdb''), (''MOUNTPOINT'', [])])"

definition one_disk :: "string \<Rightarrow> string list \<Rightarrow> string" where
  "one_disk cmd args = (if cmd = ''lsblk'' then
     if hd args = ''--all'' then ''sdb'' else if hd args = ''/dev/sdb'' then sdb_line else ''child'' else [])"

definition sdb :: LocalDisk where
  "sdb = zero_LocalDisk\<lparr>LD_Name := ''sdb'', LD_UUID := ''sgdiskNotFound'', LD_Type := ''disk'', LD_Size := 3000000000,
     LD_RealPath := ''/dev/sdb'', LD_KernelName := ''sdb''\<rparr>"

lemma one_disk_facts:
  "split_on (CHR 0x0A) ''sdb'' = [''sdb'']" "split_on (CHR 0x0A) ''child'' = [''child'']"
  "device_path ''sdb'' = ''/dev/sdb''" "path_base ''/dev/sdb'' = ''sdb''"
  "parseKeyValuePairString sdb_line = [(''SIZE'', ''3000000000''), (''TYPE'', ''disk''), (''NAME'', ''/dev/sdb''),
     (''KNAME'', ''/dev/sdb''), (''MOUNTPOINT'', [])]"
  "parseUdevInfo [] = []" "LookPath (scripted out) p w = False"
  by (code_simp | simp add: scripted_def)+

lemma one_disk_run: "fst (DiscoverDevices (scripted one_disk) lp s) = Ret (Inr [sdb])"
proof -
  have sz: "ParseUint ''3000000000'' = Inr 3000000000" by (simp add: ParseUint_def digit_of_def)
  have disk: "disk_with_udev [] (disk_of_props ''sdb'' ''sgdiskNotFound'' [(''SIZE'', ''3000000000''), (''TYPE'', ''disk''),
      (''NAME'', ''/dev/sdb''), (''KNAME'', ''/dev/sdb''), (''MOUNTPOINT'', [])]) = sdb"
    by (simp add: disk_with_udev_def udev_field_def disk_of_props_def one_disk_facts gm_get_default_def gm_get_def sz
        sdb_def zero_LocalDisk_def)
  have type: "supportedDeviceType ''disk''" "''disk'' \<noteq> PartType" "LD_Type sdb = DiskType"
    by (simp_all add: supportedDeviceType_def DiskType_def PartType_def sdb_def zero_LocalDisk_def)
  show ?thesis
    by (simp add: DiscoverDevices_def ListDevices_def run_out_def go_bind_def go_return_def one_disk_def
        one_disk_facts gm_get_def discover_step_def populateDeviceInfo_def GetDeviceProperties_def
        GetDevicePropertiesFromPath_def GetDiskUUID_def look_path_def populateDeviceUdevInfo_def GetUdevInfo_def
        ListDevicesChild_def disk type del: split_on.simps disk_with_udev_keeps)
qed

text \<open>C13: Whatever the node answers, every device that \<open>GetAvailableDevices\<close> offers stands under its path
  below \<open>/dev\<close>, has a supported type and at least 2 GiB, and carries no file system and no mount
  point.\<close>

theorem GetAvailableDevices_offers:
  assumes "GetAvailableDevices E s = (Ret (Inr m), t)" and "gm_get m k = Some disk"
  shows "k = ''/dev/'' @ LD_Name disk \<and> supportedDeviceType (LD_Type disk) \<and> 2147483648 \<le> unat (LD_Size disk) \<and>
    LD_Filesystem disk = [] \<and> LD_MountPoint disk = []"
  using wp_retD [OF GetAvailableDevices_ok assms(1)] assms(2) by (auto simp: offered_def)

lemma one_disk_available:
  "GetAvailableDevices (scripted one_disk) start =
     (Ret (Inr [(''/dev/sdb'', sdb)]), snd (GetAvailableDevices (scripted one_disk) start))"
proof -
  obtain t where "DiscoverDevices (scripted one_disk) False start = (Ret (Inr [sdb]), t)"
    using one_disk_run [of False start] by (cases "DiscoverDevices (scripted one_disk) False start") auto
  moreover have "usable_device sdb" by (simp add: usable_device_def min_device_size_def sdb_def zero_LocalDisk_def)
  moreover have "LD_Name sdb = ''sdb''" by (simp add: sdb_def zero_LocalDisk_def)
  ultimately show ?thesis
    by (simp add: GetAvailableDevices_def go_bind_def go_return_def gm_build_def gm_put_def diskPrefix_def)
qed

theorem GetAvailableDevices_offers_applied:
  "supportedDeviceType (LD_Type sdb) \<and> 2147483648 \<le> unat (LD_Size sdb)"
  using GetAvailableDevices_offers [OF one_disk_available, of "''/dev/sdb''" sdb] by (simp add: gm_get_def)

text \<open>C26: \<open>GetAllDevices\<close> never panics after a discovery that found the disks; it reports each of them
  once and in order, offers only those that \<open>GetAvailableDevices\<close> would accept, offers all of
  those that are not whole disks, and gives a reason exactly for those it does not offer.\<close>

theorem GetAllDevices_reports:
  assumes "DiscoverDevices E True s = (Ret (Inr disks), s1)" and "GetAllDevices E s = (r, t)"
  shows "\<exists>infos. r = Ret (Inr infos) \<and> map LDI_LocalDisk infos = disks \<and>
    (\<forall>i \<in> set infos. (LDI_Available i \<longrightarrow> usable_device (LDI_LocalDisk i)) \<and>
       (usable_device (LDI_LocalDisk i) \<longrightarrow> LD_Type (LDI_LocalDisk i) \<noteq> DiskType \<longrightarrow> LDI_Available i) \<and>
       (LDI_Available i \<longleftrightarrow> LDI_Message i = []))"
  by (rule wp_ok [OF GetAllDevices_ok [OF assms(1)] assms(2)])

theorem GetAllDevices_reports_applied:
  "\<exists>infos. fst (GetAllDevices (scripted one_disk) start) = Ret (Inr infos) \<and> map LDI_LocalDisk infos = [sdb]"
proof -
  obtain t where "DiscoverDevices (scripted one_disk) True start = (Ret (Inr [sdb]), t)"
    using one_disk_run [of True start] by (cases "DiscoverDevices (scripted one_disk) True start") auto
  from GetAllDevices_reports [OF this prod.collapse [symmetric]] show ?thesis by (elim exE conjE) (intro exI conjI)
qed

end
