(* ===== verification/ProvisionProperties.thy ===== *)
theory ProvisionProperties
  imports Scenarios
begin

text \<open>
  The properties of the job that prepares the volume groups of a node
  (\<open>controllers/preparevg_controller.go\<close>): creating, retrying, shrinking and deleting the group of a
  class, loop devices, the configuration of lvmd, and the status the job writes.
\<close>

section \<open>Classes\<close>



text \<open>C17: A class that failed before is created in the same way; success moves its entry from the
  failures to the successes, failure keeps the entry, at most with other device states.\<close>

theorem createVgRetry_safe:
  fixes cls :: DeviceClass and loopMap :: "LoopState gomap"
  defines "disks \<equiv> map (resolved loopMap) (DC_Device cls)" and "vg \<equiv> DC_VgName cls"
  assumes "gm_get fail vg = Some old"
  shows "wp (createVgRetry E loopMap avail cls suc fail)
    (\<lambda>(ok, cls', suc', fail') t. cls' = cls\<lparr>DC_Device := disks\<rparr> \<and>
       (ok \<longrightarrow> suc' = gm_put vg ((created_entry cls disks)\<lparr>CS_DeviceStates := []\<rparr>) suc \<and> fail' = gm_del vg fail \<and>
          trace t = trace s @ create_trace vg disks) \<and>
       (\<not> ok \<longrightarrow> suc' = suc \<and> (\<exists>sts. fail' = gm_put vg (old\<lparr>CS_DeviceStates := sts\<rparr>) fail \<or> fail' = fail)) \<and>
       ((\<exists>d \<in> set (DC_Device cls). blocking loopMap avail d) \<longrightarrow> \<not> ok \<and> t = s))
    (\<lambda>_ _. False) s"
  using assms(3) unfolding disks_def vg_def by (rule createVgRetry_result)

theorem createVgRetry_safe_applied:
  "wp (createVgRetry (scripted (\<lambda>_ _. [])) [] [] (some_class ''c'' ''vg1'' [''/dev/sdb''])
       [] [(''vg1'', class_state ''c'' ''vg1'')])
     (\<lambda>(ok, _, suc, fail) t. \<not> ok \<and> t = start \<and> suc = []) (\<lambda>_ _. False) start"
proof -
  have blocked: "\<exists>d \<in> set (DC_Device (some_class ''c'' ''vg1'' [''/dev/sdb''])). blocking [] [] d"
    by (simp add: blocking_def resolve_disk_def resolved_def gm_has_def gm_get_def)
  have "gm_get [(''vg1'', class_state ''c'' ''vg1'')] (DC_VgName (some_class ''c'' ''vg1'' [''/dev/sdb''])) =
      Some (class_state ''c'' ''vg1'')" by (simp add: gm_get_def)
  from createVgRetry_safe [where loopMap = "[]", OF this] show ?thesis
    by (rule wp_mono) (use blocked in auto)
qed

text \<open>C36: When no configured disk has the name of one of the group's physical volumes, shrinking is
  removing the whole group, and with success the class's entry.  That is the situation of every
  class of automatic loop disks, whose configured names are not those of their devices.\<close>

theorem checkVgIfShrink_removes_unnamed:
  assumes "GetPhysicalVolume E (DC_VgName cls) s = (Ret (Inr pvs), s1)" "pvs \<noteq> []"
    and "\<forall>d \<in> set (DC_Device cls). Disk_Name d \<notin> set (gm_keys pvs)"
  shows "\<exists>w. checkVgIfShrink E cls suc s =
    go_bind (RemoveVolumeGroup E (DC_VgName cls)) (\<lambda>err. case err of
        Some e \<Rightarrow> go_bind (go_lift (update_class (DC_VgName cls) (\<lambda>c. c\<lparr>CS_Message := ClassDeleteError\<rparr>) suc))
          (\<lambda>suc1. go_return (Some e, suc1))
      | None \<Rightarrow> go_return (None, gm_del (DC_VgName cls) suc)) (s1\<lparr>world := w\<rparr>)"
  using assms by (rule checkVgIfShrink_unnamed)

text \<open>A group over one loop device, whose class configures an automatic loop disk under its own name.\<close>

definition loop_class :: DeviceClass where
  "loop_class = (some_class ''c'' ''vg1'' [])\<lparr>DC_Device := [(some_disk ''disk1'')\<lparr>Disk_Type := Loop, Disk_Auto := True\<rparr>]\<rparr>"

lemma loop_class_sel [simp]:
  "DC_VgName loop_class = ''vg1''" "map Disk_Name (DC_Device loop_class) = [''disk1'']"
  "DC_Device loop_class = [(some_disk ''disk1'')\<lparr>Disk_Type := Loop, Disk_Auto := True\<rparr>]"
  "auto_loop ((some_disk n)\<lparr>Disk_Type := Loop, Disk_Auto := True\<rparr>)"
  by (simp_all add: loop_class_def some_class_def zero_defs auto_loop_def)

definition loop_pv :: "string \<Rightarrow> string list \<Rightarrow> string" where
  "loop_pv cmd args = ''  LVM2_PV_NAME='' @ [CHR 0x27] @ ''/dev/loop0'' @ [CHR 0x27]"

lemma loop_pv_found:
  "GetPhysicalVolume (scripted loop_pv) vg s =
     (Ret (Inr [(''/dev/loop0'', ''/dev/loop0'')]), snd (GetPhysicalVolume (scripted loop_pv) vg s))"
proof -
  have "parseLines (loop_pv cmd args) = Ret [[(''pv_name'', ''/dev/loop0'')]]" for cmd args
    unfolding loop_pv_def by code_simp
  then show ?thesis
    by (simp add: GetPhysicalVolume_def parseOutput_def wrapExecCommandWithOutput_def run_out_def
        go_bind_def go_return_def go_lift_def gm_get_default_def gm_get_def collect_field_def gm_build_def gm_put_def)
qed

theorem checkVgIfShrink_removes_unnamed_applied:
  "\<exists>t. checkVgIfShrink (scripted loop_pv) loop_class [] start =
    go_bind (RemoveVolumeGroup (scripted loop_pv) ''vg1'') (\<lambda>err. case err of
        Some e \<Rightarrow> go_bind (go_lift (update_class ''vg1'' (\<lambda>c. c\<lparr>CS_Message := ClassDeleteError\<rparr>) []))
          (\<lambda>suc1. go_return (Some e, suc1))
      | None \<Rightarrow> go_return (None, gm_del ''vg1'' [])) t"
  using checkVgIfShrink_removes_unnamed [where cls = loop_class and suc = "[]", unfolded loop_class_sel(1), OF loop_pv_found]
  by (fastforce simp: gm_keys_def)

text \<open>C12: One pass over the configured classes keeps the tables consistent, every entry filed under its own
  group and no group in both tables, and does not touch the entry of any group that is not
  configured, whatever happens on the node.\<close>

theorem provision_classes_frame:
  assumes "tables_ok tabs"
  shows "wp (provision_classes E loopMap disks classes tabs)
    (\<lambda>(new, tabs') t. tables_ok tabs' \<and>
       (\<forall>k. \<not> vg_configured classes k \<longrightarrow>
          gm_get (fst tabs') k = gm_get (fst tabs) k \<and> gm_get (snd tabs') k = gm_get (snd tabs) k))
    (\<lambda>_ _. True) s"
  unfolding provision_classes_def by (rule prov.loop_keeps [OF assms])

theorem provision_classes_frame_applied:
  "wp (provision_classes (broken loop_pv) [] [] [some_class ''c'' ''vg1'' [''/dev/sdb'']]
        ([(''vg1'', class_state ''c'' ''vg1'')], [(''vg9'', class_state ''d'' ''vg9'')]))
     (\<lambda>(new, tabs) t. gm_get (snd tabs) ''vg9'' = Some (class_state ''d'' ''vg9'')) (\<lambda>_ _. True) start"
proof -
  have "tables_ok ([(''vg1'', class_state ''c'' ''vg1'')], [(''vg9'', class_state ''d'' ''vg9'')])"
    by (auto simp: tables_ok_def table_ok_def gm_wf_def gm_has_def gm_get_def split: if_splits)
  from provision_classes_frame [OF this] show ?thesis
    by (rule wp_mono) (auto simp: vg_configured_def gm_get_def)
qed

text \<open>After \<open>checkVgIfDelete\<close> the tables hold exactly the entries of configured classes, unchanged,
  also when the removal of a group failed.\<close>

lemma checkVgIfDelete_keeps_configured:
  "wp (checkVgIfDelete E classes suc fail)
     (\<lambda>(suc', fail') t. restricted classes suc suc' \<and> restricted classes fail fail') (\<lambda>_ _. True) s"
  by (rule wp_mono [OF checkVgIfDelete_result]) auto

section \<open>The configuration of lvmd\<close>

text \<open>C20: With an earlier configuration in the config map, \<open>updateLvmdConf\<close> writes that configuration with
  its classes updated and the new ones appended, restricted to the classes named like a successful
  one, and changes nothing else of the config map.\<close>

theorem updateLvmdConf_configuration:
  assumes "gm_get (cm_data cm) LvmdConfigMapKey = Some text" and "unyaml_conf Y text = Inr conf"
  shows "wp (updateLvmdConf E Y classes cm newVgs suc)
    (\<lambda>r t. \<forall>cm'. r = Inr cm' \<longrightarrow> (\<exists>new value. convert_all Y newVgs = Inr new \<and>
       yaml_conf Y (conf\<lparr>LConf_DeviceClasses :=
         filter (named_after suc) (update_defaults classes (LConf_DeviceClasses conf) @ new)\<rparr>) = Inr value \<and>
       cm' = cm\<lparr>CM_Data := Some (gm_put LvmdConfigMapKey value (cm_data cm))\<rparr>)) (\<lambda>_ _. True) s"
  using assms by (rule updateLvmdConf_result)

theorem updateLvmdConf_configuration_applied:
  "wp (updateLvmdConf (scripted (\<lambda>_ _. [])) names_yaml [] (node_cm [(LvmdConfigMapKey, ''old'')])
        [some_class ''new'' ''vg1'' []] [(''vg1'', class_state ''new'' ''vg1'')])
     (\<lambda>r t. \<forall>cm. r = Inr cm \<longrightarrow> gm_get (cm_data cm) LvmdConfigMapKey = Some ''new'') (\<lambda>_ _. True) start"
proof -
  define suc where "suc = [(''vg1'', class_state ''new'' ''vg1'')]"
  define classes where "classes = [some_class ''new'' ''vg1'' []]"
  let ?cm = "node_cm [(LvmdConfigMapKey, ''old'')]"
    and ?conf = "\<lparr>LConf_SocketName = [], LConf_DeviceClasses = [lvmd_class ''old'']\<rparr>"
  have named: "\<not> named_after suc (lvmd_class ''old'')" "named_after suc (lvmd_class ''new'')"
    by (auto simp: suc_def named_after_def gm_get_def lvmd_class_def split: if_splits)
  have vals: "convert_all names_yaml classes = Inr [lvmd_class ''new'']"
    "update_defaults [] [lvmd_class ''old''] = [lvmd_class ''old'']"
    by (simp_all add: classes_def names_yaml_def convertConfig_def update_defaults_def lvmd_class_def)
  have yaml: "yaml_conf names_yaml conf = Inr (concat (map LC_Name (LConf_DeviceClasses conf)))"
    "unyaml_conf names_yaml ''old'' = Inr ?conf" "LC_Name (lvmd_class ''new'') = ''new''" for conf
    by (simp_all add: names_yaml_def lvmd_class_def)
  have old: "gm_get (cm_data ?cm) LvmdConfigMapKey = Some ''old''" by (simp add: gm_get_def)
  show ?thesis
    unfolding suc_def [symmetric] classes_def [symmetric]
    by (rule wp_mono [OF updateLvmdConf_configuration [OF old yaml(2)]]) (auto simp: named vals yaml cm_data_def gm.get_put)
qed

section \<open>The status of the node\<close>

text \<open>C10: A run on a node with a status only runs commands, reads, and patches the node's config map, and
  every status it patches in lists each volume group once and only configured groups, whatever
  fails on the way, even when the run panics.\<close>

theorem provisionWithNodeStatus_patches:
  assumes "Unmarshal_status vgStatus = Inr st" and "status_ok st"
  shows "wp (provisionWithNodeStatus E K Y c cm vgStatus disks)
    (\<lambda>_. grown (patches_only (written_ok (ND_DeviceClasses (PV_nodeDevices c)))) s)
    (\<lambda>_. grown (patches_only (written_ok (ND_DeviceClasses (PV_nodeDevices c)))) s) s"
  using assms by (rule provisionWithNodeStatus_writes)

text \<open>A node status with one class.\<close>

definition one_class_status :: NodeStorageState where
  "one_class_status = zero_NodeStorageState\<lparr>NS_Node := ''n1'', NS_SuccessClasses := [class_state ''c'' ''vg1'']\<rparr>"

lemma one_class_status_ok: "status_ok one_class_status" "status_ascii one_class_status"
  by (simp_all add: one_class_status_def status_ok_def status_classes_def ascii_defs zero_defs class_state_def
      ascii_def ClassReady_def)

theorem provisionWithNodeStatus_patches_applied:
  "wp (provisionWithNodeStatus (broken loop_pv) empty_cluster names_yaml (NewPrepareVgController ''n1'' ''ns'')
        (node_cm []) (Marshal_status one_class_status) [])
     (\<lambda>_. grown (patches_only (written_ok [])) start) (\<lambda>_. grown (patches_only (written_ok [])) start) start"
proof -
  have "PV_nodeDevices (NewPrepareVgController ''n1'' ''ns'') = \<lparr>ND_NodeName = [], ND_DeviceClasses = []\<rparr>"
    by (simp add: NewPrepareVgController_def)
  with provisionWithNodeStatus_patches [OF status.dec_enc [OF one_class_status_ok(2)] one_class_status_ok(1),
      of "broken loop_pv" empty_cluster names_yaml "NewPrepareVgController ''n1'' ''ns''" "node_cm []" "[]" start]
  show ?thesis by simp
qed

text \<open>C14: A node status of ASCII strings is read back from its JSON as it was written, and two different ones
  have different JSON, so that comparing the texts compares the states.\<close>

theorem status_roundtrip:
  assumes "status_ascii st" "status_ascii st'"
  shows "Unmarshal_status (Marshal_status st) = Inr st \<and> (Marshal_status st = Marshal_status st' \<longleftrightarrow> st = st')"
  using status.dec_enc [OF assms(1)] status.enc_inject [OF assms] by blast

theorem status_roundtrip_applied:
  "Unmarshal_status (Marshal_status one_class_status) = Inr one_class_status"
  using status_roundtrip [OF one_class_status_ok(2) one_class_status_ok(2)] by blast

text \<open>C11: On a node where every class was created and its group consists of the configured disks, a run of the job
  only asks LVM for the volumes of the groups and patches the node's config map, and the status in
  that patch has the classes it found and no failures: running the job again changes nothing.\<close>

theorem settled_run_changes_nothing:
  assumes "Unmarshal_status vgStatus = Inr st" "status_ok st"
    and "\<forall>d \<in> set (ND_DeviceClasses (PV_nodeDevices c)). in_place E d \<and> DC_VgName d \<in> CS_VgName ` set (NS_SuccessClasses st)"
    and "\<forall>cs \<in> set (NS_SuccessClasses st). vg_configured (ND_DeviceClasses (PV_nodeDevices c)) (CS_VgName cs)"
  shows "wp (provisionWithNodeStatus E K Y c cm vgStatus disks)
    (\<lambda>_. grown (settled_event st) s) (\<lambda>_. grown (settled_event st) s) s"
  using assms by (rule provisionWithNodeStatus_settled)

theorem settled_run_changes_nothing_applied:
  "wp (provisionWithNodeStatus (scripted loop_pv) empty_cluster names_yaml
        ((NewPrepareVgController ''n1'' ''ns'')\<lparr>PV_nodeDevices :=
           \<lparr>ND_NodeName = ''n1'', ND_DeviceClasses = [some_class ''c'' ''vg1'' [''/dev/loop0'']]\<rparr>\<rparr>)
        (node_cm []) (Marshal_status one_class_status) [])
     (\<lambda>_. grown (settled_event one_class_status) start) (\<lambda>_. grown (settled_event one_class_status) start) start"
proof (rule settled_run_changes_nothing [OF status.dec_enc [OF one_class_status_ok(2)] one_class_status_ok(1)])
  have "in_place (scripted loop_pv :: unit executor) (some_class ''c'' ''vg1'' [''/dev/loop0''])"
    unfolding in_place_def
  proof (intro conjI allI)
    fix s :: "unit host"
    show "\<exists>pvs t. GetPhysicalVolume (scripted loop_pv) (DC_VgName (some_class ''c'' ''vg1'' [''/dev/loop0''])) s = (Ret (Inr pvs), t) \<and>
        set (gm_keys pvs) = Disk_Name ` set (DC_Device (some_class ''c'' ''vg1'' [''/dev/loop0'']))"
      by (intro exI conjI, rule loop_pv_found) (simp add: gm_keys_def)
  qed simp
  then show "\<forall>d \<in> set (ND_DeviceClasses (PV_nodeDevices ((NewPrepareVgController ''n1'' ''ns'')\<lparr>PV_nodeDevices :=
      \<lparr>ND_NodeName = ''n1'', ND_DeviceClasses = [some_class ''c'' ''vg1'' [''/dev/loop0'']]\<rparr>\<rparr>))).
      in_place (scripted loop_pv :: unit executor) d \<and> DC_VgName d \<in> CS_VgName ` set (NS_SuccessClasses one_class_status)"
    by (simp add: one_class_status_def)
qed (simp add: one_class_status_def vg_configured_def)

section \<open>Loop devices\<close>

text \<open>C19: After the loop devices of the configured disks were checked, the states are the old ones with new
  ones behind, their names are distinct and all are marked successful, every configured loop disk
  has a state and every automatic one an entry in the map; checking the same disks again runs no
  command and changes no state.\<close>

theorem checkLoopDevice_once:
  assumes "loops_ok loops"
  shows "wp (checkLoopDevice E disks (loops, m))
    (\<lambda>st t. loops_inv loops disks st \<and>
       (\<exists>m'. checkLoopDevice E disks st t = (Ret (fst st, m'), t))) (\<lambda>_ _. False) s"
proof (rule wp_mono [OF checkLoopDevice_inv [OF assms]])
  fix st :: "LoopState list \<times> LoopState gomap" and t :: "'a host"
  assume "loops_inv loops disks st"
  then show "loops_inv loops disks st \<and> (\<exists>m'. checkLoopDevice E disks st t = (Ret (fst st, m'), t))"
    using checkLoopDevice_again [of "fst st" disks E "snd st"] by (auto simp: loops_inv_def go_return_def)
qed simp

theorem checkLoopDevice_once_applied:
  "wp (checkLoopDevice (scripted (\<lambda>_ _. ''/dev/loop0'')) (DC_Device loop_class) ([], []))
     (\<lambda>st t. \<exists>m'. checkLoopDevice (scripted (\<lambda>_ _. ''/dev/loop0'')) (DC_Device loop_class) st t = (Ret (fst st, m'), t))
     (\<lambda>_ _. False) start"
proof -
  have "loops_ok []" by (simp add: loops_ok_def)
  from checkLoopDevice_once [OF this] show ?thesis by (rule wp_mono) auto
qed

lemma CreateLoop_error_name:
  "wp (CreateLoop E f sz) (\<lambda>(n, err) t. err \<noteq> None \<longrightarrow> n = []) (\<lambda>_ _. False) s"
  by (auto simp: CreateLoop_def wpg wrapExecCommand_def wrapExecCommandWithOutput_def split: list.splits option.splits)

text \<open>C37: A loop device whose creation failed is recorded as created successfully, with an empty device name
  and the error as its message, and is therefore never tried again.\<close>

theorem failed_loop_recorded:
  assumes "auto_loop ele" "\<not> recorded loops (Disk_Name ele)" "loops_ok loops"
    and "UuidNew E (world s) = (file, w)"
    and "CreateLoop E (getAbsoluteFileName (Disk_Path ele) file) (Disk_Size ele) (s\<lparr>world := w\<rparr>) = (Ret (n, Some e), t)"
  shows "\<exists>l m'. check_loop_step E ele (loops, m) s = (Ret (loops @ [l], m'), t) \<and>
    Loop_Name l = Disk_Name ele \<and> Loop_Status l = LoopCreateSuccessful \<and> Loop_DeviceName l = [] \<and>
    Loop_Message l = err_msg e \<and> getDeviceName m' (Disk_Name ele) = [] \<and>
    (\<exists>m''. checkLoopDevice E [ele] (loops @ [l], m') t = (Ret (loops @ [l], m''), t))"
proof -
  let ?l = "auto_loop_state ele file [] (Some e)" and ?m = "gm_put (Disk_Name ele) (auto_loop_state ele file [] (Some e)) m"
  have n: "n = []" using wp_retD [OF CreateLoop_error_name assms(5)] by simp
  have fresh: "find_index (\<lambda>l. Loop_Name l = Disk_Name ele) loops = None"
    using assms(2) by (simp add: find_loop_recorded)
  have run: "check_loop_step E ele (loops, m) s = (Ret (loops @ [?l], ?m), t)"
    using assms(1,4,5) fresh
    by (simp add: check_loop_step_def auto_loop_def Let_def go_bind_def uuid_new_def go_return_def n)
  have "loops_ok (loops @ [?l])" by (rule loops_ok_append) (use assms(2,3) in auto)
  moreover have "\<forall>d \<in> set [ele]. Disk_Type d = Loop \<longrightarrow> recorded (loops @ [?l]) (Disk_Name d)" by simp
  ultimately have "\<exists>m''. checkLoopDevice E [ele] (loops @ [?l], ?m) = go_return (loops @ [?l], m'')"
    by (rule checkLoopDevice_again)
  moreover have "Loop_Message ?l = err_msg e" by (simp add: auto_loop_state_def Let_def)
  ultimately show ?thesis using run
    by (intro exI [of _ ?l] exI [of _ ?m]) (auto simp: go_return_def getDeviceName_def gm.get_put)
qed

theorem failed_loop_recorded_applied:
  "\<exists>l m t. check_loop_step (broken (\<lambda>_ _. [])) ((some_disk ''disk1'')\<lparr>Disk_Type := Loop, Disk_Auto := True\<rparr>) ([], []) start =
      (Ret ([l], m), t) \<and> Loop_Status l = LoopCreateSuccessful \<and> Loop_DeviceName l = []"
proof -
  let ?ele = "(some_disk ''disk1'')\<lparr>Disk_Type := Loop, Disk_Auto := True\<rparr>" and ?E = "broken (\<lambda>_ _. [])"
  have u: "UuidNew ?E (world start) = (''uuid'', ())" by (simp add: broken_def)
  have "fst (CreateLoop ?E f sz s) = Ret ([], Some (GoError (ErrExit 5) ''exit status 5''))" for f sz s
    by (simp add: CreateLoop_def wrapExecCommand_def run_cmd_def go_bind_def go_return_def)
  then obtain t where "CreateLoop ?E (getAbsoluteFileName (Disk_Path ?ele) ''uuid'') (Disk_Size ?ele) (start\<lparr>world := ()\<rparr>) =
      (Ret ([], Some (GoError (ErrExit 5) ''exit status 5'')), t)" by (metis prod.collapse)
  from failed_loop_recorded [OF loop_class_sel(4) _ _ u this, of "[]" "[]"] show ?thesis
    by (auto simp: loops_ok_def)
qed

end
