(* ===== verification/DaemonProperties.thy ===== *)
theory DaemonProperties
  imports Scenarios
begin

text \<open>
  The properties of the command executor (\<open>pkg/util/exec\<close>), of the discovery daemon
  (\<open>pkg/operator/discover\<close>) and of the names of the objects kept per node.
\<close>

section \<open>Commands\<close>

text \<open>C32: Waiting for a command with a time limit ends: once the timer fired twice, whatever else happened and
  in whatever order, the method has returned.  It has sent nothing, an interrupt, or an interrupt and
  then a kill, and it reports success exactly when the process ended well and nothing was sent to it.\<close>

theorem ExecuteCommandWithTimeout_ends:
  assumes "2 \<le> length (filter is_timer es)"
  shows "\<exists>out err. Wt_result (wait_run command es) = Some (out, err) \<and>
    Wt_signals (wait_run command es) \<in> {[], [Interrupt], [Interrupt, Kill]} \<and>
    (err = None \<longleftrightarrow> Wt_exit (wait_run command es) = Some None \<and> Wt_signals (wait_run command es) = [])"
  using wait_run_inv [of es command] assms by (auto simp: wait_inv_def prefix_Cons)

theorem ExecuteCommandWithTimeout_ends_applied:
  "\<exists>out err. Wt_result (wait_run ''lvs'' [Writes ''a'', Timer None, Writes ''b'', Timer None]) = Some (out, err)"
  using ExecuteCommandWithTimeout_ends [of "[Writes ''a'', Timer None, Writes ''b'', Timer None]" "''lvs''"]
  by (auto simp: is_timer_def)

text \<open>C34: With the executor the program runs with, the properties of a device are those that \<open>lsblk\<close> prints;
  a device \<open>lsblk\<close> does not know (exit status 32) has none, unless what it printed on either stream
  says that it is not a block device, which is an error like every other failure.\<close>

theorem device_properties_executed:
  assumes "os_run S [] ''lsblk'' [path, ''--bytes'', ''--nodeps'', ''--pairs'', ''--paths'', ''--output'',
      ''SIZE,ROTA,RO,TYPE,PKNAME,NAME,KNAME,MOUNTPOINT''] (world s) = (Finished r, w)"
  shows "wp (GetDevicePropertiesFromPath (CommandExecutor S E) path) (\<lambda>res t.
      if PR_Exit r = 0 then res = Inr (parseKeyValuePairString (trim_space (PR_Stdout r)))
      else if str_contains (PR_Stdout r @ ''. '' @ saved_stderr (PR_Stderr r)) ''not a block device'' then \<exists>e. res = Inl e
      else if PR_Exit r = 32 then res = Inr []
      else \<exists>e. res = Inl e) (\<lambda>_ _. False) s"
  using assms
  by (simp add: GetDevicePropertiesFromPath_def wpg run_with_output_def runCommandWithOutput_def cmd_Output_def
      cmd_wait_def assertErrorType_def cmd_go_error_def ExitStatus_def trim_space_contains is_space_def)

definition missing_device :: "unit os" where
  "missing_device = \<lparr>os_run = (\<lambda>env cmd args w. (Finished \<lparr>PR_Stdout = [], PR_Stderr = ''lsblk: /dev/sdx: not a block device'',
       PR_Combined = [], PR_Exit = 32, PR_State = ''exit status 32''\<rparr>, w)),
     os_run_until = (\<lambda>timeout cmd args w. ((NotStarted (ExecError []), False), w)),
     os_watch = (\<lambda>timeout cmd args w. (Inr [], w)), os_temp_file = (\<lambda>w. (Inr ''tmp'', w)),
     os_read_all = (\<lambda>f w. (([], None), w)), os_close = (\<lambda>f w. (None, w)), os_remove = (\<lambda>f w. w)\<rparr>"

theorem device_properties_executed_applied:
  "wp (GetDevicePropertiesFromPath (CommandExecutor missing_device (scripted (\<lambda>_ _. []))) ''/dev/sdx'')
     (\<lambda>res t. \<exists>e. res = Inl e) (\<lambda>_ _. False) start"
proof -
  let ?r = "\<lparr>PR_Stdout = [], PR_Stderr = ''lsblk: /dev/sdx: not a block device'', PR_Combined = [], PR_Exit = 32,
    PR_State = ''exit status 32''\<rparr>"
  have run: "os_run missing_device [] ''lsblk'' [''/dev/sdx'', ''--bytes'', ''--nodeps'', ''--pairs'', ''--paths'', ''--output'',
      ''SIZE,ROTA,RO,TYPE,PKNAME,NAME,KNAME,MOUNTPOINT''] (world start) = (Finished ?r, ())"
    by (simp add: missing_device_def)
  have "str_contains (''. '' @ ''lsblk: /dev/sdx: not a block device'') ''not a block device''" by code_simp
  then show ?thesis
    by (intro wp_mono [OF device_properties_executed [OF run]]) (simp_all add: saved_stderr_def)
qed

section \<open>The discovery daemon\<close>

text \<open>\<open>updateDeviceCM\<close> leaves the config map alone when it holds the devices found already, and otherwise
  sends one patch whose device list is the JSON of those devices and returns its outcome; it panics
  only on a config map without data.\<close>

lemma updateDeviceCM_writes_changes:
  assumes "wp (GetAllDevices E) (\<lambda>r t. r = Inr devices \<and> world t = w) (\<lambda>_ _. False) s"
    and "ra_get (ConfigMaps K) ns cmName w = (Inr cm, w')"
    and "cm_merge_patch K cm (cm\<lparr>CM_Data := Some (gm_put LocalDiskCMData (Marshal_devices devices) (cm_data cm))\<rparr>) = Inr p"
  shows "wp (updateDeviceCM E K nodeName ns cmName)
    (\<lambda>r t. if holds_devices (Marshal_devices devices) cm then r = None \<and> world t = w'
       else r = fst (ra_patch (ConfigMaps K) (CM_Namespace cm) (CM_Name cm) p w') \<and>
         (\<exists>new. last (trace t) = Api VPatch (ConfigMapObj new) \<and> holds_devices (Marshal_devices devices) new))
    (\<lambda>_ _. CM_Data cm = None) s"
  using assms by (rule updateDeviceCM_result)

text \<open>A node without devices and a server that holds its config map.\<close>

definition one_cm :: "ConfigMap \<Rightarrow> unit clientset" where
  "one_cm cm = empty_cluster\<lparr>ConfigMaps := holding [cm]\<rparr>"

lemma no_devices: "wp (GetAllDevices (scripted (\<lambda>_ _. []))) (\<lambda>r t. r = Inr [] \<and> world t = ()) (\<lambda>_ _. False) start"
proof -
  have "parseKeyValuePairString [] = []" by code_simp
  then show ?thesis
    by (simp add: GetAllDevices_def DiscoverDevices_def ListDevices_def wpg discover_step_def populateDeviceInfo_def
        GetDeviceProperties_def GetDevicePropertiesFromPath_def gm_get_def)
qed

lemma updateDeviceCM_writes_changes_applied:
  "wp (updateDeviceCM (scripted (\<lambda>_ _. [])) (one_cm (node_cm [])) ''n1'' ''ns'' ''devices-n1'')
     (\<lambda>r t. r = None \<and> (\<exists>new. last (trace t) = Api VPatch (ConfigMapObj new) \<and> holds_devices (Marshal_devices []) new))
     (\<lambda>_ _. CM_Data (node_cm []) = None) start"
proof -
  have get: "ra_get (ConfigMaps (one_cm (node_cm []))) ''ns'' ''devices-n1'' () = (Inr (node_cm []), ())"
    by (simp add: one_cm_def)
  have patch: "cm_merge_patch (one_cm (node_cm [])) c c' = Inr ''patch''" for c c'
    by (simp add: one_cm_def)
  have "\<not> holds_devices d (node_cm [])" for d by (simp add: holds_devices_def gm_get_def)
  then show ?thesis
    by (intro wp_mono [OF updateDeviceCM_writes_changes [OF no_devices get patch]]) (auto simp: one_cm_def)
qed

text \<open>\<open>checkDeviceClass\<close> runs commands, reads, and patches only; the status it patches in is the one it
  read with each successful class brought in line with the physical volumes found, so that such a
  class is ready exactly when all its devices are among them.\<close>

lemma checkDeviceClass_patches:
  assumes "\<forall>w. fst (ra_get (ConfigMaps K) ns cmName w) = Inr cm"
    and "Unmarshal_status (stored_status cm) = Inr st"
  shows "wp (checkDeviceClass E K ns cmName)
      (\<lambda>_. grown (patches_only (follows st)) s) (\<lambda>_. grown (patches_only (follows st)) s) s \<and>
    (CS_State (class_with_pvs pvs c) = ClassReady \<longleftrightarrow> (\<forall>d \<in> set (CS_DeviceStates c). gm_has pvs (DS_Name d)))"
proof
  show "wp (checkDeviceClass E K ns cmName)
      (\<lambda>_. grown (patches_only (follows st)) s) (\<lambda>_. grown (patches_only (follows st)) s) s"
    by (rule checkDeviceClass_writes [OF _ assms(2)]) (use assms(1) in \<open>metis fst_conv\<close>)
qed (rule class_with_pvs_ready)

definition empty_status :: NodeStorageState where
  "empty_status = zero_NodeStorageState\<lparr>NS_Node := ''n1''\<rparr>"

lemma checkDeviceClass_patches_applied:
  "wp (checkDeviceClass (broken (\<lambda>_ _. [])) (one_cm (node_cm [(VgStatusConfigMapKey, Marshal_status empty_status)])) ''ns'' ''cm'')
      (\<lambda>_. grown (patches_only (follows empty_status)) start) (\<lambda>_. grown (patches_only (follows empty_status)) start) start"
proof -
  let ?cm = "node_cm [(VgStatusConfigMapKey, Marshal_status empty_status)]"
  have get: "\<forall>w. fst (ra_get (ConfigMaps (one_cm ?cm)) ''ns'' ''cm'' w) = Inr ?cm"
    by (simp add: one_cm_def)
  have "status_ascii empty_status" by (simp add: empty_status_def ascii_defs zero_defs ascii_def)
  then have "Unmarshal_status (stored_status ?cm) = Inr empty_status"
    by (simp add: stored_status_def gm_get_default_def gm_get_def status.dec_enc)
  from checkDeviceClass_patches [OF get this] show ?thesis by blast
qed

text \<open>C27: Whatever the timing of events, timers and the consumer, the udev monitor has delivered a
  subsequence of the events it received, in their order, and any event it still holds comes later
  than those; it ran one timer per delivered event and one for the event it is about to deliver.\<close>

theorem udev_monitor_invariant:
  assumes "monitor_reachable m"
  shows "monitor_inv m"
  using assms by (rule monitor_invariant)

theorem udev_monitor_invariant_applied:
  "\<exists>m. Mon_received m = [''add'', ''change''] \<and> Mon_delivered m = [''add''] \<and> monitor_inv m"
proof -
  let ?m1 = "monitor_init\<lparr>Mon_mode := Window ''add'', Mon_received := [''add'']\<rparr>"
  have 1: "monitor_reachable ?m1"
    using monitor_reachable.step [OF monitor_reachable.start monitor_step.first [of monitor_init "''add''"]]
    by (simp add: monitor_init_def)
  let ?m2 = "?m1\<lparr>Mon_received := [''add'', ''change'']\<rparr>"
  have 2: "monitor_reachable ?m2"
    using monitor_reachable.step [OF 1 monitor_step.drop_event [of ?m1 "''add''" "''change''"]] by simp
  let ?m3 = "?m2\<lparr>Mon_mode := Sending ''add'', Mon_timeouts := 1\<rparr>"
  have 3: "monitor_reachable ?m3"
    using monitor_reachable.step [OF 2 monitor_step.timeout [of ?m2 "''add''"]] by (simp add: monitor_init_def)
  let ?m4 = "?m3\<lparr>Mon_mode := Idle, Mon_delivered := [''add'']\<rparr>"
  have "monitor_reachable ?m4"
    using monitor_reachable.step [OF 3 monitor_step.deliver [of ?m3 "''add''"]] by (simp add: monitor_init_def)
  from udev_monitor_invariant [OF this] show ?thesis by (intro exI [of _ ?m4]) simp
qed

text \<open>Whatever happens while it runs (ticks, udev events in any number, the end of the udev monitor, failing
  commands and requests), the daemon only reports on devices and volume groups, attaches loop
  devices, reads its node's config map, creates it with a device list, and patches config maps; it
  never formats, creates, changes or removes a volume.\<close>

lemma discovery_daemon_harmless:
  "only_issues (daemon_may (getenv K NodeNameEnv) (getenv K PodNameSpaceEnv)
     (TruncateNodeName K LvmdConfigMapFmt (getenv K NodeNameEnv))) (discover_Run (Some (E, K)) evs)"
  by (rule discover_Run_issues)

section \<open>Names\<close>

text \<open>The names of a node's config map, deployment and job have at most the 63 characters a DNS label
  may have, whatever the node is called; a node name that fits is kept in the name.\<close>

lemma node_object_names_fit:
  assumes "fmt \<in> {LvmdConfigMapFmt, TopolvmNodeDeploymentFmt, PrepareVgJobFmt}"
  shows "length (TruncateNodeName K fmt node) \<le> 63 \<and>
    (length node + length fmt \<le> 63 \<longrightarrow> TruncateNodeName K fmt node = fmt @ node)"
proof -
  have "length fmt \<le> 31" using assms by (auto simp: LvmdConfigMapFmt_def TopolvmNodeDeploymentFmt_def PrepareVgJobFmt_def)
  from length_TruncateNodeName [OF this, of K node] show ?thesis
    by (simp add: DNS1035LabelMaxLength_def TruncateNodeName_def)
qed

lemma node_object_names_fit_applied:
  "length (TruncateNodeName (empty_cluster :: unit clientset) LvmdConfigMapFmt (replicate 200 CHR ''a'')) \<le> 63 \<and>
   TruncateNodeName (empty_cluster :: unit clientset) LvmdConfigMapFmt ''n1'' = ''lvmdconfig-n1''"
  using node_object_names_fit [of LvmdConfigMapFmt "empty_cluster :: unit clientset" "replicate 200 CHR ''a''"]
    node_object_names_fit [of LvmdConfigMapFmt "empty_cluster :: unit clientset" "''n1''"]
  by (simp add: LvmdConfigMapFmt_def)

end
