(* ===== verification/OperatorProperties.thy ===== *)
theory OperatorProperties
  imports Scenarios
begin

text \<open>
  The properties of the operator: the helpers around the API server (\<open>pkg/operator/k8sutil\<close>,
  \<open>pkg/operator/controller\<close>), the objects it builds, the three controllers and the status checker.
\<close>

section \<open>Helpers\<close>




text \<open>Removing a finalizer that the list holds once keeps all others in order, and one it does not hold
  leaves the list as it is; a list of the finalizer twice ends in a panic.\<close>

lemma remove_finalizer_string:
  assumes "s \<notin> set xs" "s \<notin> set ys"
  shows "remove_string (xs @ s # ys) s = Ret (xs @ ys) \<and> remove_string xs s = Ret xs \<and>
    (\<exists>e. remove_string [s, s] s = Panic e)"
  using assms by (auto intro: remove_string_once remove_string_absent remove_string_twice_panics)

lemma remove_finalizer_string_applied:
  "remove_string [''a'', ''topolvmcluster.topolvm.cybozu.com'', ''b''] ''topolvmcluster.topolvm.cybozu.com'' = Ret [''a'', ''b'']"
  using remove_finalizer_string [of "''topolvmcluster.topolvm.cybozu.com''" "[''a'']" "[''b'']"] by simp

section \<open>Objects\<close>

text \<open>C28: Rewriting the kubelet path of a node deployment gives exactly the deployment that would be built
  with the new path, so that the two ways of setting the path agree, and it never panics on such a
  deployment.\<close>

theorem kubelet_path_rewrite:
  "with_kubelet_path path (node_getDeployment G appName nodeName configmap ref) =
   Ret (node_getDeployment (G\<lparr>G_CSIKubeletRootDir := path\<rparr>) appName nodeName configmap ref)"
proof -
  let ?vols = "PS_Volumes (W_Pod (node_getDeployment G appName nodeName configmap ref))"
  let ?G = "G\<lparr>G_CSIKubeletRootDir := path\<rparr>"
  have vols: "update_volumes path ?vols = Ret (PS_Volumes (W_Pod (node_getDeployment ?G appName nodeName configmap ref)))"
    by (simp add: node_getDeployment_def kubelet_volume_path_def Let_def)
  have "map (update_container_path path)
      [getLvmdContainer G, getNodeContainer G, getCsiRegistrarContainer G, node_getLivenessProbeContainer G] =
      [getLvmdContainer ?G, getNodeContainer ?G, getCsiRegistrarContainer ?G, node_getLivenessProbeContainer ?G]"
    by (simp add: update_container_path_def container_defs container_name_defs)
  then show ?thesis
    unfolding with_kubelet_path_def vols outcome.case by (simp add: node_getDeployment_def Let_def)
qed

text \<open>C29: Every pod the operator builds, for whatever names, images and settings, has distinct volumes and
  distinct containers, and containers that mount volumes of the pod at distinct paths; deployments and
  the daemon set select their own pods.\<close>

theorem workloads_well_formed:
  "pod_ok (W_Pod (node_getDeployment G appName nodeName configmap ref)) \<and>
   selector_ok (node_getDeployment G appName nodeName configmap ref) \<and>
   pod_ok (W_Pod (controller_deployment G ref replicas certsFound)) \<and>
   selector_ok (controller_deployment G ref replicas certsFound) \<and>
   pod_ok (W_Pod (getDaemonset G dsName img useLoop)) \<and> selector_ok (getDaemonset G dsName img useLoop) \<and>
   pod_ok (provisionPodTemplateSpec G nodeName img restart)"
  by (simp add: node_deployment_ok controller_deployment_ok daemonset_ok job_pod_ok)

section \<open>The cluster controller\<close>

text \<open>C16: Of several clusters only the oldest is reconciled: a request for a cluster that is younger than
  another one makes a single list request, starts nothing, returns no error and leaves the state as
  it was.\<close>

theorem reconcile_only_oldest:
  assumes "ra_list (Clusters K) [] [] (world s) = (Inr clusters, w)" "1 < length clusters"
    and "\<forall>d \<in> set clusters. TC_Name d = name \<longrightarrow>
      (\<exists>c \<in> set clusters. TC_CreationTimestamp c < TC_CreationTimestamp d)"
  shows "wp (reconcile Poll E K L ns name r) (\<lambda>(err, jobs, r') t. err = None \<and> jobs = [] \<and> r' = r \<and> grown is_read s t)
    (\<lambda>_ _. False) s"
proof -
  have "\<not> serves clusters name"
    using serves_oldest [OF assms(2), of name] assms(3) by (metis not_le)
  with assms(1) show ?thesis by (rule reconcile_not_served)
qed

definition some_runtime :: runtime_lib where
  "some_runtime = \<lparr>rt_kind = (\<lambda>_. ''TopolvmCluster''), rt_owner_ref = (\<lambda>_. Inr some_ref), rt_empty_is_nil = False\<rparr>"

theorem reconcile_only_oldest_applied:
  "wp (reconcile (\<lambda>_ _ _. go_return None) (scripted (\<lambda>_ _. [])) (empty_cluster\<lparr>Clusters := holding [some_cluster ''old'' 1, some_cluster ''new'' 2]\<rparr>)
        some_runtime ''ns'' ''new'' (reconciler_init some_globals ''img:2''))
     (\<lambda>(err, jobs, r') t. err = None \<and> jobs = [] \<and> r' = reconciler_init some_globals ''img:2'' \<and> grown is_read start t)
     (\<lambda>_ _. False) start"
  by (rule reconcile_only_oldest [where clusters = "[some_cluster ''old'' 1, some_cluster ''new'' 2]" and w = "()"])
     (simp_all add: some_cluster_def)

text \<open>C23: Between requests, after any requests answered in any way, a remembered cluster has an open stop
  channel, there is a stop channel exactly when a checker was started, and then the object to check
  is known.\<close>

theorem reconciler_state_invariant:
  assumes "reconciler_reachable Poll E K L G img r"
  shows "reconciler_inv r"
  using assms by (rule reconciler_reachable_inv)

theorem reconciler_state_invariant_applied:
  "\<exists>r. reconciler_reachable (\<lambda>_ _ _. go_return None) (scripted (\<lambda>_ _. [])) (empty_cluster :: unit clientset) some_runtime some_globals ''img:2'' r \<and>
     reconciler_inv r \<and> R_lastCluster r = None"
proof -
  let ?r = "reconciler_init some_globals ''img:2''" and ?P = "(\<lambda>_ _ _. go_return None) :: unit poller"
  have run: "reconcile ?P (scripted (\<lambda>_ _. [])) empty_cluster some_runtime ''other'' ''c1'' ?r start = (Ret (None, [], ?r), start)"
    by (simp add: reconcile_def reconciler_init_def some_globals_def go_return_def)
  have "reconciler_reachable ?P (scripted (\<lambda>_ _. [])) empty_cluster some_runtime some_globals ''img:2'' ?r"
    by (rule reconciler_reachable.request [OF reconciler_reachable.init run])
  with reconciler_state_invariant [OF this] show ?thesis by (auto simp: reconciler_init_def)
qed

text \<open>C15: Reconciling a remembered cluster for which everything is up to date only reads: no error, no job, no
  request that writes, and the cluster as it is now is remembered.\<close>

theorem onAdd_idempotent:
  assumes "settled K G img cl" "\<not> G_IsOperatorHub G"
    and "Spec_Storage (TC_Spec old) = Spec_Storage (TC_Spec cl)"
    and "\<forall>e \<in> set (Status_NodeStorageStatus (TC_Status cl)). \<not> needs_job e"
  shows "wp (onAdd Poll K G img (Some old) cl ref)
    (\<lambda>(err, jobs, new) t. err = None \<and> jobs = [] \<and> new = Some cl \<and> grown is_read s t) (\<lambda>_ _. False) s"
  using assms by (rule onAdd_settled)

text \<open>The objects of a cluster that was set up.\<close>

definition set_up :: "unit clientset" where
  "set_up = empty_cluster\<lparr>
     DaemonSets := holding [getDaemonset some_globals DiscoverAppName ''img:2'' False],
     Deployments := holding [set_images ''img:2'' (controller_deployment some_globals some_ref 1 False)]\<rparr>"

lemma set_up_settled: "settled set_up some_globals ''img:2'' (some_cluster ''c1'' 1)"
proof -
  have d: "updated_daemonset ''img:2'' False (getDaemonset some_globals DiscoverAppName ''img:2'' False) =
      Ret (False, getDaemonset some_globals DiscoverAppName ''img:2'' False)"
    by (simp add: updated_daemonset_def first_image_def getDaemonset_def discover_container_def plain_container_def Let_def)
  have c: "first_image (set_images ''img:2'' (controller_deployment some_globals some_ref 1 False)) = Ret ''img:2''"
    by (rule set_images_first) (simp add: controller_deployment_def)
  show ?thesis
    by (simp add: settled_def set_up_def d c some_cluster_def some_storage_def)
qed

theorem onAdd_idempotent_applied:
  "wp (onAdd (\<lambda>_ _ _. go_return None) set_up some_globals ''img:2'' (Some (some_cluster ''c1'' 1)) (some_cluster ''c1'' 1) some_ref)
     (\<lambda>(err, jobs, new) t. err = None \<and> jobs = [] \<and> new = Some (some_cluster ''c1'' 1) \<and> grown is_read start t)
     (\<lambda>_ _. False) start"
  by (rule onAdd_idempotent [OF set_up_settled]) (simp_all add: some_globals_def some_cluster_def)

text \<open>Deleting the cluster object in a process that started no checker since it began always ends in a
  panic, once the finalizer and the capacity annotations are gone: the stop channel is nil then.\<close>

lemma reconcile_delete_nil_channel:
  assumes "R_stopCh r = NilChan"
    and "\<And>s. wp (removeFinalizer K L ns name) (\<lambda>err t. err = None) (\<lambda>_ _. True) s"
    and "\<And>s. wp (RemoveNodeCapacityAnnotations E K) (\<lambda>err t. err = None) (\<lambda>_ _. True) s"
  shows "wp (reconcile_delete E K L ns name r) (\<lambda>_ _. False) (\<lambda>_ _. True) s"
  using assms by (rule reconcile_delete_panics)

lemma reconcile_delete_nil_channel_applied:
  "wp (reconcile_delete (scripted (\<lambda>_ _. [])) (empty_cluster\<lparr>Clusters := holding [some_cluster ''c1'' 1]\<rparr>) some_runtime
        ''ns'' ''c1'' (reconciler_init some_globals ''img:2'')) (\<lambda>_ _. False) (\<lambda>_ _. True) start"
proof (rule reconcile_delete_nil_channel)
  show "wp (removeFinalizer (empty_cluster\<lparr>Clusters := holding [some_cluster ''c1'' 1]\<rparr>) some_runtime ''ns'' ''c1'')
      (\<lambda>err t. err = None) (\<lambda>_ _. True) s" for s
    by (simp add: removeFinalizer_def RemoveFinalizer_def wpg some_cluster_def wrapped_def)
  show "wp (RemoveNodeCapacityAnnotations (scripted (\<lambda>_ _. [])) (empty_cluster\<lparr>Clusters := holding [some_cluster ''c1'' 1]\<rparr>))
      (\<lambda>err t. err = None) (\<lambda>_ _. True) s" for s
    by (simp add: RemoveNodeCapacityAnnotations_def wpg)
qed (simp add: reconciler_init_def)

text \<open>C21: Removing the capacity annotations patches nodes and nothing else, and each patch takes annotations of
  the capacity prefix from that node and leaves all its other annotations as they were; it never
  panics, whatever the API server answers to the patches.\<close>

theorem RemoveNodeCapacityAnnotations_only:
  assumes "\<forall>w. fst (ra_list (Nodes K) [] [] w) = Inr ns"
  shows "wp (RemoveNodeCapacityAnnotations E K) (\<lambda>_. grown (patches_nodes ns) s) (\<lambda>_ _. False) s"
  by (rule RemoveNodeCapacityAnnotations_writes) (use assms in \<open>metis fst_conv\<close>)

definition annotated_node :: Node where
  "annotated_node = \<lparr>N_Name = ''n1'', N_Annotations = [(''capacity.topolvm.cybozu.com/hdd'', ''1''), (''kubernetes.io/x'', ''y'')],
     N_Conditions = []\<rparr>"

theorem RemoveNodeCapacityAnnotations_only_applied:
  "wp (RemoveNodeCapacityAnnotations (scripted (\<lambda>_ _. [])) (empty_cluster\<lparr>Nodes := holding [annotated_node]\<rparr>))
     (\<lambda>_. grown (patches_nodes [annotated_node]) start) (\<lambda>_ _. False) start"
  by (rule RemoveNodeCapacityAnnotations_only) simp

section \<open>The status checker\<close>

text \<open>Of the pods of the node deployments, the checker makes one phase per node: failure for a node without
  a pod, otherwise what its last pod says, which is ready exactly for a running pod whose containers
  are all ready; other nodes get no phase.\<close>

lemma pods_status_phases:
  "gm_get (fst (pods_status pods nodes)) k =
     (if k \<in> set nodes then Some (node_entry k (phase_of_pods pods k)) else None) \<and>
   (fst (pod_phase p) = ConditionReady \<longleftrightarrow> P_Phase p = ''Running'' \<and> list_all (\<lambda>r. r) (P_ContainersReady p))"
  using pods_status_get [of pods nodes k] pod_phase_ready(1) [of p] by (simp add: list_all_iff)

text \<open>C22: Whatever the API server answers, all that a check writes is the status of the cluster; every entry
  keeps its node, classes and loops, new entries come last, an entry without a successful class is
  a failure, and the cluster is called ready exactly when the pods of some entry are, also when
  that entry is then found without a class.\<close>

theorem checkStatus_only_status:
  assumes "\<forall>w. fst (ra_get (Clusters K) ns name w) = Inr cl"
  shows "wp (checkStatus E K operatorNs ns name) (\<lambda>_. grown (updates_cluster (monitored cl)) s)
     (\<lambda>_. grown (updates_cluster (monitored cl)) s) s"
  by (rule checkStatus_writes) (use assms in \<open>metis fst_conv\<close>)

theorem checkStatus_only_status_applied:
  "wp (checkStatus (scripted (\<lambda>_ _. [])) (empty_cluster\<lparr>Clusters := holding [some_cluster ''c1'' 1]\<rparr>) ''ns'' ''ns'' ''c1'')
     (\<lambda>_. grown (updates_cluster (monitored (some_cluster ''c1'' 1))) start)
     (\<lambda>_. grown (updates_cluster (monitored (some_cluster ''c1'' 1))) start) start"
  by (rule checkStatus_only_status) simp

section \<open>The watch on the config maps\<close>

text \<open>For an existing node deployment, an update of the node's config map that leaves the configuration of
  lvmd as it was costs one read; a changed configuration is followed by one list of the pods with
  the label of that deployment and exactly one deletion of each of them, in order.\<close>

lemma node_pods_restarted:
  assumes "gm_get (cm_data newCm) LvmdConfigMapKey = Some conf"
    and "ra_get (Deployments K) (G_NameSpace (R_globals (CC_reconciler c)))
           (TruncateNodeName K TopolvmNodeDeploymentFmt nodeName) (world s) = (Inr d, w)"
    and "ra_list (Pods K) (G_NameSpace (R_globals (CC_reconciler c))) (pod_selector K nodeName) w = (Inr pods, w')"
  shows "wp (update_node_deployment K c nodeName oldCm newCm)
    (\<lambda>_ t. trace t = trace s @ Api VGet (Named ''Deployment'' (TruncateNodeName K TopolvmNodeDeploymentFmt nodeName)) #
       (if gm_get_default [] (cm_data oldCm) LvmdConfigMapKey = conf then []
        else Api VList (Named ''Pod'' (pod_selector K nodeName)) #
          map (\<lambda>p. Api VDelete (Named ''Pod'' (P_Name p))) pods)) (\<lambda>_ _. False) s"
  using assms by (rule update_node_deployment_trace)

definition node_pod :: Pod where
  "node_pod = \<lparr>P_Name = ''topolvm-node-n1-x'', P_NodeName = ''n1'', P_Phase = ''Running'', P_ContainersReady = [True],
     P_OwnerReferences = [], P_Containers = []\<rparr>"

lemma node_pods_restarted_applied:
  "wp (update_node_deployment (empty_cluster\<lparr>Deployments := holding [node_getDeployment some_globals ''d'' ''n1'' ''cm'' some_ref],
           Pods := holding [node_pod]\<rparr>)
        some_controller ''n1'' (node_cm [(LvmdConfigMapKey, ''old'')]) (node_cm [(LvmdConfigMapKey, ''new'')]))
     (\<lambda>_ t. Api VDelete (Named ''Pod'' ''topolvm-node-n1-x'') \<in> set (trace t)) (\<lambda>_ _. False) start"
  by (rule wp_mono [OF node_pods_restarted [where conf = "''new''" and w = "()" and w' = "()" and pods = "[node_pod]" and
        d = "node_getDeployment some_globals ''d'' ''n1'' ''cm'' some_ref"]])
     (auto simp: gm_get_def gm_get_default_def node_pod_def)

section \<open>Alarms\<close>



section \<open>Policies\<close>


end
