(* ===== verification/StorageConfig.thy ===== *)
theory StorageConfig
  imports Reconciler Provision
begin

text \<open>
  The storage section of the cluster resource on its way from the operator, which checks it and starts
  the jobs (\<open>checkStorageConfig\<close> and \<open>startPrepareVolumeGroupJob\<close> of
  \<open>controllers/topolvmcluster_controller.go\<close>), to the job on a node, which turns it into device classes
  (\<open>provision\<close> of \<open>controllers/preparevg_controller.go\<close>).
  Proved: what an accepted section becomes on a node, and on which nodes.
\<close>

text \<open>The names a class needs before a volume group can be made for it.\<close>

definition class_named :: "DeviceClass \<Rightarrow> bool" where
  "class_named d \<longleftrightarrow> DC_ClassName d \<noteq> [] \<and> DC_VgName d \<noteq> []"

lemma checkStorageConfig_None:
  "checkStorageConfig cl = None \<longleftrightarrow> (let st = Spec_Storage (TC_Spec cl) in
     (St_UseAllNodes st \<longrightarrow> St_DeviceClasses st = None \<and> St_VolumeGroupName st \<noteq> [] \<and> St_ClassName st \<noteq> []) \<and>
     (St_UseAllDevices st \<longrightarrow> St_UseAllNodes st \<and> St_Devices st = None))"
  by (auto simp: checkStorageConfig_def Let_def)

lemma single_class_named: "class_named (single_class st devs) \<longleftrightarrow> St_ClassName st \<noteq> [] \<and> St_VolumeGroupName st \<noteq> []"
  by (simp add: class_named_def single_class_def)

lemma map_sum_Inr: "map_sum id g r = Inr b \<longleftrightarrow> (\<exists>a. r = Inr a \<and> b = g a)"
  by (cases r) auto

text \<open>The classes chosen, by the form of the section.\<close>

definition chosen :: "Storage \<Rightarrow> prepare_vg \<Rightarrow> NodeDevices \<Rightarrow> bool" where
  "chosen st c nd \<longleftrightarrow>
     (if St_UseAllDevices st \<or> St_Devices st \<noteq> None
      then \<exists>devs. nd = \<lparr>ND_NodeName = PV_nodeName c, ND_DeviceClasses = [single_class st devs]\<rparr>
      else nd = (case St_DeviceClasses st of None \<Rightarrow> PV_nodeDevices c
        | Some nds \<Rightarrow> last_node_devices (PV_nodeName c) nds (PV_nodeDevices c)))"

definition same_node :: "prepare_vg \<Rightarrow> prepare_vg \<Rightarrow> bool" where
  "same_node c c' \<longleftrightarrow> PV_nodeName c' = PV_nodeName c \<and> PV_namespace c' = PV_namespace c"

lemma choose_devices_chosen:
  "wp (choose_devices E cl c disks)
     (\<lambda>r t. \<forall>disks' c'. r = Inr (disks', c') \<longrightarrow> chosen (Spec_Storage (TC_Spec cl)) c (PV_nodeDevices c') \<and> same_node c c')
     (\<lambda>_ _. True) s"
proof -
  let ?st = "Spec_Storage (TC_Spec cl)"
  let ?Q = "\<lambda>r (t :: 'a host). \<forall>disks' c'. r = Inr (disks', c') \<longrightarrow> chosen ?st c (PV_nodeDevices c') \<and> same_node c c'"
  have finish: "wp (go_bind m (\<lambda>r. go_return (map_sum id (\<lambda>(d, ls, lm). (d, c\<lparr>PV_nodeDevices := nd, PV_loopsState := ls, PV_loopMap := lm\<rparr>)) r)))
      ?Q (\<lambda>_ _. True) t" if "chosen ?st c nd"
    for m :: "('a host, go_error + LocalDisk gomap \<times> LoopState list \<times> LoopState gomap) go" and nd t
    unfolding wp_bind wp_return by (rule wp_any) (use that in \<open>auto simp: map_sum_Inr same_node_def split: prod.splits\<close>)
  show ?thesis
  proof (cases "St_UseAllDevices ?st")
    case True
    then have "chosen ?st c \<lparr>ND_NodeName = PV_nodeName c, ND_DeviceClasses = [single_class ?st devs]\<rparr>" for devs
      by (auto simp: chosen_def)
    then show ?thesis
      unfolding choose_devices_def Let_def if_P [OF True] by (subst wp_bind, intro wp_any finish TrueI)
  next
    case False
    show ?thesis
    proof (cases "St_Devices ?st")
      case (Some devs)
      then have "chosen ?st c \<lparr>ND_NodeName = PV_nodeName c, ND_DeviceClasses = [single_class ?st devs]\<rparr>"
        by (auto simp: chosen_def)
      then show ?thesis unfolding choose_devices_def Let_def if_not_P [OF False] Some option.case by (rule finish)
    next
      case no_devices: None
      show ?thesis
      proof (cases "St_DeviceClasses ?st")
        case classes: (Some nds)
        have "chosen ?st c (last_node_devices (PV_nodeName c) nds (PV_nodeDevices c))"
          by (simp add: chosen_def False no_devices classes)
        then show ?thesis
          unfolding choose_devices_def Let_def if_not_P [OF False] no_devices classes option.case by (rule finish)
      next
        case unset: None
        show ?thesis
          unfolding choose_devices_def Let_def if_not_P [OF False] no_devices unset option.case wp_return
          by (simp add: chosen_def same_node_def False no_devices unset)
      qed
    qed
  qed
qed

text \<open>An accepted section names its classes where it is for all nodes.\<close>

lemma accepted_classes_named:
  assumes "checkStorageConfig cl = None" "St_UseAllNodes (Spec_Storage (TC_Spec cl))"
    and "chosen (Spec_Storage (TC_Spec cl)) c nd" "ND_DeviceClasses (PV_nodeDevices c) = []"
  shows "\<forall>d \<in> set (ND_DeviceClasses nd). class_named d"
  using assms by (auto simp: checkStorageConfig_None Let_def chosen_def single_class_named split: if_splits)

text \<open>Which nodes get a job the first time a section is seen.\<close>

lemma first_jobs_without_all_nodes:
  assumes "\<not> St_UseAllNodes (Spec_Storage (TC_Spec cl))"
  shows "startPrepareVolumeGroupJob Poll K G img None cl ref =
    go_return (None, case St_DeviceClasses (Spec_Storage (TC_Spec cl)) of None \<Rightarrow> [] | Some nds \<Rightarrow> map ND_NodeName nds)"
  using assms by (simp add: startPrepareVolumeGroupJob_def)

end
