(* ===== verification/Stores.thy ===== *)
theory Stores
  imports K8sUtil
begin

text \<open>
  Following one observation of the world (what the API server stores for one object, say) through a
  program.  \<open>still f m\<close>: whether \<open>m\<close> returns or panics, \<open>f\<close> of the world is afterwards what it was;
  \<open>calm f m\<close>: besides, \<open>m\<close> always returns.  The rules of the collection \<open>calms\<close> prove both along the
  program text, from what the server and the executor keep.
\<close>

named_theorems calms "rules for keeps"

definition keeps :: "bool \<Rightarrow> ('w \<Rightarrow> 'v) \<Rightarrow> ('w host, 'a) go \<Rightarrow> bool" where
  "keeps p f m \<longleftrightarrow> (\<forall>s. f (world (snd (m s))) = f (world s) \<and> (p \<or> (\<exists>a. fst (m s) = Ret a)))"

abbreviation still :: "('w \<Rightarrow> 'v) \<Rightarrow> ('w host, 'a) go \<Rightarrow> bool" where
  "still f m \<equiv> keeps True f m"

abbreviation calm :: "('w \<Rightarrow> 'v) \<Rightarrow> ('w host, 'a) go \<Rightarrow> bool" where
  "calm f m \<equiv> keeps False f m"

lemma still_wp: "keeps p f m \<Longrightarrow> wp m (\<lambda>_ t. f (world t) = f (world s)) (\<lambda>_ t. f (world t) = f (world s)) s"
  unfolding keeps_def by (drule spec [of _ s]) (auto simp: wp_def split: prod.splits outcome.splits)

lemma calm_wp: "calm f m \<Longrightarrow> wp m (\<lambda>_ t. f (world t) = f (world s)) (\<lambda>_ _. False) s"
  unfolding keeps_def by (drule spec [of _ s]) (auto simp: wp_def split: prod.splits)

lemma keeps_return [calms, simp, intro]: "keeps p f (go_return a)"
  by (simp add: keeps_def go_return_def)

lemma keeps_lift [calms, simp]: "keeps p f (go_lift (Ret a))" "still f (go_lift r)"
  by (simp_all add: keeps_def go_lift_def)

lemma keeps_bind [calms]:
  assumes "keeps p f m" and "\<And>a. keeps p f (g a)"
  shows "keeps p f (go_bind m g)"
  unfolding keeps_def
proof
  fix s
  obtain r t where m: "m s = (r, t)" by (cases "m s")
  then have t: "f (world t) = f (world s)" "p \<or> (\<exists>a. r = Ret a)" using assms(1) unfolding keeps_def by (metis fst_conv snd_conv)+
  show "f (world (snd (go_bind m g s))) = f (world s) \<and> (p \<or> (\<exists>b. fst (go_bind m g s) = Ret b))"
  proof (cases r)
    case (Ret a)
    have "f (world (snd (g a t))) = f (world t) \<and> (p \<or> (\<exists>b. fst (g a t) = Ret b))" using assms(2) by (simp add: keeps_def)
    then show ?thesis using t m Ret by (simp add: go_bind_def)
  qed (use t m in \<open>simp add: go_bind_def\<close>)
qed

lemma keeps_fold [calms]: "(\<And>x b. x \<in> set xs \<Longrightarrow> keeps p f (g x b)) \<Longrightarrow> keeps p f (go_fold g xs b)"
  by (induction xs arbitrary: b) (auto intro: keeps_bind)

lemma keeps_if [calms]: "(c \<Longrightarrow> keeps p f m) \<Longrightarrow> (\<not> c \<Longrightarrow> keeps p f n) \<Longrightarrow> keeps p f (if c then m else n)"
  by simp

lemma keeps_option [calms]:
  "(x = None \<Longrightarrow> keeps p f m) \<Longrightarrow> (\<And>a. x = Some a \<Longrightarrow> keeps p f (g a)) \<Longrightarrow> keeps p f (case x of None \<Rightarrow> m | Some a \<Rightarrow> g a)"
  by (cases x) simp_all

lemma keeps_sum [calms]:
  "(\<And>e. x = Inl e \<Longrightarrow> keeps p f (g e)) \<Longrightarrow> (\<And>a. x = Inr a \<Longrightarrow> keeps p f (h a)) \<Longrightarrow>
   keeps p f (case x of Inl e \<Rightarrow> g e | Inr a \<Rightarrow> h a)"
  by (cases x) simp_all

lemma keeps_prod [calms]: "(\<And>a b. x = (a, b) \<Longrightarrow> keeps p f (g a b)) \<Longrightarrow> keeps p f (case x of (a, b) \<Rightarrow> g a b)"
  by (cases x) simp_all

lemma keeps_let [calms]: "keeps p f (g x) \<Longrightarrow> keeps p f (let y = x in g y)"
  by simp

section \<open>The API server\<close>

text \<open>No request for objects of this kind changes what is observed.\<close>

definition ra_keeps :: "('w \<Rightarrow> 'v) \<Rightarrow> ('w, 'o) resource_api \<Rightarrow> bool" where
  "ra_keeps f A \<longleftrightarrow>
     (\<forall>ns n w. f (snd (ra_get A ns n w)) = f w) \<and> (\<forall>ns sel w. f (snd (ra_list A ns sel w)) = f w) \<and>
     (\<forall>ns ob w. f (snd (ra_create A ns ob w)) = f w) \<and> (\<forall>ns ob w. f (snd (ra_update A ns ob w)) = f w) \<and>
     (\<forall>ns ob w. f (snd (ra_update_status A ns ob w)) = f w) \<and> (\<forall>ns n p w. f (snd (ra_patch A ns n p w)) = f w) \<and>
     (\<forall>ns n w. f (snd (ra_delete A ns n w)) = f w)"

lemma keeps_api [calms]:
  assumes "ra_keeps f A"
  shows "keeps p f (api_get kind A ns n)" "keeps p f (api_list kind A ns n)" "keeps p f (api_create obj A ns x)"
    "keeps p f (api_update obj A ns x)" "keeps p f (api_update_status obj A ns x)" "keeps p f (api_patch ob A ns n bytes)"
    "keeps p f (api_delete kind A ns n)"
  using assms
  by (auto simp: keeps_def ra_keeps_def api_get_def api_list_def api_create_def api_update_def api_update_status_def
      api_patch_def api_delete_def split: prod.splits) (metis snd_conv)+

text \<open>Polling keeps what its condition keeps.\<close>

definition poll_keeps :: "('w \<Rightarrow> 'v) \<Rightarrow> 'w poller \<Rightarrow> bool" where
  "poll_keeps f Poll \<longleftrightarrow> (\<forall>p interval timeout m. keeps p f m \<longrightarrow> keeps p f (Poll interval timeout m))"

lemma keeps_wait_gone [calms]: "keeps p f getAction \<Longrightarrow> keeps p f (wait_gone getAction name n)"
  by (induction n) (auto intro!: calms)

lemma keeps_deleteResourceAndWait [calms]:
  "keeps p f deleteAction \<Longrightarrow> keeps p f getAction \<Longrightarrow> keeps p f (deleteResourceAndWait name deleteAction getAction)"
  unfolding deleteResourceAndWait_def by (intro calms)

lemma keeps_create_or_update [calms]: "ra_keeps f A \<Longrightarrow> keeps p f (create_or_update obj A ns x what)"
  unfolding create_or_update_def by (intro calms)

lemma keeps_DeleteDeployment [calms]: "ra_keeps f (Deployments K) \<Longrightarrow> keeps p f (DeleteDeployment K ns name)"
  unfolding DeleteDeployment_def by (intro calms)

lemma keeps_wait_job_gone [calms]: "ra_keeps f (Jobs K) \<Longrightarrow> keeps p f (wait_job_gone K ns name n)"
  by (induction n) (auto intro!: calms)

lemma keeps_RunReplaceableJob [calms]:
  assumes "ra_keeps f (Jobs K)" "poll_keeps f Poll"
  shows "keeps p f (RunReplaceableJob Poll K ns job deleteIfFound)"
proof -
  have "keeps p f (job_condition K ns n)" for n unfolding job_condition_def using assms(1) by (intro calms)
  then have "keeps p f (WaitForJobCompletion Poll K ns j n)" for j n
    using assms(2) by (simp add: WaitForJobCompletion_def poll_keeps_def)
  moreover have "keeps p f (DeleteBatchJob K ns n w)" for n w unfolding DeleteBatchJob_def using assms(1) by (intro calms)
  ultimately show ?thesis unfolding RunReplaceableJob_def using assms(1) by (intro calms)
qed

section \<open>The executor\<close>

definition exec_keeps :: "('w \<Rightarrow> 'v) \<Rightarrow> 'w executor \<Rightarrow> bool" where
  "exec_keeps f E \<longleftrightarrow>
     (\<forall>cmd args w. f (snd (ExecuteCommand E cmd args w)) = f w) \<and>
     (\<forall>cmd args w. f (snd (ExecuteCommandWithOutput E cmd args w)) = f w) \<and>
     (\<forall>w. f (snd (UuidNew E w)) = f w) \<and> (\<forall>w. f (snd (MapRank E w)) = f w)"

lemma keeps_exec [calms]:
  assumes "exec_keeps f E"
  shows "keeps p f (run_cmd E cmd args)" "keeps p f (run_out E cmd args)" "keeps p f (uuid_new E)" "keeps p f (go_range E m)"
    "keeps p f (look_path E cmd)"
  using assms
  by (auto simp: keeps_def exec_keeps_def run_cmd_def run_out_def uuid_new_def go_range_def look_path_def
      split: prod.splits) (metis snd_conv)+

end
