(* ===== verification/Watch.thy ===== *)
theory Watch
  imports LvmdConfig ReconcilerFacts Discover Stores
begin

text \<open>
  The operator's watch on the config map of a node over time (\<open>StartWatch\<close> of
  \<open>controllers/lvmdconfig_controller.go\<close>), against an API server that stores the cluster.  The informer
  calls \<open>onAdd\<close> for the first version of the config map it sees and \<open>onUpdate\<close> for each pair of
  consecutive versions; \<open>onDelete\<close> does nothing.
  Proved: the cluster's status follows the last version.
\<close>

section \<open>The informer\<close>

text \<open>Each version comes with the state of the controller when it is handled.\<close>

fun watch_updates ::
    "'w poller \<Rightarrow> 'w clientset \<Rightarrow> ConfigMap \<Rightarrow> (cm_controller \<times> ConfigMap) list \<Rightarrow> ('w host, unit) go" where
  "watch_updates Poll K old [] = go_return ()"
| "watch_updates Poll K old ((c, new) # evs) =
     go_bind (cm_onUpdate Poll K c old new) (\<lambda>_. watch_updates Poll K new evs)"

fun StartWatch :: "'w poller \<Rightarrow> 'w clientset \<Rightarrow> (cm_controller \<times> ConfigMap) list \<Rightarrow> ('w host, unit) go" where
  "StartWatch Poll K [] = go_return ()"
| "StartWatch Poll K ((c, cm) # evs) = go_bind (cm_onAdd K c cm) (\<lambda>_. watch_updates Poll K cm evs)"

section \<open>A server that stores the cluster\<close>

text \<open>
  \<open>f\<close> reads the stored cluster off the world: getting it returns it, an update of the status replaces
  the status and nothing else, and requests for other kinds of objects leave it alone.
\<close>

definition stores_cluster :: "('w \<Rightarrow> TopolvmCluster) \<Rightarrow> 'w clientset \<Rightarrow> string \<Rightarrow> string \<Rightarrow> bool" where
  "stores_cluster f K ns name \<longleftrightarrow>
     (\<forall>w. \<exists>w'. ra_get (Clusters K) ns name w = (Inr (f w), w') \<and> f w' = f w) \<and>
     (\<forall>cl w. TC_Name cl = TC_Name (f w) \<longrightarrow>
        (\<exists>w'. ra_update_status (Clusters K) ns cl w = (None, w') \<and> f w' = (f w)\<lparr>TC_Status := TC_Status cl\<rparr>)) \<and>
     ra_keeps f (ConfigMaps K) \<and> ra_keeps f (Deployments K) \<and> ra_keeps f (Pods K) \<and> ra_keeps f (Jobs K) \<and>
     (\<forall>w. f (snd (ServerVersion K w)) = f w)"

definition with_node_state :: "NodeStorageState \<Rightarrow> TopolvmCluster \<Rightarrow> TopolvmCluster" where
  "with_node_state st cl = cl\<lparr>TC_Status := (TC_Status cl)\<lparr>Status_NodeStorageStatus :=
     put_node_state st (Status_NodeStorageStatus (TC_Status cl))\<rparr>\<rparr>"

lemma reconciler_UpdateStatus_stores:
  assumes "stores_cluster f K ns name"
  shows "wp (reconciler_UpdateStatus K (Some (ns, name)) st)
    (\<lambda>err t. err = None \<and> f (world t) = with_node_state st (f (world s))) (\<lambda>_ _. False) s"
proof -
  obtain w' where get: "ra_get (Clusters K) ns name (world s) = (Inr (f (world s)), w')" "f w' = f (world s)"
    using assms unfolding stores_cluster_def by blast
  have "TC_Name (with_node_state st (f (world s))) = TC_Name (f w')" by (simp add: get(2) with_node_state_def)
  then obtain w'' where "ra_update_status (Clusters K) ns (with_node_state st (f (world s))) w' = (None, w'')"
    "f w'' = (f w')\<lparr>TC_Status := TC_Status (with_node_state st (f (world s)))\<rparr>"
    using assms unfolding stores_cluster_def by blast
  with get show ?thesis
    by (simp add: reconciler_UpdateStatus_def wpg Let_def UpdateStatus_no_retry try_update_status_def with_node_state_def wrapped_def)
qed

section \<open>The handlers\<close>

lemma stores_clusterD:
  assumes "stores_cluster f K ns name"
  shows "ra_keeps f (ConfigMaps K)" "ra_keeps f (Deployments K)" "ra_keeps f (Pods K)" "ra_keeps f (Jobs K)"
    "calm f (server_version K)"
proof -
  show "calm f (server_version K)"
    using assms unfolding stores_cluster_def keeps_def server_version_def
    by (auto split: prod.splits) (metis snd_conv)
qed (use assms in \<open>simp_all add: stores_cluster_def\<close>)

lemma calm_node_deployment:
  assumes "stores_cluster f K ns name"
  shows "calm f (checkingDeploymentExisting K G node)" "calm f (replaceNodePod K G node)"
    "calm f (createNodeDeployment K G cmName node ref)" "calm f (update_node_deployment K c node old new)"
proof -
  note keeps = stores_clusterD [OF assms]
  show 1: "calm f (checkingDeploymentExisting K G node)" for G
    unfolding checkingDeploymentExisting_def CheckNodeDeploymentIsExisting_def using keeps by (intro calms)
  show 2: "calm f (replaceNodePod K G node)" for G unfolding replaceNodePod_def using keeps by (intro calms)
  show 3: "calm f (createNodeDeployment K G cmName node ref)" for G cmName ref
    unfolding createNodeDeployment_def CreateReplaceDeployment_def CreateNodeDeployment_def CreateDeployment_def
    using keeps by (intro calms)
  show "calm f (update_node_deployment K c node old new)"
    unfolding update_node_deployment_def by (intro calms 1 2 3)
qed

lemma calm_restart:
  assumes "stores_cluster f K ns name" "poll_keeps f Poll" "R_lastCluster (CC_reconciler c) \<noteq> None"
  shows "calm f (restart_on_device_change Poll K c node old new)"
proof -
  note keeps = stores_clusterD [OF assms(1)]
  obtain b where "UseAllNodeAndDevices (CC_reconciler c) = Ret b" using assms(3) by (auto simp: UseAllNodeAndDevices_def)
  moreover have "calm f (RestartJob Poll K G img n ref)" for G img n ref
    unfolding RestartJob_def MakeAndRunJob_def makeJob_def using keeps assms(2) by (intro calms)
  ultimately show ?thesis unfolding restart_on_device_change_def by (auto intro!: calms)
qed

text \<open>The cluster shows the status of a version of the config map, where that can be decoded.\<close>

definition cluster_entry :: "TopolvmCluster \<Rightarrow> string \<Rightarrow> NodeStorageState option" where
  "cluster_entry cl node = find (\<lambda>e. NS_Node e = node) (Status_NodeStorageStatus (TC_Status cl))"

definition shows_version :: "ConfigMap \<Rightarrow> TopolvmCluster \<Rightarrow> bool" where
  "shows_version cm cl \<longleftrightarrow> (\<forall>st. Unmarshal_status (stored_status cm) = Inr st \<longrightarrow> cluster_entry cl (NS_Node st) = Some st)"

lemma find_put_node_state:
  "find (\<lambda>e. NS_Node e = node) (put_node_state st es) =
     (if node = NS_Node st then Some st else find (\<lambda>e. NS_Node e = node) es)"
proof (induction es)
  case (Cons e es)
  have "put_node_state st (e # es) = (if NS_Node e = NS_Node st then st # es else e # put_node_state st es)"
    by (simp add: put_node_state_def split: option.split)
  with Cons show ?case by auto
qed (simp add: put_node_state_def)

lemma cluster_entry_put:
  "cluster_entry (with_node_state st cl) node = (if node = NS_Node st then Some st else cluster_entry cl node)"
  by (simp add: cluster_entry_def with_node_state_def find_put_node_state)

text \<open>What handling a version does to the stored cluster.\<close>

definition handled :: "ConfigMap \<Rightarrow> TopolvmCluster \<Rightarrow> TopolvmCluster" where
  "handled cm cl = (case Unmarshal_status (stored_status cm) of Inl _ \<Rightarrow> cl | Inr st \<Rightarrow> with_node_state st cl)"

lemma handled_shows: "shows_version cm (handled cm cl)"
  by (auto simp: shows_version_def handled_def cluster_entry_put)

definition watched :: "string \<Rightarrow> string \<Rightarrow> cm_controller \<times> ConfigMap \<Rightarrow> bool" where
  "watched ns name ev \<longleftrightarrow> has_prefix (CM_Name (snd ev)) LvmdConfigMapNamePrefix \<and>
     R_namespacedName (CC_reconciler (fst ev)) = Some (ns, name) \<and> R_lastCluster (CC_reconciler (fst ev)) \<noteq> None"

lemma wp_then_calm:
  fixes f :: "'w \<Rightarrow> 'v"
  assumes "wp m (\<lambda>_ t. f (world t) = v) (\<lambda>_ _. False) s" and "\<And>a. calm f (g a)"
  shows "wp (go_bind m g) (\<lambda>_ t. f (world t) = v) (\<lambda>_ _. False) s"
  unfolding wp_bind
proof (rule wp_mono [OF assms(1)])
  fix a and t :: "'w host"
  assume "f (world t) = v"
  then show "wp (g a) (\<lambda>_ t. f (world t) = v) (\<lambda>_ _. False) t" by (intro wp_mono [OF calm_wp [OF assms(2)]]) simp_all
qed

lemma calm_then_wp:
  assumes "calm f m" and "\<And>a t. f (world t) = f (world s) \<Longrightarrow> wp (g a) Q R t" and "\<And>e t. False \<Longrightarrow> R e t"
  shows "wp (go_bind m g) Q R s"
  unfolding wp_bind by (rule wp_mono [OF calm_wp [OF assms(1)]]) (use assms(2) in auto)

lemma updateClusterStatus_stores:
  assumes "stores_cluster f K ns name" "R_namespacedName (CC_reconciler c) = Some (ns, name)"
  shows "wp (updateClusterStatus K c cm) (\<lambda>_ t. f (world t) = handled cm (f (world s))) (\<lambda>_ _. False) s"
  unfolding updateClusterStatus_def handled_def stored_status_def [symmetric] assms(2)
  by (auto simp: wpg split: sum.split intro!: wp_mono [OF reconciler_UpdateStatus_stores [OF assms(1)]])

lemma checkUpdateClusterStatus_stores:
  assumes "stores_cluster f K ns name" "R_namespacedName (CC_reconciler c) = Some (ns, name)"
  shows "wp (checkUpdateClusterStatus K c old new)
    (\<lambda>_ t. f (world t) = (if stored_status old = stored_status new then f (world s) else handled new (f (world s))))
    (\<lambda>_ _. False) s"
  unfolding checkUpdateClusterStatus_def handled_def stored_status_def [symmetric] assms(2) Let_def
  by (auto simp: wpg split: sum.split intro!: wp_mono [OF reconciler_UpdateStatus_stores [OF assms(1)]])

lemma stored_status_owner [simp]: "stored_status (cm\<lparr>CM_OwnerReferences := refs\<rparr>) = stored_status cm"
  by (simp add: stored_status_def cm_data_def)

lemma cm_onAdd_stores:
  assumes "stores_cluster f K ns name" "watched ns name (c, cm)"
  shows "wp (cm_onAdd K c cm) (\<lambda>_ t. f (world t) = handled cm (f (world s))) (\<lambda>_ _. False) s"
proof -
  have prefix: "has_prefix (CM_Name cm) LvmdConfigMapNamePrefix" and name: "R_namespacedName (CC_reconciler c) = Some (ns, name)"
    using assms(2) by (simp_all add: watched_def)
  note calm = calm_node_deployment [OF assms(1)]
  have "wp (updateClusterStatus K c (cm\<lparr>CM_OwnerReferences := refs\<rparr>)) (\<lambda>_ u. f (world u) = handled cm (f (world s)))
      (\<lambda>_ _. False) t" if "f (world t) = f (world s)" for refs t
    by (rule wp_mono [OF updateClusterStatus_stores [OF assms(1) name]]) (simp_all add: that handled_def)
  then show ?thesis
    unfolding cm_onAdd_def Let_def using prefix stores_clusterD(1) [OF assms(1)]
    by (simp only: if_False not_not simp_thms) (intro calm_then_wp wp_then_calm calms calm | assumption | simp)+
qed

lemma cm_onUpdate_stores:
  assumes "stores_cluster f K ns name" "poll_keeps f Poll" "watched ns name (c, new)"
    and "has_prefix (CM_Name old) LvmdConfigMapNamePrefix"
  shows "wp (cm_onUpdate Poll K c old new)
    (\<lambda>_ t. f (world t) = (if stored_status old = stored_status new then f (world s) else handled new (f (world s))))
    (\<lambda>_ _. False) s"
proof -
  have name: "R_namespacedName (CC_reconciler c) = Some (ns, name)" "R_lastCluster (CC_reconciler c) \<noteq> None"
    using assms(3) by (simp_all add: watched_def)
  let ?v = "if stored_status old = stored_status new then f (world s) else handled new (f (world s))"
  define new' where "new' = (if CM_OwnerReferences new = [] then new\<lparr>CM_OwnerReferences := [CC_ref c]\<rparr> else new)"
  have same: "stored_status new' = stored_status new" "handled new' = handled new"
    by (simp_all add: new'_def handled_def fun_eq_iff)
  have check: "wp (checkUpdateClusterStatus K c old new') (\<lambda>_ u. f (world u) = ?v) (\<lambda>_ _. False) t"
    if "f (world t) = f (world s)" for t
    by (rule wp_mono [OF checkUpdateClusterStatus_stores [OF assms(1) name(1)]]) (simp_all add: that same)
  have rest: "calm f (if getNodeName new' = [] then go_return ()
      else go_bind (restart_on_device_change Poll K c (getNodeName new') old new') (\<lambda>_.
        update_node_deployment K c (getNodeName new') old new'))"
    by (intro calms calm_restart [OF assms(1,2) name(2)] calm_node_deployment [OF assms(1)])
  have own: "calm f (if CM_OwnerReferences new = []
      then go_bind (api_update ConfigMapObj (ConfigMaps K) (CC_namespace c) new') (\<lambda>_. go_return ()) else go_return ())"
    using stores_clusterD(1) [OF assms(1)] by (intro calms)
  show ?thesis
    unfolding cm_onUpdate_def Let_def new'_def [symmetric] using assms(4)
    by (simp only: if_False not_not simp_thms) (intro calm_then_wp [OF own] wp_then_calm [OF check rest] | simp)+
qed

section \<open>The status follows the config map\<close>

text \<open>What a sequence of versions must not touch: entries of nodes none of the versions speaks of.\<close>

definition about :: "ConfigMap \<Rightarrow> string \<Rightarrow> bool" where
  "about cm node \<longleftrightarrow> (\<exists>st. Unmarshal_status (stored_status cm) = Inr st \<and> NS_Node st = node)"

lemma handled_other: "\<not> about cm node \<Longrightarrow> cluster_entry (handled cm cl) node = cluster_entry cl node"
  by (auto simp: about_def handled_def cluster_entry_put split: sum.split)

lemma watch_updates_follow:
  fixes f :: "'w \<Rightarrow> TopolvmCluster"
  assumes "stores_cluster f K ns name" "poll_keeps f Poll" "\<forall>ev \<in> set evs. watched ns name ev"
    and "has_prefix (CM_Name old) LvmdConfigMapNamePrefix" "shows_version old (f (world s))"
  shows "wp (watch_updates Poll K old evs) (\<lambda>_ t. shows_version (last (old # map snd evs)) (f (world t)) \<and>
      (\<forall>node. (\<forall>ev \<in> set evs. \<not> about (snd ev) node) \<longrightarrow> cluster_entry (f (world t)) node = cluster_entry (f (world s)) node))
    (\<lambda>_ _. False) s"
  using assms(3-)
proof (induction evs arbitrary: old s)
  case (Cons ev evs)
  obtain c new where ev: "ev = (c, new)" by (cases ev)
  have watched: "watched ns name (c, new)" using Cons.prems(1) ev by simp
  show ?case
    unfolding ev watch_updates.simps wp_bind
  proof (rule wp_mono [OF cm_onUpdate_stores [OF assms(1,2) watched Cons.prems(2)]])
    fix t :: "'w host"
    assume t: "f (world t) = (if stored_status old = stored_status new then f (world s) else handled new (f (world s)))"
    have "shows_version new (f (world t))"
      using Cons.prems(3) handled_shows t by (auto simp: shows_version_def)
    moreover have "has_prefix (CM_Name new) LvmdConfigMapNamePrefix" using watched by (simp add: watched_def)
    ultimately have "wp (watch_updates Poll K new evs) (\<lambda>_ u. shows_version (last (new # map snd evs)) (f (world u)) \<and>
        (\<forall>node. (\<forall>ev \<in> set evs. \<not> about (snd ev) node) \<longrightarrow> cluster_entry (f (world u)) node = cluster_entry (f (world t)) node))
        (\<lambda>_ _. False) t"
      using Cons.IH Cons.prems(1) by simp
    note rest = this
    have other: "cluster_entry (f (world t)) node = cluster_entry (f (world s)) node" if "\<not> about new node" for node
      using handled_other [OF that] t by simp
    show "wp (watch_updates Poll K new evs) (\<lambda>_ u. shows_version (last (old # map snd ((c, new) # evs))) (f (world u)) \<and>
        (\<forall>node. (\<forall>ev \<in> set ((c, new) # evs). \<not> about (snd ev) node) \<longrightarrow>
          cluster_entry (f (world u)) node = cluster_entry (f (world s)) node)) (\<lambda>_ _. False) t"
      by (rule wp_mono [OF rest]) (use other in auto)
  qed simp
qed (simp add: wpg)

lemma StartWatch_follows:
  fixes f :: "'w \<Rightarrow> TopolvmCluster"
  assumes "stores_cluster f K ns name" "poll_keeps f Poll" "\<forall>ev \<in> set evs. watched ns name ev" "evs \<noteq> []"
  shows "wp (StartWatch Poll K evs) (\<lambda>_ t. shows_version (snd (last evs)) (f (world t)) \<and>
      (\<forall>node. (\<forall>ev \<in> set evs. \<not> about (snd ev) node) \<longrightarrow> cluster_entry (f (world t)) node = cluster_entry (f (world s)) node))
    (\<lambda>_ _. False) s"
proof -
  obtain c cm evs' where evs: "evs = (c, cm) # evs'" using assms(4) by (cases evs) auto
  have watched: "watched ns name (c, cm)" using assms(3) evs by simp
  have prefix: "has_prefix (CM_Name cm) LvmdConfigMapNamePrefix" using watched by (simp add: watched_def)
  have last: "snd (last evs) = last (cm # map snd evs')" by (simp add: evs last_map)
  show ?thesis
    unfolding last unfolding evs StartWatch.simps wp_bind
  proof (rule wp_mono [OF cm_onAdd_stores [OF assms(1) watched]])
    fix t :: "'w host"
    assume t: "f (world t) = handled cm (f (world s))"
    have "shows_version cm (f (world t))" by (simp add: t handled_shows)
    moreover have "\<forall>ev \<in> set evs'. watched ns name ev" using assms(3) evs by simp
    ultimately have "wp (watch_updates Poll K cm evs') (\<lambda>_ u. shows_version (last (cm # map snd evs')) (f (world u)) \<and>
        (\<forall>node. (\<forall>ev \<in> set evs'. \<not> about (snd ev) node) \<longrightarrow> cluster_entry (f (world u)) node = cluster_entry (f (world t)) node))
        (\<lambda>_ _. False) t"
      by (intro watch_updates_follow [OF assms(1,2) _ prefix])
    then show "wp (watch_updates Poll K cm evs') (\<lambda>_ u. shows_version (last (cm # map snd evs')) (f (world u)) \<and>
        (\<forall>node. (\<forall>ev \<in> set ((c, cm) # evs'). \<not> about (snd ev) node) \<longrightarrow>
          cluster_entry (f (world u)) node = cluster_entry (f (world s)) node)) (\<lambda>_ _. False) t"
      by (rule wp_mono) (auto simp: t handled_other)
  qed simp
qed

end
