(* ===== verification/DaemonStore.thy ===== *)
theory DaemonStore
  imports DiscoverDaemon Stores
begin

text \<open>
  The discovery daemon against an API server that stores the node's config map.
  Proved: from whatever the config map held, also none, the daemon brings it to hold the devices that
  are there, and keeps it so while they do not change, whatever else happens.
\<close>

section \<open>A server that stores the config map\<close>

text \<open>
  \<open>f\<close> reads the stored config map of that name off the world, if there is one.  Getting it returns
  it or an error that says it is missing; creating it where there is none stores it; a patch computed
  from the stored version makes it the new version, where the two differ in their data only.
\<close>

definition data_only :: "ConfigMap \<Rightarrow> ConfigMap \<Rightarrow> bool" where
  "data_only old new \<longleftrightarrow> (\<exists>d. new = old\<lparr>CM_Data := Some d\<rparr>)"

lemma data_only_put: "cm_put k v cm = Ret new \<Longrightarrow> data_only cm new"
  by (auto simp: cm_put_def data_only_def split: option.splits)

definition stores_config_map :: "('w \<Rightarrow> ConfigMap option) \<Rightarrow> 'w clientset \<Rightarrow> string \<Rightarrow> string \<Rightarrow> bool" where
  "stores_config_map f K ns name \<longleftrightarrow>
     (\<forall>w. \<exists>r w'. ra_get (ConfigMaps K) ns name w = (r, w') \<and> f w' = f w \<and>
        (case f w of None \<Rightarrow> (\<exists>e. r = Inl e \<and> IsNotFound e) | Some cm \<Rightarrow> r = Inr cm)) \<and>
     (\<forall>cm w. f w = None \<longrightarrow> CM_Name cm = name \<longrightarrow>
        (\<exists>w'. ra_create (ConfigMaps K) ns cm w = (None, w') \<and> f w' = Some cm)) \<and>
     (\<forall>old new w. f w = Some old \<longrightarrow> data_only old new \<longrightarrow> (\<exists>patch w'. cm_merge_patch K old new = Inr patch \<and>
        ra_patch (ConfigMaps K) (CM_Namespace new) (CM_Name old) patch w = (None, w') \<and> f w' = Some new))"

lemma cm_get_stores:
  assumes "stores_config_map f K ns name"
  shows "wp (cm_get K ns name) (\<lambda>r t. f (world t) = f (world s) \<and>
      (case f (world s) of None \<Rightarrow> (\<exists>e. r = Inl e \<and> IsNotFound e) | Some cm \<Rightarrow> r = Inr cm)) (\<lambda>_ _. False) s"
proof -
  obtain r w' where "ra_get (ConfigMaps K) ns name (world s) = (r, w')" "f w' = f (world s)"
    "case f (world s) of None \<Rightarrow> (\<exists>e. r = Inl e \<and> IsNotFound e) | Some cm \<Rightarrow> r = Inr cm"
    using assms unfolding stores_config_map_def by blast
  then show ?thesis by (simp add: cm_get_def wpg)
qed

lemma PatchConfigMap_stores:
  assumes "stores_config_map f K ns name" "f (world s) = Some old" "data_only old new"
  shows "wp (PatchConfigMap K (CM_Namespace new) old new) (\<lambda>err t. err = None \<and> f (world t) = Some new) (\<lambda>_ _. False) s"
proof -
  obtain patch w' where "cm_merge_patch K old new = Inr patch"
    "ra_patch (ConfigMaps K) (CM_Namespace new) (CM_Name old) patch (world s) = (None, w')" "f w' = Some new"
    using assms unfolding stores_config_map_def by blast
  then show ?thesis by (simp add: PatchConfigMap_def wpg)
qed

section \<open>Programs that only run commands\<close>

lemma keeps_discovery [calms]:
  assumes "exec_keeps f E"
  shows "still f (DiscoverDevices E listParent)" "still f (GetAllDevices E)" "still f (GetPhysicalVolume E vg)"
    "still f (ReSetupLoop E file loop)"
proof -
  have 1: "still f (ListDevices E)" "still f (GetUdevInfo E d)" "still f (GetDeviceFilesystems E d)"
    "still f (GetDevicePropertiesFromPath E d)" "still f (GetDiskUUID E d)" "still f (GetLVName E d)" "still f (ListDevicesChild E d)" for d
    using assms unfolding ListDevices_def GetUdevInfo_def GetDeviceFilesystems_def GetDevicePropertiesFromPath_def
      GetDiskUUID_def GetLVName_def ListDevicesChild_def
    by (auto intro!: calms split: list.split)
  have 2: "still f (GetDeviceProperties E d)" for d unfolding GetDeviceProperties_def by (rule 1)
  have 3: "still f (populateDeviceInfo E d)" "still f (populateDeviceUdevInfo E d disk)" for d disk
    unfolding populateDeviceInfo_def populateDeviceUdevInfo_def by (auto intro!: calms 1 2)
  have 4: "still f (discover_step E lp d disks)" for lp d disks
    unfolding discover_step_def by (auto intro!: calms 1 3)
  show 5: "still f (DiscoverDevices E lp)" for lp unfolding DiscoverDevices_def by (intro calms 1 4)
  show "still f (GetAllDevices E)"
    unfolding GetAllDevices_def all_devices_step_def using assms by (auto intro!: calms 1 5)
  show "still f (GetPhysicalVolume E vg)"
    unfolding GetPhysicalVolume_def parseOutput_def wrapExecCommandWithOutput_def using assms by (auto intro!: calms)
  show "still f (ReSetupLoop E file loop)"
    unfolding ReSetupLoop_def wrapExecCommand_def using assms by (auto intro!: calms 5)
qed

lemma keeps_check_classes [calms]: "exec_keeps f E \<Longrightarrow> still f (check_classes E cs)"
  by (induction cs) (auto intro!: calms)

section \<open>The device list\<close>

lemma holds_devices_data: "holds_devices devs cm \<Longrightarrow> CM_Data cm \<noteq> None"
  by (cases "CM_Data cm") (simp_all add: holds_devices_def cm_data_def gm.get_empty)

definition publishes :: "('w \<Rightarrow> ConfigMap option) \<Rightarrow> string \<Rightarrow> 'w host \<Rightarrow> bool" where
  "publishes f devs s \<longleftrightarrow> (\<exists>cm. f (world s) = Some cm \<and> holds_devices devs cm)"

definition other_keys :: "ConfigMap option \<Rightarrow> string \<Rightarrow> string option" where
  "other_keys cm k = (if k = LocalDiskCMData then None else case cm of None \<Rightarrow> None | Some cm \<Rightarrow> gm_get (cm_data cm) k)"

text \<open>The outcome of a publication, from what the server held before.\<close>

definition published ::
    "('w \<Rightarrow> ConfigMap option) \<Rightarrow> string \<Rightarrow> ConfigMap option \<Rightarrow> go_error option \<Rightarrow> 'w host \<Rightarrow> bool" where
  "published f devs before err t \<longleftrightarrow> err = None \<and> publishes f devs t \<and> other_keys (f (world t)) = other_keys before"

lemma create_publishes:
  assumes "stores_config_map f K ns name" "f (world t) = None"
  shows "wp (go_bind (cm_create K ns (new_device_cm ns name nodeName devs)) (\<lambda>err. case err of
      Some e \<Rightarrow> go_return (Some (g e)) | None \<Rightarrow> go_return None)) (published f devs None) (\<lambda>_ _. False) t"
proof -
  let ?cm = "new_device_cm ns name nodeName devs"
  have "CM_Name ?cm = name" by (simp add: new_device_cm_def)
  then obtain w' where "ra_create (ConfigMaps K) ns ?cm (world t) = (None, w')" "f w' = Some ?cm"
    using assms unfolding stores_config_map_def by blast
  then show ?thesis
    by (auto simp: cm_create_def wpg published_def publishes_def holds_devices_def other_keys_def new_device_cm_def
        cm_data_def gm_get_def fun_eq_iff)
qed

lemma put_publishes:
  assumes "stores_config_map f K ns name" "f (world t) = Some cm" "CM_Data cm \<noteq> None" "devs \<noteq> []"
  shows "wp (if gm_get_default [] (cm_data cm) LocalDiskCMData \<noteq> devs then
      go_bind (go_lift (cm_put LocalDiskCMData devs cm)) (\<lambda>newcm.
      go_bind (PatchConfigMap K (CM_Namespace newcm) cm newcm) (\<lambda>err. go_return err))
    else go_return None) (published f devs (Some cm)) (\<lambda>_ _. False) t"
proof -
  obtain new where put: "cm_put LocalDiskCMData devs cm = Ret new"
    using assms(3) by (auto simp: cm_put_def)
  have new: "gm_get (cm_data new) k = (if k = LocalDiskCMData then Some devs else gm_get (cm_data cm) k)" for k
    by (rule cm_data_put [OF put])
  have "wp (PatchConfigMap K (CM_Namespace new) cm new) (published f devs (Some cm)) (\<lambda>_ _. False) t"
    by (rule wp_mono [OF PatchConfigMap_stores [OF assms(1,2) data_only_put [OF put]]])
       (auto simp: published_def publishes_def holds_devices_def other_keys_def new fun_eq_iff)
  moreover have "holds_devices devs cm" if "gm_get_default [] (cm_data cm) LocalDiskCMData = devs"
    using that assms(4) by (auto simp: gm_get_default_def holds_devices_def split: option.splits)
  ultimately show ?thesis using put assms(2) by (simp add: wpg published_def publishes_def)
qed

lemma updateDeviceCM_stores:
  assumes "stores_config_map f K ns name" "exec_keeps f E"
    and finds: "\<exists>t. GetAllDevices E s = (Ret (Inr devices), t)"
    and data: "\<And>cm. f (world s) = Some cm \<Longrightarrow> CM_Data cm \<noteq> None"
  shows "wp (updateDeviceCM E K nodeName ns name) (published f (Marshal_devices devices) (f (world s))) (\<lambda>_ _. False) s"
proof -
  have nonempty: "Marshal_devices devices \<noteq> []" by (simp add: Marshal_devices_def)
  obtain u where u: "GetAllDevices E s = (Ret (Inr devices), u)" using finds by blast
  have fu: "f (world u) = f (world s)" using wp_retD [OF still_wp [OF keeps_discovery(2) [OF assms(2)]] u] .
  have found: "wp (GetAllDevices E) (\<lambda>r t. r = Inr devices \<and> f (world t) = f (world s)) (\<lambda>_ _. False) s"
    using u fu by (simp add: wp_def)
  show ?thesis
    unfolding updateDeviceCM_def
    apply (subst wp_bind, rule wp_mono [OF found], clarify)
    apply (simp only: sum.case Let_def, subst wp_bind, rule wp_mono [OF cm_get_stores [OF assms(1)]])
    subgoal for r t r' t'
      using create_publishes [OF assms(1), of t'] put_publishes [OF assms(1) _ data nonempty, of t']
      by (cases "f (world s)") (auto simp only: option.case sum.case not_False_eq_True not_True_eq_False simp_thms if_True if_False)
    by simp_all
qed

text \<open>The other operations of the daemon leave the published list alone, also when they panic.\<close>

lemma checkDeviceClass_publishes:
  assumes "stores_config_map f K ns name" "exec_keeps f E" "publishes f devs s"
  shows "wp (checkDeviceClass E K ns name) (\<lambda>_. publishes f devs) (\<lambda>_. publishes f devs) s"
proof -
  obtain cm where cm: "f (world s) = Some cm" "holds_devices devs cm" using assms(3) by (auto simp: publishes_def)
  have tail: "wp (go_bind (check_classes E (NS_SuccessClasses st)) (\<lambda>r. case r of
        Inl e \<Rightarrow> go_return (Some e)
      | Inr cs \<Rightarrow> go_bind (go_lift (cm_put VgStatusConfigMapKey (Marshal_status (st\<lparr>NS_SuccessClasses := cs\<rparr>)) cm))
          (\<lambda>newcm. PatchConfigMap K (CM_Namespace newcm) cm newcm)))
      (\<lambda>_. publishes f devs) (\<lambda>_. publishes f devs) t" if "f (world t) = Some cm" for st and t
    unfolding wp_bind
  proof (rule wp_mono [OF still_wp [OF keeps_check_classes [OF assms(2)]]])
    fix r and u :: "'a host"
    assume u: "f (world u) = f (world t)"
    obtain new where new: "cm_put VgStatusConfigMapKey x cm = Ret (new x)" for x
      using holds_devices_data [OF cm(2)] by (auto simp: cm_put_def)
    have "holds_devices devs (new x)" for x
      using cm(2) cm_data_put [OF new [of x]] by (simp add: holds_devices_def LocalDiskCMData_def VgStatusConfigMapKey_def)
    then have "wp (PatchConfigMap K (CM_Namespace (new x)) cm (new x)) (\<lambda>_. publishes f devs) (\<lambda>_. publishes f devs) u" for x
      using u that by (intro wp_mono [OF PatchConfigMap_stores [OF assms(1) _ data_only_put [OF new]]]) (auto simp: publishes_def)
    moreover have "publishes f devs u" using u that cm(2) by (simp add: publishes_def)
    ultimately show "wp (case r of
        Inl e \<Rightarrow> go_return (Some e)
      | Inr cs \<Rightarrow> go_bind (go_lift (cm_put VgStatusConfigMapKey (Marshal_status (st\<lparr>NS_SuccessClasses := cs\<rparr>)) cm))
          (\<lambda>newcm. PatchConfigMap K (CM_Namespace newcm) cm newcm))
        (\<lambda>_. publishes f devs) (\<lambda>_. publishes f devs) u"
      by (cases r) (simp_all add: wpg new)
  qed (use that cm in \<open>simp add: publishes_def\<close>)
  show ?thesis
    unfolding checkDeviceClass_def
    by (subst wp_bind, rule wp_mono [OF cm_get_stores [OF assms(1)]])
       (auto simp: cm Let_def wpg publishes_def simp del: wp_bind split: sum.split intro!: tail)
qed

lemma keeps_discover_checkLoopDevice:
  assumes "stores_config_map f K ns name" "exec_keeps f E"
  shows "still f (discover_checkLoopDevice E K ns name)"
proof -
  have "still f (cm_get K ns name)"
    unfolding keeps_def
  proof (intro allI conjI TrueI disjI1)
    fix s
    obtain r t where "cm_get K ns name s = (r, t)" by (cases "cm_get K ns name s")
    then show "f (world (snd (cm_get K ns name s))) = f (world s)"
      using cm_get_stores [OF assms(1), of s] by (cases r) (auto simp: wp_def)
  qed
  then show ?thesis
    unfolding discover_checkLoopDevice_def resetup_step_def using assms(2) by (intro calms)
qed

section \<open>The daemon\<close>

lemma daemon_loop_publishes:
  assumes "stores_config_map f K ns name" "exec_keeps f E"
    and finds: "\<forall>s. \<exists>t. GetAllDevices E s = (Ret (Inr devices), t)"
  shows "publishes f (Marshal_devices devices) s \<Longrightarrow>
    wp (daemon_loop E K nodeName ns name evs d) (\<lambda>_. publishes f (Marshal_devices devices)) (\<lambda>_. publishes f (Marshal_devices devices)) s"
proof (induction evs arbitrary: d s)
  case (Cons ev evs)
  let ?P = "publishes f (Marshal_devices devices)"
  have update: "wp (updateDeviceCM E K nodeName ns name) (\<lambda>_. ?P) (\<lambda>_. ?P) t" if "?P t" for t
    by (rule wp_mono [OF updateDeviceCM_stores [OF assms(1,2)]])
       (use finds that holds_devices_data in \<open>auto simp: published_def publishes_def\<close>)
  have check: "wp (checkDeviceClass E K ns name) (\<lambda>_. ?P) (\<lambda>_. ?P) t" if "?P t" for t
    by (rule checkDeviceClass_publishes [OF assms(1,2) that])
  have retry: "wp (retryLoopDevice E K ns name d) (\<lambda>_. ?P) (\<lambda>_. ?P) t" if "?P t" for t
  proof -
    have "still f (retryLoopDevice E K ns name d)"
      unfolding retryLoopDevice_def by (intro calms keeps_discover_checkLoopDevice [OF assms(1,2)])
    from still_wp [OF this, of t] show ?thesis by (rule wp_mono) (use that in \<open>simp_all add: publishes_def\<close>)
  qed
  have seq: "wp (go_bind m g) (\<lambda>_. ?P) (\<lambda>_. ?P) t"
    if "?P t" "\<And>t. ?P t \<Longrightarrow> wp m (\<lambda>_. ?P) (\<lambda>_. ?P) t" "\<And>a t. ?P t \<Longrightarrow> wp (g a) (\<lambda>_. ?P) (\<lambda>_. ?P) t"
    for m :: "('a host, 'b) go" and g :: "'b \<Rightarrow> ('a host, go_error option option) go" and t
    unfolding wp_bind by (rule wp_mono [OF that(2) [OF that(1)]]) (use that(3) in auto)
  show ?case
  proof (cases ev)
    case ProbeDue
    then show ?thesis using Cons update check by (auto intro!: seq)
  next
    case UdevEvent
    then show ?thesis using Cons update by (auto intro!: seq)
  next
    case RetryDue
    then show ?thesis using Cons retry by (auto intro!: seq)
  qed (use Cons in \<open>auto simp: wpg\<close>)
qed (simp add: wpg)

lemma discover_Run_publishes:
  assumes "stores_config_map f K (getenv K PodNameSpaceEnv) (TruncateNodeName K LvmdConfigMapFmt (getenv K NodeNameEnv))"
    and "exec_keeps f E" and "\<forall>s. \<exists>t. GetAllDevices E s = (Ret (Inr devices), t)"
    and "\<forall>cm. f (world s) = Some cm \<longrightarrow> CM_Data cm \<noteq> None"
  shows "wp (discover_Run (Some (E, K)) evs) (\<lambda>_. publishes f (Marshal_devices devices))
    (\<lambda>_. publishes f (Marshal_devices devices)) s"
proof -
  let ?ns = "getenv K PodNameSpaceEnv" and ?name = "TruncateNodeName K LvmdConfigMapFmt (getenv K NodeNameEnv)"
  let ?P = "publishes f (Marshal_devices devices)"
  have loop: "wp (daemon_loop E K (getenv K NodeNameEnv) ?ns ?name evs d) (\<lambda>_. ?P) (\<lambda>_. ?P) t" if "?P t" for d t
    by (rule daemon_loop_publishes [OF assms(1-3) that])
  have check: "wp (discover_checkLoopDevice E K ?ns ?name) (\<lambda>_. ?P) (\<lambda>_. ?P) t" if "?P t" for t
    by (rule wp_mono [OF still_wp [OF keeps_discover_checkLoopDevice [OF assms(1,2)]]]) (use that in \<open>simp_all add: publishes_def\<close>)
  have update: "wp (updateDeviceCM E K (getenv K NodeNameEnv) ?ns ?name) (\<lambda>err t. err = None \<and> ?P t) (\<lambda>_ _. False) s"
    by (rule wp_mono [OF updateDeviceCM_stores [OF assms(1,2)]]) (use assms(3,4) in \<open>auto simp: published_def\<close>)
  show ?thesis
    unfolding discover_Run_def Let_def option.case prod.case wp_bind
    by (rule wp_mono [OF update]) (auto simp: wp_bind intro!: wp_mono [OF check] loop)
qed

end
