(* ===== verification/JobStore.thy ===== *)
theory JobStore
  imports StorageConfig Settled Watch DaemonStore
begin

text \<open>
  The volume group job (\<open>Reconcile\<close> of \<open>controllers/preparevg_controller.go\<close>) against an API server that
  stores the cluster and the node's config map, and the operator's watch behind it.
  Proved: a run without error leaves a status of its node in the stored config map, and the cluster
  otherwise as it was; the watch then brings the cluster to that status.
\<close>

section \<open>The job touches the server only where it says so\<close>

lemma keeps_each [calms]: "(\<And>x. x \<in> set xs \<Longrightarrow> keeps p f (m x)) \<Longrightarrow> keeps p f (each_until_error m xs)"
  by (induction xs) (auto intro!: calms)

lemma keeps_lvm [calms]:
  assumes "exec_keeps f E"
  shows "still f (wrapExecCommand E cmd args)" "still f (wrapExecCommandWithOutput E cmd args)"
    "still f (parseOutput E cmd flds args)"
proof -
  show 1: "still f (wrapExecCommand E cmd args)" "still f (wrapExecCommandWithOutput E cmd args)" for cmd args
    unfolding wrapExecCommand_def wrapExecCommandWithOutput_def using assms by (auto intro!: calms)
  show "still f (parseOutput E cmd flds args)"
    unfolding parseOutput_def by (auto intro!: calms 1)
qed

lemma keeps_volume_groups [calms]:
  assumes "exec_keeps f E"
  shows "still f (GetVolumeGroups E)" "still f (RemoveVolumeGroup E vg)" "still f (ShrinkVolumeGroup E vg pvs)"
    "still f (ExpandVolumeGroup E vg pvs)" "still f (CreatePhysicalVolume E d)" "still f (CreateVolumeGroup E disks vg)"
    "still f (CreateLoop E file sz)" "still f (GetLoopBackFile E d)" "still f (GetAvailableDevices E)"
  using assms
  by (auto simp: GetVolumeGroups_def RemoveVolumeGroup_def ShrinkVolumeGroup_def ExpandVolumeGroup_def
      CreatePhysicalVolume_def CreateVolumeGroup_def CreateLoop_def GetLoopBackFile_def GetAvailableDevices_def
      CheckVgHasLogicalVolume_def CheckPVHasLogicalVolume_def check_pvs_free_def intro!: calms split: list.split)

lemma keeps_classes [calms]:
  assumes "exec_keeps f E"
  shows "still f (provision_classes E loopMap disks classes tabs)" "still f (checkVgIfDelete E classes suc fail)"
    "still f (first_step E loopMap disks vgs d acc)"
proof -
  have ops: "still f (createVg E loopMap disks d suc fail)" "still f (createVgRetry E loopMap disks d suc fail)"
    "still f (checkVgIfExpand E loopMap d suc)" "still f (checkVgIfShrink E d suc)" for d suc fail
    unfolding createVg_def createVgRetry_def checkVgIfExpand_def checkVgIfShrink_def expand_step_def Let_def go_panic_def
    using assms by (auto intro!: calms simp: keeps_def [of _ _ "\<lambda>s. (Panic _, s)"])
  have "still f (provision_class E loopMap disks d tabs)" for d tabs
    unfolding provision_class_def create_op_def retry_op_def expand_op_def shrink_op_def by (auto intro!: calms ops)
  then show "still f (provision_classes E loopMap disks classes tabs)"
    unfolding provision_classes_def by (auto intro!: calms)
  show "still f (checkVgIfDelete E classes suc fail)"
    unfolding checkVgIfDelete_def delete_suc_step_def using assms by (auto intro!: calms)
  show "still f (first_step E loopMap disks vgs d acc)"
    unfolding first_step_def by (auto intro!: calms ops)
qed

lemma keeps_configuration [calms]:
  assumes "exec_keeps f E"
  shows "still f (createLvmdConf Y cm newVgs)" "still f (updateLvmdConf E Y classes cm newVgs suc)"
    "still f (updateVgStatus E cm st suc fail loops)" "still f (checkLoopDevice E disks ls)"
    "still f (choose_devices E cl c disks')"
proof -
  show conf: "still f (createLvmdConf Y cm newVgs)"
    unfolding createLvmdConf_def by (auto intro!: calms)
  show "still f (updateLvmdConf E Y classes cm newVgs suc)"
    unfolding updateLvmdConf_def Let_def using assms by (auto intro!: calms conf)
  show "still f (updateVgStatus E cm st suc fail loops)"
    unfolding updateVgStatus_def using assms by (intro calms)
  show loops: "still f (checkLoopDevice E disks ls)" for disks ls
    unfolding checkLoopDevice_def check_loop_step_def Let_def using assms by (auto intro!: calms)
  have "still f (check_loops_and_relist E useLoop diskss ds ls)" for useLoop diskss ds ls
    unfolding check_loops_and_relist_def using assms by (auto intro!: calms loops)
  then show "still f (choose_devices E cl c disks')"
    unfolding choose_devices_def Let_def using assms by (auto intro!: calms)
qed

text \<open>Only the requests for config maps can change what is observed; the cluster is not among that.\<close>

lemma keeps_patch [calms]:
  assumes "ra_keeps f (ConfigMaps K)"
  shows "keeps p f (cm_get K ns n)" "keeps p f (cm_create K ns cm)" "keeps p f (PatchConfigMap K ns old new)"
    "keeps p f (CreateOrPatchConfigmap K cm)"
proof -
  show 1: "keeps p f (cm_get K ns n)" "keeps p f (cm_create K ns cm)" "keeps p f (PatchConfigMap K ns old new)" for ns n old new cm
    unfolding cm_get_def cm_create_def PatchConfigMap_def using assms by (auto intro!: calms)
  show "keeps p f (CreateOrPatchConfigmap K cm)"
    unfolding CreateOrPatchConfigmap_def by (intro calms 1)
qed

lemma keeps_provision:
  assumes "exec_keeps f E" "ra_keeps f (ConfigMaps K)"
  shows "still f (provision E K Y c cl)"
proof -
  have "still f (write_status E K c cm st suc fail cm1)" for c cm st suc fail cm1
    unfolding write_status_def using assms by (intro calms)
  then have "still f (provisionWithNodeStatus E K Y c cm tx disks)" for c cm tx disks
    unfolding provisionWithNodeStatus_def settle_classes_def Let_def using assms by (auto intro!: calms)
  moreover have "still f (provisionFirst E K Y c disks cm)" for c disks cm
    unfolding provisionFirst_def Let_def using assms by (auto intro!: calms)
  ultimately show ?thesis
    unfolding provision_def Let_def using assms by (auto intro!: calms)
qed

section \<open>What a run leaves\<close>

text \<open>A status of the node: the classes it lists are of configured groups; a class that failed because
  its group existed before has none.\<close>

definition reports :: "string \<Rightarrow> DeviceClass list \<Rightarrow> NodeStorageState \<Rightarrow> bool" where
  "reports node classes st \<longleftrightarrow> NS_Node st = node \<and>
     (\<forall>c \<in> set (NS_SuccessClasses st). vg_configured classes (CS_VgName c)) \<and>
     (\<forall>c \<in> set (NS_FailClasses st). vg_configured classes (CS_VgName c) \<or> CS_VgName c = [])"

definition carries :: "NodeStorageState \<Rightarrow> ConfigMap \<Rightarrow> bool" where
  "carries st cm \<longleftrightarrow> gm_get (cm_data cm) VgStatusConfigMapKey = Some (Marshal_status st)"

definition reports_tables :: "DeviceClass list \<Rightarrow> class_table \<Rightarrow> class_table \<Rightarrow> bool" where
  "reports_tables classes suc fail \<longleftrightarrow> (\<forall>k c. gm_get suc k = Some c \<longrightarrow> vg_configured classes (CS_VgName c)) \<and>
     (\<forall>k c. gm_get fail k = Some c \<longrightarrow> vg_configured classes (CS_VgName c) \<or> CS_VgName c = [])"

lemma wp_still_bind:
  assumes "still g m" "wp m Q (\<lambda>_ _. True) s"
    and "\<And>a t. g (world t) = g (world s) \<Longrightarrow> Q a t \<Longrightarrow> wp (h a) P (\<lambda>_ _. True) t"
  shows "wp (go_bind m h) P (\<lambda>_ _. True) s"
proof -
  have "wp m (\<lambda>a t. g (world t) = g (world s) \<and> Q a t) (\<lambda>_ t. g (world t) = g (world s) \<and> True) s"
    unfolding wp_conj using still_wp [OF assms(1)] assms(2) by blast
  then show ?thesis unfolding wp_bind by (rule wp_mono) (use assms(3) in auto)
qed

lemma wp_still_then:
  assumes "still g m" "\<And>a t. g (world t) = g (world s) \<Longrightarrow> wp (h a) P (\<lambda>_ _. True) t"
  shows "wp (go_bind m h) P (\<lambda>_ _. True) s"
  by (rule wp_still_bind [OF assms(1) wp_True]) (use assms(2) in simp)

text \<open>The writers change the data of the config map only.\<close>

definition same_object :: "ConfigMap \<Rightarrow> ConfigMap \<Rightarrow> bool" where
  "same_object old new \<longleftrightarrow> new = old \<or> data_only old new"

lemma data_only_trans [trans]:
  "same_object a b \<Longrightarrow> data_only b c \<Longrightarrow> data_only a c" "data_only a b \<Longrightarrow> same_object b c \<Longrightarrow> data_only a c"
  by (auto simp: same_object_def data_only_def)

lemma updateVgStatus_reports:
  assumes "reports_tables classes suc fail" "NS_Node st = node"
  shows "wp (updateVgStatus E cm st suc fail loops)
    (\<lambda>cm' t. data_only cm cm' \<and> (\<exists>st'. carries st' cm' \<and> reports node classes st')) (\<lambda>_ _. True) s"
proof -
  have "\<exists>st'. carries st' cm' \<and> reports node classes st'"
    if ks: "set sks = set (gm_keys suc)" "set fks = set (gm_keys fail)"
      and put: "cm_put VgStatusConfigMapKey (Marshal_status (st\<lparr>NS_FailClasses := gm_values fail fks,
          NS_SuccessClasses := gm_values suc sks, NS_Loops := loops\<rparr>)) cm = Ret cm'" for sks fks cm'
  proof -
    have "\<forall>c \<in> set (gm_values suc sks). vg_configured classes (CS_VgName c)"
      "\<forall>c \<in> set (gm_values fail fks). vg_configured classes (CS_VgName c) \<or> CS_VgName c = []"
      using assms(1) set_gm_values [OF ks(1)] set_gm_values [OF ks(2)] unfolding reports_tables_def by blast+
    then show ?thesis using assms(2) cm_data_put [OF put]
      by (intro exI [of _ "st\<lparr>NS_FailClasses := gm_values fail fks, NS_SuccessClasses := gm_values suc sks, NS_Loops := loops\<rparr>"])
         (simp add: carries_def reports_def)
  qed
  then show ?thesis
    unfolding updateVgStatus_def wp_bind
    by (intro wp_go_range_keys) (auto simp: wpg intro: data_only_put split: outcome.splits)
qed

lemma LvmdConf_same_object:
  "wp (createLvmdConf Y cm newVgs) (\<lambda>r t. \<forall>cm'. r = Inr cm' \<longrightarrow> same_object cm cm' \<and> (\<forall>st. carries st cm \<longrightarrow> carries st cm'))
    (\<lambda>_ _. True) s"
  "wp (updateLvmdConf E Y classes cm newVgs suc) (\<lambda>r t. \<forall>cm'. r = Inr cm' \<longrightarrow> same_object cm cm') (\<lambda>_ _. True) s"
proof -
  have other: "VgStatusConfigMapKey \<noteq> LvmdConfigMapKey" by (simp add: LvmdConfigMapKey_def VgStatusConfigMapKey_def)
  show "wp (createLvmdConf Y cm newVgs) (\<lambda>r t. \<forall>cm'. r = Inr cm' \<longrightarrow> same_object cm cm' \<and> (\<forall>st. carries st cm \<longrightarrow> carries st cm'))
    (\<lambda>_ _. True) s"
    by (auto simp: createLvmdConf_def wpg same_object_def carries_def other cm_data_put intro: data_only_put
        split: sum.splits outcome.splits)
  have 1: "wp (createLvmdConf Y cm newVgs) (\<lambda>r t. \<forall>cm'. r = Inr cm' \<longrightarrow> same_object cm cm') (\<lambda>_ _. True) s"
    by (auto simp: createLvmdConf_def wpg same_object_def intro: data_only_put split: sum.splits outcome.splits)
  show "wp (updateLvmdConf E Y classes cm newVgs suc) (\<lambda>r t. \<forall>cm'. r = Inr cm' \<longrightarrow> same_object cm cm') (\<lambda>_ _. True) s"
    by (auto simp: updateLvmdConf_def wpg Let_def 1 [unfolded same_object_def] same_object_def intro: data_only_put
        split: sum.splits option.splits outcome.splits intro!: wp_go_range_keys)
qed

definition leaves :: "('w \<Rightarrow> ConfigMap option) \<Rightarrow> (NodeStorageState \<Rightarrow> bool) \<Rightarrow> 'w host \<Rightarrow> bool" where
  "leaves g P t \<longleftrightarrow> (\<exists>cm st. g (world t) = Some cm \<and> carries st cm \<and> P st)"

lemma leaves_mono: "leaves g P t \<Longrightarrow> (\<And>st. P st \<Longrightarrow> Q st) \<Longrightarrow> leaves g Q t"
  by (auto simp: leaves_def)

lemma patch_leaves:
  assumes "stores_config_map g K ns name" "g (world s) = Some old" "data_only old new" "CM_Namespace old = ns'"
    and "\<exists>st. carries st new \<and> P st"
  shows "wp (PatchConfigMap K ns' old new) (\<lambda>_. leaves g P) (\<lambda>_ _. True) s"
proof -
  have "ns' = CM_Namespace new" using assms(3,4) by (auto simp: data_only_def)
  then show ?thesis
    using assms(5) by (auto simp: leaves_def intro!: wp_mono [OF PatchConfigMap_stores [OF assms(1-3)]])
qed

lemma write_status_leaves:
  assumes "stores_config_map g K ns name" "exec_keeps g E" "g (world s) = Some cm" "CM_Namespace cm = PV_namespace c"
    and "same_object cm cm1"
    and "\<And>cm s. wp (updateVgStatus E cm st suc fail (PV_loopsState c))
      (\<lambda>cm' t. data_only cm cm' \<and> (\<exists>st'. carries st' cm' \<and> P st')) (\<lambda>_ _. True) s"
  shows "wp (write_status E K c cm st suc fail cm1) (\<lambda>err t. err = None \<longrightarrow> leaves g P t) (\<lambda>_ _. True) s"
  unfolding write_status_def
proof (rule wp_still_bind [OF keeps_configuration(3) [OF assms(2)] assms(6)], goal_cases)
  case (1 cm2 t)
  then have "data_only cm cm2" using data_only_trans(1) [OF assms(5)] by blast
  with 1 show ?case
    unfolding wp_bind using assms(3,4)
    by (intro wp_mono [OF patch_leaves [OF assms(1), where P = P]]) (auto simp: wpg split: option.split)
qed

lemma reports_tables_restricted:
  assumes "restricted classes suc0 suc" "restricted classes fail0 fail" "tables_ok (suc0, fail0)"
  shows "reports_tables classes suc fail"
proof -
  have "tables_ok (suc, fail)" by (rule restricted_tables_ok [OF assms(3,1,2)])
  then show ?thesis
    using assms(1,2) by (fastforce simp: reports_tables_def tables_ok_def table_ok_def restricted_def split: if_splits)
qed

lemma provisionWithNodeStatus_leaves:
  assumes "stores_config_map g K ns name" "exec_keeps g E" "g (world s) = Some cm" "CM_Namespace cm = PV_namespace c"
    and "Unmarshal_status vgStatus = Inr st" "status_ok st" "NS_Node st = node"
  shows "wp (provisionWithNodeStatus E K Y c cm vgStatus disks)
    (\<lambda>err t. err = None \<longrightarrow> leaves g (reports node (ND_DeviceClasses (PV_nodeDevices c))) t) (\<lambda>_ _. True) s"
  unfolding provisionWithNodeStatus_def assms(5) sum.case
proof (rule wp_still_bind [OF keeps_classes(1) [OF assms(2)] provision_classes_tables [OF status_ok_tables [OF assms(6)]]], goal_cases)
  case (1 b t)
  obtain sucVgs suc0 fail0 where b: "b = (sucVgs, suc0, fail0)" by (cases b)
  show ?case
    unfolding b case_prod_conv settle_classes_def Let_def fst_conv snd_conv
  proof (rule wp_still_bind [OF keeps_classes(2) [OF assms(2)] checkVgIfDelete_result], goal_cases)
    case (1 r u)
    obtain suc fail where r: "r = (suc, fail)" by (cases r)
    have tables: "reports_tables (ND_DeviceClasses (PV_nodeDevices c)) suc fail"
      using 1(2) \<open>tables_ok (snd b)\<close> by (intro reports_tables_restricted) (simp_all add: r b)
    have stored: "g (world u) = Some cm" using 1(1) \<open>g (world t) = g (world s)\<close> assms(3) by simp
    show ?case
      unfolding r case_prod_conv
    proof (rule wp_still_bind [OF keeps_configuration(2) [OF assms(2)] LvmdConf_same_object(2)], goal_cases)
      case (1 x v)
      then show ?case using stored
        by (cases x) (auto simp: wpg intro!: write_status_leaves [OF assms(1,2) _ assms(4) _ updateVgStatus_reports [OF tables assms(7)]])
    qed
  qed
qed

section \<open>The first run\<close>

lemma reports_tables_put:
  assumes "reports_tables classes suc fail"
  shows "vg_configured classes (CS_VgName c) \<Longrightarrow> reports_tables classes (gm_put k c suc) fail"
    and "vg_configured classes (CS_VgName c) \<or> CS_VgName c = [] \<Longrightarrow> reports_tables classes suc (gm_put k c fail)"
  using assms by (auto simp: reports_tables_def gm.get_put)

lemma first_step_reports:
  assumes "d \<in> set classes" "reports_tables classes (fst (snd acc)) (snd (snd acc))"
  shows "wp (first_step E loopMap disks vgs d acc) (\<lambda>acc' t. reports_tables classes (fst (snd acc')) (snd (snd acc'))) (\<lambda>_ _. True) s"
proof -
  obtain sucVgs suc fail where acc: "acc = (sucVgs, suc, fail)" by (cases acc)
  have d: "vg_configured classes (DC_VgName d)" using assms(1) by (auto simp: vg_configured_def)
  note put = reports_tables_put [OF assms(2) [unfolded acc fst_conv snd_conv]]
  have "reports_tables classes suc' fail'"
    if "ok \<longrightarrow> suc' = gm_put (DC_VgName d) (created_entry d ds) suc \<and> fail' = fail \<and> P"
      "\<not> ok \<longrightarrow> suc' = suc \<and> (\<exists>c. fail' = gm_put (DC_VgName d) c fail \<and> CS_VgName c = DC_VgName d \<and> Q c)" for ok suc' fail' ds P Q
    using that d put by (cases ok) (auto simp: created_entry_def)
  note created = this
  show ?thesis
  proof (cases "gm_has vgs (DC_VgName d)")
    case True
    then show ?thesis by (simp add: acc first_step_def wpg put)
  next
    case False
    show ?thesis
      unfolding acc first_step_def prod.case if_not_P [OF False] wp_bind
    proof (rule wp_mono [OF createVg_result], goal_cases)
      case (1 r t)
      obtain ok d' suc' fail' where r: "r = (ok, d', suc', fail')" by (cases r)
      from 1 have "reports_tables classes suc' fail'" unfolding r prod.case by (elim conjE) (rule created)
      then show ?case by (simp add: r wp_return)
    qed simp
  qed
qed

lemma first_loop_reports:
  "wp (go_fold (first_step E loopMap disks vgs) classes ([], [], []))
    (\<lambda>acc t. reports_tables classes (fst (snd acc)) (snd (snd acc))) (\<lambda>_ _. True) s"
  by (rule wp_go_fold) (auto simp: first_step_reports reports_tables_def [of _ "[]" "[]"] gm.get_empty)

text \<open>What the server may hold before: nothing, or a config map of the job's node and namespace.\<close>

definition holds_earlier :: "string \<Rightarrow> string \<Rightarrow> ConfigMap option \<Rightarrow> bool" where
  "holds_earlier ns node before \<longleftrightarrow> (\<forall>cm. before = Some cm \<longrightarrow> CM_Namespace cm = ns \<and>
     (\<forall>tx st. gm_get (cm_data cm) VgStatusConfigMapKey = Some tx \<longrightarrow> Unmarshal_status tx = Inr st \<longrightarrow>
        status_ok st \<and> NS_Node st = node))"

definition base_cm :: "'w clientset \<Rightarrow> prepare_vg \<Rightarrow> ConfigMap option \<Rightarrow> ConfigMap" where
  "base_cm K c before = (case before of None \<Rightarrow> new_node_cm K c | Some old \<Rightarrow> old)"

lemma create_leaves:
  assumes "stores_config_map g K ns (CM_Name cm)" "g (world s) = None" "carries st cm" "P st"
  shows "wp (cm_create K ns cm) (\<lambda>_. leaves g P) (\<lambda>_ _. True) s"
proof -
  obtain w' where "ra_create (ConfigMaps K) ns cm (world s) = (None, w')" "g w' = Some cm"
    using assms(1,2) unfolding stores_config_map_def by blast
  then show ?thesis using assms(3,4) by (auto simp: cm_create_def wpg leaves_def)
qed

lemma send_leaves:
  assumes "stores_config_map g K (PV_namespace c) (TruncateNodeName K LvmdConfigMapFmt (ND_NodeName (PV_nodeDevices c)))"
    and "g (world s) = before" "holds_earlier (PV_namespace c) (PV_nodeName c) before"
    and "data_only (base_cm K c before) cm" "\<exists>st. carries st cm \<and> P st"
  shows "wp (case before of
        None \<Rightarrow> CreateOrPatchConfigmap K cm
      | Some old \<Rightarrow> go_bind (PatchConfigMap K (PV_namespace c) old cm) (\<lambda>err. case err of
          Some e \<Rightarrow> go_return (Some (err_wrap e ''patch configmap failed'')) | None \<Rightarrow> go_return None))
      (\<lambda>_. leaves g P) (\<lambda>_ _. True) s"
proof (cases before)
  case None
  then have name: "CM_Name cm = TruncateNodeName K LvmdConfigMapFmt (ND_NodeName (PV_nodeDevices c))"
    "CM_Namespace cm = PV_namespace c"
    using assms(4) by (auto simp: base_cm_def new_node_cm_def data_only_def)
  have "wp (cm_create K (PV_namespace c) cm) (\<lambda>_. leaves g P) (\<lambda>_ _. True) t" if "g (world t) = None" for t
    using assms(5) that create_leaves [of g K "PV_namespace c" cm t] assms(1) name(1) by auto
  then show ?thesis
    unfolding None option.case CreateOrPatchConfigmap_def name wp_bind
    by (intro wp_mono [OF cm_get_stores [OF assms(1)]]) (auto simp: assms(2) None)
next
  case (Some old)
  then have "CM_Namespace old = PV_namespace c" using assms(3) by (simp add: holds_earlier_def)
  with Some assms show ?thesis
    by (auto simp: base_cm_def wpg split: option.split intro!: wp_mono [OF patch_leaves [OF assms(1), where P = P]])
qed

lemma provisionFirst_leaves:
  assumes "stores_config_map g K (PV_namespace c) (TruncateNodeName K LvmdConfigMapFmt (ND_NodeName (PV_nodeDevices c)))"
    and "exec_keeps g E" "g (world s) = before" "holds_earlier (PV_namespace c) (PV_nodeName c) before"
  shows "wp (provisionFirst E K Y c disks before)
    (\<lambda>err t. err = None \<longrightarrow> leaves g (reports (PV_nodeName c) (ND_DeviceClasses (PV_nodeDevices c))) t) (\<lambda>_ _. True) s"
  unfolding provisionFirst_def base_cm_def [symmetric] Let_def
proof (rule wp_still_then [OF keeps_volume_groups(1) [OF assms(2)]], goal_cases)
  case (1 r t)
  note t = 1
  show ?case
  proof (cases r)
    case (Inr vgs)
    show ?thesis
      unfolding Inr sum.case
    proof (rule wp_still_bind [OF keeps_fold [OF keeps_classes(3) [OF assms(2)]] first_loop_reports], goal_cases)
      case (1 acc u)
      obtain sucVgs suc fail where acc: "acc = (sucVgs, suc, fail)" by (cases acc)
      have tables: "reports_tables (ND_DeviceClasses (PV_nodeDevices c)) suc fail" using 1 acc by simp
      have node: "NS_Node (zero_NodeStorageState\<lparr>NS_Node := PV_nodeName c\<rparr>) = PV_nodeName c" by simp
      show ?case
        unfolding acc prod.case
      proof (rule wp_still_bind [OF keeps_configuration(3) [OF assms(2)] updateVgStatus_reports [OF tables node]], goal_cases)
        case (1 cm1 v)
        then obtain st where cm1: "data_only (base_cm K c before) cm1" "carries st cm1"
          "reports (PV_nodeName c) (ND_DeviceClasses (PV_nodeDevices c)) st" by auto
        have v: "g (world v) = before" using 1 \<open>g (world u) = g (world t)\<close> t assms(3) by simp
        show ?case
        proof (rule wp_still_bind [OF keeps_configuration(1) [OF assms(2)] LvmdConf_same_object(1)], goal_cases)
          case (1 x w)
          have send: "data_only (base_cm K c before) cm2 \<and>
              (\<exists>st. carries st cm2 \<and> reports (PV_nodeName c) (ND_DeviceClasses (PV_nodeDevices c)) st)" if "x = Inr cm2" for cm2
            using 1(2) that cm1 data_only_trans(2) [OF cm1(1)] by blast
          have w: "g (world w) = before" using 1(1) v by simp
          show ?case
          proof (cases x)
            case (Inr cm2)
            with w send show ?thesis
              unfolding Inr sum.case 
              by (intro wp_mono [OF send_leaves [OF assms(1) _ assms(4), where
                    P = "reports (PV_nodeName c) (ND_DeviceClasses (PV_nodeDevices c))"]]) simp_all
          qed (simp add: wp_return)
        qed
      qed
    qed
  qed (simp add: wp_return)
qed

section \<open>The run\<close>

text \<open>The cluster says what the node is to have.\<close>

definition node_listed :: "TopolvmCluster \<Rightarrow> string \<Rightarrow> bool" where
  "node_listed cl node \<longleftrightarrow> (let st = Spec_Storage (TC_Spec cl) in
     St_UseAllDevices st \<or> St_Devices st \<noteq> None \<or>
     (case St_DeviceClasses st of None \<Rightarrow> False | Some nds \<Rightarrow> node \<in> ND_NodeName ` set nds))"

lemma last_node_devices_name: "n \<in> ND_NodeName ` set nds \<Longrightarrow> ND_NodeName (last_node_devices n nds nd0) = n"
proof (induction nds rule: rev_induct)
  case (snoc nd nds)
  then show ?case by (auto simp: last_node_devices_def)
qed simp

lemma chosen_name: "node_listed cl (PV_nodeName c) \<Longrightarrow> chosen (Spec_Storage (TC_Spec cl)) c nd \<Longrightarrow> ND_NodeName nd = PV_nodeName c"
  by (auto simp: node_listed_def chosen_def Let_def last_node_devices_name split: if_splits option.splits)

definition left_status :: "('w \<Rightarrow> ConfigMap option) \<Rightarrow> TopolvmCluster \<Rightarrow> prepare_vg \<Rightarrow> 'w host \<Rightarrow> bool" where
  "left_status g cl c t \<longleftrightarrow>
     (\<exists>nd. chosen (Spec_Storage (TC_Spec cl)) c nd \<and> leaves g (reports (PV_nodeName c) (ND_DeviceClasses nd)) t)"

lemma provision_chosen_leaves:
  assumes "stores_config_map g K (PV_namespace c) (TruncateNodeName K LvmdConfigMapFmt (ND_NodeName (PV_nodeDevices c)))"
    and "exec_keeps g E" "holds_earlier (PV_namespace c) (PV_nodeName c) (g (world s))"
  shows "wp (go_bind (cm_get K (PV_namespace c) (TruncateNodeName K LvmdConfigMapFmt (ND_NodeName (PV_nodeDevices c)))) (\<lambda>r. case r of
        Inl e \<Rightarrow> if IsNotFound e then provisionFirst E K Y c disks None else go_return (Some e)
      | Inr cm \<Rightarrow> (case gm_get (cm_data cm) VgStatusConfigMapKey of
          Some vgStatus \<Rightarrow> provisionWithNodeStatus E K Y c cm vgStatus disks
        | None \<Rightarrow> provisionFirst E K Y c disks (Some cm))))
    (\<lambda>err t. err = None \<longrightarrow> leaves g (reports (PV_nodeName c) (ND_DeviceClasses (PV_nodeDevices c))) t) (\<lambda>_ _. True) s"
    (is "wp _ ?P _ s")
  unfolding wp_bind
proof (rule wp_mono [OF cm_get_stores [OF assms(1)]], goal_cases)
  case (1 r t)
  have first: "wp (provisionFirst E K Y c disks before) ?P (\<lambda>_ _. True) t" if "g (world s) = before" for before
    by (rule provisionFirst_leaves [OF assms(1,2)]) (use 1 that assms(3) in simp_all)
  show ?case
  proof (cases "g (world s)")
    case None
    with 1 first show ?thesis by auto
  next
    case (Some cm)
    with 1 have r: "r = Inr cm" by simp
    show ?thesis
    proof (cases "gm_get (cm_data cm) VgStatusConfigMapKey")
      case None
      with r first [OF Some] show ?thesis by simp
    next
      case status: (Some tx)
      show ?thesis
      proof (cases "Unmarshal_status tx")
        case (Inl e)
        then show ?thesis by (simp add: r status provisionWithNodeStatus_def wp_return)
      next
        case (Inr st)
        then have "status_ok st" "NS_Node st = PV_nodeName c" "CM_Namespace cm = PV_namespace c"
          using assms(3) Some status by (auto simp: holds_earlier_def)
        then have "wp (provisionWithNodeStatus E K Y c cm tx disks) ?P (\<lambda>_ _. True) t"
          using 1 Some by (intro provisionWithNodeStatus_leaves [OF assms(1,2) _ _ Inr]) simp_all
        then show ?thesis by (simp add: r status)
      qed
    qed
  qed
qed simp

lemma provision_leaves:
  assumes "stores_config_map g K (PV_namespace c) (TruncateNodeName K LvmdConfigMapFmt (PV_nodeName c))"
    and "exec_keeps g E" "node_listed cl (PV_nodeName c)" "holds_earlier (PV_namespace c) (PV_nodeName c) (g (world s))"
  shows "wp (provision E K Y c cl) (\<lambda>err t. err = None \<longrightarrow> left_status g cl c t) (\<lambda>_ _. True) s"
  unfolding provision_def Let_def
proof (rule wp_still_then [OF keeps_volume_groups(9) [OF assms(2)]], goal_cases)
  case (1 r t)
  let ?c = "c\<lparr>PV_loopsState := node_loops (PV_nodeName c) (Status_NodeStorageStatus (TC_Status cl)) (PV_loopsState c)\<rparr>"
  show ?case
  proof (cases r)
    case (Inr disks0)
    show ?thesis
      unfolding Inr sum.case
    proof (rule wp_still_bind [OF keeps_configuration(5) [OF assms(2)] choose_devices_chosen], goal_cases)
      case (1 x u)
      show ?case
      proof (cases x)
        case (Inr y)
        obtain disks c1 where y: "y = (disks, c1)" by (cases y)
        have c1: "chosen (Spec_Storage (TC_Spec cl)) c (PV_nodeDevices c1)" "PV_nodeName c1 = PV_nodeName c" "PV_namespace c1 = PV_namespace c"
          using 1(2) by (auto simp: Inr y chosen_def same_node_def cong: option.case_cong)
        have name: "ND_NodeName (PV_nodeDevices c1) = PV_nodeName c" by (rule chosen_name [OF assms(3) c1(1)])
        have "holds_earlier (PV_namespace c1) (PV_nodeName c1) (g (world u))"
          using assms(4) 1(1) \<open>g (world t) = g (world s)\<close> c1 by simp
        from provision_chosen_leaves [OF _ assms(2) this, of K Y disks] show ?thesis
          unfolding Inr y sum.case prod.case
          by (rule wp_mono) (use assms(1) c1 name in \<open>auto simp: left_status_def\<close>)
      qed (simp add: wp_return)
    qed
  qed (simp add: wp_return)
qed

section \<open>The cluster follows\<close>

lemma job_leaves:
  assumes "stores_cluster f K ns name"
    and "stores_config_map g K (PV_namespace c) (TruncateNodeName K LvmdConfigMapFmt (PV_nodeName c))"
    and "exec_keeps f E" "exec_keeps g E" "\<forall>ns n w. g (snd (ra_get (Clusters K) ns n w)) = g w"
    and "node_listed (f (world s)) (PV_nodeName c)" "holds_earlier (PV_namespace c) (PV_nodeName c) (g (world s))"
  shows "wp (PrePareVg_body E K Y c ns name)
    (\<lambda>err t. f (world t) = f (world s) \<and> (err = None \<longrightarrow> left_status g (f (world s)) c t)) (\<lambda>_ _. True) s"
proof -
  obtain w where get: "ra_get (Clusters K) ns name (world s) = (Inr (f (world s)), w)" "f w = f (world s)"
    using assms(1) unfolding stores_cluster_def by blast
  then have g: "g w = g (world s)" using assms(5) by (metis snd_conv)
  let ?s = "record_event (Api VGet (Named ''TopolvmCluster'' name)) w s"
  have "wp (provision E K Y c (f (world s))) (\<lambda>err t. f (world t) = f (world ?s) \<and> (err = None \<longrightarrow> left_status g (f (world s)) c t))
      (\<lambda>_ t. f (world t) = f (world ?s) \<and> True) ?s"
    unfolding wp_conj
    using still_wp [OF keeps_provision [OF assms(3) stores_clusterD(1) [OF assms(1)]], of Y c "f (world s)" ?s]
      provision_leaves [OF assms(2,4,6), of ?s Y] assms(7) g
    by simp
  then have "wp (provision E K Y c (f (world s))) (\<lambda>err t. f (world t) = f (world s) \<and> (err = None \<longrightarrow> left_status g (f (world s)) c t))
      (\<lambda>_ _. True) ?s"
    by (rule wp_mono) (use get(2) in simp_all)
  then show ?thesis
    by (simp add: PrePareVg_body_def wp_bind wp_api get(1))
qed

end
