(* ===== verification/AsciiTables.thy ===== *)
theory AsciiTables
  imports ProvisionFacts
begin

text \<open>
  The strings of the class tables: a status is read back as it was written where its strings are ASCII,
  and the operations on classes keep them ASCII where the configuration and the errors of commands are.
\<close>

section \<open>ASCII tables\<close>

definition table_ascii :: "class_table \<Rightarrow> bool" where
  "table_ascii m \<longleftrightarrow> (\<forall>k c. gm_get m k = Some c \<longrightarrow> ClassState_ascii c)"

definition class_ascii :: "LoopState gomap \<Rightarrow> DeviceClass \<Rightarrow> bool" where
  "class_ascii loopMap cls \<longleftrightarrow> ascii (DC_ClassName cls) \<and> ascii (DC_VgName cls) \<and>
     (\<forall>d \<in> set (DC_Device cls). ascii (Disk_Name (resolved loopMap d)))"

definition errors_ascii :: "'w executor \<Rightarrow> bool" where
  "errors_ascii E \<longleftrightarrow> (\<forall>cmd args w e w'. ExecuteCommand E cmd args w = (Some e, w') \<longrightarrow> ascii (err_msg e))"

lemma ascii_constants [simp]:
  "ascii []" "ascii ClassReady" "ascii ClassUnReady" "ascii ClassCreateFail" "ascii ClassCreateSuccessful"
  "ascii ClassExpandWaring" "ascii ClassExpandError" "ascii ClassShrinkError" "ascii ClassDeleteError"
  "ascii DeviceOnline" "ascii DeviceOffline" "ascii DeviceStateError" "ascii disk_unavailable_message"
  by code_simp+

lemma table_ascii_ops [simp]:
  "table_ascii m \<Longrightarrow> ClassState_ascii c \<Longrightarrow> table_ascii (gm_put k c m)" "table_ascii m \<Longrightarrow> table_ascii (gm_del k m)"
  by (auto simp: table_ascii_def gm.get_put gm.get_del)

lemma update_class_ascii:
  "table_ascii m \<Longrightarrow> update_class vg f m = Ret m' \<Longrightarrow> (\<And>c. ClassState_ascii c \<Longrightarrow> ClassState_ascii (f c)) \<Longrightarrow> table_ascii m'"
  by (auto simp: update_class_def table_ascii_def gm.get_put split: option.splits if_splits)

lemma DeviceState_ascii_simp [simp]:
  "DeviceState_ascii \<lparr>DS_Name = n, DS_State = st, DS_Message = m\<rparr> \<longleftrightarrow> ascii n \<and> ascii st \<and> ascii m"
  by (simp add: DeviceState_ascii_def)

lemma create_op_ascii:
  assumes "class_ascii loopMap cls" "table_ascii (fst tabs)" "table_ascii (snd tabs)"
  shows "wp (create_op E loopMap avail cls tabs) (\<lambda>r t. table_ascii (fst (snd r)) \<and> table_ascii (snd (snd r))) (\<lambda>_ _. True) s"
  unfolding create_op_def createVg_def create_check_result Let_def wp_bind prod.case
  using assms
  by (auto simp: wpg class_ascii_def ClassState_ascii_def zero_ClassState_def list_all_iff
      intro!: wp_any table_ascii_ops split: option.split)

lemma record_device_state_ascii:
  "DeviceState_ascii st \<Longrightarrow> list_all DeviceState_ascii sts \<Longrightarrow> list_all DeviceState_ascii (record_device_state st sts)"
  by (auto simp: record_device_state_def list_all_iff dest: set_update_subset_insert [THEN subsetD] split: option.split)

lemma retry_check_ascii:
  "\<forall>d \<in> set ds. ascii (Disk_Name (resolved loopMap d)) \<Longrightarrow> list_all DeviceState_ascii sts \<Longrightarrow>
   list_all DeviceState_ascii (fst (snd (retry_check loopMap avail ds sts)))"
proof (induction ds arbitrary: sts)
  case (Cons d ds)
  then show ?case
    by (auto simp: resolved_def record_device_state_ascii case_prod_beta split: option.splits)
qed simp

lemma retry_op_ascii:
  assumes "class_ascii loopMap cls" "table_ascii (fst tabs)" "table_ascii (snd tabs)"
  shows "wp (retry_op E loopMap avail cls tabs) (\<lambda>r t. table_ascii (fst (snd r)) \<and> table_ascii (snd (snd r))) (\<lambda>_ _. True) s"
proof -
  let ?sts = "case gm_get (snd tabs) (DC_VgName cls) of None \<Rightarrow> [] | Some c \<Rightarrow> CS_DeviceStates c"
  obtain devs sts ok where chk: "retry_check loopMap avail (DC_Device cls) ?sts = (devs, sts, ok)"
    by (cases "retry_check loopMap avail (DC_Device cls) ?sts")
  have "list_all DeviceState_ascii ?sts"
    using assms(3) by (auto simp: table_ascii_def ClassState_ascii_def split: option.split)
  then have "list_all DeviceState_ascii sts"
    using retry_check_ascii [of "DC_Device cls" loopMap ?sts avail] assms(1) chk by (simp add: class_ascii_def)
  then show ?thesis
    unfolding retry_op_def createVgRetry_def Let_def chk prod.case
    using assms
    by (auto simp: wpg class_ascii_def ClassState_ascii_def zero_ClassState_def table_ascii_def gm.get_put gm.get_del
        intro!: wp_any split: option.splits)
qed

lemma add_device_state_ascii:
  "DeviceState_ascii st \<Longrightarrow> ClassState_ascii c \<Longrightarrow> ClassState_ascii (add_device_state st c)"
  "ascii m \<Longrightarrow> ClassState_ascii c \<Longrightarrow> ClassState_ascii (c\<lparr>CS_Message := m\<rparr>)"
  by (simp_all add: add_device_state_def ClassState_ascii_def)

lemma add_online_ascii:
  "add_online vg ds m = Ret m' \<Longrightarrow> \<forall>d \<in> set ds. ascii d \<Longrightarrow> table_ascii m \<Longrightarrow> table_ascii m'"
proof (induction ds arbitrary: m)
  case (Cons d ds)
  then obtain m1 where m1: "update_class vg (add_device_state \<lparr>DS_Name = d, DS_State = DeviceOnline, DS_Message = []\<rparr>) m = Ret m1"
    "add_online vg ds m1 = Ret m'" by (auto split: outcome.splits)
  have "table_ascii m1"
    by (rule update_class_ascii [OF Cons.prems(3) m1(1)]) (use Cons.prems(2) in \<open>simp add: add_device_state_ascii\<close>)
  then show ?case using Cons m1(2) by simp
qed simp

lemma expand_op_ascii:
  assumes "errors_ascii E" "class_ascii loopMap cls" "table_ascii (fst tabs)" "table_ascii (snd tabs)"
  shows "wp (expand_op E loopMap cls tabs) (\<lambda>r t. table_ascii (fst (snd r)) \<and> table_ascii (snd (snd r))) (\<lambda>_ _. True) s"
proof -
  let ?I = "\<lambda>b (t :: 'a host). (\<forall>d \<in> set (fst (snd b)). ascii d) \<and> table_ascii (snd (snd b))"
  have step: "wp (expand_step E loopMap pv vg d b) ?I (\<lambda>_ _. True) t" if "?I b t" "d \<in> set (DC_Device cls)" for pv vg d b t
  proof (cases "resolve_disk loopMap d")
    case None
    then show ?thesis using that by (simp add: expand_step_def wpg split: prod.split)
  next
    case (Some d')
    then have d': "ascii (Disk_Name d')" using assms(2) that(2) by (fastforce simp: class_ascii_def resolved_def)
    obtain err new suc where b: "b = (err, new, suc)" by (cases b)
    have "table_ascii suc'" if "update_class vg (\<lambda>c. add_device_state \<lparr>DS_Name = Disk_Name d', DS_State = DeviceStateError, DS_Message = err_msg e\<rparr>
        (c\<lparr>CS_Message := ClassExpandWaring\<rparr>)) suc = Ret suc'" "ascii (err_msg e)" for e suc'
      by (rule update_class_ascii [OF _ that(1)]) (use \<open>?I b t\<close> d' that(2) b in \<open>simp_all add: add_device_state_ascii\<close>)
    then show ?thesis using that(1) d' assms(1)
      by (auto simp: expand_step_def b Some wpg CreatePhysicalVolume_def errors_ascii_def split: outcome.split option.split)
  qed
  have loop: "wp (go_fold (expand_step E loopMap pv vg) (DC_Device cls) (None, [], fst tabs)) ?I (\<lambda>_ _. True) t" for pv vg t
    by (rule wp_go_fold) (use assms(3) step in auto)
  have msg: "table_ascii m'" if "update_class vg (\<lambda>c. c\<lparr>CS_Message := ClassExpandError\<rparr>) m = Ret m'" "table_ascii m" for vg m m'
    by (rule update_class_ascii [OF that(2,1)]) (simp add: add_device_state_ascii)
  show ?thesis
    unfolding expand_op_def checkVgIfExpand_def wp_bind
    by (rule wp_any)
       (auto simp: wpg ExpandVolumeGroup_def assms(3,4) split: sum.splits option.splits outcome.splits
         intro!: wp_mono [OF loop] dest: msg add_online_ascii)
qed

lemma shrink_op_ascii:
  assumes "table_ascii (fst tabs)" "table_ascii (snd tabs)"
  shows "wp (shrink_op E cls tabs) (\<lambda>r t. table_ascii (fst (snd r)) \<and> table_ascii (snd (snd r))) (\<lambda>_ _. True) s"
proof -
  have upd: "table_ascii m'" if "update_class vg (\<lambda>c. c\<lparr>CS_Message := w\<rparr>) (fst tabs) = Ret m'" "ascii w" for vg w m'
    by (rule update_class_ascii [OF assms(1) that(1)]) (simp add: add_device_state_ascii that(2))
  note msg = upd [OF _ ascii_constants(9)] upd [OF _ ascii_constants(8)]
  have drop: "table_ascii m'" if "update_class vg (drop_device_states ds) (fst tabs) = Ret m'" for vg ds m'
  proof (rule update_class_ascii [OF assms(1) that])
    fix c
    assume "ClassState_ascii c"
    moreover have "CS_DeviceStates (drop_device_states ds c) = filter (\<lambda>st. DS_Name st \<notin> set ds) (CS_DeviceStates c)"
      by (rule drop_device_states_filter)
    ultimately show "ClassState_ascii (drop_device_states ds c)"
      unfolding ClassState_ascii_def by (auto simp: list_all_iff) (simp_all add: drop_device_states_def)
  qed
  show ?thesis
    unfolding shrink_op_def checkVgIfShrink_def wp_bind
    by (rule wp_any)
       (auto simp: wpg Let_def assms split: sum.splits option.splits outcome.splits intro!: wp_any dest: msg drop)
qed

definition tables_ascii :: "class_table \<times> class_table \<Rightarrow> bool" where
  "tables_ascii tabs \<longleftrightarrow> table_ascii (fst tabs) \<and> table_ascii (snd tabs)"

lemma provision_classes_ascii:
  assumes "errors_ascii E" "\<forall>cls \<in> set classes. class_ascii loopMap cls" "tables_ascii tabs"
  shows "wp (provision_classes E loopMap disks classes tabs) (\<lambda>r t. tables_ascii (snd r)) (\<lambda>_ _. True) s"
proof -
  have one: "wp (provision_class E loopMap disks d tabs) (\<lambda>r t. tables_ascii (snd r)) (\<lambda>_ _. True) u"
    if "class_ascii loopMap d" "tables_ascii tabs" for d tabs and u :: "'a host"
    using that assms(1)
    by (auto simp: provision_class_def wpg tables_ascii_def case_prod_beta
        intro!: wp_mono [OF create_op_ascii] wp_mono [OF retry_op_ascii] wp_mono [OF expand_op_ascii] wp_mono [OF shrink_op_ascii])
  show ?thesis
    unfolding provision_classes_def
    by (rule wp_go_fold [where I = "\<lambda>b _. tables_ascii (snd b)"])
       (use assms(2,3) in \<open>auto simp: wp_bind wp_return split: prod.split intro!: wp_mono [OF one]\<close>)
qed

section \<open>The status\<close>

text \<open>The strings of a table and a status are ASCII when those of its entries are.\<close>

lemma status_ascii_values:
  assumes "set sks = set (gm_keys suc)" "set fks = set (gm_keys fail)"
    and "\<And>k c. gm_get suc k = Some c \<Longrightarrow> ClassState_ascii c" "\<And>k c. gm_get fail k = Some c \<Longrightarrow> ClassState_ascii c"
    and "ascii (NS_Node st)" "ascii (NS_Phase st)" "list_all LoopState_ascii loops"
  shows "status_ascii (st\<lparr>NS_FailClasses := gm_values fail fks, NS_SuccessClasses := gm_values suc sks, NS_Loops := loops\<rparr>)"
  using assms set_gm_values [OF assms(1)] set_gm_values [OF assms(2)]
  by (auto simp: status_ascii_def list_all_iff)

lemma restricted_ascii: "restricted classes m m' \<Longrightarrow> table_ascii m \<Longrightarrow> table_ascii m'"
  by (auto simp: restricted_def table_ascii_def split: if_splits)

text \<open>What a run needs for that: of the executor, and of the classes and loop devices of the node.\<close>

definition run_ascii :: "'w executor \<Rightarrow> prepare_vg \<Rightarrow> bool" where
  "run_ascii E c \<longleftrightarrow> errors_ascii E \<and> (\<forall>cls \<in> set (ND_DeviceClasses (PV_nodeDevices c)). class_ascii (PV_loopMap c) cls) \<and>
     list_all LoopState_ascii (PV_loopsState c)"

lemma getVgNameMap_ascii: "list_all ClassState_ascii cs \<Longrightarrow> table_ascii (getVgNameMap cs)"
proof (induction cs rule: rev_induct)
  case (snoc c cs)
  have "getVgNameMap (cs @ [c]) = gm_put (CS_VgName c) c (getVgNameMap cs)" by (simp add: getVgNameMap_def gm_build_def)
  with snoc show ?case by simp
qed (simp add: getVgNameMap_def gm_build_def table_ascii_def gm.get_empty)

end
