(* ===== verification/Lifecycle.thy ===== *)
theory Lifecycle
  imports JobStore AsciiTables
begin

text \<open>
  The life of one volume group under the job of \<open>controllers/preparevg_controller.go\<close>: an abstract
  machine with the states absent, failed and created, whose steps carry the commands issued, and the
  refinement: a run of the job over all classes is one step of the machine for each group.
\<close>

section \<open>The abstract machine\<close>

datatype group_state = Absent | Failed | Created

definition creates :: "string \<Rightarrow> event \<Rightarrow> bool" where
  "creates vg ev \<longleftrightarrow> (\<exists>ds. ev = lvm_ev ([''vgcreate'', vg] @ ds))"

definition removes :: "string \<Rightarrow> event \<Rightarrow> bool" where
  "removes vg ev \<longleftrightarrow> ev = lvm_ev [''vgremove'', vg]"

abbreviation made :: "string \<Rightarrow> event list \<Rightarrow> bool" where
  "made vg es \<equiv> list_ex (creates vg) es"

abbreviation removed :: "string \<Rightarrow> event list \<Rightarrow> bool" where
  "removed vg es \<equiv> list_ex (removes vg) es"

text \<open>
  The pass over the classes, for a group that is configured.  A created group is never created again; a
  group that is not created is never removed.
\<close>

inductive class_step :: "string \<Rightarrow> event list \<Rightarrow> group_state \<Rightarrow> group_state \<Rightarrow> bool" for vg es where
  keep: "\<not> made vg es \<Longrightarrow> class_step vg es Created Created"
| remove: "\<not> made vg es \<Longrightarrow> removed vg es \<Longrightarrow> class_step vg es Created Absent"
| create: "\<not> removed vg es \<Longrightarrow> made vg es \<Longrightarrow> a \<noteq> Created \<Longrightarrow> class_step vg es a Created"
| fail: "\<not> removed vg es \<Longrightarrow> a \<noteq> Created \<Longrightarrow> class_step vg es a Failed"

text \<open>A whole run: a group no class is configured for is gone afterwards.\<close>

inductive group_step :: "string \<Rightarrow> event list \<Rightarrow> bool \<Rightarrow> group_state \<Rightarrow> group_state \<Rightarrow> bool" for vg es where
  configured: "class_step vg es a b \<Longrightarrow> group_step vg es True a b"
| gone: "\<not> made vg es \<Longrightarrow> removed vg es \<longrightarrow> a = Created \<Longrightarrow> group_step vg es False a Absent"

inductive_simps class_step_simps: "class_step vg es Absent b" "class_step vg es Failed b" "class_step vg es Created b"
inductive_simps group_step_simps: "group_step vg es True a b" "group_step vg es False a b"

inductive_cases class_stepE: "class_step vg es a b"
inductive_cases group_stepE: "group_step vg es c a b"

definition group_state :: "class_table \<times> class_table \<Rightarrow> string \<Rightarrow> group_state" where
  "group_state tabs vg = (if gm_has (fst tabs) vg then Created else if gm_has (snd tabs) vg then Failed else Absent)"

section \<open>Events since\<close>

definition since :: "'w host \<Rightarrow> 'w host \<Rightarrow> event list" where
  "since s t = drop (length (trace s)) (trace t)"

lemma since_grown: "grown P s t \<Longrightarrow> trace t = trace s @ since s t \<and> list_all P (since s t)"
  by (auto simp: grown_def since_def)

lemma since_trans: "grown P s t \<Longrightarrow> grown Q t u \<Longrightarrow> since s u = since s t @ since t u"
  by (auto simp: grown_def since_def)

lemma since_refl [simp]: "since s s = []"
  by (simp add: since_def)

text \<open>Events that are about one group, and neither remove nor create it, or neither.\<close>

definition builds :: "string \<Rightarrow> event \<Rightarrow> bool" where
  "builds vg ev \<longleftrightarrow> (\<forall>k. (creates k ev \<longrightarrow> k = vg) \<and> \<not> removes k ev)"

definition tends :: "string \<Rightarrow> event \<Rightarrow> bool" where
  "tends vg ev \<longleftrightarrow> (\<forall>k. \<not> creates k ev \<and> (removes k ev \<longrightarrow> k = vg))"

definition about_group :: "string \<Rightarrow> event \<Rightarrow> bool" where
  "about_group vg ev \<longleftrightarrow> (\<forall>k. creates k ev \<or> removes k ev \<longrightarrow> k = vg)"

lemma about_group [intro]: "builds vg ev \<Longrightarrow> about_group vg ev" "tends vg ev \<Longrightarrow> about_group vg ev"
  by (auto simp: about_group_def builds_def tends_def)

lemma none_made_removed:
  "list_all (builds vg) es \<Longrightarrow> \<not> removed k es" "list_all (tends vg) es \<Longrightarrow> \<not> made k es"
  "list_all (about_group vg) es \<Longrightarrow> k \<noteq> vg \<Longrightarrow> \<not> made k es \<and> \<not> removed k es"
  by (auto simp: list_ex_iff list_all_iff builds_def tends_def about_group_def)

lemma quiet_commands [simp]:
  "builds vg (lvm_ev (c # args)) \<longleftrightarrow> c \<noteq> ''vgremove'' \<and> (c = ''vgcreate'' \<longrightarrow> args \<noteq> [] \<longrightarrow> hd args = vg) \<or> (c = ''vgremove'' \<and> length args \<noteq> 1)"
  "tends vg (lvm_ev (c # args)) \<longleftrightarrow> c \<noteq> ''vgcreate'' \<and> (c = ''vgremove'' \<longrightarrow> length args = 1 \<longrightarrow> hd args = vg) \<or> (c = ''vgcreate'' \<and> args = [])"
  by (cases args; auto simp: builds_def tends_def creates_def removes_def length_Suc_conv)+

lemma query_quiet: "lvm_query ev \<Longrightarrow> builds vg ev" "lvm_query ev \<Longrightarrow> tends vg ev"
  by (auto simp: lvm_query_def parseOutput_args_def)

lemma query_tends: "only_issues lvm_query m \<Longrightarrow> only_issues (tends vg) m"
  by (erule only_issues_mono) (rule query_quiet)

lemmas query_issues [issues] = only_issues_queries [THEN query_tends] only_issues_check_pvs_free [THEN query_tends]

lemma group_issues [issues]:
  "only_issues (builds vg) (CreateVolumeGroup E disks vg)"
  "only_issues (tends vg) (RemoveVolumeGroup E vg)"
  "only_issues (tends vg) (ShrinkVolumeGroup E vg pvs)"
  "only_issues (tends vg) (ExpandVolumeGroup E vg pvs)"
  "only_issues (tends vg) (CreatePhysicalVolume E d)"
  by (auto simp: CreateVolumeGroup_def RemoveVolumeGroup_def ShrinkVolumeGroup_def ExpandVolumeGroup_def
      CreatePhysicalVolume_def intro!: issues)

lemma class_issues:
  "only_issues (builds (DC_VgName d)) (create_op E loopMap disks d tabs)"
  "only_issues (builds (DC_VgName d)) (retry_op E loopMap disks d tabs)"
  "only_issues (tends (DC_VgName d)) (expand_op E loopMap d tabs)"
  "only_issues (tends (DC_VgName d)) (shrink_op E d tabs)"
  by (auto simp: create_op_def retry_op_def expand_op_def shrink_op_def createVg_def createVgRetry_def
      checkVgIfExpand_def checkVgIfShrink_def expand_step_def Let_def intro!: issues)

section \<open>One class\<close>

lemma wp_issues:
  assumes "only_issues P m" "wp m Q (\<lambda>_ _. True) s"
  shows "wp m (\<lambda>a t. Q a t \<and> grown P s t) (\<lambda>_ _. True) s"
proof -
  have "wp m (\<lambda>a t. Q a t \<and> grown P s t) (\<lambda>_ t. True \<and> grown P s t) s"
    unfolding wp_conj using assms(2) only_issues_wp [OF assms(1)] by blast
  then show ?thesis by (rule wp_mono) simp_all
qed

lemma create_op_step:
  assumes "group_state tabs (DC_VgName d) = Absent"
  shows "wp (create_op E loopMap disks d tabs)
    (\<lambda>r t. class_step (DC_VgName d) (since s t) Absent (group_state (snd r) (DC_VgName d)) \<and> grown (builds (DC_VgName d)) s t)
    (\<lambda>_ _. True) s"
proof -
  have "wp (create_op E loopMap disks d tabs) (\<lambda>r t.
      group_state (snd r) (DC_VgName d) = Created \<and> made (DC_VgName d) (since s t) \<or> group_state (snd r) (DC_VgName d) = Failed)
    (\<lambda>_ _. True) s"
    unfolding create_op_def wp_bind
  proof (rule wp_mono [OF createVg_result], goal_cases)
    case (1 r t)
    obtain ok d' suc fail where r: "r = (ok, d', suc, fail)" by (cases r)
    show ?case using 1 assms
      by (cases ok) (auto simp: r wpg group_state_def create_trace_def since_def creates_def split: if_splits)
  qed simp
  from wp_issues [OF class_issues(1) this] show ?thesis
    by (rule wp_mono) (auto dest!: since_grown none_made_removed(1) intro: class_step.intros)
qed

lemma retry_op_step:
  assumes "group_state tabs (DC_VgName d) = Failed"
  shows "wp (retry_op E loopMap disks d tabs)
    (\<lambda>r t. class_step (DC_VgName d) (since s t) Failed (group_state (snd r) (DC_VgName d)) \<and> grown (builds (DC_VgName d)) s t)
    (\<lambda>_ _. True) s"
proof -
  obtain old where old: "gm_get (snd tabs) (DC_VgName d) = Some old" and new: "\<not> gm_has (fst tabs) (DC_VgName d)"
    using assms by (auto simp: group_state_def gm_has_def split: if_splits)
  have "wp (retry_op E loopMap disks d tabs) (\<lambda>r t.
      group_state (snd r) (DC_VgName d) = Created \<and> made (DC_VgName d) (since s t) \<or> group_state (snd r) (DC_VgName d) = Failed)
    (\<lambda>_ _. True) s"
    unfolding retry_op_def wp_bind
    by (rule wp_mono [OF createVgRetry_result [OF old]])
       (use old new in \<open>auto simp: wpg group_state_def create_trace_def since_def creates_def gm_has_def gm.get_put split: if_splits\<close>)
  from wp_issues [OF class_issues(2) this] show ?thesis
    by (rule wp_mono) (auto dest!: since_grown none_made_removed(1) intro: class_step.intros)
qed

lemma add_online_has: "add_online vg ds m = Ret m' \<Longrightarrow> gm_has m' k = gm_has m k"
  by (induction ds arbitrary: m) (auto dest: update_class_has split: outcome.splits)

lemma expand_op_has:
  "wp (expand_op E loopMap d tabs) (\<lambda>r t. (\<forall>k. gm_has (fst (snd r)) k = gm_has (fst tabs) k) \<and> snd (snd r) = snd tabs) (\<lambda>_ _. True) s"
proof -
  have loop: "wp (go_fold (expand_step E loopMap pv vg) ds (None, [], suc)) (\<lambda>b t. \<forall>k. gm_has (snd (snd b)) k = gm_has suc k) (\<lambda>_ _. True) t"
    for pv vg ds suc and t :: "'a host"
    by (rule wp_go_fold) (auto simp: expand_step_def CreatePhysicalVolume_def wpg update_class_has split: option.splits outcome.splits)
  show ?thesis
    unfolding expand_op_def checkVgIfExpand_def wp_bind
    by (rule wp_any)
       (auto simp: wpg ExpandVolumeGroup_def update_class_has add_online_has
         split: sum.splits option.splits outcome.splits intro!: wp_mono [OF loop])
qed

lemma RemoveVolumeGroup_removed:
  "wp (RemoveVolumeGroup E vg) (\<lambda>err t. err = None \<longrightarrow> removed vg (since s t)) (\<lambda>_ _. True) s"
proof -
  have "removed vg (since s t)" if run: "RemoveVolumeGroup E vg s = (Ret None, t)" for t
  proof -
    obtain s1 s2 pvs ks where runs: "CheckVgHasLogicalVolume E vg s = (Ret (Inr False), s1)"
      "GetPhysicalVolume E vg s1 = (Ret (Inr pvs), s2)"
      and trace: "trace t = trace s2 @ [lvm_ev [''vgremove'', vg]] @ map (\<lambda>k. lvm_ev [''pvremove'', k]) ks"
      using RemoveVolumeGroup_success [OF run] by blast
    have "grown lvm_query s s1" "grown lvm_query s1 s2" using runs by (blast intro: only_issuesD issues)+
    then have "grown lvm_query s s2" by (rule grown_trans)
    then show ?thesis using trace by (auto simp: grown_def since_def removes_def)
  qed
  then show ?thesis by (simp add: wp_iff_run)
qed

lemma removed_after:
  assumes "grown P s t" "only_issues Q m" "wp m (\<lambda>a u. A a \<longrightarrow> removed vg (since t u)) (\<lambda>_ _. True) t"
  shows "wp m (\<lambda>a u. A a \<longrightarrow> removed vg (since s u)) (\<lambda>_ _. True) t"
proof (rule wp_mono [OF wp_issues [OF assms(2,3)]], goal_cases)
  case (1 a u)
  then have "since s u = since s t @ since t u" by (intro since_trans [OF assms(1)]) blast
  then show ?case using 1 by simp
qed simp

lemma checkVgIfShrink_has:
  "wp (checkVgIfShrink E cls suc) (\<lambda>r t. (\<forall>k. gm_has (snd r) k = gm_has suc k) \<or>
     snd r = gm_del (DC_VgName cls) suc \<and> removed (DC_VgName cls) (since s t)) (\<lambda>_ _. True) s"
  unfolding checkVgIfShrink_def wp_bind [of "GetPhysicalVolume E (DC_VgName cls)"]
proof (rule wp_mono [OF only_issues_wp [OF query_issues(2) [where vg = "DC_VgName cls" and vga = "DC_VgName cls"]]], goal_cases)
  case (1 r t)
  let ?P = "\<lambda>r u. (\<forall>k. gm_has (snd r) k = gm_has suc k) \<or>
     snd r = gm_del (DC_VgName cls) suc \<and> removed (DC_VgName cls) (since s u)"
  have same: "wp (go_bind (go_lift (update_class (DC_VgName cls) f suc)) (\<lambda>suc1. go_return (err, suc1))) ?P (\<lambda>_ _. True) u" for f err u
    by (auto simp: wpg update_class_has split: outcome.splits)
  have remove: "wp (go_bind (RemoveVolumeGroup E (DC_VgName cls)) (\<lambda>err. case err of
        Some e \<Rightarrow> go_bind (go_lift (update_class (DC_VgName cls) (\<lambda>c. c\<lparr>CS_Message := ClassDeleteError\<rparr>) suc)) (\<lambda>suc1. go_return (Some e, suc1))
      | None \<Rightarrow> go_return (None, gm_del (DC_VgName cls) suc))) ?P (\<lambda>_ _. True) u" if "trace u = trace t" for u
  proof -
    have "grown (tends (DC_VgName cls)) s u" using 1 that by (simp add: grown_def)
    from removed_after [OF this group_issues(2) RemoveVolumeGroup_removed] show ?thesis
      unfolding wp_bind [of "RemoveVolumeGroup E (DC_VgName cls)"]
      by (rule wp_mono) (auto simp: wp_return same split: option.split)
  qed
  have shrink: "wp (go_bind (ShrinkVolumeGroup E (DC_VgName cls) pvs) (\<lambda>err. case err of
        Some e \<Rightarrow> go_bind (go_lift (update_class (DC_VgName cls) (\<lambda>c. c\<lparr>CS_Message := ClassShrinkError\<rparr>) suc)) (\<lambda>suc1. go_return (Some e, suc1))
      | None \<Rightarrow> go_bind (go_lift (update_class (DC_VgName cls) (drop_device_states pvs) suc)) (\<lambda>suc1. go_return (None, suc1))))
      ?P (\<lambda>_ _. True) u" for pvs u
    unfolding wp_bind [of "ShrinkVolumeGroup E (DC_VgName cls) pvs"] by (rule wp_any) (auto simp: same split: option.split)
  show ?case
    by (cases r) (auto simp: wp_return wp_go_range wp_bind [of "go_range E _"] Let_def same remove shrink)
qed simp

lemma shrink_op_step:
  assumes "group_state tabs (DC_VgName d) = Created" "\<not> gm_has (snd tabs) (DC_VgName d)"
  shows "wp (shrink_op E d tabs)
    (\<lambda>r t. class_step (DC_VgName d) (since s t) Created (group_state (snd r) (DC_VgName d)) \<and> grown (tends (DC_VgName d)) s t)
    (\<lambda>_ _. True) s"
proof -
  have suc: "gm_has (fst tabs) (DC_VgName d)" using assms(1) by (auto simp: group_state_def split: if_splits)
  have "wp (shrink_op E d tabs) (\<lambda>r t. group_state (snd r) (DC_VgName d) = Created \<or>
      group_state (snd r) (DC_VgName d) = Absent \<and> removed (DC_VgName d) (since s t)) (\<lambda>_ _. True) s"
    unfolding shrink_op_def wp_bind
    by (rule wp_mono [OF checkVgIfShrink_has]) (auto simp: wp_return group_state_def suc assms(2))
  from wp_issues [OF class_issues(4) this] show ?thesis
    by (rule wp_mono) (auto dest!: since_grown none_made_removed(2) intro: class_step.intros)
qed

text \<open>Events before or after that do not concern the group do not matter.\<close>

lemma class_step_tends: "class_step vg es Created b \<Longrightarrow> list_all (tends vg) es' \<Longrightarrow> class_step vg (es' @ es) Created b"
  by (frule none_made_removed(2)) (auto elim!: class_stepE intro: class_step.intros)

lemma class_step_quiet:
  "\<not> made vg es' \<and> \<not> removed vg es' \<Longrightarrow> class_step vg (es @ es') a b = class_step vg es a b"
  "\<not> made vg es' \<and> \<not> removed vg es' \<Longrightarrow> class_step vg (es' @ es) a b = class_step vg es a b"
  by (auto elim!: class_stepE intro: class_step.intros)

lemma provision_class_step:
  assumes "tables_ok tabs"
  shows "wp (provision_class E loopMap disks d tabs)
    (\<lambda>r t. class_step (DC_VgName d) (since s t) (group_state tabs (DC_VgName d)) (group_state (snd r) (DC_VgName d)) \<and>
       grown (about_group (DC_VgName d)) s t) (\<lambda>_ _. True) s"
proof (cases "group_state tabs (DC_VgName d)")
  case Absent
  then show ?thesis
    by (auto simp: provision_class_def group_state_def split: if_splits
        intro!: wp_mono [OF create_op_step [unfolded group_state_def]] elim: grown_mono)
next
  case Failed
  then show ?thesis
    by (auto simp: provision_class_def group_state_def split: if_splits
        intro!: wp_mono [OF retry_op_step [unfolded group_state_def]] elim: grown_mono)
next
  case Created
  then have suc: "gm_has (fst tabs) (DC_VgName d)" by (auto simp: group_state_def split: if_splits)
  then have apart: "\<not> gm_has (snd tabs) (DC_VgName d)" using assms by (simp add: tables_ok_def)
  show ?thesis
    unfolding provision_class_def if_P [OF suc] Created wp_bind
  proof (rule wp_mono [OF wp_issues [OF class_issues(3) expand_op_has]], goal_cases)
    case (1 r t)
    obtain err tabs1 where r: "r = (err, tabs1)" by (cases r)
    have "group_state tabs1 (DC_VgName d) = Created" "\<not> gm_has (snd tabs1) (DC_VgName d)"
      using 1 suc apart by (auto simp: r group_state_def)
    from shrink_op_step [OF this, of E t] show ?case
      unfolding r prod.case wp_bind
    proof (rule wp_mono, goal_cases)
      case (1 r2 u)
      have before: "grown (tends (DC_VgName d)) s t" using \<open>_ \<and> grown (tends (DC_VgName d)) s t\<close> by simp
      have "grown (tends (DC_VgName d)) t u" using 1 by simp
      then have "since s u = since s t @ since t u" "grown (tends (DC_VgName d)) s u"
        using before by (auto intro: since_trans grown_trans)
      moreover have "list_all (tends (DC_VgName d)) (since s t)" using since_grown [OF before] by simp
      ultimately show ?case using 1
        by (auto simp: wp_return class_step_tends split: prod.split elim: grown_mono)
    qed simp
  qed simp
qed

section \<open>All classes\<close>

definition pass_steps :: "DeviceClass list \<Rightarrow> event list \<Rightarrow> (string \<Rightarrow> group_state) \<Rightarrow> (string \<Rightarrow> group_state) \<Rightarrow> bool" where
  "pass_steps classes es a b \<longleftrightarrow> (\<forall>vg. if vg_configured classes vg then class_step vg es (a vg) (b vg)
     else b vg = a vg \<and> \<not> made vg es \<and> \<not> removed vg es)"

lemma pass_steps_Cons:
  assumes "class_step (DC_VgName d) es (a (DC_VgName d)) (b (DC_VgName d))" "list_all (about_group (DC_VgName d)) es"
    and "\<forall>vg. vg \<noteq> DC_VgName d \<longrightarrow> b vg = a vg" "pass_steps ds es' b c" "\<not> vg_configured ds (DC_VgName d)"
  shows "pass_steps (d # ds) (es @ es') a c"
  unfolding pass_steps_def
proof
  fix vg
  show "if vg_configured (d # ds) vg then class_step vg (es @ es') (a vg) (c vg)
     else c vg = a vg \<and> \<not> made vg (es @ es') \<and> \<not> removed vg (es @ es')"
  proof (cases "vg = DC_VgName d")
    case True
    then have "c vg = b vg" "\<not> made vg es' \<and> \<not> removed vg es'" using assms(4,5) by (auto simp: pass_steps_def)
    then show ?thesis using assms(1) True by (simp add: vg_configured_def class_step_quiet)
  next
    case False
    then have quiet: "\<not> made vg es \<and> \<not> removed vg es" using none_made_removed(3) [OF assms(2)] by blast
    have "if vg_configured ds vg then class_step vg es' (b vg) (c vg) else c vg = b vg \<and> \<not> made vg es' \<and> \<not> removed vg es'"
      using assms(4) by (simp add: pass_steps_def)
    then show ?thesis using False quiet assms(3) by (auto simp: vg_configured_def class_step_quiet(2) split: if_splits)
  qed
qed

lemma provision_classes_steps:
  assumes "distinct (map DC_VgName classes)" "tables_ok tabs"
  shows "wp (provision_classes E loopMap disks classes tabs)
    (\<lambda>r t. grown (\<lambda>_. True) s t \<and> pass_steps classes (since s t) (group_state tabs) (group_state (snd r))) (\<lambda>_ _. True) s"
proof -
  let ?f = "\<lambda>d (sucVgs, tabs). go_bind (provision_class E loopMap disks d tabs) (\<lambda>(r, tabs'). go_return (collect_new r sucVgs, tabs'))"
  have "wp (go_fold ?f classes (acc, tabs))
    (\<lambda>r t. grown (\<lambda>_. True) s t \<and> pass_steps classes (since s t) (group_state tabs) (group_state (snd r))) (\<lambda>_ _. True) s" for acc
    using assms
  proof (induction classes arbitrary: acc tabs s)
    case Nil
    then show ?case by (simp add: wp_return pass_steps_def vg_configured_def)
  next
    case (Cons d ds)
    have new: "\<not> vg_configured ds (DC_VgName d)" using Cons.prems(1) by (auto simp: vg_configured_def image_iff)
    have one: "wp (provision_class E loopMap disks d tabs) (\<lambda>r t. (class_step (DC_VgName d) (since s t) (group_state tabs (DC_VgName d))
        (group_state (snd r) (DC_VgName d)) \<and> grown (about_group (DC_VgName d)) s t) \<and> tables_ok (snd r) \<and> frame_ok (DC_VgName d) tabs (snd r))
      (\<lambda>_ _. True \<and> True) s"
      unfolding wp_conj using provision_class_step [OF Cons.prems(2)] prov.contract [OF _ Cons.prems(2)] by blast
    show ?case
      unfolding go_fold.simps prod.case go_bind_assoc wp_bind [of "provision_class E loopMap disks d tabs"]
    proof (rule wp_mono [OF one], goal_cases)
      case (1 r t)
      obtain x tabs1 where r: "r = (x, tabs1)" by (cases r)
      have ok: "tables_ok tabs1" "distinct (map DC_VgName ds)" using 1 Cons.prems(1) by (simp_all add: r)
      have same: "\<forall>vg. vg \<noteq> DC_VgName d \<longrightarrow> group_state tabs1 vg = group_state tabs vg"
        using 1 by (simp add: r frame_ok_def group_state_def gm_has_def)
      show ?case
        unfolding r prod.case go_bind_simps(1)
      proof (rule wp_mono [OF Cons.IH [OF ok(2,1)]], goal_cases)
        case (1 r2 u)
        have g: "grown (about_group (DC_VgName d)) s t" "grown (\<lambda>_. True) t u" using \<open>_ \<and> tables_ok (snd r) \<and> _\<close> 1 by simp_all
        have "since s u = since s t @ since t u" by (rule since_trans [OF g])
        moreover have "pass_steps (d # ds) (since s t @ since t u) (group_state tabs) (group_state (snd r2))"
          by (rule pass_steps_Cons [OF _ _ same _ new])
             (use \<open>_ \<and> tables_ok (snd r) \<and> _\<close> 1 r since_grown [OF g(1)] in simp_all)
        moreover have "grown (\<lambda>_. True) s u" by (rule grown_trans [OF grown_mono [OF g(1)] g(2)]) simp
        ultimately show ?case by simp
      qed simp
    qed simp
  qed
  then show ?thesis unfolding provision_classes_def .
qed

section \<open>Classes no longer configured\<close>

definition drops :: "class_table \<Rightarrow> DeviceClass list \<Rightarrow> event \<Rightarrow> bool" where
  "drops suc classes ev \<longleftrightarrow> (\<forall>vg. \<not> creates vg ev \<and> (removes vg ev \<longrightarrow> gm_has suc vg \<and> \<not> vg_configured classes vg))"

lemma checkVgIfDelete_drops:
  "wp (checkVgIfDelete E classes suc fail) (\<lambda>r t. grown (drops suc classes) s t \<and>
     restricted classes suc (fst r) \<and> restricted classes fail (snd r)) (\<lambda>_ _. True) s"
proof -
  have loop: "only_issues (drops suc classes) (go_fold (delete_suc_step E classes) ks suc)" if "set ks = set (gm_keys suc)" for ks
  proof (rule only_issues_fold)
    fix key m
    assume "key \<in> set ks"
    then have "gm_has suc key" using that by (simp add: gm_has_iff)
    then have "drops suc classes ev" if "tends key ev" "\<not> vg_configured classes key" for ev
      using that by (auto simp: drops_def tends_def)
    then have "only_issues (drops suc classes) (RemoveVolumeGroup E key)" if "\<not> vg_configured classes key"
      using that by (intro only_issues_mono [OF group_issues(2) [of key]])
    then show "only_issues (drops suc classes) (delete_suc_step E classes key m)"
      unfolding delete_suc_step_def by (auto intro!: issues)
  qed
  have "wp (checkVgIfDelete E classes suc fail) (\<lambda>_. grown (drops suc classes) s) (\<lambda>_ _. True) s"
    unfolding checkVgIfDelete_def wp_bind [of "go_range E suc"]
  proof (rule wp_go_range_keys)
    fix ks w
    assume "set ks = set (gm_keys suc)"
    from loop [OF this] have "only_issues (drops suc classes) (go_bind (go_fold (delete_suc_step E classes) ks suc) (\<lambda>suc1.
        go_bind (go_range E fail) (\<lambda>fks. go_return (suc1, delete_fail_keys classes fks fail))))"
      by (rule only_issues_bind) (intro issues)
    then show "wp (go_bind (go_fold (delete_suc_step E classes) ks suc) (\<lambda>suc1.
        go_bind (go_range E fail) (\<lambda>fks. go_return (suc1, delete_fail_keys classes fks fail))))
        (\<lambda>_. grown (drops suc classes) s) (\<lambda>_ _. True) (s\<lparr>world := w\<rparr>)"
      by (intro wp_mono [OF only_issues_wp]) (auto simp: grown_def)
  qed
  with checkVgIfDelete_result [of E classes suc fail s] have "wp (checkVgIfDelete E classes suc fail) (\<lambda>r t. grown (drops suc classes) s t \<and>
      restricted classes suc (fst r) \<and> restricted classes fail (snd r)) (\<lambda>_ _. True \<and> True) s"
    unfolding wp_conj by blast
  then show ?thesis by simp
qed

definition run_steps :: "DeviceClass list \<Rightarrow> event list \<Rightarrow> (string \<Rightarrow> group_state) \<Rightarrow> (string \<Rightarrow> group_state) \<Rightarrow> bool" where
  "run_steps classes es a b \<longleftrightarrow> (\<forall>vg. group_step vg es (vg_configured classes vg) (a vg) (b vg))"

lemma pass_then_delete:
  assumes "pass_steps classes es a (group_state (suc, fail))" "list_all (drops suc classes) es'"
    and "restricted classes suc suc'" "restricted classes fail fail'" "\<forall>vg. \<not> made vg es'' \<and> \<not> removed vg es''"
  shows "run_steps classes (es @ es' @ es'') a (group_state (suc', fail'))"
  unfolding run_steps_def
proof
  fix vg
  have states: "group_state (suc', fail') vg = (if vg_configured classes vg then group_state (suc, fail) vg else Absent)"
    using assms(3,4) by (simp add: restricted_def group_state_def gm_has_def)
  have events: "\<not> made vg es'" "removed vg es' \<Longrightarrow> gm_has suc vg \<and> \<not> vg_configured classes vg"
    using assms(2) by (auto simp: list_ex_iff list_all_iff drops_def)
  show "group_step vg (es @ es' @ es'') (vg_configured classes vg) (a vg) (group_state (suc', fail') vg)"
  proof (cases "vg_configured classes vg")
    case True
    then have "class_step vg es (a vg) (group_state (suc, fail) vg)" using assms(1) by (simp add: pass_steps_def)
    then have "class_step vg (es @ es' @ es'') (a vg) (group_state (suc, fail) vg)"
      using True events assms(5) by (intro class_step_quiet(1) [THEN iffD2]) auto
    then show ?thesis using True states by (simp add: group_step.configured)
  next
    case False
    then have "group_state (suc, fail) vg = a vg" "\<not> made vg es" "\<not> removed vg es" using assms(1) by (simp_all add: pass_steps_def)
    then show ?thesis using False states events assms(5) by (auto simp: group_state_def intro!: group_step.gone)
  qed
qed

section \<open>A run of the job\<close>

definition status_group :: "NodeStorageState \<Rightarrow> string \<Rightarrow> group_state" where
  "status_group st vg = (if vg \<in> CS_VgName ` set (NS_SuccessClasses st) then Created
     else if vg \<in> CS_VgName ` set (NS_FailClasses st) then Failed else Absent)"

lemma status_group_tables: "group_state (getVgNameMap (NS_SuccessClasses st), getVgNameMap (NS_FailClasses st)) = status_group st"
  by (rule ext) (simp add: group_state_def status_group_def)

lemma values_names: "table_ok m \<Longrightarrow> set ks = set (gm_keys m) \<Longrightarrow> CS_VgName ` set (gm_values m ks) = set ks"
  using names_of_values [of m ks] by (metis order_refl set_map)

text \<open>The status of two tables; \<open>a\<close> says under what condition its strings are ASCII.\<close>

definition tables_status :: "bool \<Rightarrow> class_table \<times> class_table \<Rightarrow> NodeStorageState \<Rightarrow> bool" where
  "tables_status a tabs st \<longleftrightarrow> status_ok st \<and> status_group st = group_state tabs \<and> (a \<longrightarrow> status_ascii st)"

lemma updateVgStatus_groups:
  assumes "tables_ok (suc, fail)" "a \<Longrightarrow> tables_ascii (suc, fail) \<and> ascii (NS_Node st) \<and> ascii (NS_Phase st) \<and> list_all LoopState_ascii loops"
  shows "wp (updateVgStatus E cm st suc fail loops)
    (\<lambda>cm' t. data_only cm cm' \<and> (\<exists>st'. carries st' cm' \<and> tables_status a (suc, fail) st')) (\<lambda>_ _. True) s"
proof -
  have tabs: "table_ok suc" "table_ok fail" using assms(1) by (simp_all add: tables_ok_def)
  have "\<exists>st'. carries st' cm' \<and> tables_status a (suc, fail) st'"
    if sks: "set sks = set (gm_keys suc)" "gm_wf suc \<Longrightarrow> distinct sks"
      and fks: "set fks = set (gm_keys fail)" "gm_wf fail \<Longrightarrow> distinct fks"
      and put: "cm_put VgStatusConfigMapKey (Marshal_status (st\<lparr>NS_FailClasses := gm_values fail fks,
          NS_SuccessClasses := gm_values suc sks, NS_Loops := loops\<rparr>)) cm = Ret cm'" for sks fks cm'
  proof -
    let ?st = "st\<lparr>NS_FailClasses := gm_values fail fks, NS_SuccessClasses := gm_values suc sks, NS_Loops := loops\<rparr>"
    have names: "map CS_VgName (status_classes ?st) = sks @ fks"
      using tabs sks fks by (simp add: status_classes_def names_of_values)
    have "status_ok ?st"
      using assms(1) sks fks tabs unfolding status_ok_def names by (auto simp: tables_ok_def table_ok_def gm_has_iff)
    moreover have "status_group ?st = group_state (suc, fail)"
      using values_names [OF tabs(1) sks(1)] values_names [OF tabs(2) fks(1)] sks fks
      by (simp add: status_group_def group_state_def gm_has_iff fun_eq_iff)
    moreover have "status_ascii ?st" if a
      by (rule status_ascii_values [OF sks(1) fks(1)]) (use that assms(2) in \<open>auto simp: tables_ascii_def table_ascii_def\<close>)
    ultimately show ?thesis using cm_data_put [OF put] by (intro exI [of _ ?st]) (simp add: carries_def tables_status_def)
  qed
  then show ?thesis
    unfolding updateVgStatus_def wp_bind
    by (intro wp_go_range_keys) (auto simp: wpg intro: data_only_put split: outcome.splits)
qed

definition quiet :: "event \<Rightarrow> bool" where
  "quiet ev \<longleftrightarrow> (\<forall>vg. \<not> creates vg ev \<and> \<not> removes vg ev)"

lemma quiet_events: "list_all quiet es \<Longrightarrow> \<forall>vg. \<not> made vg es \<and> \<not> removed vg es"
  by (auto simp: quiet_def list_all_iff list_ex_iff)

lemma quiet_writers:
  "only_issues quiet (go_bind (updateLvmdConf E Y classes cm newVgs suc) (\<lambda>r. case r of
     Inl e \<Rightarrow> go_return (Some (err_wrap e ''update lvmd conf failed''))
   | Inr cm1 \<Rightarrow> write_status E K c cm st suc fail cm1))"
proof -
  have "quiet (Api VPatch ob)" for ob by (simp add: quiet_def creates_def removes_def lvm_ev_def)
  then show ?thesis
    by (auto simp: updateLvmdConf_def createLvmdConf_def write_status_def updateVgStatus_def Let_def intro!: issues)
qed

text \<open>The end of a run: the status stored has the groups of the tables.\<close>

lemma writers_leave:
  assumes "stores_config_map g K ns name" "exec_keeps g E" "g (world s) = Some cm" "CM_Namespace cm = PV_namespace c" "tables_ok (suc, fail)"
    and "a \<Longrightarrow> tables_ascii (suc, fail) \<and> ascii (NS_Node st) \<and> ascii (NS_Phase st) \<and> list_all LoopState_ascii (PV_loopsState c)"
  shows "wp (go_bind (updateLvmdConf E Y classes cm newVgs suc) (\<lambda>r. case r of
      Inl e \<Rightarrow> go_return (Some (err_wrap e ''update lvmd conf failed''))
    | Inr cm1 \<Rightarrow> write_status E K c cm st suc fail cm1))
    (\<lambda>err t. err = None \<longrightarrow> leaves g (tables_status a (suc, fail)) t) (\<lambda>_ _. True) s"
proof (rule wp_still_bind [OF keeps_configuration(2) [OF assms(2)] LvmdConf_same_object(2)], goal_cases)
  case (1 r t)
  then show ?case using assms(3)
    by (cases r) (auto simp: wp_return intro!: write_status_leaves [OF assms(1,2) _ assms(4) _ updateVgStatus_groups [OF assms(5,6)]])
qed

definition run_result :: "'w executor \<Rightarrow> prepare_vg \<Rightarrow> NodeStorageState \<Rightarrow> event list \<Rightarrow> NodeStorageState \<Rightarrow> bool" where
  "run_result E c st es st' \<longleftrightarrow> status_ok st' \<and> (run_ascii E c \<and> status_ascii st \<longrightarrow> status_ascii st') \<and>
     run_steps (ND_DeviceClasses (PV_nodeDevices c)) es (status_group st) (status_group st')"

lemma status_tables_ascii: "status_ascii st \<Longrightarrow> tables_ascii (getVgNameMap (NS_SuccessClasses st), getVgNameMap (NS_FailClasses st))"
  by (simp add: status_ascii_def tables_ascii_def getVgNameMap_ascii)

text \<open>The pass over the classes, with all that is known of it.\<close>

lemma provision_classes_all:
  assumes "status_ok st" "distinct (map DC_VgName (ND_DeviceClasses (PV_nodeDevices c)))"
  shows "wp (provision_classes E (PV_loopMap c) disks (ND_DeviceClasses (PV_nodeDevices c))
        (getVgNameMap (NS_SuccessClasses st), getVgNameMap (NS_FailClasses st)))
    (\<lambda>r t. grown (\<lambda>_. True) s t \<and>
      pass_steps (ND_DeviceClasses (PV_nodeDevices c)) (since s t) (status_group st) (group_state (snd r)) \<and> tables_ok (snd r) \<and>
      (run_ascii E c \<and> status_ascii st \<longrightarrow> tables_ascii (snd r))) (\<lambda>_ _. True) s"
    (is "wp ?m _ _ s")
proof -
  let ?tabs = "(getVgNameMap (NS_SuccessClasses st), getVgNameMap (NS_FailClasses st))"
  have ok: "tables_ok ?tabs" by (rule status_ok_tables [OF assms(1)])
  have ascii: "wp ?m (\<lambda>r t. run_ascii E c \<and> status_ascii st \<longrightarrow> tables_ascii (snd r)) (\<lambda>_ _. True) s"
  proof (cases "run_ascii E c \<and> status_ascii st")
    case True
    then show ?thesis
      by (intro wp_mono [OF provision_classes_ascii]) (auto simp: run_ascii_def status_tables_ascii)
  qed (simp only: simp_thms wp_True)
  have "wp ?m (\<lambda>r t. (grown (\<lambda>_. True) s t \<and> pass_steps (ND_DeviceClasses (PV_nodeDevices c)) (since s t) (status_group st) (group_state (snd r))) \<and>
      tables_ok (snd r) \<and> (run_ascii E c \<and> status_ascii st \<longrightarrow> tables_ascii (snd r))) (\<lambda>_ _. True \<and> True \<and> True) s"
    unfolding wp_conj
    by (intro conjI provision_classes_steps [OF assms(2) ok, unfolded status_group_tables] provision_classes_tables [OF ok] ascii)
  then show ?thesis by (simp only: simp_thms conj_assoc)
qed

lemma provisionWithNodeStatus_steps:
  assumes "stores_config_map g K ns name" "exec_keeps g E" "g (world s) = Some cm" "CM_Namespace cm = PV_namespace c"
    and "Unmarshal_status vgStatus = Inr st" "status_ok st" "distinct (map DC_VgName (ND_DeviceClasses (PV_nodeDevices c)))"
  shows "wp (provisionWithNodeStatus E K Y c cm vgStatus disks)
    (\<lambda>err t. err = None \<longrightarrow> leaves g (run_result E c st (since s t)) t) (\<lambda>_ _. True) s"
proof -
  let ?classes = "ND_DeviceClasses (PV_nodeDevices c)"
  let ?asc = "run_ascii E c \<and> status_ascii st"
  show ?thesis
    unfolding provisionWithNodeStatus_def assms(5) sum.case
  proof (rule wp_still_bind [OF keeps_classes(1) [OF assms(2)] provision_classes_all [OF assms(6,7)]], goal_cases)
    case (1 r t)
    note t = 1
    obtain sucVgs suc0 fail0 where r: "r = (sucVgs, suc0, fail0)" by (cases r)
    have tabs: "tables_ok (suc0, fail0)" "pass_steps ?classes (since s t) (status_group st) (group_state (suc0, fail0))"
      "grown (\<lambda>_. True) s t" "?asc \<longrightarrow> tables_ascii (suc0, fail0)" using t(2) unfolding r snd_conv by blast+
    show ?case
      unfolding r prod.case settle_classes_def Let_def fst_conv snd_conv
    proof (rule wp_still_bind [OF keeps_classes(2) [OF assms(2)] checkVgIfDelete_drops], goal_cases)
      case (1 x u)
      note u = 1
      obtain suc fail where x: "x = (suc, fail)" by (cases x)
      have del: "restricted ?classes suc0 suc" "restricted ?classes fail0 fail" "grown (drops suc0 ?classes) t u"
        using u(2) unfolding x fst_conv snd_conv by blast+
      have ok: "tables_ok (suc, fail)" by (rule restricted_tables_ok [OF tabs(1) del(1,2)])
      have "tables_ascii (suc, fail) \<and> ascii (NS_Node st) \<and> ascii (NS_Phase st) \<and> list_all LoopState_ascii (PV_loopsState c)" if ?asc
        using that tabs(4) restricted_ascii [OF del(1)] restricted_ascii [OF del(2)]
        by (simp add: tables_ascii_def run_ascii_def status_ascii_def)
      note ascii = this
      note rest = wp_issues [OF quiet_writers writers_leave [where a = ?asc, OF assms(1,2) _ assms(4) ok]]
      show ?case
        unfolding x prod.case
      proof (rule wp_mono [OF rest], goal_cases)
        case 1 show ?case using t(1) u(1) assms(3) by simp
      next
        case 2 then show ?case by (rule ascii)
      next
        case (3 err v)
        have quiet: "grown quiet u v" using 3 by blast
        have su: "grown (\<lambda>_. True) s u" by (rule grown_trans [OF tabs(3) grown_mono [OF del(3)]]) simp
        have "since s v = since s t @ since t u @ since u v"
          unfolding since_trans [OF su quiet] since_trans [OF tabs(3) del(3)] append_assoc ..
        moreover have "run_steps ?classes (since s t @ since t u @ since u v) (status_group st) (group_state (suc, fail))"
          by (rule pass_then_delete [OF tabs(2) since_grown [OF del(3), THEN conjunct2] del(1,2)
                quiet_events [OF since_grown [OF quiet, THEN conjunct2]]])
        ultimately have steps: "run_steps ?classes (since s v) (status_group st) (group_state (suc, fail))" by (simp only:)
        show ?case
        proof
          assume "err = None"
          with 3 have "leaves g (tables_status ?asc (suc, fail)) v" by blast
          then show "leaves g (run_result E c st (since s v)) v"
            by (rule leaves_mono) (use steps in \<open>simp add: tables_status_def run_result_def\<close>)
        qed
      qed simp
    qed
  qed
qed

lemma leaves_run_result:
  "leaves g (run_result E c st es) t \<Longrightarrow> \<exists>cm' st'. g (world t) = Some cm' \<and> stored_status cm' = Marshal_status st' \<and> status_ok st' \<and>
     (\<forall>vg. group_step vg es (vg_configured (ND_DeviceClasses (PV_nodeDevices c)) vg) (status_group st vg) (status_group st' vg))"
  unfolding leaves_def carries_def run_result_def run_steps_def stored_status_def gm_get_default_def by force

end
