(* ===== verification/GroupHistory.thy ===== *)
theory GroupHistory
  imports Lifecycle
begin

text \<open>
  Any number of runs of the job on one node, each finding the status the one before left: the life of a
  volume group over all of them, as a history of the abstract machine of \<open>Lifecycle\<close>.
  Proved: a group is removed only after a run created it.
\<close>

section \<open>Histories of the machine\<close>

inductive group_history :: "string \<Rightarrow> group_state \<Rightarrow> event list \<Rightarrow> group_state \<Rightarrow> bool" for vg a0 where
  start: "group_history vg a0 [] a0"
| step: "group_history vg a0 es a \<Longrightarrow> group_step vg es' c a b \<Longrightarrow> group_history vg a0 (es @ es') b"

definition made_first :: "string \<Rightarrow> event list \<Rightarrow> bool" where
  "made_first vg es \<longleftrightarrow> (\<forall>xs ev ys. es = xs @ ev # ys \<and> removes vg ev \<longrightarrow> made vg xs)"

lemma made_first_append:
  assumes "made_first vg es" "removed vg es' \<longrightarrow> made vg es"
  shows "made_first vg (es @ es')"
  unfolding made_first_def
proof (intro allI impI)
  fix xs ev ys
  assume split: "es @ es' = xs @ ev # ys \<and> removes vg ev"
  then consider us where "es = xs @ us" "us @ es' = ev # ys" | us where "xs = es @ us" "es' = us @ ev # ys"
    by (auto simp: append_eq_append_conv2)
  then show "made vg xs"
  proof cases
    case 1
    then show ?thesis using split assms by (cases us) (auto simp: made_first_def)
  next
    case 2
    then show ?thesis using split assms(2) by auto
  qed
qed

text \<open>The invariant: what is created was made, and nothing is removed before.\<close>

lemma group_step_events:
  "group_step vg es c a b \<Longrightarrow> (removed vg es \<longrightarrow> a = Created) \<and> (b = Created \<longrightarrow> a = Created \<or> made vg es)"
  by (auto elim!: group_stepE class_stepE)

lemma group_history_inv:
  "group_history vg a0 es a \<Longrightarrow> a0 \<noteq> Created \<Longrightarrow> made_first vg es \<and> (a = Created \<longrightarrow> made vg es)"
proof (induction rule: group_history.induct)
  case (step es a es' c b)
  then show ?case using group_step_events [OF step.hyps(2)] by (auto intro!: made_first_append)
qed (simp add: made_first_def)

section \<open>Runs of the job\<close>

text \<open>
  A run reads the status in the stored config map and ends without error; what it leaves is what the next
  one reads.  Everything else may change in between: the classes configured, the loop devices, what
  is known of the disks, and the world apart from the stored config map.
\<close>

inductive job_runs ::
    "('w \<Rightarrow> ConfigMap option) \<Rightarrow> 'w executor \<Rightarrow> 'w clientset \<Rightarrow> yaml_lib \<Rightarrow> NodeStorageState \<Rightarrow> event list \<Rightarrow> NodeStorageState \<Rightarrow> bool"
  for g E K Y st0 where
  none: "job_runs g E K Y st0 [] st0"
| run: "job_runs g E K Y st0 es st \<Longrightarrow> g (world s) = Some cm \<Longrightarrow> CM_Namespace cm = PV_namespace c \<Longrightarrow>
     Unmarshal_status (stored_status cm) = Inr st \<Longrightarrow> distinct (map DC_VgName (ND_DeviceClasses (PV_nodeDevices c))) \<Longrightarrow>
     run_ascii E c \<Longrightarrow> provisionWithNodeStatus E K Y c cm (stored_status cm) disks s = (Ret None, t) \<Longrightarrow>
     g (world t) = Some cm' \<Longrightarrow> Unmarshal_status (stored_status cm') = Inr st' \<Longrightarrow>
     job_runs g E K Y st0 (es @ since s t) st'"

lemma job_run_step:
  assumes "stores_config_map g K ns name" "exec_keeps g E" "g (world s) = Some cm" "CM_Namespace cm = PV_namespace c"
    and "Unmarshal_status (stored_status cm) = Inr st" "distinct (map DC_VgName (ND_DeviceClasses (PV_nodeDevices c)))"
    and "run_ascii E c" "provisionWithNodeStatus E K Y c cm (stored_status cm) disks s = (Ret None, t)"
    and "g (world t) = Some cm'" "Unmarshal_status (stored_status cm') = Inr st'" "status_ok st" "status_ascii st"
  shows "status_ok st' \<and> status_ascii st' \<and> run_steps (ND_DeviceClasses (PV_nodeDevices c)) (since s t) (status_group st) (status_group st')"
proof -
  have "leaves g (run_result E c st (since s t)) t"
    using wp_retD [OF provisionWithNodeStatus_steps [OF assms(1-5,11,6)] assms(8)] by simp
  then obtain st1 where st1: "carries st1 cm'" "run_result E c st (since s t) st1" using assms(9) by (auto simp: leaves_def)
  then have "status_ascii st1" using assms(7,12) by (simp add: run_result_def)
  then have "st1 = st'" using st1(1) assms(10) by (simp add: carries_def stored_status_def gm_get_default_def status.dec_enc)
  then show ?thesis using st1(2) assms(7,12) by (simp add: run_result_def)
qed

lemma job_runs_history:
  assumes "stores_config_map g K ns name" "exec_keeps g E" "job_runs g E K Y st0 es st" "status_ok st0" "status_ascii st0"
  shows "status_ok st \<and> status_ascii st \<and> (\<forall>vg. group_history vg (status_group st0 vg) es (status_group st vg))"
  using assms(3)
proof (induction rule: job_runs.induct)
  case none
  then show ?case using assms(4,5) by (simp add: group_history.start)
next
  case (run es st s cm c disks t cm' st')
  from job_run_step [OF assms(1,2) run.hyps(2-)] run.IH
  have next_status: "status_ok st'" "status_ascii st'"
    and steps: "run_steps (ND_DeviceClasses (PV_nodeDevices c)) (since s t) (status_group st) (status_group st')" by blast+
  have "group_history vg (status_group st0 vg) (es @ since s t) (status_group st' vg)" for vg
    using run.IH steps by (intro group_history.step) (auto simp: run_steps_def)
  then show ?case using next_status by blast
qed

end
