(* ===== verification/ConvergenceProperties.thy ===== *)
theory ConvergenceProperties
  imports Scenarios GroupHistory
begin

text \<open>
  What the operator and its daemons reach on an API server that stores objects (\<open>StartWatch\<close> of
  \<open>controllers/lvmdconfig_controller.go\<close>, \<open>Run\<close> of \<open>pkg/operator/discover/discover.go\<close>), and what an
  accepted storage section leads to on a node.  Each property is applied to a server that really
  stores: its world is the object.
\<close>

section \<open>Servers that store one object\<close>


text \<open>A patch carries the data of the new version: its strings, character by character.\<close>

definition print_string :: "string \<Rightarrow> string" where
  "print_string s = concat (map (\<lambda>c. [CHR ''c'', c]) s) @ ''..''"

fun read_strings :: "string \<Rightarrow> string \<Rightarrow> string list" where
  "read_strings acc (x # y # r) = (if x = CHR ''c'' then read_strings (acc @ [y]) r else acc # read_strings [] r)"
| "read_strings acc _ = []"

fun pair_up :: "'a list \<Rightarrow> ('a \<times> 'a) list" where
  "pair_up (k # v # r) = (k, v) # pair_up r"
| "pair_up _ = []"

definition print_data :: "string gomap \<Rightarrow> string" where
  "print_data m = concat (map (\<lambda>(k, v). print_string k @ print_string v) m)"

definition read_data :: "string \<Rightarrow> string gomap" where
  "read_data p = pair_up (read_strings [] p)"

lemma read_print_string: "read_strings acc (print_string s @ r) = (acc @ s) # read_strings [] r"
  by (induction s arbitrary: acc) (simp_all add: print_string_def)

lemma read_print_data [simp]: "read_data (print_data m) = m"
proof -
  have "read_strings [] (print_data m) = concat (map (\<lambda>(k, v). [k, v]) m)"
    by (induction m) (auto simp: print_data_def read_print_string)
  moreover have "pair_up (concat (map (\<lambda>(k, v). [k, v]) m)) = m" by (induction m) auto
  ultimately show ?thesis by (simp add: read_data_def)
qed

definition config_map_server :: "ConfigMap option clientset" where
  "config_map_server = empty_cluster\<lparr>ConfigMaps := (holding [])\<lparr>
     ra_get := (\<lambda>ns n w. (case w of None \<Rightarrow> Inl missing | Some cm \<Rightarrow> Inr cm, w)),
     ra_create := (\<lambda>ns cm w. (None, Some cm)),
     ra_patch := (\<lambda>ns n p w. (None, map_option (\<lambda>cm. cm\<lparr>CM_Data := Some (read_data p)\<rparr>) w))\<rparr>,
     cm_merge_patch := (\<lambda>old new. Inr (print_data (cm_data new)))\<rparr>"

lemma ra_keeps_holding [simp]: "ra_keeps f (holding obs)"
  by (simp add: ra_keeps_def holding_def)


lemma config_map_server_stores: "stores_config_map id config_map_server ns name"
  by (auto simp: stores_config_map_def config_map_server_def data_only_def cm_data_def missing_def IsNotFound_def
      split: option.split)

lemma scripted_keeps: "exec_keeps f (scripted out)"
  by (simp add: exec_keeps_def scripted_def)

section \<open>The status of a node\<close>



definition known_cluster :: cm_controller where
  "known_cluster = some_controller\<lparr>CC_reconciler := (CC_reconciler some_controller)\<lparr>R_lastCluster := Some (some_cluster ''c1'' 1)\<rparr>\<rparr>"


section \<open>The devices of a node\<close>




section \<open>From the job to the cluster\<close>

text \<open>C2: The job and the operator together, on an API server that stores the cluster and the node's config
  map: a run of the job that ends without error, on a node the cluster lists and whatever config map
  of the node was there before, leaves in the config map a status of this node, whose succeeded
  classes are all configured for it; and once the operator was told of that version, last of any
  number, the stored cluster shows for the node the status read back from it, which is the status
  written if its strings are ASCII.  Neither run changes the entries of nodes that no version speaks of.\<close>

theorem job_status_reaches_cluster:
  fixes f :: "'w \<Rightarrow> TopolvmCluster" and g :: "'w \<Rightarrow> ConfigMap option"
  assumes "stores_cluster f K ns name"
    and "stores_config_map g K (PV_namespace c) (TruncateNodeName K LvmdConfigMapFmt (PV_nodeName c))"
    and "\<forall>ns n w. g (snd (ra_get (Clusters K) ns n w)) = g w"
    and "exec_keeps f E" "exec_keeps g E" "poll_keeps f Poll"
    and "node_listed (f (world s)) (PV_nodeName c)" "holds_earlier (PV_namespace c) (PV_nodeName c) (g (world s))"
  shows "wp (PrePareVg_body E K Y c ns name) (\<lambda>err t. err = None \<longrightarrow>
      (\<exists>cm st nd. g (world t) = Some cm \<and> stored_status cm = Marshal_status st \<and>
        chosen (Spec_Storage (TC_Spec (f (world s)))) c nd \<and> reports (PV_nodeName c) (ND_DeviceClasses nd) st \<and>
        (status_ascii st \<longrightarrow> Unmarshal_status (Marshal_status st) = Inr st) \<and>
        (\<forall>shown evs. Unmarshal_status (Marshal_status st) = Inr shown \<and> evs \<noteq> [] \<and> snd (last evs) = cm \<and>
            (\<forall>ev \<in> set evs. watched ns name ev) \<longrightarrow>
          wp (StartWatch Poll K evs) (\<lambda>_ u. cluster_entry (f (world u)) (NS_Node shown) = Some shown \<and>
            (\<forall>node. (\<forall>ev \<in> set evs. \<not> about (snd ev) node) \<longrightarrow>
              cluster_entry (f (world u)) node = cluster_entry (f (world s)) node)) (\<lambda>_ _. False) t)))
    (\<lambda>_ _. True) s"
proof (rule wp_mono [OF job_leaves [OF assms(1,2,4,5,3,7,8)]], goal_cases)
  case (1 err t)
  show ?case
  proof
    assume "err = None"
    with 1 obtain nd cm st where left: "chosen (Spec_Storage (TC_Spec (f (world s)))) c nd" "g (world t) = Some cm"
      "carries st cm" "reports (PV_nodeName c) (ND_DeviceClasses nd) st" by (auto simp: left_status_def leaves_def)
    have printed: "stored_status cm = Marshal_status st" using left(3) by (simp add: carries_def stored_status_def gm_get_default_def)
    have "wp (StartWatch Poll K evs) (\<lambda>_ u. cluster_entry (f (world u)) (NS_Node shown) = Some shown \<and>
        (\<forall>node. (\<forall>ev \<in> set evs. \<not> about (snd ev) node) \<longrightarrow> cluster_entry (f (world u)) node = cluster_entry (f (world s)) node))
        (\<lambda>_ _. False) t"
      if "Unmarshal_status (Marshal_status st) = Inr shown" "evs \<noteq> []" "snd (last evs) = cm" "\<forall>ev \<in> set evs. watched ns name ev" for shown evs
      by (rule wp_mono [OF StartWatch_follows [OF assms(1,6) that(4,2)]]) (use 1 that printed in \<open>simp_all add: shows_version_def\<close>)
    with left printed show "\<exists>cm st nd. g (world t) = Some cm \<and> stored_status cm = Marshal_status st \<and>
        chosen (Spec_Storage (TC_Spec (f (world s)))) c nd \<and> reports (PV_nodeName c) (ND_DeviceClasses nd) st \<and>
        (status_ascii st \<longrightarrow> Unmarshal_status (Marshal_status st) = Inr st) \<and>
        (\<forall>shown evs. Unmarshal_status (Marshal_status st) = Inr shown \<and> evs \<noteq> [] \<and> snd (last evs) = cm \<and>
            (\<forall>ev \<in> set evs. watched ns name ev) \<longrightarrow>
          wp (StartWatch Poll K evs) (\<lambda>_ u. cluster_entry (f (world u)) (NS_Node shown) = Some shown \<and>
            (\<forall>node. (\<forall>ev \<in> set evs. \<not> about (snd ev) node) \<longrightarrow>
              cluster_entry (f (world u)) node = cluster_entry (f (world s)) node)) (\<lambda>_ _. False) t)"
      by (intro exI [of _ cm] exI [of _ st] exI [of _ nd]) (simp add: status.dec_enc)
  qed
qed simp

definition full_server :: "(TopolvmCluster \<times> ConfigMap option) clientset" where
  "full_server = empty_cluster\<lparr>
     Clusters := (holding [])\<lparr>ra_get := (\<lambda>ns n (cl, cm). (Inr cl, cl, cm)),
       ra_update_status := (\<lambda>ns new (cl, cm). (None, cl\<lparr>TC_Status := TC_Status new\<rparr>, cm))\<rparr>,
     ConfigMaps := (holding [])\<lparr>
       ra_get := (\<lambda>ns n (cl, cm). (case cm of None \<Rightarrow> Inl missing | Some cm \<Rightarrow> Inr cm, cl, cm)),
       ra_create := (\<lambda>ns new (cl, cm). (None, cl, Some new)),
       ra_patch := (\<lambda>ns n p (cl, cm). (None, cl, map_option (\<lambda>cm. cm\<lparr>CM_Data := Some (read_data p)\<rparr>) cm))\<rparr>,
     cm_merge_patch := (\<lambda>old new. Inr (print_data (cm_data new)))\<rparr>"

lemma full_server_stores:
  "stores_cluster fst full_server ns name" "stores_config_map snd full_server ns name"
  "snd (snd (ra_get (Clusters full_server) ns n w)) = snd w"
  by (auto simp: stores_cluster_def stores_config_map_def full_server_def empty_cluster_def ra_keeps_def holding_def
      data_only_def cm_data_def missing_def IsNotFound_def split: option.split prod.split)

definition new_cluster :: TopolvmCluster where
  "new_cluster = (some_cluster ''c1'' 1)\<lparr>TC_Spec := \<lparr>Spec_TopolvmVersion = ''img:2'', Spec_CertsSecret = [],
     Spec_Storage = some_storage\<lparr>St_DeviceClasses := Some [\<lparr>ND_NodeName = ''n1'', ND_DeviceClasses = [some_class ''hdd'' ''vg1'' []]\<rparr>]\<rparr>\<rparr>\<rparr>"

definition new_status :: NodeStorageState where
  "new_status = \<lparr>NS_Node = ''n1'', NS_Phase = [], NS_FailClasses = [],
     NS_SuccessClasses = [created_entry (some_class ''hdd'' ''vg1'' []) []], NS_Loops = []\<rparr>"

definition bare_status :: NodeStorageState where
  "bare_status = zero_NodeStorageState\<lparr>NS_Node := ''n1''\<rparr>"

lemma statuses_read_back:
  "Unmarshal_status (Marshal_status bare_status) = Inr bare_status" "Unmarshal_status (Marshal_status new_status) = Inr new_status"
  by (rule status.dec_enc, code_simp)+

definition new_job :: "go_error option outcome \<times> (TopolvmCluster \<times> ConfigMap option) host" where
  "new_job = PrePareVg_body (scripted (\<lambda>_ _. [])) full_server names_yaml (NewPrepareVgController ''n1'' ''ns'') ''ns'' ''c1''
     \<lparr>world = (new_cluster, None), trace = []\<rparr>"

theorem job_status_reaches_cluster_applied:
  "fst new_job = Ret None \<and> (\<exists>cm. snd (world (snd new_job)) = Some cm \<and>
     wp (StartWatch (\<lambda>_ _ _. go_return None) full_server [(known_cluster, node_cm []), (known_cluster, cm)])
       (\<lambda>_ u. cluster_entry (fst (world u)) ''n1'' = Some new_status) (\<lambda>_ _. False) (snd new_job))"
proof -
  let ?c = "NewPrepareVgController ''n1'' ''ns''" and ?E = "scripted (\<lambda>_ _. [])"
    and ?s = "\<lparr>world = (new_cluster, None), trace = []\<rparr> :: (TopolvmCluster \<times> ConfigMap option) host"
  have all: "case new_job of (r, t) \<Rightarrow> r = Ret None \<and> (case snd (world t) of None \<Rightarrow> False
      | Some cm \<Rightarrow> stored_status cm = Marshal_status new_status \<and> has_prefix (CM_Name cm) LvmdConfigMapNamePrefix)" by code_simp
  have listed: "node_listed new_cluster ''n1''" by code_simp
  have c: "PV_nodeName ?c = ''n1''" "PV_namespace ?c = ''ns''" by (simp_all add: NewPrepareVgController_def)
  have polls: "poll_keeps (fst :: TopolvmCluster \<times> ConfigMap option \<Rightarrow> TopolvmCluster) (\<lambda>_ _ _. go_return None)" by (simp add: poll_keeps_def)
  obtain r t where r: "new_job = (r, t)" by (cases new_job)
  have t: "new_job = (Ret None, t)" and all': "case snd (world t) of None \<Rightarrow> False
      | Some cm \<Rightarrow> stored_status cm = Marshal_status new_status \<and> has_prefix (CM_Name cm) LvmdConfigMapNamePrefix"
    using all unfolding r prod.case by blast+
  have "PrePareVg_body ?E full_server names_yaml ?c ''ns'' ''c1'' ?s = (Ret None, t)" using t by (simp add: new_job_def)
  from wp_retD [OF job_status_reaches_cluster [OF full_server_stores(1,2), where c = ?c and Poll = "\<lambda>_ _ _. go_return None"] this]
  obtain cm st where cm: "snd (world t) = Some cm" "stored_status cm = Marshal_status st"
    and follows: "\<And>shown evs. Unmarshal_status (Marshal_status st) = Inr shown \<Longrightarrow> evs \<noteq> [] \<Longrightarrow> snd (last evs) = cm \<Longrightarrow>
      \<forall>ev \<in> set evs. watched ''ns'' ''c1'' ev \<Longrightarrow>
      wp (StartWatch (\<lambda>_ _ _. go_return None) full_server evs) (\<lambda>_ u. cluster_entry (fst (world u)) (NS_Node shown) = Some shown \<and>
        (\<forall>node. (\<forall>ev \<in> set evs. \<not> about (snd ev) node) \<longrightarrow> cluster_entry (fst (world u)) node = cluster_entry new_cluster node))
        (\<lambda>_ _. False) t"
    using listed polls by (auto simp: full_server_stores(3) scripted_keeps holds_earlier_def c)
  have "\<forall>ev \<in> set [(known_cluster, node_cm []), (known_cluster, cm)]. watched ''ns'' ''c1'' ev"
    using all' [unfolded cm(1) option.case]
    by (auto simp: watched_def known_cluster_def some_controller_def node_cm_def LvmdConfigMapNamePrefix_def has_prefix_def)
  moreover have "Marshal_status st = Marshal_status new_status" using all' [unfolded cm(1) option.case] cm(2) by (simp only:)
  then have "Unmarshal_status (Marshal_status st) = Inr new_status" using statuses_read_back(2) by (simp only:)
  ultimately have "wp (StartWatch (\<lambda>_ _ _. go_return None) full_server [(known_cluster, node_cm []), (known_cluster, cm)])
       (\<lambda>_ u. cluster_entry (fst (world u)) (NS_Node new_status) = Some new_status) (\<lambda>_ _. False) t"
    by (intro wp_mono [OF follows]) (simp_all | blast)+
  then show ?thesis unfolding t fst_conv snd_conv using cm(1) by (simp add: new_status_def)
qed

section \<open>The life of a volume group\<close>

text \<open>C1: A run of the job over all classes refines a machine that knows for each volume group only whether it is
  absent, failed or created: if the run starts from a stored status of some state of the machine and
  ends without error, the status it stores is, for every group, one step of the machine on from
  there, on the commands the run issued.  So a created group stays created or is removed with a
  removal command, an absent or failed one is created with a creation command or fails, a created
  group is never created again and any other never removed, and a group no class is configured for
  is gone.\<close>

theorem job_refines_group_machine:
  fixes g :: "'w \<Rightarrow> ConfigMap option"
  assumes "stores_config_map g K ns name" "exec_keeps g E" "g (world s) = Some cm" "CM_Namespace cm = PV_namespace c"
    and "Unmarshal_status vgStatus = Inr st" "status_ok st" "distinct (map DC_VgName (ND_DeviceClasses (PV_nodeDevices c)))"
  shows "wp (provisionWithNodeStatus E K Y c cm vgStatus disks) (\<lambda>err t. err = None \<longrightarrow>
      (\<exists>cm' st'. g (world t) = Some cm' \<and> stored_status cm' = Marshal_status st' \<and> status_ok st' \<and>
        (\<forall>vg. group_step vg (since s t) (vg_configured (ND_DeviceClasses (PV_nodeDevices c)) vg)
           (status_group st vg) (status_group st' vg))))
    (\<lambda>_ _. True) s"
  by (rule wp_mono [OF provisionWithNodeStatus_steps [OF assms]]) (use leaves_run_result in blast)+

definition node_with :: "DeviceClass list \<Rightarrow> prepare_vg" where
  "node_with classes = (NewPrepareVgController ''n1'' ''ns'')\<lparr>PV_nodeDevices := \<lparr>ND_NodeName = ''n1'', ND_DeviceClasses = classes\<rparr>\<rparr>"

lemma node_with_sel [simp]:
  "PV_nodeDevices (node_with classes) = \<lparr>ND_NodeName = ''n1'', ND_DeviceClasses = classes\<rparr>"
  "PV_namespace (node_with classes) = ''ns''" "PV_loopMap (node_with classes) = []" "PV_loopsState (node_with classes) = []"
  by (simp_all add: node_with_def NewPrepareVgController_def)

text \<open>A run on a node, over the config map the world holds.\<close>

definition run_on :: "DeviceClass list \<Rightarrow> ConfigMap option host \<Rightarrow> go_error option outcome \<times> ConfigMap option host" where
  "run_on classes s = provisionWithNodeStatus (scripted (\<lambda>_ _. [])) config_map_server names_yaml (node_with classes)
     (the (world s)) (stored_status (the (world s))) [] s"

definition holding_status :: "NodeStorageState \<Rightarrow> ConfigMap option host" where
  "holding_status st = \<lparr>world = Some (node_cm [(VgStatusConfigMapKey, Marshal_status st)]), trace = []\<rparr>"

lemma holding_status_stored [simp]:
  "stored_status (the (world (holding_status st))) = Marshal_status st"
  "world (holding_status st) = Some (node_cm [(VgStatusConfigMapKey, Marshal_status st)])"
  "stored_status (node_cm [(VgStatusConfigMapKey, Marshal_status st)]) = Marshal_status st"
  by (simp_all add: holding_status_def stored_status_def gm_get_default_def gm_get_def)

text \<open>A run that creates a group, and a later one, with no class configured, that removes it.\<close>

definition first_run :: "ConfigMap option host" where
  "first_run = snd (run_on [some_class ''hdd'' ''vg1'' []] (holding_status bare_status))"

definition second_run :: "ConfigMap option host" where
  "second_run = snd (run_on [] (holding_status new_status))"

definition ends_with :: "NodeStorageState \<Rightarrow> go_error option outcome \<times> ConfigMap option host \<Rightarrow> bool" where
  "ends_with st r \<longleftrightarrow> fst r = Ret None \<and> (case world (snd r) of None \<Rightarrow> False | Some cm \<Rightarrow> stored_status cm = Marshal_status st)"

lemma ends_withD:
  "ends_with st (run_on classes s) \<Longrightarrow> t = snd (run_on classes s) \<Longrightarrow>
     (\<exists>cm. world t = Some cm \<and> stored_status cm = Marshal_status st) \<and>
     provisionWithNodeStatus (scripted (\<lambda>_ _. [])) config_map_server names_yaml (node_with classes)
       (the (world s)) (stored_status (the (world s))) [] s = (Ret None, t)"
  unfolding run_on_def [symmetric]
  by (cases "run_on classes s") (auto simp: ends_with_def split: option.splits)

lemma first_run_ends: "ends_with new_status (run_on [some_class ''hdd'' ''vg1'' []] (holding_status bare_status))"
  by code_simp

lemma second_run_ends:
  "case run_on [] (holding_status new_status) of (r, t) \<Rightarrow>
     ends_with bare_status (r, t) \<and> list_ex (\<lambda>ev. ev = lvm_ev [''vgremove'', ''vg1'']) (trace t)"
  by code_simp

theorem job_refines_group_machine_applied:
  "status_group new_status ''vg1'' = Created \<and>
   (\<exists>cm st. world second_run = Some cm \<and> stored_status cm = Marshal_status st \<and> status_group st ''vg1'' = Absent)"
proof -
  let ?s = "holding_status new_status" and ?cm = "node_cm [(VgStatusConfigMapKey, Marshal_status new_status)]"
  have ends: "ends_with bare_status (run_on [] ?s)" using second_run_ends by (auto split: prod.splits)
  have call: "provisionWithNodeStatus (scripted (\<lambda>_ _. [])) config_map_server names_yaml (node_with []) ?cm
      (Marshal_status new_status) [] ?s = (Ret None, second_run)"
    using ends_withD [OF ends second_run_def] by simp
  have ok: "status_ok new_status" by code_simp
  have "id (world ?s) = Some ?cm" "CM_Namespace ?cm = PV_namespace (node_with [])" by (simp_all add: node_cm_def)
  from wp_retD [OF job_refines_group_machine [OF config_map_server_stores [of "''ns''" "''x''"] scripted_keeps this
        statuses_read_back(2) ok] call]
  obtain cm st where "world second_run = Some cm" "stored_status cm = Marshal_status st"
    "group_step ''vg1'' (since ?s second_run) False (status_group new_status ''vg1'') (status_group st ''vg1'')"
    by (auto simp: vg_configured_def)
  moreover have "status_group new_status ''vg1'' = Created" by code_simp
  ultimately show ?thesis by (auto simp: group_step_simps)
qed

text \<open>C3: The job never removes a volume group that it did not create: over any number of runs on a node, each of
  which ends without error and reads the status the one before left, while the classes configured,
  the loop devices, the disks and the rest of the world change as they like, every command that
  removes a group comes after one that created it, unless the first status showed the group as created.\<close>

theorem job_removes_only_its_groups:
  fixes g :: "'w \<Rightarrow> ConfigMap option"
  assumes "stores_config_map g K ns name" "exec_keeps g E"
    and "job_runs g E K Y st0 es st" "status_ok st0" "status_ascii st0" "status_group st0 vg \<noteq> Created"
    and "es = xs @ lvm_ev [''vgremove'', vg] # ys"
  shows "\<exists>ds. lvm_ev ([''vgcreate'', vg] @ ds) \<in> set xs"
proof -
  have "group_history vg (status_group st0 vg) es (status_group st vg)" using job_runs_history [OF assms(1-5)] by blast
  then have "made_first vg es" using group_history_inv assms(6) by blast
  then have "made vg xs" using assms(7) by (auto simp: made_first_def removes_def)
  then show ?thesis by (auto simp: list_ex_iff creates_def)
qed

lemma node_cm_namespace: "CM_Namespace (node_cm d) = ''ns''"
  by (simp add: node_cm_def)

lemma runs_on_node:
  "job_runs id (scripted (\<lambda>_ _. [])) config_map_server names_yaml bare_status
    (since (holding_status bare_status) first_run @ since (holding_status new_status) second_run) bare_status"
proof -
  have ascii: "run_ascii (scripted (\<lambda>_ _. [])) (node_with classes)"
    if "\<forall>d \<in> set classes. ascii (DC_ClassName d) \<and> ascii (DC_VgName d) \<and> DC_Device d = []" for classes
    using that by (simp add: run_ascii_def errors_ascii_def class_ascii_def)
  have names: "ascii ''hdd''" "ascii ''vg1''" by code_simp+
  have "ends_with bare_status (run_on [] (holding_status new_status))" using second_run_ends by (auto split: prod.splits)
  from ends_withD [OF this second_run_def] ends_withD [OF first_run_ends first_run_def] obtain cm1 cm2 where
    first: "world first_run = Some cm1" "stored_status cm1 = Marshal_status new_status" and
    second: "world second_run = Some cm2" "stored_status cm2 = Marshal_status bare_status" and
    calls: "provisionWithNodeStatus (scripted (\<lambda>_ _. [])) config_map_server names_yaml (node_with [some_class ''hdd'' ''vg1'' []])
      (node_cm [(VgStatusConfigMapKey, Marshal_status bare_status)])
      (stored_status (node_cm [(VgStatusConfigMapKey, Marshal_status bare_status)])) [] (holding_status bare_status) = (Ret None, first_run)"
    "provisionWithNodeStatus (scripted (\<lambda>_ _. [])) config_map_server names_yaml (node_with [])
      (node_cm [(VgStatusConfigMapKey, Marshal_status new_status)])
      (stored_status (node_cm [(VgStatusConfigMapKey, Marshal_status new_status)])) [] (holding_status new_status) = (Ret None, second_run)"
    by auto
  have one: "job_runs id (scripted (\<lambda>_ _. [])) config_map_server names_yaml bare_status ([] @ since (holding_status bare_status) first_run) new_status"
    by (rule job_runs.run [OF job_runs.none _ _ _ _ ascii calls(1), where cm' = cm1])
       (use first names in \<open>auto simp: node_cm_namespace statuses_read_back\<close>)
  have "job_runs id (scripted (\<lambda>_ _. [])) config_map_server names_yaml bare_status
      (([] @ since (holding_status bare_status) first_run) @ since (holding_status new_status) second_run) bare_status"
    by (rule job_runs.run [OF one _ _ _ _ ascii calls(2), where cm' = cm2])
       (use second in \<open>auto simp: node_cm_namespace statuses_read_back\<close>)
  then show ?thesis by simp
qed

theorem job_removes_only_its_groups_applied:
  "\<exists>xs ys ds. since (holding_status bare_status) first_run @ since (holding_status new_status) second_run =
      xs @ lvm_ev [''vgremove'', ''vg1''] # ys \<and> lvm_ev ([''vgcreate'', ''vg1''] @ ds) \<in> set xs"
proof -
  have "list_ex (\<lambda>ev. ev = lvm_ev [''vgremove'', ''vg1'']) (trace second_run)"
    using second_run_ends by (auto simp: second_run_def split: prod.splits)
  then have "lvm_ev [''vgremove'', ''vg1''] \<in> set (since (holding_status bare_status) first_run @ since (holding_status new_status) second_run)"
    by (auto simp: list_ex_iff since_def holding_status_def)
  then obtain xs ys where split: "since (holding_status bare_status) first_run @ since (holding_status new_status) second_run =
      xs @ lvm_ev [''vgremove'', ''vg1''] # ys" by (blast dest: split_list)
  have bare: "status_ok bare_status" "status_ascii bare_status" "status_group bare_status ''vg1'' \<noteq> Created" by code_simp+
  from job_removes_only_its_groups [OF config_map_server_stores [of "''ns''" "''x''"] scripted_keeps runs_on_node bare split] split show ?thesis
    by blast
qed

section \<open>The storage section\<close>

text \<open>C18: What an accepted storage section becomes on a node that starts from no classes: if it is for all nodes,
  every class chosen has a name and a volume group; if it lists devices without naming a volume group,
  which is accepted as long as it is not for all nodes, the single class chosen has none.\<close>

theorem accepted_section_classes:
  assumes "checkStorageConfig cl = None" and "ND_DeviceClasses (PV_nodeDevices c) = []"
  shows "wp (choose_devices E cl c disks) (\<lambda>r t. \<forall>disks' c'. r = Inr (disks', c') \<longrightarrow>
      (let st = Spec_Storage (TC_Spec cl); chosen = ND_DeviceClasses (PV_nodeDevices c') in
       (St_UseAllNodes st \<longrightarrow> (\<forall>d \<in> set chosen. class_named d)) \<and>
       (St_Devices st \<noteq> None \<and> St_VolumeGroupName st = [] \<longrightarrow>
          \<not> St_UseAllNodes st \<and> (\<exists>d. chosen = [d] \<and> DC_VgName d = []))))
    (\<lambda>_ _. True) s"
proof (rule wp_mono [OF choose_devices_chosen], intro allI impI)
  fix r t disks' c'
  assume "\<forall>disks' c'. r = Inr (disks', c') \<longrightarrow> chosen (Spec_Storage (TC_Spec cl)) c (PV_nodeDevices c') \<and> same_node c c'" "r = Inr (disks', c')"
  then have "chosen (Spec_Storage (TC_Spec cl)) c (PV_nodeDevices c')" by simp
  with accepted_classes_named [OF assms(1) _ this assms(2)] show "let st = Spec_Storage (TC_Spec cl); chosen = ND_DeviceClasses (PV_nodeDevices c') in
       (St_UseAllNodes st \<longrightarrow> (\<forall>d \<in> set chosen. class_named d)) \<and>
       (St_Devices st \<noteq> None \<and> St_VolumeGroupName st = [] \<longrightarrow>
          \<not> St_UseAllNodes st \<and> (\<exists>d. chosen = [d] \<and> DC_VgName d = []))"
    using assms(1) by (auto simp: Let_def chosen_def single_class_def checkStorageConfig_None)
qed simp

definition devices_only :: TopolvmCluster where
  "devices_only = (some_cluster ''c1'' 1)\<lparr>TC_Spec := \<lparr>Spec_TopolvmVersion = ''img:2'', Spec_CertsSecret = [],
     Spec_Storage = some_storage\<lparr>St_DeviceClasses := None, St_Devices := Some [some_disk ''/dev/sdb'']\<rparr>\<rparr>\<rparr>"

theorem accepted_section_classes_applied:
  "checkStorageConfig devices_only = None \<and>
   (\<exists>disks' c' d. fst (choose_devices (scripted (\<lambda>_ _. [])) devices_only (NewPrepareVgController ''n1'' ''ns'') [] start) =
      Ret (Inr (disks', c')) \<and> ND_DeviceClasses (PV_nodeDevices c') = [d] \<and> DC_VgName d = [])"
proof -
  let ?c = "NewPrepareVgController ''n1'' ''ns''"
  have ok: "checkStorageConfig devices_only = None" by code_simp
  have none: "ND_DeviceClasses (PV_nodeDevices ?c) = []" by (simp add: NewPrepareVgController_def)
  have "\<exists>disks' c'. choose_devices (scripted (\<lambda>_ _. [])) devices_only ?c [] start = (Ret (Inr (disks', c')), start)"
    by (simp add: choose_devices_def devices_only_def some_storage_def check_loops_and_relist_def go_bind_def go_return_def)
  then obtain disks' c' where run: "choose_devices (scripted (\<lambda>_ _. [])) devices_only ?c [] start = (Ret (Inr (disks', c')), start)"
    by blast
  have "St_Devices (Spec_Storage (TC_Spec devices_only)) \<noteq> None" "St_VolumeGroupName (Spec_Storage (TC_Spec devices_only)) = []"
    by (simp_all add: devices_only_def some_storage_def)
  with wp_retD [OF accepted_section_classes [OF ok none] run] have "\<exists>d. ND_DeviceClasses (PV_nodeDevices c') = [d] \<and> DC_VgName d = []"
    by (simp add: Let_def)
  with ok run show ?thesis by auto
qed

end
