(* ===== verification/Startup.thy ===== *)
theory Startup
  imports GoStrings Prelude
begin

text \<open>
  Command line flags and the environment behind them (\<open>pkg/util/flags/flags.go\<close>), and the parser of Go's
  \<open>flag\<close> package, which \<open>cmd/operator/operator.go\<close> and \<open>pkg/gencert/main.go\<close> run over the arguments.
  Proved: when required flags are missing, that the environment sets values and no other, and where
  the parser stops.
\<close>

section \<open>Flags\<close>

definition createRequiredFlagError :: "string \<Rightarrow> string list \<Rightarrow> go_error option" where
  "createRequiredFlagError name flags = (case flags of
       [] \<Rightarrow> None
     | [flag] \<Rightarrow> Some (errorf (flag @ '' is required for '' @ name))
     | _ \<Rightarrow> Some (errorf (join_with '','' flags @ '' are required for '' @ name)))"

text \<open>\<open>GetString\<close> of the flag set is a parameter.\<close>

definition VerifyRequiredFlags :: "(string \<Rightarrow> go_error + string) \<Rightarrow> string \<Rightarrow> string list \<Rightarrow> go_error option" where
  "VerifyRequiredFlags GetString cmdName requiredFlags =
     createRequiredFlagError cmdName (filter (\<lambda>f. case GetString f of Inl _ \<Rightarrow> True | Inr val \<Rightarrow> val = []) requiredFlags)"

lemma VerifyRequiredFlags_None:
  "VerifyRequiredFlags GetString cmdName requiredFlags = None \<longleftrightarrow>
   (\<forall>f \<in> set requiredFlags. \<exists>val. GetString f = Inr val \<and> val \<noteq> [])"
proof -
  have none: "createRequiredFlagError cmdName flags = None \<longleftrightarrow> flags = []" for flags
    by (simp add: createRequiredFlagError_def split: list.splits)
  have "(case r of Inl _ \<Rightarrow> True | Inr val \<Rightarrow> val = []) \<longleftrightarrow> \<not> (\<exists>val. r = Inr val \<and> val \<noteq> [])" for r :: "go_error + string"
    by (cases r) auto
  then show ?thesis unfolding VerifyRequiredFlags_def none filter_empty_conv by simp
qed

definition char_upper :: "char \<Rightarrow> char" where
  "char_upper c = (let n = of_char c :: nat in if 97 \<le> n \<and> n \<le> 122 then char_of (n - 32) else c)"

definition flag_env_var :: "string \<Rightarrow> string \<Rightarrow> string" where
  "flag_env_var pre name = pre @ ''_'' @ map (\<lambda>c. if c = CHR ''-'' then CHR ''_'' else c) (map char_upper name)"

text \<open>Flags by name with their values, in the order of \<open>VisitAll\<close>; \<open>Set\<close> may refuse a value.\<close>

definition set_flag_from_env ::
    "(string \<Rightarrow> string option) \<Rightarrow> (string \<Rightarrow> string \<Rightarrow> go_error + string) \<Rightarrow> string \<Rightarrow> string \<times> string \<Rightarrow> string \<times> string" where
  "set_flag_from_env lookupEnv Set pre = (\<lambda>(name, old).
     case lookupEnv (flag_env_var pre name) of
       None \<Rightarrow> (name, old)
     | Some value \<Rightarrow>
         if value \<noteq> [] then (case Set name value of Inl _ \<Rightarrow> (name, old) | Inr new \<Rightarrow> (name, new)) else (name, old))"

definition SetFlagsFromEnv ::
    "(string \<Rightarrow> string option) \<Rightarrow> (string \<Rightarrow> string \<Rightarrow> go_error + string) \<Rightarrow> (string \<times> string) list \<Rightarrow> string \<Rightarrow>
     (string \<times> string) list" where
  "SetFlagsFromEnv lookupEnv Set flags pre = map (set_flag_from_env lookupEnv Set pre) flags"

text \<open>The filter is a matching function; no filter is the empty one.\<close>

definition GetFlagsAndValues :: "(string \<times> string) list \<Rightarrow> (string \<Rightarrow> bool) option \<Rightarrow> string list" where
  "GetFlagsAndValues flags excludeFilter = map (\<lambda>(name, value).
     ''--'' @ name @ ''='' @ (case excludeFilter of Some matched \<Rightarrow> (if matched name then ''*****'' else value) | None \<Rightarrow> value)) flags"

lemma SetFlagsFromEnv_names: "map fst (SetFlagsFromEnv lookupEnv Set flags pre) = map fst flags"
  by (simp add: SetFlagsFromEnv_def set_flag_from_env_def split_def comp_def cong: option.case_cong)
     (induction flags, auto split: option.splits sum.splits)

text \<open>The flag set of the log library is a parameter; an error of its parser is a panic.\<close>

record 'f log_flags =
  AddGoFlagSet :: "'f \<Rightarrow> 'f"
  log_Set :: "string \<Rightarrow> string \<Rightarrow> 'f \<Rightarrow> go_error option \<times> 'f"
  log_Parse :: "string list \<Rightarrow> 'f \<Rightarrow> go_error option \<times> 'f"

definition SetLoggingFlags :: "'f log_flags \<Rightarrow> 'f \<Rightarrow> 'f outcome" where
  "SetLoggingFlags L flags =
     (case log_Set L ''logtostderr'' ''true'' (AddGoFlagSet L flags) of (_, flags1) \<Rightarrow>
       (case log_Parse L [] flags1 of
          (Some e, _) \<Rightarrow> Panic (err_msg e)
        | (None, flags2) \<Rightarrow> Ret flags2))"

text \<open>
  The flags of the root command (\<open>init\<close> of \<open>cmd/topolvm/topolvm.go\<close>) with their defaults, in the order of
  \<open>VisitAll\<close>, after the environment was applied.
\<close>

definition TopolvmEnvVarPrefix :: string where "TopolvmEnvVarPrefix = ''TOPOLVM''"

definition root_flags :: "(string \<times> string) list" where
  "root_flags = [(''check-status-interval'', ''10s''), (''csi-kubelet-root-dir'', ''/var/lib/kubelet/''),
     (''enable-discover-devices'', ''false''), (''is-operator-hub'', ''true'')]"

definition persistent_flags :: "(string \<times> string) list" where
  "persistent_flags = [(''log-level'', ''INFO'')]"

definition topolvm_init ::
    "(string \<Rightarrow> string option) \<Rightarrow> (string \<Rightarrow> string \<Rightarrow> go_error + string) \<Rightarrow> (string \<times> string) list \<times> (string \<times> string) list" where
  "topolvm_init lookupEnv Set = (SetFlagsFromEnv lookupEnv Set root_flags TopolvmEnvVarPrefix,
     SetFlagsFromEnv lookupEnv Set persistent_flags TopolvmEnvVarPrefix)"

text \<open>A setting of the environment, where it is not empty and accepted, is the value of its flag.\<close>

lemma set_flag_from_env_sets:
  assumes "lookupEnv (flag_env_var pre name) = Some v" "v \<noteq> []" "Set name v = Inr v'"
  shows "set_flag_from_env lookupEnv Set pre (name, old) = (name, v')"
  using assms by (simp add: set_flag_from_env_def)

lemma topolvm_init_env:
  assumes "lookupEnv (flag_env_var TopolvmEnvVarPrefix name) = Some v" "v \<noteq> []" "Set name v = Inr v'"
    and "(name, old) \<in> set root_flags"
  shows "(name, v') \<in> set (fst (topolvm_init lookupEnv Set))"
  unfolding topolvm_init_def SetFlagsFromEnv_def fst_conv set_map
  by (rule image_eqI [OF _ assms(4)], rule sym, rule set_flag_from_env_sets) (rule assms)+

lemma kubelet_env_var: "flag_env_var TopolvmEnvVarPrefix ''csi-kubelet-root-dir'' = ''TOPOLVM_CSI_KUBELET_ROOT_DIR''"
  by code_simp

section \<open>The flag package\<close>

text \<open>
  \<open>flag.Parse\<close> of the standard library, for the flag set of a program, which ends the process when an
  argument is wrong: with code 2, and with 0 where help was asked for.  \<open>'v\<close> holds the variables.
\<close>

record 'v go_flag =
  fl_Name :: string
  fl_IsBool :: bool
  fl_Set :: "string \<Rightarrow> 'v \<Rightarrow> go_error + 'v"

definition ParseBool :: "string \<Rightarrow> go_error + bool" where
  "ParseBool str =
     (if str \<in> {''1'', ''t'', ''T'', ''true'', ''TRUE'', ''True''} then Inr True
      else if str \<in> {''0'', ''f'', ''F'', ''false'', ''FALSE'', ''False''} then Inr False
      else Inl (errorf (''strconv.ParseBool: parsing '' @ str @ '': invalid syntax'')))"

text \<open>A name and its value at the first equals sign.\<close>

definition flag_split :: "string \<Rightarrow> string \<times> string option" where
  "flag_split name = (case dropWhile (\<lambda>c. c \<noteq> CHR ''='') name of
       [] \<Rightarrow> (name, None)
     | _ # value \<Rightarrow> (takeWhile (\<lambda>c. c \<noteq> CHR ''='') name, Some value))"

definition flag_stops :: "string \<Rightarrow> bool" where
  "flag_stops s \<longleftrightarrow> length s < 2 \<or> hd s \<noteq> CHR ''-''"

fun flag_Parse :: "'v go_flag list \<Rightarrow> string list \<Rightarrow> 'v \<Rightarrow> nat + 'v \<times> string list" where
  "flag_Parse flags [] v = Inr (v, [])"
| "flag_Parse flags (s # args) v =
     (if flag_stops s then Inr (v, s # args)
      else if s = ''--'' then Inr (v, args)
      else
        let name = (if s ! 1 = CHR ''-'' then drop 2 s else drop 1 s)
        in if name = [] \<or> hd name = CHR ''-'' \<or> hd name = CHR ''='' then Inl 2
           else case find (\<lambda>f. fl_Name f = fst (flag_split name)) flags of
               None \<Rightarrow> Inl (if fst (flag_split name) \<in> {''help'', ''h''} then 0 else 2)
             | Some f \<Rightarrow>
                 (case snd (flag_split name) of
                    Some value \<Rightarrow>
                      (case fl_Set f value v of Inl _ \<Rightarrow> Inl 2 | Inr v' \<Rightarrow> flag_Parse flags args v')
                  | None \<Rightarrow>
                      if fl_IsBool f then
                        (case fl_Set f ''true'' v of Inl _ \<Rightarrow> Inl 2 | Inr v' \<Rightarrow> flag_Parse flags args v')
                      else (case args of
                          [] \<Rightarrow> Inl 2
                        | value # args' \<Rightarrow>
                            (case fl_Set f value v of Inl _ \<Rightarrow> Inl 2 | Inr v' \<Rightarrow> flag_Parse flags args' v'))))"

lemma flag_split_eq:
  assumes "CHR ''='' \<notin> set name"
  shows "flag_split (name @ CHR ''='' # value) = (name, Some value)"
proof -
  have "dropWhile (\<lambda>c. c \<noteq> CHR ''='') (name @ CHR ''='' # value) = CHR ''='' # value"
    "takeWhile (\<lambda>c. c \<noteq> CHR ''='') (name @ CHR ''='' # value) = name"
    using assms by (induction name) auto
  then show ?thesis by (simp add: flag_split_def)
qed

text \<open>Nothing is parsed behind the first argument that is no flag; unknown flags end the process.\<close>

lemma flag_Parse_stops: "flag_stops s \<Longrightarrow> flag_Parse flags (s # args) v = Inr (v, s # args)"
  by simp

lemma flag_Parse_unknown:
  assumes "\<forall>f \<in> set flags. fl_Name f \<noteq> name" "name \<noteq> []" "CHR ''='' \<notin> set name" "hd name \<noteq> CHR ''-''"
    and "name \<notin> {''help'', ''h''}"
  shows "flag_Parse flags ((''--'' @ name @ ''='' @ value) # args) v = Inl 2"
proof -
  note flag_split_eq [OF assms(3), of "value"]
  moreover have "find (\<lambda>f. fl_Name f = name) flags = None" using assms(1) by (simp add: find_None_iff)
  moreover have "hd name \<noteq> CHR ''=''" using assms(2,3) hd_in_set by force
  ultimately show ?thesis using assms(2,4,5) by (simp add: flag_stops_def Let_def)
qed

text \<open>A value given with an equals sign is set, and the rest is parsed.\<close>

lemma flag_Parse_sets:
  assumes "find (\<lambda>f. fl_Name f = name) flags = Some f" "fl_Set f value v = Inr v'"
    and "name \<noteq> []" "CHR ''='' \<notin> set name" "hd name \<noteq> CHR ''-''"
  shows "flag_Parse flags ((''--'' @ name @ ''='' @ value) # args) v = flag_Parse flags args v'"
proof -
  note flag_split_eq [OF assms(4), of "value"]
  moreover have "hd name \<noteq> CHR ''=''" using assms(3,4) hd_in_set by force
  ultimately show ?thesis using assms(1-3,5) by (simp add: flag_stops_def Let_def)
qed

end
