(* ===== verification/Process.thy ===== *)
theory Process
  imports CommandExec DiscoverDaemon
begin

text \<open>
  The process around the controllers: how it ends (\<open>TerminateFatal\<close> and \<open>TerminateOnError\<close> of
  \<open>cmd/topolvm/topolvm.go\<close> and \<open>pkg/cluster/context.go\<close>), how it finds its cluster (\<open>NewContext\<close>), its
  log level (\<open>pkg/cluster/log.go\<close>) and what it logs of a child's output (\<open>logFromReader\<close> of
  \<open>pkg/util/exec/exec.go\<close>).  Files, the client libraries and the log package are parameters; what goes
  to the standard streams is left out.
  Proved: a fatal error ends the process with code 1 whatever the files do, and leaves its reason in
  the termination log if that takes it; a context is made only with a working configuration.
\<close>

section \<open>Ending the process\<close>

text \<open>A part of a command returns a value, or the process exits with a code.\<close>

type_synonym ('w, 'a) proc = "('w host, nat + 'a) go"

definition proc_bind :: "('w, 'a) proc \<Rightarrow> ('a \<Rightarrow> ('w, 'b) proc) \<Rightarrow> ('w, 'b) proc" where
  "proc_bind m f = go_bind m (\<lambda>r. case r of Inl code \<Rightarrow> go_return (Inl code) | Inr a \<Rightarrow> f a)"

definition on_world :: "('w \<Rightarrow> 'a \<times> 'w) \<Rightarrow> ('w host, 'a) go" where
  "on_world op s = (case op (world s) of (a, w) \<Rightarrow> (Ret a, s\<lparr>world := w\<rparr>))"

lemma wp_on_world [wpg]: "wp (on_world op) Q R s = Q (fst (op (world s))) (s\<lparr>world := snd (op (world s))\<rparr>)"
  by (simp add: wp_def on_world_def split: prod.split)

lemma wp_proc_bind [wpg]:
  "wp (proc_bind m f) Q R s = wp m (\<lambda>r. case r of Inl code \<Rightarrow> Q (Inl code) | Inr a \<Rightarrow> wp (f a) Q R) R s"
  unfolding proc_bind_def wp_bind by (rule arg_cong [where f = "\<lambda>q. wp m q R s"]) (auto simp: wp_return fun_eq_iff split: sum.split)

text \<open>Files by descriptor.\<close>

datatype open_flag = O_APPEND | O_WRONLY | O_CREATE | O_TRUNC

record 'w files =
  fs_OpenFile :: "string \<Rightarrow> open_flag list \<Rightarrow> 'w \<Rightarrow> (go_error + nat) \<times> 'w"
  fs_WriteString :: "nat \<Rightarrow> string \<Rightarrow> 'w \<Rightarrow> go_error option \<times> 'w"
  fs_Sync :: "nat \<Rightarrow> 'w \<Rightarrow> go_error option \<times> 'w"
  fs_Close :: "nat \<Rightarrow> 'w \<Rightarrow> go_error option \<times> 'w"
  fs_Stat :: "string \<Rightarrow> 'w \<Rightarrow> go_error option \<times> 'w"
  fs_MkdirAll :: "string \<Rightarrow> 'w \<Rightarrow> go_error option \<times> 'w"

definition terminationLog :: string where "terminationLog = ''/dev/termination-log''"

definition TerminateFatal :: "'w files \<Rightarrow> go_error \<Rightarrow> ('w, 'a) proc" where
  "TerminateFatal F reason =
     go_bind (on_world (fs_OpenFile F terminationLog [O_APPEND, O_WRONLY])) (\<lambda>r. case r of
       Inl _ \<Rightarrow> go_return (Inl 1)
     | Inr file \<Rightarrow>
         go_bind (on_world (fs_WriteString F file (err_msg reason))) (\<lambda>_.
         go_bind (on_world (fs_Close F file)) (\<lambda>_. go_return (Inl 1))))"

definition TerminateOnError :: "'w files \<Rightarrow> go_error option \<Rightarrow> string \<Rightarrow> ('w, unit) proc" where
  "TerminateOnError F err msg = (case err of
       Some e \<Rightarrow> TerminateFatal F (errorf (msg @ '': '' @ err_msg e))
     | None \<Rightarrow> go_return (Inr ()))"

text \<open>Nothing the files do changes the exit code; the reason is in the log where it could be opened.\<close>

lemma TerminateFatal_exits:
  "wp (TerminateFatal F reason :: ('w, 'a) proc) (\<lambda>r t. r = Inl 1 \<and> trace t = trace s \<and>
     (\<forall>file w. fs_OpenFile F terminationLog [O_APPEND, O_WRONLY] (world s) = (Inr file, w) \<longrightarrow>
        world t = snd (fs_Close F file (snd (fs_WriteString F file (err_msg reason) w))))) (\<lambda>_ _. False) s"
  by (auto simp: TerminateFatal_def wpg split: sum.split)

lemma wp_TerminateOnError:
  "wp (TerminateOnError F err msg) (\<lambda>r t. (r = Inr () \<longleftrightarrow> err = None) \<and> (err \<noteq> None \<longrightarrow> r = Inl 1) \<and>
     (err = None \<longrightarrow> t = s) \<and> trace t = trace s) (\<lambda>_ _. False) s"
  by (cases err) (auto simp: TerminateOnError_def wpg intro!: wp_mono [OF TerminateFatal_exits])

section \<open>The cluster the process talks to\<close>

record ('w, 'c) config_lib =
  InClusterConfig :: "'w \<Rightarrow> (go_error + 'c) \<times> 'w"
  UserClientConfig :: "'w \<Rightarrow> (go_error + 'c) \<times> 'w"
  kubernetes_NewForConfig :: "'c \<Rightarrow> go_error + 'w clientset"
  apiextensions_NewForConfig :: "'c \<Rightarrow> go_error option"

text \<open>The executor of the context runs processes; its uuids and map orders are those of \<open>E\<close>.\<close>

definition new_clients ::
    "'w files \<Rightarrow> ('w, 'c) config_lib \<Rightarrow> 'w os \<Rightarrow> 'w executor \<Rightarrow> 'c \<Rightarrow> ('w, 'w executor \<times> 'w clientset) proc" where
  "new_clients F L S E cfg =
     (case kubernetes_NewForConfig L cfg of
       Inl e \<Rightarrow> TerminateFatal F (errorf (''failed to create k8s clientset: '' @ err_msg e))
     | Inr clientset \<Rightarrow>
         proc_bind (TerminateOnError F (apiextensions_NewForConfig L cfg) ''failed to create k8s API extension clientset'') (\<lambda>_.
         go_return (Inr (CommandExecutor S E, clientset))))"

definition NewContext ::
    "'w files \<Rightarrow> ('w, 'c) config_lib \<Rightarrow> 'w os \<Rightarrow> 'w executor \<Rightarrow> ('w, 'w executor \<times> 'w clientset) proc" where
  "NewContext F L S E =
     proc_bind
       (go_bind (on_world (InClusterConfig L)) (\<lambda>r. case r of
          Inr cfg \<Rightarrow> go_return (Inr cfg)
        | Inl _ \<Rightarrow> go_bind (on_world (UserClientConfig L)) (\<lambda>r. case r of
            Inr cfg \<Rightarrow> go_return (Inr cfg)
          | Inl e \<Rightarrow> TerminateFatal F (errorf (''failed to get k8s config: '' @ err_msg e)))))
       (new_clients F L S E)"

text \<open>Either the process ends with code 1, or the clients come from one configuration that works.\<close>

lemma NewContext_result:
  "wp (NewContext F L S E) (\<lambda>r t. trace t = trace s \<and> (case r of
      Inl code \<Rightarrow> code = 1
    | Inr (E', K) \<Rightarrow> E' = CommandExecutor S E \<and>
        (\<exists>cfg. kubernetes_NewForConfig L cfg = Inr K \<and> apiextensions_NewForConfig L cfg = None \<and>
          (\<exists>w. fst (InClusterConfig L w) = Inr cfg \<or> fst (UserClientConfig L w) = Inr cfg))))
    (\<lambda>_ _. False) s"
proof -
  let ?Q = "\<lambda>r t. trace t = trace s \<and> (case r of
      Inl code \<Rightarrow> code = 1
    | Inr (E', K) \<Rightarrow> E' = CommandExecutor S E \<and>
        (\<exists>cfg. kubernetes_NewForConfig L cfg = Inr K \<and> apiextensions_NewForConfig L cfg = None \<and>
          (\<exists>w. fst (InClusterConfig L w) = Inr cfg \<or> fst (UserClientConfig L w) = Inr cfg)))"
  have fatal: "wp (TerminateFatal F e) ?Q (\<lambda>_ _. False) t" if "trace t = trace s" for e t
    by (rule wp_mono [OF TerminateFatal_exits]) (use that in auto)
  have rest: "wp (new_clients F L S E cfg) ?Q (\<lambda>_ _. False) t"
    if "trace t = trace s" and "\<exists>w. fst (InClusterConfig L w) = Inr cfg \<or> fst (UserClientConfig L w) = Inr cfg" for cfg t
    using that
    by (auto simp: new_clients_def wpg split: sum.split intro!: fatal wp_mono [OF wp_TerminateOnError]) (metis option.distinct(1))+
  show ?thesis
  proof (cases "fst (InClusterConfig L (world s))")
    case in_cluster: (Inr cfg)
    then show ?thesis unfolding NewContext_def by (simp add: wpg) (rule rest, auto)
  next
    case outside: (Inl e)
    show ?thesis
    proof (cases "fst (UserClientConfig L (snd (InClusterConfig L (world s))))")
      case (Inr cfg)
      then show ?thesis unfolding NewContext_def by (simp add: wpg outside) (rule rest, auto)
    next
      case (Inl e)
      then show ?thesis unfolding NewContext_def by (auto simp: wpg outside intro!: wp_mono [OF TerminateFatal_exits])
    qed
  qed
qed

section \<open>Logging\<close>

text \<open>\<open>ParseLevel\<close> returns a level also with its error.\<close>

definition SetLogLevel :: "(string \<Rightarrow> 'l \<times> go_error option) \<Rightarrow> string \<Rightarrow> 'l" where
  "SetLogLevel ParseLevel LogLevelRaw = (case ParseLevel LogLevelRaw of (ll, err) \<Rightarrow> ll)"

text \<open>The lines of a child's standard output that reach the log, and whether all of it was read.\<close>

definition logFromReader :: "string \<Rightarrow> string list" where
  "logFromReader reader = scan_lines reader"

text \<open>Both streams are logged, or none where a pipe could not be opened.\<close>

definition logOutput :: "string option \<Rightarrow> string option \<Rightarrow> (string list \<times> string list) option" where
  "logOutput stdout stderr = (case stdout of
       None \<Rightarrow> None
     | Some out \<Rightarrow> (case stderr of None \<Rightarrow> None | Some err \<Rightarrow> Some (logFromReader out, logFromReader err)))"

lemma logFromReader_complete:
  assumes "\<forall>l \<in> set (split_on (CHR 0x0A) out). length l < 65536"
  shows "logFromReader out = (let ls = split_on (CHR 0x0A) out in map drop_cr (if last ls = [] then butlast ls else ls))"
proof -
  have "takeWhile (\<lambda>l. length l < 65536) (split_on (CHR 0x0A) out) = split_on (CHR 0x0A) out"
    "takeWhile (\<lambda>l. length l < 65536) (butlast (split_on (CHR 0x0A) out)) = butlast (split_on (CHR 0x0A) out)"
    using assms by (auto simp: takeWhile_eq_all_conv dest: in_set_butlastD)
  then show ?thesis unfolding logFromReader_def scan_lines_def Let_def by (simp only: simp_thms split: if_split)
qed

end
