(* ===== verification/Gencert.thy ===== *)
theory Gencert
  imports Startup Process
begin

text \<open>
  The program that makes the certificate of the controller (\<open>pkg/gencert/main.go\<close>).  Cryptography, PEM,
  \<open>time.ParseDuration\<close> and \<open>filepath.Join\<close> are parameters.
  Proved: which host names the certificate is for, and that the program ends well only after both files
  were written and synchronised.
\<close>

section \<open>Certificates\<close>

definition dnsAliases :: "string \<Rightarrow> string list" where
  "dnsAliases host =
     (let parts = split_on (CHR ''.'') host
      in map (\<lambda>i. join_with ''.'' (take (length parts - i) parts)) [0..<length parts])"

text \<open>The aliases are the host name and its parts before a dot.\<close>

lemma split_on_append: "split_on c (a @ c # b) = split_on c a @ split_on c b"
proof (induction a)
  case (Cons x a)
  obtain w ws where a: "split_on c a = w # ws" by (cases "split_on c a") auto
  with Cons show ?case by simp
qed simp

lemma join_with_append: "us \<noteq> [] \<Longrightarrow> vs \<noteq> [] \<Longrightarrow> join_with sep (us @ vs) = join_with sep us @ sep @ join_with sep vs"
proof (induction us rule: induct_list012)
  case (2 u)
  then show ?case by (cases vs) simp_all
qed simp_all

lemma in_dnsAliases: "a \<in> set (dnsAliases host) \<longleftrightarrow> (\<exists>k. 0 < k \<and> k \<le> length (split_on (CHR ''.'') host) \<and>
    a = join_with ''.'' (take k (split_on (CHR ''.'') host)))"
proof -
  let ?n = "length (split_on (CHR ''.'') host)"
  have "(\<exists>i < ?n. a = f (?n - i)) \<longleftrightarrow> (\<exists>k. 0 < k \<and> k \<le> ?n \<and> a = f k)" for f :: "nat \<Rightarrow> string"
  proof
    assume "\<exists>i < ?n. a = f (?n - i)"
    then obtain i where "i < ?n" "a = f (?n - i)" by blast
    then show "\<exists>k. 0 < k \<and> k \<le> ?n \<and> a = f k" by (intro exI [of _ "?n - i"]) simp
  next
    assume "\<exists>k. 0 < k \<and> k \<le> ?n \<and> a = f k"
    then obtain k where "0 < k" "k \<le> ?n" "a = f k" by blast
    then show "\<exists>i < ?n. a = f (?n - i)" by (intro exI [of _ "?n - k"]) simp
  qed
  from this [of "\<lambda>k. join_with ''.'' (take k (split_on (CHR ''.'') host))"] show ?thesis
    by (simp add: dnsAliases_def Let_def image_iff Bex_def)
qed

lemma dnsAliases_iff: "a \<in> set (dnsAliases host) \<longleftrightarrow> a = host \<or> (\<exists>b. host = a @ ''.'' @ b)"
proof
  let ?parts = "split_on (CHR ''.'') host"
  assume "a \<in> set (dnsAliases host)"
  then obtain k where k: "0 < k" "k \<le> length ?parts" "a = join_with ''.'' (take k ?parts)" by (auto simp: in_dnsAliases)
  show "a = host \<or> (\<exists>b. host = a @ ''.'' @ b)"
  proof (cases "k = length ?parts")
    case True
    then show ?thesis using k by (simp add: join_split)
  next
    case False
    have "host = join_with ''.'' (take k ?parts @ drop k ?parts)" by (simp add: join_split)
    also have "\<dots> = a @ ''.'' @ join_with ''.'' (drop k ?parts)" using k False by (subst join_with_append) auto
    finally show ?thesis by blast
  qed
next
  assume "a = host \<or> (\<exists>b. host = a @ ''.'' @ b)"
  then show "a \<in> set (dnsAliases host)"
  proof
    assume "a = host"
    then show ?thesis unfolding in_dnsAliases by (intro exI [of _ "length (split_on (CHR ''.'') host)"]) (simp add: join_split)
  next
    assume "\<exists>b. host = a @ ''.'' @ b"
    then obtain b where "split_on (CHR ''.'') host = split_on (CHR ''.'') a @ split_on (CHR ''.'') b"
      by (auto simp: split_on_append)
    then show ?thesis unfolding in_dnsAliases
      by (intro exI [of _ "length (split_on (CHR ''.'') a)"]) (simp add: join_split)
  qed
qed

section \<open>The program\<close>

record gencert_vars =
  GV_host :: string
  GV_validFor :: int
  GV_outDir :: string

definition gencert_defaults :: gencert_vars where
  "gencert_defaults = \<lparr>GV_host = ''controller.topolvm-system.svc'', GV_validFor = 36500 * 24 * 3600 * 10 ^ 9, GV_outDir = ''.''\<rparr>"

definition gencert_flags :: "(string \<Rightarrow> go_error + int) \<Rightarrow> gencert_vars go_flag list" where
  "gencert_flags ParseDuration = [
     \<lparr>fl_Name = ''host'', fl_IsBool = False, fl_Set = (\<lambda>s v. Inr (v\<lparr>GV_host := s\<rparr>))\<rparr>,
     \<lparr>fl_Name = ''duration'', fl_IsBool = False, fl_Set = (\<lambda>s v. map_sum id (\<lambda>d. v\<lparr>GV_validFor := d\<rparr>) (ParseDuration s))\<rparr>,
     \<lparr>fl_Name = ''outdir'', fl_IsBool = False, fl_Set = (\<lambda>s v. Inr (v\<lparr>GV_outDir := s\<rparr>))\<rparr>]"

datatype key_usage = KeyUsageDigitalSignature | KeyUsageKeyEncipherment

record certificate_template =
  CT_SerialNumber :: int
  CT_CommonName :: string
  CT_NotBefore :: int
  CT_NotAfter :: int
  CT_KeyUsage :: "key_usage list"
  CT_ServerAuth :: bool
  CT_BasicConstraintsValid :: bool
  CT_DNSNames :: "string list"

record ('w, 'key) crypto_lib =
  rsa_GenerateKey :: "nat \<Rightarrow> 'w \<Rightarrow> (go_error + 'key) \<times> 'w"
  time_Now :: "'w \<Rightarrow> int \<times> 'w"
  x509_CreateCertificate :: "certificate_template \<Rightarrow> 'key \<Rightarrow> 'w \<Rightarrow> (go_error + string) \<times> 'w"
  x509_MarshalPKCS8PrivateKey :: "'key \<Rightarrow> go_error + string"
  pem_Encode :: "string \<Rightarrow> string \<Rightarrow> string"
  filepath_Join :: "string \<Rightarrow> string \<Rightarrow> string"

definition certificate_for :: "gencert_vars \<Rightarrow> int \<Rightarrow> certificate_template" where
  "certificate_for v notBefore = \<lparr>CT_SerialNumber = 1, CT_CommonName = ''controller'', CT_NotBefore = notBefore,
     CT_NotAfter = notBefore + GV_validFor v, CT_KeyUsage = [KeyUsageDigitalSignature, KeyUsageKeyEncipherment],
     CT_ServerAuth = True, CT_BasicConstraintsValid = True, CT_DNSNames = dnsAliases (GV_host v)\<rparr>"

text \<open>\<open>log.Fatal\<close> ends the process with code 1; the file is closed on the way out of \<open>outputPEM\<close> only.\<close>

definition outputPEM :: "'w files \<Rightarrow> ('w, 'key) crypto_lib \<Rightarrow> string \<Rightarrow> string \<Rightarrow> string \<Rightarrow> ('w, unit) proc" where
  "outputPEM F X fname pemType data =
     go_bind (on_world (fs_OpenFile F fname [O_WRONLY, O_CREATE, O_TRUNC])) (\<lambda>r. case r of
       Inl _ \<Rightarrow> go_return (Inl 1)
     | Inr f \<Rightarrow>
         go_bind (on_world (fs_WriteString F f (pem_Encode X pemType data))) (\<lambda>err. if err \<noteq> None then go_return (Inl 1) else
         go_bind (on_world (fs_Sync F f)) (\<lambda>err. if err \<noteq> None then go_return (Inl 1) else
         go_bind (on_world (fs_Close F f)) (\<lambda>_. go_return (Inr ())))))"

definition ensure_outDir :: "'w files \<Rightarrow> string \<Rightarrow> ('w, unit) proc" where
  "ensure_outDir F outDir =
     go_bind (on_world (fs_Stat F outDir)) (\<lambda>err. case err of
       None \<Rightarrow> go_return (Inr ())
     | Some e \<Rightarrow>
         if IsNotFound e then
           go_bind (on_world (fs_MkdirAll F outDir)) (\<lambda>err. if err \<noteq> None then go_return (Inl 1) else go_return (Inr ()))
         else go_return (Inl 1))"

definition gencert_main ::
    "'w files \<Rightarrow> ('w, 'key) crypto_lib \<Rightarrow> (string \<Rightarrow> go_error + int) \<Rightarrow> string list \<Rightarrow> ('w, unit) proc" where
  "gencert_main F X ParseDuration args =
     (case flag_Parse (gencert_flags ParseDuration) args gencert_defaults of
       Inl code \<Rightarrow> go_return (Inl code)
     | Inr (v, _) \<Rightarrow>
         go_bind (on_world (rsa_GenerateKey X 4096)) (\<lambda>r. case r of
           Inl _ \<Rightarrow> go_return (Inl 1)
         | Inr priv \<Rightarrow>
         go_bind (on_world (time_Now X)) (\<lambda>notBefore.
         go_bind (on_world (x509_CreateCertificate X (certificate_for v notBefore) priv)) (\<lambda>r. case r of
           Inl _ \<Rightarrow> go_return (Inl 1)
         | Inr certBytes \<Rightarrow>
         proc_bind (ensure_outDir F (GV_outDir v)) (\<lambda>_.
         case x509_MarshalPKCS8PrivateKey X priv of
           Inl _ \<Rightarrow> go_return (Inl 1)
         | Inr privBytes \<Rightarrow>
         proc_bind (outputPEM F X (filepath_Join X (GV_outDir v) ''cert.pem'') ''CERTIFICATE'' certBytes) (\<lambda>_.
         outputPEM F X (filepath_Join X (GV_outDir v) ''key.pem'') ''PRIVATE KEY'' privBytes))))))"

text \<open>
  Files that keep what is written to them: \<open>content\<close> reads a file off the world.  Writing to a file opened
  for writing sets it, and touches no other file; nothing else changes files.
\<close>

definition keeps_files :: "('w \<Rightarrow> string \<Rightarrow> string option) \<Rightarrow> 'w files \<Rightarrow> bool" where
  "keeps_files content F \<longleftrightarrow>
     (\<forall>name w f w1 text w2 w3. fs_OpenFile F name [O_WRONLY, O_CREATE, O_TRUNC] w = (Inr f, w1) \<longrightarrow>
        fs_WriteString F f text w1 = (None, w2) \<longrightarrow> fs_Sync F f w2 = (None, w3) \<longrightarrow>
        content w3 = (content w)(name := Some text)) \<and>
     (\<forall>f w. content (snd (fs_Close F f w)) = content w)"

lemma outputPEM_writes:
  assumes "keeps_files content F"
  shows "wp (outputPEM F X fname pemType data) (\<lambda>r t. case r of
      Inl code \<Rightarrow> code = 1
    | Inr _ \<Rightarrow> content (world t) = (content (world s))(fname := Some (pem_Encode X pemType data))) (\<lambda>_ _. False) s"
proof -
  obtain r1 w1 where opened: "fs_OpenFile F fname [O_WRONLY, O_CREATE, O_TRUNC] (world s) = (r1, w1)" by fastforce
  show ?thesis
  proof (cases r1)
    case (Inr f)
    obtain e2 w2 where written: "fs_WriteString F f (pem_Encode X pemType data) w1 = (e2, w2)" by fastforce
    obtain e3 w3 where synced: "fs_Sync F f w2 = (e3, w3)" by fastforce
    show ?thesis
    proof (cases "e2 = None \<and> e3 = None")
      case True
      then have "content w3 = (content (world s))(fname := Some (pem_Encode X pemType data))"
        "content (snd (fs_Close F f w3)) = content w3"
        using assms opened written synced Inr unfolding keeps_files_def by blast+
      then show ?thesis using True opened written synced Inr by (simp add: outputPEM_def wpg)
    qed (use opened written synced Inr in \<open>auto simp: outputPEM_def wpg\<close>)
  qed (use opened in \<open>simp add: outputPEM_def wpg\<close>)
qed

text \<open>Where the program ends well, both files hold their part of one key and a certificate for the host.\<close>

definition certified ::
    "('w \<Rightarrow> string \<Rightarrow> string option) \<Rightarrow> ('w, 'key) crypto_lib \<Rightarrow> gencert_vars \<Rightarrow> nat + unit \<Rightarrow> 'w host \<Rightarrow> bool" where
  "certified content X v r t \<longleftrightarrow> (case r of
      Inl code \<Rightarrow> code = 1
    | Inr _ \<Rightarrow> \<exists>key notBefore w cert keyBytes.
        fst (x509_CreateCertificate X (certificate_for v notBefore) key w) = Inr cert \<and>
        x509_MarshalPKCS8PrivateKey X key = Inr keyBytes \<and>
        content (world t) (filepath_Join X (GV_outDir v) ''cert.pem'') = Some (pem_Encode X ''CERTIFICATE'' cert) \<and>
        content (world t) (filepath_Join X (GV_outDir v) ''key.pem'') = Some (pem_Encode X ''PRIVATE KEY'' keyBytes))"

lemma gencert_files:
  assumes "keeps_files content F" "filepath_Join X (GV_outDir v) ''cert.pem'' \<noteq> filepath_Join X (GV_outDir v) ''key.pem''"
    and "fst (x509_CreateCertificate X (certificate_for v notBefore) key w) = Inr cert"
    and "x509_MarshalPKCS8PrivateKey X key = Inr keyBytes"
  shows "wp (proc_bind (outputPEM F X (filepath_Join X (GV_outDir v) ''cert.pem'') ''CERTIFICATE'' cert) (\<lambda>_.
      outputPEM F X (filepath_Join X (GV_outDir v) ''key.pem'') ''PRIVATE KEY'' keyBytes))
    (certified content X v) (\<lambda>_ _. False) s"
  unfolding wp_proc_bind
proof (rule wp_mono [OF outputPEM_writes [OF assms(1)]])
  fix r :: "nat + unit" and u :: "'a host"
  assume u: "case r of Inl code \<Rightarrow> code = 1 | Inr _ \<Rightarrow> content (world u) =
    (content (world s))(filepath_Join X (GV_outDir v) ''cert.pem'' := Some (pem_Encode X ''CERTIFICATE'' cert))"
  have "certified content X v r' t" if "case r' of Inl code \<Rightarrow> code = 1 | Inr _ \<Rightarrow> content (world t) =
      (content (world u))(filepath_Join X (GV_outDir v) ''key.pem'' := Some (pem_Encode X ''PRIVATE KEY'' keyBytes))"
    "r = Inr ()" for r' t
    using that u assms(2-4) unfolding certified_def by (cases r') (simp_all, metis)
  then show "(case r of Inl code \<Rightarrow> certified content X v (Inl code)
    | Inr a \<Rightarrow> wp (outputPEM F X (filepath_Join X (GV_outDir v) ''key.pem'') ''PRIVATE KEY'' keyBytes)
        (certified content X v) (\<lambda>_ _. False)) u"
    using u by (cases r) (auto simp: certified_def intro!: wp_mono [OF outputPEM_writes [OF assms(1)]])
qed simp

lemma gencert_main_writes:
  assumes "keeps_files content F" "flag_Parse (gencert_flags ParseDuration) args gencert_defaults = Inr (v, rest)"
    and "filepath_Join X (GV_outDir v) ''cert.pem'' \<noteq> filepath_Join X (GV_outDir v) ''key.pem''"
  shows "wp (gencert_main F X ParseDuration args) (certified content X v) (\<lambda>_ _. False) s"
proof -
  have dir: "wp (ensure_outDir F dir) (\<lambda>r _. case r of Inl code \<Rightarrow> code = 1 | Inr _ \<Rightarrow> True) (\<lambda>_ _. False) t" for dir t
    by (auto simp: ensure_outDir_def wpg split: option.split)
  have fails: "certified content X v (Inl 1) t" for t by (simp add: certified_def)
  show ?thesis
    unfolding gencert_main_def assms(2) sum.case prod.case
    by (auto simp: wp_bind wp_on_world wp_return wp_proc_bind [of "ensure_outDir F (GV_outDir v)"] fails fails [simplified]
        split: sum.split intro!: wp_mono [OF dir] gencert_files [OF assms(1,3)])
qed

end
