(* ===== verification/CommandProperties.thy ===== *)
theory CommandProperties
  imports Scenarios Commands Gencert
begin

text \<open>
  The properties of the program's commands (\<open>main.go\<close>, \<open>cmd/operator\<close>, \<open>cmd/preparevg\<close>).
\<close>


definition no_files :: "unit files" where
  "no_files = \<lparr>fs_OpenFile = (\<lambda>n fl w. (Inl missing, w)), fs_WriteString = (\<lambda>f t w. (None, w)), fs_Sync = (\<lambda>f w. (None, w)),
     fs_Close = (\<lambda>f w. (None, w)), fs_Stat = (\<lambda>n w. (Some missing, w)), fs_MkdirAll = (\<lambda>n w. (None, w))\<rparr>"

definition in_cluster :: "(unit, unit) config_lib" where
  "in_cluster = \<lparr>InClusterConfig = (\<lambda>w. (Inr (), w)), UserClientConfig = (\<lambda>w. (Inl missing, w)),
     kubernetes_NewForConfig = (\<lambda>_. Inr empty_cluster), apiextensions_NewForConfig = (\<lambda>_. None)\<rparr>"

definition missing_os :: "unit os" where
  "missing_os = \<lparr>os_run = (\<lambda>env cmd args w. (NotStarted (ExecError []), w)),
     os_run_until = (\<lambda>timeout cmd args w. ((NotStarted (ExecError []), False), w)),
     os_watch = (\<lambda>timeout cmd args w. (Inr [], w)), os_temp_file = (\<lambda>w. (Inr ''tmp'', w)),
     os_read_all = (\<lambda>f w. (([], None), w)), os_close = (\<lambda>f w. (None, w)), os_remove = (\<lambda>f w. w)\<rparr>"

definition some_manager :: "(unit, unit, unit) manager_lib" where
  "some_manager = \<lparr>GetConfig = (\<lambda>w. (None, w)), NewManager = (\<lambda>opts w. (Inr (), w)),
     manager_AddMetricsExporter = (\<lambda>m w. (None, w)), manager_Complete = (\<lambda>m h w. (None, w)),
     controller_New = (\<lambda>n m c w. (Inr (), w)), controller_Watch = (\<lambda>c p w. (None, w)),
     AddHealthzCheck = (\<lambda>m n w. (None, w)), AddReadyzCheck = (\<lambda>m n w. (None, w)), manager_Start = (\<lambda>m w. (None, w))\<rparr>"


text \<open>C39: The pod of the volume group job exits with code 0 also when its command failed: without its
  environment it did nothing at all, and without a configuration or a manager nothing but ask for
  them.\<close>

theorem failed_job_exits_zero:
  assumes "Find args = Inr PrepareVgCmd"
    and "os_Getenv env NodeNameEnv = [] \<or> os_Getenv env PodNameSpaceEnv = [] \<or> fst (GetConfig M (world s)) \<noteq> None \<or>
      (\<exists>e. fst (NewManager M prepareVg_options (snd (GetConfig M (world s)))) = Inl e)"
  shows "\<exists>t. topolvm_main Find (addCommands F L M others S E env G evs args) args s = (Ret 0, t) \<and> trace t = trace s"
proof -
  let ?run = "addCommands F L M others S E env G evs args PrepareVgCmd"
  have "wp ?run (\<lambda>r t. (\<exists>e. r = Inr (Some e)) \<and> trace t = trace s) (\<lambda>_ _. False) s"
    using assms(2) by (auto simp: addCommands_def prepareVg_def Let_def wpg split: option.split sum.split)
  then obtain e t where "?run s = (Ret (Inr (Some e)), t)" "trace t = trace s"
    by (auto simp: wp_def split: prod.splits outcome.splits)
  then show ?thesis using topolvm_main_error [of Find, OF assms(1), of "addCommands F L M others S E env G evs args"] by blast
qed

theorem failed_job_exits_zero_applied:
  "\<exists>t. topolvm_main (\<lambda>_. Inr PrepareVgCmd) (addCommands no_files in_cluster some_manager [] missing_os (scripted (\<lambda>_ _. []))
      (\<lambda>_. None) some_globals [] [''prepareVg'']) [''prepareVg''] start = (Ret 0, t) \<and> trace t = []"
  using failed_job_exits_zero [of "\<lambda>_. Inr PrepareVgCmd" "[''prepareVg'']" "\<lambda>_. None" some_manager start no_files in_cluster
      "[]" missing_os "scripted (\<lambda>_ _. [])" some_globals "[]"]
  by (simp add: os_Getenv_def start_def)

end
