(* ===== verification/Spec2Isabelle.thy ===== *)
theory Spec2Isabelle
  imports NodeProperties ProvisionProperties DaemonProperties OperatorProperties ConvergenceProperties CommandProperties
begin

text \<open>
  A model of topolvm-operator, a Kubernetes operator that prepares LVM volume groups on the nodes
  of a cluster and runs the TopoLVM storage driver on them, with proofs about it.

  The program runs in three places.

    \<^item> On every storage node, as a job, \<open>controllers/preparevg_controller.go\<close> turns the device
      classes of the \<open>TopolvmCluster\<close> resource into loop devices and volume groups
      (\<open>pkg/util/sys\<close>) and writes the outcome, and the configuration of \<open>lvmd\<close>, into the
      node's config map.
    \<^item> On every node, as a daemon, \<open>pkg/operator/discover\<close> lists the block devices, checks the
      devices of the classes that exist, and writes both into config maps, again whenever udev
      reports a change.
    \<^item> In the operator, \<open>controllers/topolvmcluster_controller.go\<close> reconciles the cluster resource
      (deployments, daemon set, jobs, finalizer), \<open>lvmdconfig_controller.go\<close> watches the config maps,
      starts a deployment per node and copies the node's outcome into the status of the cluster,
      \<open>operatorconfig_controller.go\<close> follows the operator's settings, and
      \<open>pkg/operator/monitor/status.go\<close> recomputes the status from the pods periodically.

  The parts talk only through objects of the API server; the job and the operator share the JSON of
  \<open>NodeStorageState\<close> under the key \<open>status.json\<close> of the node's config map.

  Style of the model.  A Go function is a HOL function of the same name.  Code with effects is a
  program of type \<open>('s, 'a) go\<close> (theory Prelude): a function from the state to an outcome, \<open>Ret\<close> or
  \<open>Panic\<close>, and the state after it; \<open>go_bind\<close> is sequencing, \<open>go_fold\<close> and \<open>go_loop\<close> are the loops over
  a slice.  An \<open>error\<close> result is \<open>go_error option\<close> and a result with an error is \<open>go_error + 'a\<close>.  \<open>wp\<close>
  is total: the program returns with the first property, or panics with the second.  The state is
  a \<open>host\<close> (theory KubeTypes): a world of which nothing is assumed and the trace of all commands and
  API requests issued so far, so that what is done, and in which order, can be stated.

  Theories, bottom up.

    \<^item> Prelude, GoMap, GoStrings: programs, errors, Go maps as association lists in a locale of
      maps, and the functions of \<open>strings\<close>, \<open>strconv\<close> and \<open>path\<close> that the code calls, on bytes.
    \<^item> ApiTypes, KubeTypes, KubeApi: the resource of \<open>api/v2/topolvmcluster_types.go\<close>, the parts of
      Kubernetes objects that the code reads or writes, and the typed clients as parameters.
    \<^item> Json, Codec: \<open>encoding/json\<close> for the types above: printer, scanner, parser, and the round trip.
    \<^item> Executor, CommandExec: the interface of \<open>pkg/util/exec\<close>, a parameter of all that follows, and the
      executor the program runs with, over processes as a parameter.
    \<^item> Lvm, Devices, Disks: \<open>pkg/util/sys\<close> (\<open>lvm.go\<close>, \<open>device.go\<close>, \<open>disks.go\<close>, \<open>loop.go\<close>).
    \<^item> PrepareVg, ClassTables, LoopDevices, Provision, ProvisionFacts, Settled: \<open>preparevg_controller.go\<close>: the
      class operations (create, retry, expand, shrink, delete), what they do to the tables of
      succeeded and failed classes, loop devices, and the whole job.
    \<^item> Discover, DiscoverDaemon: \<open>discover.go\<close>, with the collecting of udev events as a step relation and
      the daemon's loop as a function of the events it takes.
    \<^item> K8sUtil, Workloads, Policies, Owners: \<open>pkg/operator/k8sutil\<close>, \<open>controller\<close>, and the objects built by
      \<open>node\<close>, \<open>volumectr\<close>, \<open>volumegroup\<close>, \<open>discover/daemon.go\<close>, \<open>csidriver\<close>, \<open>psp\<close> and \<open>api/v2/scc.go\<close>;
      which pods the policies admit.
    \<^item> ClusterController, Reconciler, ReconcilerFacts, LvmdConfig, OperatorConfig: the three controllers.
    \<^item> Monitor, Metering: the status checker, and what Prometheus sees of it (\<open>pkg/metric\<close>).
    \<^item> Stores, Watch, DaemonStore: the operator's watch on the config maps (\<open>StartWatch\<close>) and the
      discovery daemon, run against an API server that stores what it is sent.
    \<^item> StorageConfig: the storage section from the operator's check to the classes of a node's job.
    \<^item> Startup, Process, Commands, Gencert: flags and Go's \<open>flag\<close> package, ending the process and
      finding the cluster (\<open>pkg/cluster/context.go\<close>), the commands under \<open>cmd\<close> and \<open>main.go\<close> with their
      exit codes, and the certificates of \<open>pkg/gencert\<close>.
    \<^item> Scenarios: concrete surroundings; NodeProperties, ProvisionProperties, DaemonProperties,
      OperatorProperties, ConvergenceProperties, CommandProperties and this theory: the properties,
      each applied to such surroundings where it has hypotheses.

  What the lemmas show.  Per operation: the result on every branch and the commands issued
  (\<open>only_issues\<close>); per table, an invariant that each class operation keeps, stated once in a
  locale and interpreted for create, retry, expand and shrink; for parsers, that they read back what
  is printed, and when they panic; for loops that wait, how often they ask and what they return when
  they give up; for the monitor and the reconciler, invariants of the reachable states; for the
  watch and the daemon, that the stored object reaches the last version's status and the devices
  that are there.  The hypotheses of the last are that the server stores: a get returns the object,
  an update of the status or a patch makes the change it describes, and requests for other
  objects leave it alone (\<open>stores_cluster\<close>, \<open>stores_config_map\<close>); nothing else writes in between.

  Bounds.  Waiting loops take their number of tries from the source (45 for deletions, the retry
  count plus one for \<open>DeleteResource\<close>), so no fuel is chosen here; with a retry count of
  \<open>2^64 - 1\<close> the loop of \<open>DeleteResource\<close> would not end in Go, in the model it makes \<open>2^64\<close> tries.
  The loops that run as long as the process (daemon, status checker, watch) and the wait for a timed
  command are functions of the list of their events; that wait is proved to end with the second
  firing of its timer.  Sizes are 64-bit words that wrap around.

  Simplifications.  Strings are byte strings.  Nil and empty slices of \<open>NodeStorageState\<close> are
  identified (printed as the code's own states are: \<open>[]\<close> for the classes, \<open>null\<close> for no loops), as are
  nil and empty owner references.  The nesting limit of \<open>encoding/json\<close> is left out.
  Resource quantities are the strings they are parsed from.  Sleeping has no effect.  Goroutines that run jobs per node are the list of the nodes they are
  started for.

  Parameters.  The command executor, the API server, YAML, strategic merge patches, the object matcher,
  \<open>wait.Poll\<close>, SHA-256, \<open>uuid\<close>, the environment, the owner reference helpers of controller-runtime
  and the order of ranging over a map are arguments of the definitions, and so are, for the
  commands, files, the client configuration, the manager of controller-runtime, cobra's choice of a
  command, cryptography and PEM.

  Not modelled.  The registration of types in schemes (\<open>api/v2/groupversion_info.go\<close>), the text of the
  Prometheus rules apart from the alert for nodes, logging, test doubles, and generated deep
  copies: they hold no decisions of the program.
\<close>

section \<open>From the node to the cluster\<close>

lemma checkUpdateClusterStatus_requests:
  assumes "status_ascii st" "gm_get (cm_data new) VgStatusConfigMapKey = Some (Marshal_status st)"
    and "gm_get_default [] (cm_data old) VgStatusConfigMapKey \<noteq> Marshal_status st"
    and "R_namespacedName (CC_reconciler c) = Some (ns, name)"
    and "ra_get (Clusters K) ns name (world s) = (Inr cl, w)"
  shows "wp (checkUpdateClusterStatus K c old new)
    (\<lambda>_ t. let cl' = cl\<lparr>TC_Status := (TC_Status cl)\<lparr>Status_NodeStorageStatus :=
                put_node_state st (Status_NodeStorageStatus (TC_Status cl))\<rparr>\<rparr>
       in \<exists>es. trace t = trace s @ [Api VGet (Named ''TopolvmCluster'' name), Api VUpdateStatus (ClusterObj cl')] @ es)
    (\<lambda>_ _. False) s"
  unfolding checkUpdateClusterStatus_written [OF assms(1-3)]
  using assms(4,5)
  by (auto simp: reconciler_UpdateStatus_def wpg Let_def UpdateStatus_no_retry try_update_status_def split: option.splits)

text \<open>C6: What a run of the node's job writes as its status reaches the cluster: when the operator sees the
  changed config map, it decodes the status and updates the cluster with it, so that the cluster
  then has, for that node, an entry with exactly the classes of the job's tables and its loops, and
  the entries of all other nodes as they were.\<close>

theorem node_status_reaches_cluster:
  assumes written: "updateVgStatus E cm st0 suc fail loops s0 = (Ret cm', s1)"
    and classes: "\<forall>k c. gm_get suc k = Some c \<or> gm_get fail k = Some c \<longrightarrow> ClassState_ascii c"
    and strings: "ascii (NS_Node st0)" "ascii (NS_Phase st0)" "list_all LoopState_ascii loops"
    and changed: "gm_get_default [] (cm_data old) VgStatusConfigMapKey \<noteq> gm_get_default [] (cm_data cm') VgStatusConfigMapKey"
    and target: "R_namespacedName (CC_reconciler c) = Some (ns, name)"
    and cluster: "ra_get (Clusters K) ns name (world s) = (Inr cl, w)"
  shows "\<exists>st cl'. NS_Node st = NS_Node st0 \<and> NS_Loops st = loops \<and>
    (\<forall>c. c \<in> set (NS_SuccessClasses st) \<longleftrightarrow> (\<exists>k. gm_get suc k = Some c)) \<and>
    (\<forall>c. c \<in> set (NS_FailClasses st) \<longleftrightarrow> (\<exists>k. gm_get fail k = Some c)) \<and>
    wp (checkUpdateClusterStatus K c old cm')
      (\<lambda>_ t. \<exists>es. trace t = trace s @ [Api VGet (Named ''TopolvmCluster'' name), Api VUpdateStatus (ClusterObj cl')] @ es)
      (\<lambda>_ _. False) s \<and>
    TC_Spec cl' = TC_Spec cl \<and> st \<in> set (Status_NodeStorageStatus (TC_Status cl')) \<and>
    (\<forall>e. NS_Node e \<noteq> NS_Node st \<longrightarrow>
       (e \<in> set (Status_NodeStorageStatus (TC_Status cl')) \<longleftrightarrow> e \<in> set (Status_NodeStorageStatus (TC_Status cl))))"
proof -
  obtain sks fks where ks: "set sks = set (gm_keys suc)" "set fks = set (gm_keys fail)"
    and put: "cm_put VgStatusConfigMapKey (Marshal_status (st0\<lparr>NS_FailClasses := gm_values fail fks,
        NS_SuccessClasses := gm_values suc sks, NS_Loops := loops\<rparr>)) cm = Ret cm'"
    using updateVgStatus_puts [OF written] by blast
  let ?st = "st0\<lparr>NS_FailClasses := gm_values fail fks, NS_SuccessClasses := gm_values suc sks, NS_Loops := loops\<rparr>"
  let ?entries = "Status_NodeStorageStatus (TC_Status cl)"
  let ?cl = "cl\<lparr>TC_Status := (TC_Status cl)\<lparr>Status_NodeStorageStatus := put_node_state ?st ?entries\<rparr>\<rparr>"
  have ascii: "status_ascii ?st" by (rule status_ascii_values [OF ks]) (use classes strings in auto)
  have data: "gm_get (cm_data cm') VgStatusConfigMapKey = Some (Marshal_status ?st)" using cm_data_put [OF put] by simp
  then have "gm_get_default [] (cm_data old) VgStatusConfigMapKey \<noteq> Marshal_status ?st"
    using changed by (simp add: gm_get_default_def)
  from checkUpdateClusterStatus_requests [OF ascii data this target cluster]
  have "wp (checkUpdateClusterStatus K c old cm')
      (\<lambda>_ t. \<exists>es. trace t = trace s @ [Api VGet (Named ''TopolvmCluster'' name), Api VUpdateStatus (ClusterObj ?cl)] @ es)
      (\<lambda>_ _. False) s" by (simp add: Let_def)
  moreover have "?st \<in> set (put_node_state ?st ?entries)" by (metis nth_mem put_node_state_get)
  ultimately show ?thesis
    using set_gm_values [OF ks(1)] set_gm_values [OF ks(2)] put_node_state_others [of _ ?st ?entries]
    by (intro exI [of _ ?st] exI [of _ ?cl]) simp
qed

theorem node_status_reaches_cluster_applied:
  "\<exists>cm st cl. fst (updateVgStatus (scripted (\<lambda>_ _. [])) (node_cm []) (zero_NodeStorageState\<lparr>NS_Node := ''n1''\<rparr>)
        [(''vg1'', class_state ''c'' ''vg1'')] [] [] start) = Ret cm \<and>
     NS_Node st = ''n1'' \<and> class_state ''c'' ''vg1'' \<in> set (NS_SuccessClasses st) \<and>
     st \<in> set (Status_NodeStorageStatus (TC_Status cl)) \<and>
     wp (checkUpdateClusterStatus (empty_cluster\<lparr>Clusters := holding [some_cluster ''c1'' 1]\<rparr>) some_controller (node_cm []) cm)
       (\<lambda>_ t. Api VUpdateStatus (ClusterObj cl) \<in> set (trace t)) (\<lambda>_ _. False) start"
proof -
  let ?suc = "[(''vg1'', class_state ''c'' ''vg1'')]" and ?st = "zero_NodeStorageState\<lparr>NS_Node := ''n1''\<rparr>"
    and ?K = "empty_cluster\<lparr>Clusters := holding [some_cluster ''c1'' 1]\<rparr>"
  obtain cm t where run: "updateVgStatus (scripted (\<lambda>_ _. [])) (node_cm []) ?st ?suc [] [] start = (Ret cm, t)"
    by (simp add: updateVgStatus_def go_bind_def go_range_def go_lift_def cm_put_def)
  have cls: "\<forall>k c. gm_get ?suc k = Some c \<or> gm_get [] k = Some c \<longrightarrow> ClassState_ascii c"
    by (auto simp: gm_get_def ascii_defs class_state_def zero_defs ascii_def ClassReady_def split: if_splits)
  obtain st' where "cm_put VgStatusConfigMapKey (Marshal_status st') (node_cm []) = Ret cm"
    using updateVgStatus_puts [OF run] by blast
  then have "gm_get (cm_data cm) VgStatusConfigMapKey = Some (Marshal_status st')" by (simp add: cm_data_put)
  moreover have "Marshal_status st' \<noteq> []" by (simp add: Marshal_status_def encode_NodeStorageState_def)
  ultimately have new: "gm_get_default [] (cm_data (node_cm [])) VgStatusConfigMapKey \<noteq>
      gm_get_default [] (cm_data cm) VgStatusConfigMapKey"
    by (simp add: gm_get_default_def gm_get_def)
  have strings: "ascii (NS_Node ?st)" "ascii (NS_Phase ?st)" "list_all LoopState_ascii []"
    by (simp_all add: ascii_def zero_defs)
  have target: "R_namespacedName (CC_reconciler some_controller) = Some (''ns'', ''c1'')" by (simp add: some_controller_def)
  have cluster: "ra_get (Clusters ?K) ''ns'' ''c1'' (world start) = (Inr (some_cluster ''c1'' 1), ())" by simp
  from node_status_reaches_cluster [OF run cls strings new target cluster] obtain st cl where
    st: "NS_Node st = ''n1''" "\<forall>c. c \<in> set (NS_SuccessClasses st) \<longleftrightarrow> (\<exists>k. gm_get ?suc k = Some c)"
      "st \<in> set (Status_NodeStorageStatus (TC_Status cl))"
    and requests: "wp (checkUpdateClusterStatus ?K some_controller (node_cm []) cm)
      (\<lambda>_ t. \<exists>es. trace t = trace start @ [Api VGet (Named ''TopolvmCluster'' ''c1''), Api VUpdateStatus (ClusterObj cl)] @ es)
      (\<lambda>_ _. False) start" by auto
  have "class_state ''c'' ''vg1'' \<in> set (NS_SuccessClasses st)"
    unfolding st(2) [rule_format] by (rule exI [of _ "''vg1''"]) (simp add: gm_get_def)
  moreover have "wp (checkUpdateClusterStatus ?K some_controller (node_cm []) cm)
      (\<lambda>_ t. Api VUpdateStatus (ClusterObj cl) \<in> set (trace t)) (\<lambda>_ _. False) start"
    by (rule wp_mono [OF requests]) auto
  ultimately show ?thesis using run st
    by (intro exI [of _ cm] exI [of _ st] exI [of _ cl]) simp
qed

end
